(* ===== verification/Prelude.thy ===== *)
theory Prelude
  imports Main "HOL-Library.Word"
begin

text \<open>
  Shared vocabulary of the development.

  \<^item> Outcomes of fallible Rust code: \<open>('a, 'e) res\<close> is \<open>Result<'a, 'e>\<close> with one more
    constructor \<open>Panic\<close> for the run-time failures of the language (slice index out of range,
    checked arithmetic overflow, \<open>unwrap\<close> on a failure).  The \<open>?\<close> operator is \<open>and_then\<close>.
  \<^item> Stateful handlers: a method taking \<open>&mut self\<close> is a function from the state to an outcome
    paired with the state it leaves behind, also on the error paths; the \<open>?\<close> operator is
    \<open>st_then\<close>.
  \<^item> Byte strings \<open>Vec<u8>\<close> as lists of 8-bit words, with the fixed-width little-endian and
    big-endian encodings of integers.

  Lengths and indices (\<open>usize\<close>) are natural numbers.  Memory exhaustion is not modelled: the
  fallible-allocation helpers of the code behave like their infallible counterparts.
\<close>

named_theorems res_simps \<open>rewriting of outcomes\<close>
named_theorems bytes_simps \<open>lengths and round trips of integer encodings\<close>

type_synonym u8 = "8 word"
type_synonym u32 = "32 word"
type_synonym u64 = "64 word"
type_synonym bytes = "8 word list"

section \<open>Outcomes\<close>

datatype ('a, 'e) res = Ok 'a | Err 'e | Panic

fun and_then :: "('a, 'e) res \<Rightarrow> ('a \<Rightarrow> ('b, 'e) res) \<Rightarrow> ('b, 'e) res" where
  "and_then (Ok x) f = f x"
| "and_then (Err e) f = Err e"
| "and_then Panic f = Panic"

fun map_err :: "('e \<Rightarrow> 'f) \<Rightarrow> ('a, 'e) res \<Rightarrow> ('a, 'f) res" where
  "map_err g (Ok x) = Ok x"
| "map_err g (Err e) = Err (g e)"
| "map_err g Panic = Panic"

fun map_ok :: "('a \<Rightarrow> 'b) \<Rightarrow> ('a, 'e) res \<Rightarrow> ('b, 'e) res" where
  "map_ok g (Ok x) = Ok (g x)"
| "map_ok g (Err e) = Err e"
| "map_ok g Panic = Panic"

definition require :: "bool \<Rightarrow> 'e \<Rightarrow> (unit, 'e) res" where
  "require b e = (if b then Ok () else Err e)"

definition ok_or :: "'a option \<Rightarrow> 'e \<Rightarrow> ('a, 'e) res" where
  "ok_or x e = (case x of Some v \<Rightarrow> Ok v | None \<Rightarrow> Err e)"

definition is_ok :: "('a, 'e) res \<Rightarrow> bool" where
  "is_ok r = (case r of Ok _ \<Rightarrow> True | _ \<Rightarrow> False)"

text \<open>Iteration that stops at the first failure: collecting, folding, and checking.\<close>

fun traverse :: "('a \<Rightarrow> ('b, 'e) res) \<Rightarrow> 'a list \<Rightarrow> ('b list, 'e) res" where
  "traverse f [] = Ok []"
| "traverse f (x # xs) = and_then (f x) (\<lambda>y. and_then (traverse f xs) (\<lambda>ys. Ok (y # ys)))"

fun fold_res :: "('a \<Rightarrow> 's \<Rightarrow> ('s, 'e) res) \<Rightarrow> 'a list \<Rightarrow> 's \<Rightarrow> ('s, 'e) res" where
  "fold_res f [] s = Ok s"
| "fold_res f (x # xs) s = and_then (f x s) (fold_res f xs)"

fun for_each :: "('a \<Rightarrow> (unit, 'e) res) \<Rightarrow> 'a list \<Rightarrow> (unit, 'e) res" where
  "for_each f [] = Ok ()"
| "for_each f (x # xs) = and_then (f x) (\<lambda>_. for_each f xs)"

lemma and_then_eq_Ok [res_simps]:
  "and_then m f = Ok y \<longleftrightarrow> (\<exists>x. m = Ok x \<and> f x = Ok y)"
  by (cases m) auto

lemma and_then_eq_Err [res_simps]:
  "and_then m f = Err e \<longleftrightarrow> m = Err e \<or> (\<exists>x. m = Ok x \<and> f x = Err e)"
  by (cases m) auto

lemma and_then_eq_Panic [res_simps]:
  "and_then m f = Panic \<longleftrightarrow> m = Panic \<or> (\<exists>x. m = Ok x \<and> f x = Panic)"
  by (cases m) auto

lemma and_then_assoc:
  "and_then (and_then m f) g = and_then m (\<lambda>x. and_then (f x) g)"
  by (cases m) auto

lemma and_then_cong [fundef_cong]:
  "m = m' \<Longrightarrow> (\<And>x. m' = Ok x \<Longrightarrow> f x = f' x) \<Longrightarrow> and_then m f = and_then m' f'"
  by (cases m') auto

lemma map_err_eq [res_simps]:
  "map_err g m = Ok y \<longleftrightarrow> m = Ok y"
  "map_err g m = Panic \<longleftrightarrow> m = Panic"
  "map_err g m = Err e \<longleftrightarrow> (\<exists>e'. m = Err e' \<and> e = g e')"
  by (cases m; auto)+

lemma map_ok_eq [res_simps]:
  "map_ok g m = Ok y \<longleftrightarrow> (\<exists>x. m = Ok x \<and> y = g x)"
  "map_ok g m = Panic \<longleftrightarrow> m = Panic"
  "map_ok g m = Err e \<longleftrightarrow> m = Err e"
  by (cases m; auto)+

lemma map_ok_and_then: "map_ok g (and_then m f) = and_then m (\<lambda>x. map_ok g (f x))"
  by (cases m) auto

lemma require_eq [res_simps]:
  "require b e = Ok u \<longleftrightarrow> b"
  "require b e = Err e' \<longleftrightarrow> \<not> b \<and> e' = e"
  "require b e = Panic \<longleftrightarrow> False"
  by (auto simp: require_def)

lemma require_simps [simp]:
  "require True e = Ok ()" "require False e = Err e"
  by (simp_all add: require_def)

lemma ok_or_eq [res_simps]:
  "ok_or x e = Ok v \<longleftrightarrow> x = Some v"
  "ok_or x e = Err e' \<longleftrightarrow> x = None \<and> e' = e"
  "ok_or x e = Panic \<longleftrightarrow> False"
  by (auto simp: ok_or_def split: option.splits)

lemma ok_or_simps [simp]: "ok_or (Some v) e = Ok v" "ok_or None e = Err e"
  by (simp_all add: ok_or_def)

lemma is_ok_simps [simp]:
  "is_ok (Ok x)" "\<not> is_ok (Err e)" "\<not> is_ok Panic"
  by (simp_all add: is_ok_def)

lemma is_ok_iff: "is_ok r \<longleftrightarrow> (\<exists>x. r = Ok x)"
  by (cases r) auto

lemma for_each_eq_Ok [res_simps]:
  "for_each f xs = Ok u \<longleftrightarrow> (\<forall>x \<in> set xs. f x = Ok ())"
  by (induction xs) (auto simp: and_then_eq_Ok)

lemma for_each_not_Panic:
  "(\<And>x. x \<in> set xs \<Longrightarrow> f x \<noteq> Panic) \<Longrightarrow> for_each f xs \<noteq> Panic"
  by (induction xs) (auto simp: and_then_eq_Panic)

lemma traverse_eq_Ok:
  "traverse f xs = Ok ys \<longleftrightarrow> list_all2 (\<lambda>x y. f x = Ok y) xs ys"
  by (induction xs arbitrary: ys) (auto simp: and_then_eq_Ok list_all2_Cons1)

lemma traverse_map_round_trip:
  "(\<And>x. x \<in> set xs \<Longrightarrow> f (g x) = Ok x) \<Longrightarrow> traverse f (map g xs) = Ok xs"
  by (induction xs) auto

lemma traverse_Ok_map:
  "(\<And>x. x \<in> set xs \<Longrightarrow> f x = Ok (g x)) \<Longrightarrow> traverse f xs = Ok (map g xs)"
  by (induction xs) auto

lemma traverse_not_Panic:
  "(\<And>x. x \<in> set xs \<Longrightarrow> f x \<noteq> Panic) \<Longrightarrow> traverse f xs \<noteq> Panic"
  by (induction xs) (auto simp: and_then_eq_Panic)

lemma fold_res_append:
  "fold_res f (xs @ ys) s = and_then (fold_res f xs s) (fold_res f ys)"
  by (induction xs arbitrary: s) (auto simp: and_then_assoc intro!: and_then_cong)

text \<open>A property kept by every successful step is kept by a successful fold.\<close>

lemma fold_res_invariant:
  assumes "fold_res f xs s = Ok s'" "P s"
    and "\<And>x s s'. x \<in> set xs \<Longrightarrow> P s \<Longrightarrow> f x s = Ok s' \<Longrightarrow> P s'"
  shows "P s'"
  using assms
proof (induction xs arbitrary: s)
  case (Cons x xs)
  then obtain t where t: "f x s = Ok t" "fold_res f xs t = Ok s'"
    by (auto simp: and_then_eq_Ok)
  have "P t"
    using Cons.prems(2,3) t(1) by (metis list.set_intros(1))
  then show ?case
    using Cons.IH [OF t(2)] Cons.prems(3) by (meson list.set_intros(2))
qed simp

section \<open>Stateful handlers\<close>

type_synonym ('s, 'a, 'e) act = "'s \<Rightarrow> ('a, 'e) res \<times> 's"

definition st_ret :: "('a, 'e) res \<Rightarrow> ('s, 'a, 'e) act" where
  "st_ret r s = (r, s)"

definition st_then :: "('s, 'a, 'e) act \<Rightarrow> ('a \<Rightarrow> ('s, 'b, 'e) act) \<Rightarrow> ('s, 'b, 'e) act" where
  "st_then m f s = (case m s of
     (Ok x, s') \<Rightarrow> f x s'
   | (Err e, s') \<Rightarrow> (Err e, s')
   | (Panic, s') \<Rightarrow> (Panic, s'))"

definition st_get :: "('s \<Rightarrow> 'a) \<Rightarrow> ('s, 'a, 'e) act" where
  "st_get f s = (Ok (f s), s)"

definition st_check :: "('s \<Rightarrow> ('a, 'e) res) \<Rightarrow> ('s, 'a, 'e) act" where
  "st_check f s = (f s, s)"

definition st_put :: "('s \<Rightarrow> 's) \<Rightarrow> ('s, unit, 'e) act" where
  "st_put f s = (Ok (), f s)"

lemma st_simps [simp]:
  "st_ret r s = (r, s)"
  "st_get g s = (Ok (g s), s)"
  "st_check c s = (c s, s)"
  "st_put h s = (Ok (), h s)"
  by (simp_all add: st_ret_def st_get_def st_check_def st_put_def)

lemma st_then_simps [simp]:
  "m s = (Ok x, s') \<Longrightarrow> st_then m f s = f x s'"
  "m s = (Err e, s') \<Longrightarrow> st_then m f s = (Err e, s')"
  "m s = (Panic, s') \<Longrightarrow> st_then m f s = (Panic, s')"
  by (simp_all add: st_then_def)

lemma st_then_basic [simp]:
  "st_then (st_ret (Ok x)) f s = f x s"
  "st_then (st_ret (Err e)) f s = (Err e, s)"
  "st_then (st_ret Panic) f s = (Panic, s)"
  "st_then (st_get g) f s = f (g s) s"
  "st_then (st_put h) f' s = f' () (h s)"
  by (simp_all add: st_then_def)

lemma st_then_eq_Ok [res_simps]:
  "st_then m f s = (Ok y, t) \<longleftrightarrow> (\<exists>x s'. m s = (Ok x, s') \<and> f x s' = (Ok y, t))"
  by (auto simp: st_then_def split: prod.splits res.splits)

lemma fst_st_then_eq_Ok [res_simps]:
  "fst (st_then m f s) = Ok y \<longleftrightarrow> (\<exists>x s'. m s = (Ok x, s') \<and> fst (f x s') = Ok y)"
  by (auto simp: st_then_def split: prod.splits res.splits)

text \<open>
  Sequencing before code with a loop that may not end: \<open>None\<close> stands for not returning.
\<close>

definition opt_then ::
  "('s, 'a, 'e) act \<Rightarrow> ('a \<Rightarrow> 's \<Rightarrow> (('b, 'e) res \<times> 's) option) \<Rightarrow> 's \<Rightarrow> (('b, 'e) res \<times> 's) option" where
  "opt_then m f s = (case m s of (Ok x, s') \<Rightarrow> f x s' | (Err e, s') \<Rightarrow> Some (Err e, s') | (Panic, s') \<Rightarrow> Some (Panic, s'))"

lemma opt_then_eq_Ok [res_simps]:
  "opt_then m f s = Some (Ok y, t) \<longleftrightarrow> (\<exists>x s'. m s = (Ok x, s') \<and> f x s' = Some (Ok y, t))"
  by (auto simp: opt_then_def split: prod.splits res.splits)

lemma opt_then_Some:
  "opt_then m f s = Some (r, t) \<Longrightarrow>
   (\<exists>x s'. m s = (Ok x, s') \<and> f x s' = Some (r, t)) \<or> (\<not> is_ok r \<and> t = snd (m s))"
  by (auto simp: opt_then_def split: prod.splits res.splits)

text \<open>Rule for invariants: if every stage keeps \<open>P\<close>, whatever its outcome, so does the sequence.\<close>

definition keeps :: "('s \<Rightarrow> bool) \<Rightarrow> ('s, 'a, 'e) act \<Rightarrow> bool" where
  "keeps P m \<longleftrightarrow> (\<forall>s. P s \<longrightarrow> P (snd (m s)))"

lemma keepsI: "(\<And>s. P s \<Longrightarrow> P (snd (m s))) \<Longrightarrow> keeps P m"
  by (simp add: keeps_def)

lemma keepsD: "keeps P m \<Longrightarrow> P s \<Longrightarrow> P (snd (m s))"
  by (simp add: keeps_def)

lemma keeps_st_ret [simp, intro!]: "keeps P (st_ret r)"
  by (simp add: keeps_def)

lemma keeps_st_get [simp, intro!]: "keeps P (st_get g)"
  by (simp add: keeps_def)

lemma keeps_st_check [simp, intro!]: "keeps P (st_check c)"
  by (simp add: keeps_def)

lemma keeps_st_put: "(\<And>s. P s \<Longrightarrow> P (h s)) \<Longrightarrow> keeps P (st_put h)"
  by (simp add: keeps_def)

lemma keeps_st_then:
  "keeps P m \<Longrightarrow> (\<And>x. keeps P (f x)) \<Longrightarrow> keeps P (st_then m f)"
  unfolding keeps_def st_then_def by (force split: prod.splits res.splits)

section \<open>Integers as byte strings\<close>

fun le_bytes :: "nat \<Rightarrow> nat \<Rightarrow> bytes" where
  "le_bytes 0 v = []"
| "le_bytes (Suc n) v = word_of_nat (v mod 256) # le_bytes n (v div 256)"

fun le_val :: "bytes \<Rightarrow> nat" where
  "le_val [] = 0"
| "le_val (b # bs) = unat b + 256 * le_val bs"

definition be_bytes :: "nat \<Rightarrow> nat \<Rightarrow> bytes" where
  "be_bytes n v = rev (le_bytes n v)"

definition be_val :: "bytes \<Rightarrow> nat" where
  "be_val bs = le_val (rev bs)"

lemma length_le_bytes [simp, bytes_simps]: "length (le_bytes n v) = n"
  by (induction n arbitrary: v) auto

lemma length_be_bytes [simp, bytes_simps]: "length (be_bytes n v) = n"
  by (simp add: be_bytes_def)

lemma unat_of_mod_256: "unat (word_of_nat (v mod 256) :: 8 word) = v mod 256"
  by (simp add: unat_of_nat)

lemma le_val_le_bytes [bytes_simps]: "v < 256 ^ n \<Longrightarrow> le_val (le_bytes n v) = v"
proof (induction n arbitrary: v)
  case (Suc n)
  then have "v div 256 < 256 ^ n"
    by (simp add: less_mult_imp_div_less mult.commute)
  then show ?case
    using Suc.IH by (simp add: unat_of_mod_256)
qed simp

lemma le_val_bound: "le_val bs < 256 ^ length bs"
proof (induction bs)
  case (Cons b bs)
  have "unat b < 256"
    using unsigned_less [of b] by simp
  then have "unat b + 256 * le_val bs < 256 * (le_val bs + 1)"
    by simp
  also have "\<dots> \<le> 256 * 256 ^ length bs"
    using Cons.IH by (intro mult_le_mono2) simp
  finally show ?case by simp
qed simp

lemma le_bytes_le_val [bytes_simps]: "le_bytes (length bs) (le_val bs) = bs"
proof (induction bs)
  case (Cons b bs)
  have b: "unat b < 256"
    using unsigned_less [of b] by simp
  then have "(unat b + 256 * le_val bs) mod 256 = unat b"
    and "(unat b + 256 * le_val bs) div 256 = le_val bs"
    by simp_all
  then show ?case
    using Cons.IH by simp
qed simp

lemma be_val_be_bytes [bytes_simps]: "v < 256 ^ n \<Longrightarrow> be_val (be_bytes n v) = v"
  by (simp add: be_val_def be_bytes_def le_val_le_bytes)

lemma be_bytes_be_val [bytes_simps]: "be_bytes (length bs) (be_val bs) = bs"
  using le_bytes_le_val [of "rev bs"] by (simp add: be_val_def be_bytes_def)

lemma le_bytes_inj: "v < 256 ^ n \<Longrightarrow> w < 256 ^ n \<Longrightarrow> le_bytes n v = le_bytes n w \<longleftrightarrow> v = w"
  by (metis le_val_le_bytes)

lemma be_bytes_inj: "v < 256 ^ n \<Longrightarrow> w < 256 ^ n \<Longrightarrow> be_bytes n v = be_bytes n w \<longleftrightarrow> v = w"
  by (metis be_val_be_bytes)

lemma unat32_bound [simp]: "unat (w :: 32 word) < 256 ^ 4"
  using unsigned_less [of w] by simp

lemma unat64_bound [simp]: "unat (w :: 64 word) < 256 ^ 8"
  using unsigned_less [of w] by simp

text \<open>
  Machine integers in host order.  The hosts are little-endian (all Android targets are).  Values
  of signed types are kept as the word of the same width and read with \<open>sint\<close>.
\<close>

definition u32_to_ne :: "u32 \<Rightarrow> bytes" where
  "u32_to_ne w = le_bytes 4 (unat w)"

definition u32_from_ne :: "bytes \<Rightarrow> u32" where
  "u32_from_ne bs = word_of_nat (le_val bs)"

definition u64_to_ne :: "u64 \<Rightarrow> bytes" where
  "u64_to_ne w = le_bytes 8 (unat w)"

definition u64_from_ne :: "bytes \<Rightarrow> u64" where
  "u64_from_ne bs = word_of_nat (le_val bs)"

lemma length_to_ne [simp, bytes_simps]: "length (u32_to_ne w) = 4" "length (u64_to_ne v) = 8"
  by (simp_all add: u32_to_ne_def u64_to_ne_def)

lemma u32_from_to_ne [simp, bytes_simps]: "u32_from_ne (u32_to_ne w) = w"
  by (simp add: u32_from_ne_def u32_to_ne_def le_val_le_bytes [OF unat32_bound])

lemma u64_from_to_ne [simp, bytes_simps]: "u64_from_ne (u64_to_ne w) = w"
  by (simp add: u64_from_ne_def u64_to_ne_def le_val_le_bytes [OF unat64_bound])

text \<open>Addition of \<open>u32\<close> with the overflow check of the language.\<close>

definition u32_add :: "u32 \<Rightarrow> u32 \<Rightarrow> (u32, 'e) res" where
  "u32_add a b = (if unat a + unat b < 2 ^ 32 then Ok (a + b) else Panic)"

lemma u32_add_of_nat:
  "m + n < 2 ^ 32 \<Longrightarrow> u32_add (word_of_nat m) (word_of_nat n) = Ok (word_of_nat (m + n))"
  by (simp add: u32_add_def unat_of_nat)

section \<open>Lists\<close>

text \<open>
  \<open>Vec::sort_by\<close>: the standard library's sort is stable, so on a total preorder it is the
  insertion sort below.
\<close>

fun insert_by :: "('a \<Rightarrow> 'a \<Rightarrow> bool) \<Rightarrow> 'a \<Rightarrow> 'a list \<Rightarrow> 'a list" where
  "insert_by le x [] = [x]"
| "insert_by le x (y # ys) = (if le x y then x # y # ys else y # insert_by le x ys)"

fun sort_by :: "('a \<Rightarrow> 'a \<Rightarrow> bool) \<Rightarrow> 'a list \<Rightarrow> 'a list" where
  "sort_by le [] = []"
| "sort_by le (x # xs) = insert_by le x (sort_by le xs)"

lemma set_insert_by [simp]: "set (insert_by le x xs) = insert x (set xs)"
  by (induction xs) auto

lemma set_sort_by [simp]: "set (sort_by le xs) = set xs"
  by (induction xs) auto

lemma length_insert_by [simp]: "length (insert_by le x xs) = Suc (length xs)"
  by (induction xs) auto

lemma length_sort_by [simp]: "length (sort_by le xs) = length xs"
  by (induction xs) auto

lemma count_list_insert_by [simp]:
  "count_list (insert_by le x xs) z = count_list (x # xs) z"
  by (induction xs) auto

lemma count_list_sort_by [simp]: "count_list (sort_by le xs) z = count_list xs z"
  by (induction xs) auto

text \<open>Total preorders, as the comparison functions handed to \<open>sort_by\<close> must be.\<close>

locale total_preorder =
  fixes le :: "'a \<Rightarrow> 'a \<Rightarrow> bool"
  assumes total: "le x y \<or> le y x"
    and trans: "le x y \<Longrightarrow> le y z \<Longrightarrow> le x z"
begin

lemma refl: "le x x"
  using total by blast

lemma sorted_insert_by: "sorted_wrt le xs \<Longrightarrow> sorted_wrt le (insert_by le x xs)"
proof (induction xs)
  case (Cons y ys)
  then show ?case
    using total trans by (auto intro: trans)
qed simp

lemma sorted_sort_by: "sorted_wrt le (sort_by le xs)"
  by (induction xs) (auto intro: sorted_insert_by)

lemma insert_by_min: "(\<And>y. y \<in> set ys \<Longrightarrow> le x y) \<Longrightarrow> insert_by le x ys = x # ys"
  by (cases ys) auto

lemma sort_by_sorted: "sorted_wrt le xs \<Longrightarrow> sort_by le xs = xs"
  by (induction xs) (simp_all add: insert_by_min)

lemma sort_by_idem: "sort_by le (sort_by le xs) = sort_by le xs"
  by (rule sort_by_sorted [OF sorted_sort_by])

end

end
