(* ===== verification/Imei.thy ===== *)
theory Imei
  imports Prelude
begin

text \<open>
  Derivation of the second IMEI (\<open>common/src/tag.rs\<close>, lines 1385-1430).  The IMEI is a \<open>u64\<close>,
  kept as a natural number with the overflow checks of the language written out; the parser of
  \<open>u64\<close> in the standard library accepts an optional plus sign and decimal digits.
\<close>

section \<open>Decimal numerals\<close>

definition digit :: "nat \<Rightarrow> u8" where
  "digit d = word_of_nat (48 + d)"

text \<open>\<open>format!("{}", n)\<close>.\<close>

fun dec :: "nat \<Rightarrow> bytes" where
  "dec n = (if n < 10 then [digit n] else dec (n div 10) @ [digit (n mod 10)])"

declare dec.simps [simp del]

text \<open>\<open>str::parse::<u64>\<close>, on the bytes of the string; \<open>None\<close> is the parse error.\<close>

fun parse_digits :: "nat \<Rightarrow> bytes \<Rightarrow> nat option" where
  "parse_digits acc [] = Some acc"
| "parse_digits acc (b # bs) =
    (if 48 \<le> unat b \<and> unat b \<le> 57 \<and> 10 * acc + (unat b - 48) < 2 ^ 64
     then parse_digits (10 * acc + (unat b - 48)) bs else None)"

definition parse_u64 :: "bytes \<Rightarrow> nat option" where
  "parse_u64 s = (case s of
     [] \<Rightarrow> None
   | b # bs \<Rightarrow> if b = 43 then (if bs = [] then None else parse_digits 0 bs) else parse_digits 0 s)"

section \<open>The checksum\<close>

fun luhn_loop :: "nat \<Rightarrow> nat \<Rightarrow> nat \<Rightarrow> nat" where
  "luhn_loop val ii sum_digits =
    (if val = 0 then sum_digits
     else let curr_digit = val mod 10;
              multiplier = (if ii mod 2 = 0 then 2 else 1);
              digit_multiplied = curr_digit * multiplier in
       luhn_loop (val div 10) (ii + 1)
         (sum_digits + ((digit_multiplied mod 10) + (digit_multiplied div 10))))"

declare luhn_loop.simps [simp del]

definition luhn_checksum :: "nat \<Rightarrow> nat" where
  "luhn_checksum val = (10 - luhn_loop val 0 0 mod 10) mod 10"

definition increment_imei :: "bytes \<Rightarrow> (bytes, 'e) res" where
  "increment_imei imei =
    (if imei = [] then Ok []
     else case parse_u64 imei of
       None \<Rightarrow> Ok []
     | Some imei \<Rightarrow>
         let imei2 = imei div 10 + 1 in
         if 2 ^ 64 \<le> imei2 * 10 then Panic
         else if 2 ^ 64 \<le> imei2 * 10 + luhn_checksum imei2 then Panic
         else Ok (dec (imei2 * 10 + luhn_checksum imei2)))"

section \<open>Luhn validity\<close>

text \<open>
  The check that a reader of the number performs: from the right, every second digit is doubled
  (and the digits of the double added), and the sum must be a multiple of ten.
\<close>

definition double_digit :: "nat \<Rightarrow> nat" where
  "double_digit d = (2 * d) div 10 + (2 * d) mod 10"

definition digit_value :: "bool \<Rightarrow> nat \<Rightarrow> nat" where
  "digit_value dbl d = (if dbl then double_digit d else d)"

fun luhn_sum :: "bool \<Rightarrow> nat \<Rightarrow> nat" where
  "luhn_sum dbl n =
    (if n = 0 then 0
     else digit_value dbl (n mod 10) + luhn_sum (\<not> dbl) (n div 10))"

declare luhn_sum.simps [simp del]

definition luhn_valid :: "nat \<Rightarrow> bool" where
  "luhn_valid n \<longleftrightarrow> luhn_sum False n mod 10 = 0"

lemma luhn_loop_sum: "luhn_loop val ii s = s + luhn_sum (even ii) val"
proof (induction val arbitrary: ii s rule: less_induct)
  case (less val)
  show ?case
  proof (cases "val = 0")
    case True
    then show ?thesis
      by (simp add: luhn_loop.simps luhn_sum.simps)
  next
    case False
    then have IH: "luhn_loop (val div 10) ii' s' = s' + luhn_sum (even ii') (val div 10)" for ii' s'
      using less by simp
    have step: "luhn_loop val ii s = luhn_loop (val div 10) (ii + 1) (s + digit_value (even ii) (val mod 10))"
      using False by (subst luhn_loop.simps)
        (simp add: Let_def digit_value_def double_digit_def mult.commute add.commute even_iff_mod_2_eq_zero)
    have "luhn_sum (even ii) val = digit_value (even ii) (val mod 10) + luhn_sum (odd ii) (val div 10)"
      using False by (subst luhn_sum.simps) (simp add: digit_value_def)
    then show ?thesis
      by (simp add: step IH)
  qed
qed

lemma complement_mod_10: "((10 - s mod 10) mod 10 + s) mod 10 = (0 :: nat)"
proof -
  have "((10 - s mod 10) mod 10 + s) mod 10 = (10 - s mod 10 + s) mod 10"
    by (rule mod_add_left_eq)
  also have "10 - s mod 10 + s = 10 * (s div 10 + 1)"
    using div_mult_mod_eq [of s 10] mod_less_divisor [of 10 s, OF zero_less_numeral] by arith
  finally show ?thesis
    by simp
qed

lemma luhn_sum_snoc: "c < 10 \<Longrightarrow> luhn_sum False (v * 10 + c) = c + luhn_sum True v"
proof (cases "v * 10 + c = 0")
  case True
  then have "v = 0" "c = 0"
    by simp_all
  then show ?thesis
    by (simp add: luhn_sum.simps [of _ 0])
next
  case False
  assume "c < 10"
  then have "(v * 10 + c) mod 10 = c" "(v * 10 + c) div 10 = v"
    by simp_all
  then show ?thesis
    using False by (subst luhn_sum.simps) (auto simp: digit_value_def)
qed

lemma luhn_valid_checksum: "luhn_valid (v * 10 + luhn_checksum v)"
proof -
  have "luhn_checksum v = (10 - luhn_sum True v mod 10) mod 10"
    by (simp add: luhn_checksum_def luhn_loop_sum)
  then show ?thesis
    using luhn_sum_snoc [of "luhn_checksum v" v] complement_mod_10 [of "luhn_sum True v"]
    unfolding luhn_valid_def by (metis mod_less_divisor zero_less_numeral)
qed

lemma unat_digit [simp]: "d < 10 \<Longrightarrow> unat (digit d) = 48 + d"
  by (simp add: digit_def unat_of_nat unat_word_ariths)

lemma parse_digits_append:
  "parse_digits acc (xs @ ys) = Option.bind (parse_digits acc xs) (\<lambda>a. parse_digits a ys)"
  by (induction xs arbitrary: acc) auto

lemma parse_dec: "n < 2 ^ 64 \<Longrightarrow> parse_digits 0 (dec n) = Some n"
proof (induction n rule: dec.induct)
  case (1 n)
  show ?case
  proof (cases "n < 10")
    case True
    then show ?thesis
      by (simp add: dec.simps)
  next
    case False
    then have "parse_digits 0 (dec (n div 10)) = Some (n div 10)"
      using 1 by simp
    moreover have "parse_digits (n div 10) [digit (n mod 10)] = Some n"
      using "1.prems" by simp
    ultimately show ?thesis
      using False by (subst dec.simps) (simp only: parse_digits_append if_False Option.bind.simps)
  qed
qed

lemma dec_hd: "\<exists>d bs. d < 10 \<and> dec n = digit d # bs"
proof (induction n rule: dec.induct)
  case (1 n)
  then show ?case
    by (cases "n < 10") (auto simp: dec.simps [of n])
qed

lemma parse_u64_dec: "n < 2 ^ 64 \<Longrightarrow> parse_u64 (dec n) = Some n"
proof -
  assume n: "n < 2 ^ 64"
  obtain d bs where d: "d < 10" "dec n = digit d # bs"
    using dec_hd by blast
  then have "digit d \<noteq> 43"
    using unat_digit [OF d(1)] by force
  then show ?thesis
    using parse_dec [OF n] d(2) by (simp add: parse_u64_def)
qed

text \<open>
  C39: for the canonical decimal string (no leading zeros, no sign) of any number below \<open>2^64 - 16\<close>, \<open>increment_imei\<close> returns the decimal
  string of a number that has the incremented IMEI body and passes the Luhn check.
\<close>

theorem increment_imei_correct:
  assumes "n < 18446744073709551600"
  shows "\<exists>m. increment_imei (dec n) = Ok (dec m) \<and> m div 10 = n div 10 + 1 \<and> luhn_valid m"
proof -
  let ?v = "n div 10 + 1"
  have c: "luhn_checksum ?v < 10"
    by (simp add: luhn_checksum_def)
  have "?v \<le> 1844674407370955160"
    using assms by simp
  then have small: "?v * 10 + luhn_checksum ?v < 2 ^ 64"
    using c by simp
  have "dec n \<noteq> []"
    using dec_hd [of n] by auto
  then have "increment_imei (dec n) = Ok (dec (?v * 10 + luhn_checksum ?v))"
    using small assms parse_u64_dec [of n] by (simp add: increment_imei_def Let_def)
  moreover have "(?v * 10 + luhn_checksum ?v) div 10 = ?v"
    using c by simp
  ultimately show ?thesis
    using luhn_valid_checksum by blast
qed

theorem increment_imei_correct_witness:
  "\<exists>m. increment_imei (dec 721234567890122) = Ok (dec m) \<and> luhn_valid m"
  using increment_imei_correct [of 721234567890122] by auto

text \<open>
  The last numbers that fit in 64 bits make \<open>increment_imei\<close> panic: the multiplication that
  restores the checksum digit overflows.
\<close>

lemma increment_imei_overflow:
  "18446744073709551610 \<le> n \<Longrightarrow> n < 2 ^ 64 \<Longrightarrow> increment_imei (dec n) = Panic"
proof -
  assume n: "18446744073709551610 \<le> n" "n < 2 ^ 64"
  then have "18446744073709551610 div 10 \<le> n div 10"
    by (intro div_le_mono)
  then have "2 ^ 64 \<le> (n div 10 + 1) * 10"
    by simp
  moreover have "dec n \<noteq> []"
    using dec_hd [of n] by auto
  ultimately show ?thesis
    using parse_u64_dec [OF n(2)] by (simp add: increment_imei_def)
qed

end
