(* ===== verification/Keymint_Types.thy ===== *)
theory Keymint_Types
  imports Prelude
begin

text \<open>
  The wire types of \<open>wire/src/keymint.rs\<close>: the HAL enumerations with their numeric values, the
  tag numbering with its embedded type nibble, the error types, and the \<open>KeyParam\<close> sum type.
  The optional features \<open>hal_v2\<close>, \<open>hal_v3\<close> and \<open>hal_v4\<close> are enabled.

  A fieldless Rust enum with explicit discriminants is a datatype with a function \<open>_i32\<close> (the
  \<open>as i32\<close> cast) and the list of its variants in declaration order; \<open>enum_n\<close> is the partial
  inverse that \<open>derive(N)\<close> generates.  The locale \<open>rust_enum\<close> holds what the code relies on for
  such an enum and is interpreted for every one of them.
\<close>

type_synonym i64 = "64 word"

section \<open>Enumerations with discriminants\<close>

definition i32_range :: "int \<Rightarrow> bool" where
  "i32_range i \<longleftrightarrow> - 2147483648 \<le> i \<and> i < 2147483648"

definition enum_n :: "('a \<Rightarrow> int) \<Rightarrow> 'a list \<Rightarrow> int \<Rightarrow> 'a option" where
  "enum_n as_i32 variants v = find (\<lambda>x. as_i32 x = v) variants"

locale rust_enum =
  fixes as_i32 :: "'a \<Rightarrow> int" and variants :: "'a list"
  assumes exhaustive: "set variants = UNIV"
    and discriminants_distinct: "distinct (map as_i32 variants)"
    and discriminants_i32: "i32_range (as_i32 x)"
begin

lemma as_i32_inj: "as_i32 x = as_i32 y \<longleftrightarrow> x = y"
  using discriminants_distinct exhaustive by (auto simp: distinct_map inj_on_def)

lemma n_eq_Some: "enum_n as_i32 variants v = Some x \<longleftrightarrow> as_i32 x = v"
proof
  assume "enum_n as_i32 variants v = Some x"
  then show "as_i32 x = v"
    by (auto simp: enum_n_def find_Some_iff)
next
  assume v: "as_i32 x = v"
  moreover have "x \<in> set variants"
    using exhaustive by simp
  ultimately obtain y where y: "enum_n as_i32 variants v = Some y"
    by (cases "enum_n as_i32 variants v") (auto simp: enum_n_def find_None_iff)
  then have "as_i32 y = as_i32 x"
    using v by (auto simp: enum_n_def find_Some_iff)
  then show "enum_n as_i32 variants v = Some x"
    using y as_i32_inj by simp
qed

lemma n_as_i32: "enum_n as_i32 variants (as_i32 x) = Some x"
  by (simp add: n_eq_Some)

end

datatype verified_boot_state =
    VerifiedBootState_Verified | VerifiedBootState_SelfSigned | VerifiedBootState_Unverified |
    VerifiedBootState_Failed

primrec verified_boot_state_i32 :: "verified_boot_state \<Rightarrow> int" where
  "verified_boot_state_i32 VerifiedBootState_Verified = 0"
| "verified_boot_state_i32 VerifiedBootState_SelfSigned = 1"
| "verified_boot_state_i32 VerifiedBootState_Unverified = 2"
| "verified_boot_state_i32 VerifiedBootState_Failed = 3"

definition verified_boot_state_variants :: "verified_boot_state list" where
  "verified_boot_state_variants =
    [VerifiedBootState_Verified, VerifiedBootState_SelfSigned, VerifiedBootState_Unverified,
     VerifiedBootState_Failed]"

datatype algorithm =
    Algorithm_Rsa | Algorithm_Ec | Algorithm_Aes | Algorithm_TripleDes | Algorithm_Hmac

primrec algorithm_i32 :: "algorithm \<Rightarrow> int" where
  "algorithm_i32 Algorithm_Rsa = 1"
| "algorithm_i32 Algorithm_Ec = 3"
| "algorithm_i32 Algorithm_Aes = 32"
| "algorithm_i32 Algorithm_TripleDes = 33"
| "algorithm_i32 Algorithm_Hmac = 128"

definition algorithm_variants :: "algorithm list" where
  "algorithm_variants =
    [Algorithm_Rsa, Algorithm_Ec, Algorithm_Aes, Algorithm_TripleDes, Algorithm_Hmac]"

datatype block_mode =
    BlockMode_Ecb | BlockMode_Cbc | BlockMode_Ctr | BlockMode_Gcm

primrec block_mode_i32 :: "block_mode \<Rightarrow> int" where
  "block_mode_i32 BlockMode_Ecb = 1"
| "block_mode_i32 BlockMode_Cbc = 2"
| "block_mode_i32 BlockMode_Ctr = 3"
| "block_mode_i32 BlockMode_Gcm = 32"

definition block_mode_variants :: "block_mode list" where
  "block_mode_variants =
    [BlockMode_Ecb, BlockMode_Cbc, BlockMode_Ctr, BlockMode_Gcm]"

datatype digest =
    Digest_None | Digest_Md5 | Digest_Sha1 | Digest_Sha224 | Digest_Sha256 | Digest_Sha384 |
    Digest_Sha512

primrec digest_i32 :: "digest \<Rightarrow> int" where
  "digest_i32 Digest_None = 0"
| "digest_i32 Digest_Md5 = 1"
| "digest_i32 Digest_Sha1 = 2"
| "digest_i32 Digest_Sha224 = 3"
| "digest_i32 Digest_Sha256 = 4"
| "digest_i32 Digest_Sha384 = 5"
| "digest_i32 Digest_Sha512 = 6"

definition digest_variants :: "digest list" where
  "digest_variants =
    [Digest_None, Digest_Md5, Digest_Sha1, Digest_Sha224, Digest_Sha256, Digest_Sha384,
     Digest_Sha512]"

datatype ec_curve =
    EcCurve_P224 | EcCurve_P256 | EcCurve_P384 | EcCurve_P521 | EcCurve_Curve25519

primrec ec_curve_i32 :: "ec_curve \<Rightarrow> int" where
  "ec_curve_i32 EcCurve_P224 = 0"
| "ec_curve_i32 EcCurve_P256 = 1"
| "ec_curve_i32 EcCurve_P384 = 2"
| "ec_curve_i32 EcCurve_P521 = 3"
| "ec_curve_i32 EcCurve_Curve25519 = 4"

definition ec_curve_variants :: "ec_curve list" where
  "ec_curve_variants =
    [EcCurve_P224, EcCurve_P256, EcCurve_P384, EcCurve_P521, EcCurve_Curve25519]"

datatype hw_auth_type =
    HardwareAuthenticatorType_None | HardwareAuthenticatorType_Password |
    HardwareAuthenticatorType_Fingerprint | HardwareAuthenticatorType_Any

primrec hw_auth_type_i32 :: "hw_auth_type \<Rightarrow> int" where
  "hw_auth_type_i32 HardwareAuthenticatorType_None = 0"
| "hw_auth_type_i32 HardwareAuthenticatorType_Password = 1"
| "hw_auth_type_i32 HardwareAuthenticatorType_Fingerprint = 2"
| "hw_auth_type_i32 HardwareAuthenticatorType_Any = - 1"

definition hw_auth_type_variants :: "hw_auth_type list" where
  "hw_auth_type_variants =
    [HardwareAuthenticatorType_None, HardwareAuthenticatorType_Password,
     HardwareAuthenticatorType_Fingerprint, HardwareAuthenticatorType_Any]"

datatype key_format =
    KeyFormat_X509 | KeyFormat_Pkcs8 | KeyFormat_Raw

primrec key_format_i32 :: "key_format \<Rightarrow> int" where
  "key_format_i32 KeyFormat_X509 = 0"
| "key_format_i32 KeyFormat_Pkcs8 = 1"
| "key_format_i32 KeyFormat_Raw = 3"

definition key_format_variants :: "key_format list" where
  "key_format_variants =
    [KeyFormat_X509, KeyFormat_Pkcs8, KeyFormat_Raw]"

datatype key_origin =
    KeyOrigin_Generated | KeyOrigin_Derived | KeyOrigin_Imported | KeyOrigin_Reserved |
    KeyOrigin_SecurelyImported

primrec key_origin_i32 :: "key_origin \<Rightarrow> int" where
  "key_origin_i32 KeyOrigin_Generated = 0"
| "key_origin_i32 KeyOrigin_Derived = 1"
| "key_origin_i32 KeyOrigin_Imported = 2"
| "key_origin_i32 KeyOrigin_Reserved = 3"
| "key_origin_i32 KeyOrigin_SecurelyImported = 4"

definition key_origin_variants :: "key_origin list" where
  "key_origin_variants =
    [KeyOrigin_Generated, KeyOrigin_Derived, KeyOrigin_Imported, KeyOrigin_Reserved,
     KeyOrigin_SecurelyImported]"

datatype key_purpose =
    KeyPurpose_Encrypt | KeyPurpose_Decrypt | KeyPurpose_Sign | KeyPurpose_Verify |
    KeyPurpose_WrapKey | KeyPurpose_AgreeKey | KeyPurpose_AttestKey

primrec key_purpose_i32 :: "key_purpose \<Rightarrow> int" where
  "key_purpose_i32 KeyPurpose_Encrypt = 0"
| "key_purpose_i32 KeyPurpose_Decrypt = 1"
| "key_purpose_i32 KeyPurpose_Sign = 2"
| "key_purpose_i32 KeyPurpose_Verify = 3"
| "key_purpose_i32 KeyPurpose_WrapKey = 5"
| "key_purpose_i32 KeyPurpose_AgreeKey = 6"
| "key_purpose_i32 KeyPurpose_AttestKey = 7"

definition key_purpose_variants :: "key_purpose list" where
  "key_purpose_variants =
    [KeyPurpose_Encrypt, KeyPurpose_Decrypt, KeyPurpose_Sign, KeyPurpose_Verify,
     KeyPurpose_WrapKey, KeyPurpose_AgreeKey, KeyPurpose_AttestKey]"

datatype padding_mode =
    PaddingMode_None | PaddingMode_RsaOaep | PaddingMode_RsaPss |
    PaddingMode_RsaPkcs115Encrypt | PaddingMode_RsaPkcs115Sign | PaddingMode_Pkcs7

primrec padding_mode_i32 :: "padding_mode \<Rightarrow> int" where
  "padding_mode_i32 PaddingMode_None = 1"
| "padding_mode_i32 PaddingMode_RsaOaep = 2"
| "padding_mode_i32 PaddingMode_RsaPss = 3"
| "padding_mode_i32 PaddingMode_RsaPkcs115Encrypt = 4"
| "padding_mode_i32 PaddingMode_RsaPkcs115Sign = 5"
| "padding_mode_i32 PaddingMode_Pkcs7 = 64"

definition padding_mode_variants :: "padding_mode list" where
  "padding_mode_variants =
    [PaddingMode_None, PaddingMode_RsaOaep, PaddingMode_RsaPss, PaddingMode_RsaPkcs115Encrypt,
     PaddingMode_RsaPkcs115Sign, PaddingMode_Pkcs7]"

datatype security_level =
    SecurityLevel_Software | SecurityLevel_TrustedEnvironment | SecurityLevel_Strongbox |
    SecurityLevel_Keystore

primrec security_level_i32 :: "security_level \<Rightarrow> int" where
  "security_level_i32 SecurityLevel_Software = 0"
| "security_level_i32 SecurityLevel_TrustedEnvironment = 1"
| "security_level_i32 SecurityLevel_Strongbox = 2"
| "security_level_i32 SecurityLevel_Keystore = 100"

definition security_level_variants :: "security_level list" where
  "security_level_variants =
    [SecurityLevel_Software, SecurityLevel_TrustedEnvironment, SecurityLevel_Strongbox,
     SecurityLevel_Keystore]"

datatype tag_type =
    TagType_Invalid | TagType_Enum | TagType_EnumRep | TagType_Uint | TagType_UintRep |
    TagType_Ulong | TagType_Date | TagType_Bool | TagType_Bignum | TagType_Bytes |
    TagType_UlongRep

primrec tag_type_i32 :: "tag_type \<Rightarrow> int" where
  "tag_type_i32 TagType_Invalid = 0"
| "tag_type_i32 TagType_Enum = 268435456"
| "tag_type_i32 TagType_EnumRep = 536870912"
| "tag_type_i32 TagType_Uint = 805306368"
| "tag_type_i32 TagType_UintRep = 1073741824"
| "tag_type_i32 TagType_Ulong = 1342177280"
| "tag_type_i32 TagType_Date = 1610612736"
| "tag_type_i32 TagType_Bool = 1879048192"
| "tag_type_i32 TagType_Bignum = - 2147483648"
| "tag_type_i32 TagType_Bytes = - 1879048192"
| "tag_type_i32 TagType_UlongRep = - 1610612736"

definition tag_type_variants :: "tag_type list" where
  "tag_type_variants =
    [TagType_Invalid, TagType_Enum, TagType_EnumRep, TagType_Uint, TagType_UintRep,
     TagType_Ulong, TagType_Date, TagType_Bool, TagType_Bignum, TagType_Bytes, TagType_UlongRep]"

section \<open>Error codes\<close>

text \<open>
  \<open>ErrorCode\<close> has 90 variants that the code only names and converts; it is kept as its \<open>i32\<close>
  representation, with one abbreviation per variant.
\<close>

datatype error_code = ErrorCode int

primrec error_code_i32 :: "error_code \<Rightarrow> int" where
  "error_code_i32 (ErrorCode i) = i"

abbreviation ErrorCode_Ok :: error_code where "ErrorCode_Ok \<equiv> ErrorCode (0)"
abbreviation RootOfTrustAlreadySet :: error_code where "RootOfTrustAlreadySet \<equiv> ErrorCode (- 1)"
abbreviation UnsupportedPurpose :: error_code where "UnsupportedPurpose \<equiv> ErrorCode (- 2)"
abbreviation IncompatiblePurpose :: error_code where "IncompatiblePurpose \<equiv> ErrorCode (- 3)"
abbreviation UnsupportedAlgorithm :: error_code where "UnsupportedAlgorithm \<equiv> ErrorCode (- 4)"
abbreviation IncompatibleAlgorithm :: error_code where "IncompatibleAlgorithm \<equiv> ErrorCode (- 5)"
abbreviation UnsupportedKeySize :: error_code where "UnsupportedKeySize \<equiv> ErrorCode (- 6)"
abbreviation UnsupportedBlockMode :: error_code where "UnsupportedBlockMode \<equiv> ErrorCode (- 7)"
abbreviation IncompatibleBlockMode :: error_code where "IncompatibleBlockMode \<equiv> ErrorCode (- 8)"
abbreviation UnsupportedMacLength :: error_code where "UnsupportedMacLength \<equiv> ErrorCode (- 9)"
abbreviation UnsupportedPaddingMode :: error_code where "UnsupportedPaddingMode \<equiv> ErrorCode (- 10)"
abbreviation IncompatiblePaddingMode :: error_code where "IncompatiblePaddingMode \<equiv> ErrorCode (- 11)"
abbreviation UnsupportedDigest :: error_code where "UnsupportedDigest \<equiv> ErrorCode (- 12)"
abbreviation IncompatibleDigest :: error_code where "IncompatibleDigest \<equiv> ErrorCode (- 13)"
abbreviation InvalidExpirationTime :: error_code where "InvalidExpirationTime \<equiv> ErrorCode (- 14)"
abbreviation InvalidUserId :: error_code where "InvalidUserId \<equiv> ErrorCode (- 15)"
abbreviation InvalidAuthorizationTimeout :: error_code where "InvalidAuthorizationTimeout \<equiv> ErrorCode (- 16)"
abbreviation UnsupportedKeyFormat :: error_code where "UnsupportedKeyFormat \<equiv> ErrorCode (- 17)"
abbreviation IncompatibleKeyFormat :: error_code where "IncompatibleKeyFormat \<equiv> ErrorCode (- 18)"
abbreviation UnsupportedKeyEncryptionAlgorithm :: error_code where "UnsupportedKeyEncryptionAlgorithm \<equiv> ErrorCode (- 19)"
abbreviation UnsupportedKeyVerificationAlgorithm :: error_code where "UnsupportedKeyVerificationAlgorithm \<equiv> ErrorCode (- 20)"
abbreviation InvalidInputLength :: error_code where "InvalidInputLength \<equiv> ErrorCode (- 21)"
abbreviation KeyExportOptionsInvalid :: error_code where "KeyExportOptionsInvalid \<equiv> ErrorCode (- 22)"
abbreviation DelegationNotAllowed :: error_code where "DelegationNotAllowed \<equiv> ErrorCode (- 23)"
abbreviation KeyNotYetValid :: error_code where "KeyNotYetValid \<equiv> ErrorCode (- 24)"
abbreviation KeyExpired :: error_code where "KeyExpired \<equiv> ErrorCode (- 25)"
abbreviation KeyUserNotAuthenticated :: error_code where "KeyUserNotAuthenticated \<equiv> ErrorCode (- 26)"
abbreviation OutputParameterNull :: error_code where "OutputParameterNull \<equiv> ErrorCode (- 27)"
abbreviation InvalidOperationHandle :: error_code where "InvalidOperationHandle \<equiv> ErrorCode (- 28)"
abbreviation InsufficientBufferSpace :: error_code where "InsufficientBufferSpace \<equiv> ErrorCode (- 29)"
abbreviation VerificationFailed :: error_code where "VerificationFailed \<equiv> ErrorCode (- 30)"
abbreviation TooManyOperations :: error_code where "TooManyOperations \<equiv> ErrorCode (- 31)"
abbreviation UnexpectedNullPointer :: error_code where "UnexpectedNullPointer \<equiv> ErrorCode (- 32)"
abbreviation InvalidKeyBlob :: error_code where "InvalidKeyBlob \<equiv> ErrorCode (- 33)"
abbreviation ImportedKeyNotEncrypted :: error_code where "ImportedKeyNotEncrypted \<equiv> ErrorCode (- 34)"
abbreviation ImportedKeyDecryptionFailed :: error_code where "ImportedKeyDecryptionFailed \<equiv> ErrorCode (- 35)"
abbreviation ImportedKeyNotSigned :: error_code where "ImportedKeyNotSigned \<equiv> ErrorCode (- 36)"
abbreviation ImportedKeyVerificationFailed :: error_code where "ImportedKeyVerificationFailed \<equiv> ErrorCode (- 37)"
abbreviation InvalidArgument :: error_code where "InvalidArgument \<equiv> ErrorCode (- 38)"
abbreviation UnsupportedTag :: error_code where "UnsupportedTag \<equiv> ErrorCode (- 39)"
abbreviation InvalidTag :: error_code where "InvalidTag \<equiv> ErrorCode (- 40)"
abbreviation MemoryAllocationFailed :: error_code where "MemoryAllocationFailed \<equiv> ErrorCode (- 41)"
abbreviation ImportParameterMismatch :: error_code where "ImportParameterMismatch \<equiv> ErrorCode (- 44)"
abbreviation SecureHwAccessDenied :: error_code where "SecureHwAccessDenied \<equiv> ErrorCode (- 45)"
abbreviation OperationCancelled :: error_code where "OperationCancelled \<equiv> ErrorCode (- 46)"
abbreviation ConcurrentAccessConflict :: error_code where "ConcurrentAccessConflict \<equiv> ErrorCode (- 47)"
abbreviation SecureHwBusy :: error_code where "SecureHwBusy \<equiv> ErrorCode (- 48)"
abbreviation SecureHwCommunicationFailed :: error_code where "SecureHwCommunicationFailed \<equiv> ErrorCode (- 49)"
abbreviation UnsupportedEcField :: error_code where "UnsupportedEcField \<equiv> ErrorCode (- 50)"
abbreviation MissingNonce :: error_code where "MissingNonce \<equiv> ErrorCode (- 51)"
abbreviation InvalidNonce :: error_code where "InvalidNonce \<equiv> ErrorCode (- 52)"
abbreviation MissingMacLength :: error_code where "MissingMacLength \<equiv> ErrorCode (- 53)"
abbreviation KeyRateLimitExceeded :: error_code where "KeyRateLimitExceeded \<equiv> ErrorCode (- 54)"
abbreviation CallerNonceProhibited :: error_code where "CallerNonceProhibited \<equiv> ErrorCode (- 55)"
abbreviation KeyMaxOpsExceeded :: error_code where "KeyMaxOpsExceeded \<equiv> ErrorCode (- 56)"
abbreviation InvalidMacLength :: error_code where "InvalidMacLength \<equiv> ErrorCode (- 57)"
abbreviation MissingMinMacLength :: error_code where "MissingMinMacLength \<equiv> ErrorCode (- 58)"
abbreviation UnsupportedMinMacLength :: error_code where "UnsupportedMinMacLength \<equiv> ErrorCode (- 59)"
abbreviation UnsupportedKdf :: error_code where "UnsupportedKdf \<equiv> ErrorCode (- 60)"
abbreviation UnsupportedEcCurve :: error_code where "UnsupportedEcCurve \<equiv> ErrorCode (- 61)"
abbreviation KeyRequiresUpgrade :: error_code where "KeyRequiresUpgrade \<equiv> ErrorCode (- 62)"
abbreviation AttestationChallengeMissing :: error_code where "AttestationChallengeMissing \<equiv> ErrorCode (- 63)"
abbreviation KeymintNotConfigured :: error_code where "KeymintNotConfigured \<equiv> ErrorCode (- 64)"
abbreviation AttestationApplicationIdMissing :: error_code where "AttestationApplicationIdMissing \<equiv> ErrorCode (- 65)"
abbreviation CannotAttestIds :: error_code where "CannotAttestIds \<equiv> ErrorCode (- 66)"
abbreviation RollbackResistanceUnavailable :: error_code where "RollbackResistanceUnavailable \<equiv> ErrorCode (- 67)"
abbreviation HardwareTypeUnavailable :: error_code where "HardwareTypeUnavailable \<equiv> ErrorCode (- 68)"
abbreviation ProofOfPresenceRequired :: error_code where "ProofOfPresenceRequired \<equiv> ErrorCode (- 69)"
abbreviation ConcurrentProofOfPresenceRequested :: error_code where "ConcurrentProofOfPresenceRequested \<equiv> ErrorCode (- 70)"
abbreviation NoUserConfirmation :: error_code where "NoUserConfirmation \<equiv> ErrorCode (- 71)"
abbreviation DeviceLocked :: error_code where "DeviceLocked \<equiv> ErrorCode (- 72)"
abbreviation EarlyBootEnded :: error_code where "EarlyBootEnded \<equiv> ErrorCode (- 73)"
abbreviation AttestationKeysNotProvisioned :: error_code where "AttestationKeysNotProvisioned \<equiv> ErrorCode (- 74)"
abbreviation AttestationIdsNotProvisioned :: error_code where "AttestationIdsNotProvisioned \<equiv> ErrorCode (- 75)"
abbreviation InvalidOperation :: error_code where "InvalidOperation \<equiv> ErrorCode (- 76)"
abbreviation StorageKeyUnsupported :: error_code where "StorageKeyUnsupported \<equiv> ErrorCode (- 77)"
abbreviation IncompatibleMgfDigest :: error_code where "IncompatibleMgfDigest \<equiv> ErrorCode (- 78)"
abbreviation UnsupportedMgfDigest :: error_code where "UnsupportedMgfDigest \<equiv> ErrorCode (- 79)"
abbreviation MissingNotBefore :: error_code where "MissingNotBefore \<equiv> ErrorCode (- 80)"
abbreviation MissingNotAfter :: error_code where "MissingNotAfter \<equiv> ErrorCode (- 81)"
abbreviation MissingIssuerSubject :: error_code where "MissingIssuerSubject \<equiv> ErrorCode (- 82)"
abbreviation InvalidIssuerSubject :: error_code where "InvalidIssuerSubject \<equiv> ErrorCode (- 83)"
abbreviation BootLevelExceeded :: error_code where "BootLevelExceeded \<equiv> ErrorCode (- 84)"
abbreviation HardwareNotYetAvailable :: error_code where "HardwareNotYetAvailable \<equiv> ErrorCode (- 85)"
abbreviation ModuleHashAlreadySet :: error_code where "ModuleHashAlreadySet \<equiv> ErrorCode (- 86)"
abbreviation Unimplemented :: error_code where "Unimplemented \<equiv> ErrorCode (- 100)"
abbreviation VersionMismatch :: error_code where "VersionMismatch \<equiv> ErrorCode (- 101)"
abbreviation UnknownError :: error_code where "UnknownError \<equiv> ErrorCode (- 1000)"
abbreviation EncodingError :: error_code where "EncodingError \<equiv> ErrorCode (- 20000)"
abbreviation BoringSslError :: error_code where "BoringSslError \<equiv> ErrorCode (- 30000)"

definition error_code_variants :: "error_code list" where
  "error_code_variants =
    [ErrorCode_Ok, RootOfTrustAlreadySet, UnsupportedPurpose, IncompatiblePurpose,
     UnsupportedAlgorithm, IncompatibleAlgorithm, UnsupportedKeySize, UnsupportedBlockMode,
     IncompatibleBlockMode, UnsupportedMacLength, UnsupportedPaddingMode,
     IncompatiblePaddingMode, UnsupportedDigest, IncompatibleDigest, InvalidExpirationTime,
     InvalidUserId, InvalidAuthorizationTimeout, UnsupportedKeyFormat, IncompatibleKeyFormat,
     UnsupportedKeyEncryptionAlgorithm, UnsupportedKeyVerificationAlgorithm, InvalidInputLength,
     KeyExportOptionsInvalid, DelegationNotAllowed, KeyNotYetValid, KeyExpired,
     KeyUserNotAuthenticated, OutputParameterNull, InvalidOperationHandle,
     InsufficientBufferSpace, VerificationFailed, TooManyOperations, UnexpectedNullPointer,
     InvalidKeyBlob, ImportedKeyNotEncrypted, ImportedKeyDecryptionFailed, ImportedKeyNotSigned,
     ImportedKeyVerificationFailed, InvalidArgument, UnsupportedTag, InvalidTag,
     MemoryAllocationFailed, ImportParameterMismatch, SecureHwAccessDenied, OperationCancelled,
     ConcurrentAccessConflict, SecureHwBusy, SecureHwCommunicationFailed, UnsupportedEcField,
     MissingNonce, InvalidNonce, MissingMacLength, KeyRateLimitExceeded, CallerNonceProhibited,
     KeyMaxOpsExceeded, InvalidMacLength, MissingMinMacLength, UnsupportedMinMacLength,
     UnsupportedKdf, UnsupportedEcCurve, KeyRequiresUpgrade, AttestationChallengeMissing,
     KeymintNotConfigured, AttestationApplicationIdMissing, CannotAttestIds,
     RollbackResistanceUnavailable, HardwareTypeUnavailable, ProofOfPresenceRequired,
     ConcurrentProofOfPresenceRequested, NoUserConfirmation, DeviceLocked, EarlyBootEnded,
     AttestationKeysNotProvisioned, AttestationIdsNotProvisioned, InvalidOperation,
     StorageKeyUnsupported, IncompatibleMgfDigest, UnsupportedMgfDigest, MissingNotBefore,
     MissingNotAfter, MissingIssuerSubject, InvalidIssuerSubject, BootLevelExceeded,
     HardwareNotYetAvailable, ModuleHashAlreadySet, Unimplemented, VersionMismatch,
     UnknownError, EncodingError, BoringSslError]"

text \<open>Error codes of the \<open>IRemotelyProvisionedComponent\<close> HAL (\<open>wire/src/rpc.rs\<close>).\<close>

datatype rpc_error_code =
    RpcErrorCode_Ok | RpcErrorCode_Failed | RpcErrorCode_InvalidMac |
    RpcErrorCode_ProductionKeyInTestRequest | RpcErrorCode_TestKeyInProductionRequest |
    RpcErrorCode_InvalidEek | RpcErrorCode_Removed

primrec rpc_error_code_i32 :: "rpc_error_code \<Rightarrow> int" where
  "rpc_error_code_i32 RpcErrorCode_Ok = 0"
| "rpc_error_code_i32 RpcErrorCode_Failed = 1"
| "rpc_error_code_i32 RpcErrorCode_InvalidMac = 2"
| "rpc_error_code_i32 RpcErrorCode_ProductionKeyInTestRequest = 3"
| "rpc_error_code_i32 RpcErrorCode_TestKeyInProductionRequest = 4"
| "rpc_error_code_i32 RpcErrorCode_InvalidEek = 5"
| "rpc_error_code_i32 RpcErrorCode_Removed = 6"

text \<open>
  The error types of the crates \<open>wire\<close> and \<open>common\<close>.  Error messages, and the payloads that
  come from the CBOR and DER libraries, are dropped.
\<close>

datatype cbor_error =
    DecodeFailed | EncodeFailed | ExtraneousData | OutOfRangeIntegerValue | NonEnumValue
  | UnexpectedItem string string | InvalidValue | AllocationFailed

datatype error =
    Cbor cbor_error | Der | Hal error_code | Rpc rpc_error_code | Alloc

type_synonym 'a km = "('a, error) res"

section \<open>Tags\<close>

text \<open>
  The variants of \<open>Tag\<close> and \<open>KeyParam\<close> are grouped by the payload type of the \<open>KeyParam\<close>
  variant of the same name, which is the type the code decodes and encodes generically; the last
  group holds the tags with no \<open>KeyParam\<close> variant.  An abbreviation per variant carries the name
  it has in the code.
\<close>

datatype enum_tag =
    Enum_Purpose | Enum_Algorithm | Enum_BlockMode | Enum_Digest | Enum_Padding | Enum_EcCurve |
    Enum_RsaOaepMgfDigest | Enum_Origin

datatype u32_tag =
    U32_KeySize | U32_MinMacLength | U32_MaxUsesPerBoot | U32_UsageCountLimit | U32_UserId |
    U32_UserAuthType | U32_AuthTimeout | U32_OsVersion | U32_OsPatchlevel |
    U32_VendorPatchlevel | U32_BootPatchlevel | U32_MacLength | U32_MaxBootLevel

datatype u64_tag =
    U64_RsaPublicExponent | U64_UserSecureId

datatype bool_tag =
    Bool_CallerNonce | Bool_IncludeUniqueId | Bool_BootloaderOnly | Bool_RollbackResistance |
    Bool_EarlyBootOnly | Bool_NoAuthRequired | Bool_AllowWhileOnBody |
    Bool_TrustedUserPresenceRequired | Bool_TrustedConfirmationRequired |
    Bool_UnlockedDeviceRequired | Bool_DeviceUniqueAttestation | Bool_StorageKey |
    Bool_ResetSinceIdRotation

datatype date_tag =
    Date_ActiveDatetime | Date_OriginationExpireDatetime | Date_UsageExpireDatetime |
    Date_CreationDatetime | Date_CertificateNotBefore | Date_CertificateNotAfter

datatype bytes_tag =
    Bytes_ApplicationId | Bytes_ApplicationData | Bytes_RootOfTrust |
    Bytes_AttestationChallenge | Bytes_AttestationApplicationId | Bytes_AttestationIdBrand |
    Bytes_AttestationIdDevice | Bytes_AttestationIdProduct | Bytes_AttestationIdSerial |
    Bytes_AttestationIdImei | Bytes_AttestationIdMeid | Bytes_AttestationIdManufacturer |
    Bytes_AttestationIdModel | Bytes_AttestationIdSecondImei | Bytes_Nonce |
    Bytes_CertificateSerial | Bytes_CertificateSubject | Bytes_ModuleHash

datatype other_tag =
    Other_Invalid | Other_HardwareType | Other_MinSecondsBetweenOps | Other_UniqueId |
    Other_IdentityCredentialKey | Other_AssociatedData | Other_ConfirmationToken

datatype tag =
    Tag_Enum enum_tag
  | Tag_U32 u32_tag
  | Tag_U64 u64_tag
  | Tag_Bool bool_tag
  | Tag_Date date_tag
  | Tag_Bytes bytes_tag
  | Tag_Other other_tag

abbreviation Tag_Invalid :: tag where "Tag_Invalid \<equiv> Tag_Other Other_Invalid"
abbreviation Tag_Purpose :: tag where "Tag_Purpose \<equiv> Tag_Enum Enum_Purpose"
abbreviation Tag_Algorithm :: tag where "Tag_Algorithm \<equiv> Tag_Enum Enum_Algorithm"
abbreviation Tag_KeySize :: tag where "Tag_KeySize \<equiv> Tag_U32 U32_KeySize"
abbreviation Tag_BlockMode :: tag where "Tag_BlockMode \<equiv> Tag_Enum Enum_BlockMode"
abbreviation Tag_Digest :: tag where "Tag_Digest \<equiv> Tag_Enum Enum_Digest"
abbreviation Tag_Padding :: tag where "Tag_Padding \<equiv> Tag_Enum Enum_Padding"
abbreviation Tag_CallerNonce :: tag where "Tag_CallerNonce \<equiv> Tag_Bool Bool_CallerNonce"
abbreviation Tag_MinMacLength :: tag where "Tag_MinMacLength \<equiv> Tag_U32 U32_MinMacLength"
abbreviation Tag_EcCurve :: tag where "Tag_EcCurve \<equiv> Tag_Enum Enum_EcCurve"
abbreviation Tag_RsaPublicExponent :: tag where "Tag_RsaPublicExponent \<equiv> Tag_U64 U64_RsaPublicExponent"
abbreviation Tag_IncludeUniqueId :: tag where "Tag_IncludeUniqueId \<equiv> Tag_Bool Bool_IncludeUniqueId"
abbreviation Tag_RsaOaepMgfDigest :: tag where "Tag_RsaOaepMgfDigest \<equiv> Tag_Enum Enum_RsaOaepMgfDigest"
abbreviation Tag_BootloaderOnly :: tag where "Tag_BootloaderOnly \<equiv> Tag_Bool Bool_BootloaderOnly"
abbreviation Tag_RollbackResistance :: tag where "Tag_RollbackResistance \<equiv> Tag_Bool Bool_RollbackResistance"
abbreviation Tag_HardwareType :: tag where "Tag_HardwareType \<equiv> Tag_Other Other_HardwareType"
abbreviation Tag_EarlyBootOnly :: tag where "Tag_EarlyBootOnly \<equiv> Tag_Bool Bool_EarlyBootOnly"
abbreviation Tag_ActiveDatetime :: tag where "Tag_ActiveDatetime \<equiv> Tag_Date Date_ActiveDatetime"
abbreviation Tag_OriginationExpireDatetime :: tag where "Tag_OriginationExpireDatetime \<equiv> Tag_Date Date_OriginationExpireDatetime"
abbreviation Tag_UsageExpireDatetime :: tag where "Tag_UsageExpireDatetime \<equiv> Tag_Date Date_UsageExpireDatetime"
abbreviation Tag_MinSecondsBetweenOps :: tag where "Tag_MinSecondsBetweenOps \<equiv> Tag_Other Other_MinSecondsBetweenOps"
abbreviation Tag_MaxUsesPerBoot :: tag where "Tag_MaxUsesPerBoot \<equiv> Tag_U32 U32_MaxUsesPerBoot"
abbreviation Tag_UsageCountLimit :: tag where "Tag_UsageCountLimit \<equiv> Tag_U32 U32_UsageCountLimit"
abbreviation Tag_UserId :: tag where "Tag_UserId \<equiv> Tag_U32 U32_UserId"
abbreviation Tag_UserSecureId :: tag where "Tag_UserSecureId \<equiv> Tag_U64 U64_UserSecureId"
abbreviation Tag_NoAuthRequired :: tag where "Tag_NoAuthRequired \<equiv> Tag_Bool Bool_NoAuthRequired"
abbreviation Tag_UserAuthType :: tag where "Tag_UserAuthType \<equiv> Tag_U32 U32_UserAuthType"
abbreviation Tag_AuthTimeout :: tag where "Tag_AuthTimeout \<equiv> Tag_U32 U32_AuthTimeout"
abbreviation Tag_AllowWhileOnBody :: tag where "Tag_AllowWhileOnBody \<equiv> Tag_Bool Bool_AllowWhileOnBody"
abbreviation Tag_TrustedUserPresenceRequired :: tag where "Tag_TrustedUserPresenceRequired \<equiv> Tag_Bool Bool_TrustedUserPresenceRequired"
abbreviation Tag_TrustedConfirmationRequired :: tag where "Tag_TrustedConfirmationRequired \<equiv> Tag_Bool Bool_TrustedConfirmationRequired"
abbreviation Tag_UnlockedDeviceRequired :: tag where "Tag_UnlockedDeviceRequired \<equiv> Tag_Bool Bool_UnlockedDeviceRequired"
abbreviation Tag_ApplicationId :: tag where "Tag_ApplicationId \<equiv> Tag_Bytes Bytes_ApplicationId"
abbreviation Tag_ApplicationData :: tag where "Tag_ApplicationData \<equiv> Tag_Bytes Bytes_ApplicationData"
abbreviation Tag_CreationDatetime :: tag where "Tag_CreationDatetime \<equiv> Tag_Date Date_CreationDatetime"
abbreviation Tag_Origin :: tag where "Tag_Origin \<equiv> Tag_Enum Enum_Origin"
abbreviation Tag_RootOfTrust :: tag where "Tag_RootOfTrust \<equiv> Tag_Bytes Bytes_RootOfTrust"
abbreviation Tag_OsVersion :: tag where "Tag_OsVersion \<equiv> Tag_U32 U32_OsVersion"
abbreviation Tag_OsPatchlevel :: tag where "Tag_OsPatchlevel \<equiv> Tag_U32 U32_OsPatchlevel"
abbreviation Tag_UniqueId :: tag where "Tag_UniqueId \<equiv> Tag_Other Other_UniqueId"
abbreviation Tag_AttestationChallenge :: tag where "Tag_AttestationChallenge \<equiv> Tag_Bytes Bytes_AttestationChallenge"
abbreviation Tag_AttestationApplicationId :: tag where "Tag_AttestationApplicationId \<equiv> Tag_Bytes Bytes_AttestationApplicationId"
abbreviation Tag_AttestationIdBrand :: tag where "Tag_AttestationIdBrand \<equiv> Tag_Bytes Bytes_AttestationIdBrand"
abbreviation Tag_AttestationIdDevice :: tag where "Tag_AttestationIdDevice \<equiv> Tag_Bytes Bytes_AttestationIdDevice"
abbreviation Tag_AttestationIdProduct :: tag where "Tag_AttestationIdProduct \<equiv> Tag_Bytes Bytes_AttestationIdProduct"
abbreviation Tag_AttestationIdSerial :: tag where "Tag_AttestationIdSerial \<equiv> Tag_Bytes Bytes_AttestationIdSerial"
abbreviation Tag_AttestationIdImei :: tag where "Tag_AttestationIdImei \<equiv> Tag_Bytes Bytes_AttestationIdImei"
abbreviation Tag_AttestationIdMeid :: tag where "Tag_AttestationIdMeid \<equiv> Tag_Bytes Bytes_AttestationIdMeid"
abbreviation Tag_AttestationIdManufacturer :: tag where "Tag_AttestationIdManufacturer \<equiv> Tag_Bytes Bytes_AttestationIdManufacturer"
abbreviation Tag_AttestationIdModel :: tag where "Tag_AttestationIdModel \<equiv> Tag_Bytes Bytes_AttestationIdModel"
abbreviation Tag_VendorPatchlevel :: tag where "Tag_VendorPatchlevel \<equiv> Tag_U32 U32_VendorPatchlevel"
abbreviation Tag_BootPatchlevel :: tag where "Tag_BootPatchlevel \<equiv> Tag_U32 U32_BootPatchlevel"
abbreviation Tag_DeviceUniqueAttestation :: tag where "Tag_DeviceUniqueAttestation \<equiv> Tag_Bool Bool_DeviceUniqueAttestation"
abbreviation Tag_IdentityCredentialKey :: tag where "Tag_IdentityCredentialKey \<equiv> Tag_Other Other_IdentityCredentialKey"
abbreviation Tag_StorageKey :: tag where "Tag_StorageKey \<equiv> Tag_Bool Bool_StorageKey"
abbreviation Tag_AttestationIdSecondImei :: tag where "Tag_AttestationIdSecondImei \<equiv> Tag_Bytes Bytes_AttestationIdSecondImei"
abbreviation Tag_AssociatedData :: tag where "Tag_AssociatedData \<equiv> Tag_Other Other_AssociatedData"
abbreviation Tag_Nonce :: tag where "Tag_Nonce \<equiv> Tag_Bytes Bytes_Nonce"
abbreviation Tag_MacLength :: tag where "Tag_MacLength \<equiv> Tag_U32 U32_MacLength"
abbreviation Tag_ResetSinceIdRotation :: tag where "Tag_ResetSinceIdRotation \<equiv> Tag_Bool Bool_ResetSinceIdRotation"
abbreviation Tag_ConfirmationToken :: tag where "Tag_ConfirmationToken \<equiv> Tag_Other Other_ConfirmationToken"
abbreviation Tag_CertificateSerial :: tag where "Tag_CertificateSerial \<equiv> Tag_Bytes Bytes_CertificateSerial"
abbreviation Tag_CertificateSubject :: tag where "Tag_CertificateSubject \<equiv> Tag_Bytes Bytes_CertificateSubject"
abbreviation Tag_CertificateNotBefore :: tag where "Tag_CertificateNotBefore \<equiv> Tag_Date Date_CertificateNotBefore"
abbreviation Tag_CertificateNotAfter :: tag where "Tag_CertificateNotAfter \<equiv> Tag_Date Date_CertificateNotAfter"
abbreviation Tag_MaxBootLevel :: tag where "Tag_MaxBootLevel \<equiv> Tag_U32 U32_MaxBootLevel"
abbreviation Tag_ModuleHash :: tag where "Tag_ModuleHash \<equiv> Tag_Bytes Bytes_ModuleHash"

text \<open>The numeric values of the tags.\<close>

primrec enum_tag_i32 :: "enum_tag \<Rightarrow> int" where
  "enum_tag_i32 Enum_Purpose = 536870913"
| "enum_tag_i32 Enum_Algorithm = 268435458"
| "enum_tag_i32 Enum_BlockMode = 536870916"
| "enum_tag_i32 Enum_Digest = 536870917"
| "enum_tag_i32 Enum_Padding = 536870918"
| "enum_tag_i32 Enum_EcCurve = 268435466"
| "enum_tag_i32 Enum_RsaOaepMgfDigest = 536871115"
| "enum_tag_i32 Enum_Origin = 268436158"

primrec u32_tag_i32 :: "u32_tag \<Rightarrow> int" where
  "u32_tag_i32 U32_KeySize = 805306371"
| "u32_tag_i32 U32_MinMacLength = 805306376"
| "u32_tag_i32 U32_MaxUsesPerBoot = 805306772"
| "u32_tag_i32 U32_UsageCountLimit = 805306773"
| "u32_tag_i32 U32_UserId = 805306869"
| "u32_tag_i32 U32_UserAuthType = 268435960"
| "u32_tag_i32 U32_AuthTimeout = 805306873"
| "u32_tag_i32 U32_OsVersion = 805307073"
| "u32_tag_i32 U32_OsPatchlevel = 805307074"
| "u32_tag_i32 U32_VendorPatchlevel = 805307086"
| "u32_tag_i32 U32_BootPatchlevel = 805307087"
| "u32_tag_i32 U32_MacLength = 805307371"
| "u32_tag_i32 U32_MaxBootLevel = 805307378"

primrec u64_tag_i32 :: "u64_tag \<Rightarrow> int" where
  "u64_tag_i32 U64_RsaPublicExponent = 1342177480"
| "u64_tag_i32 U64_UserSecureId = - 1610612234"

primrec bool_tag_i32 :: "bool_tag \<Rightarrow> int" where
  "bool_tag_i32 Bool_CallerNonce = 1879048199"
| "bool_tag_i32 Bool_IncludeUniqueId = 1879048394"
| "bool_tag_i32 Bool_BootloaderOnly = 1879048494"
| "bool_tag_i32 Bool_RollbackResistance = 1879048495"
| "bool_tag_i32 Bool_EarlyBootOnly = 1879048497"
| "bool_tag_i32 Bool_NoAuthRequired = 1879048695"
| "bool_tag_i32 Bool_AllowWhileOnBody = 1879048698"
| "bool_tag_i32 Bool_TrustedUserPresenceRequired = 1879048699"
| "bool_tag_i32 Bool_TrustedConfirmationRequired = 1879048700"
| "bool_tag_i32 Bool_UnlockedDeviceRequired = 1879048701"
| "bool_tag_i32 Bool_DeviceUniqueAttestation = 1879048912"
| "bool_tag_i32 Bool_StorageKey = 1879048914"
| "bool_tag_i32 Bool_ResetSinceIdRotation = 1879049196"

primrec date_tag_i32 :: "date_tag \<Rightarrow> int" where
  "date_tag_i32 Date_ActiveDatetime = 1610613136"
| "date_tag_i32 Date_OriginationExpireDatetime = 1610613137"
| "date_tag_i32 Date_UsageExpireDatetime = 1610613138"
| "date_tag_i32 Date_CreationDatetime = 1610613437"
| "date_tag_i32 Date_CertificateNotBefore = 1610613744"
| "date_tag_i32 Date_CertificateNotAfter = 1610613745"

primrec bytes_tag_i32 :: "bytes_tag \<Rightarrow> int" where
  "bytes_tag_i32 Bytes_ApplicationId = - 1879047591"
| "bytes_tag_i32 Bytes_ApplicationData = - 1879047492"
| "bytes_tag_i32 Bytes_RootOfTrust = - 1879047488"
| "bytes_tag_i32 Bytes_AttestationChallenge = - 1879047484"
| "bytes_tag_i32 Bytes_AttestationApplicationId = - 1879047483"
| "bytes_tag_i32 Bytes_AttestationIdBrand = - 1879047482"
| "bytes_tag_i32 Bytes_AttestationIdDevice = - 1879047481"
| "bytes_tag_i32 Bytes_AttestationIdProduct = - 1879047480"
| "bytes_tag_i32 Bytes_AttestationIdSerial = - 1879047479"
| "bytes_tag_i32 Bytes_AttestationIdImei = - 1879047478"
| "bytes_tag_i32 Bytes_AttestationIdMeid = - 1879047477"
| "bytes_tag_i32 Bytes_AttestationIdManufacturer = - 1879047476"
| "bytes_tag_i32 Bytes_AttestationIdModel = - 1879047475"
| "bytes_tag_i32 Bytes_AttestationIdSecondImei = - 1879047469"
| "bytes_tag_i32 Bytes_Nonce = - 1879047191"
| "bytes_tag_i32 Bytes_CertificateSerial = - 2147482642"
| "bytes_tag_i32 Bytes_CertificateSubject = - 1879047185"
| "bytes_tag_i32 Bytes_ModuleHash = - 1879047468"

primrec other_tag_i32 :: "other_tag \<Rightarrow> int" where
  "other_tag_i32 Other_Invalid = 0"
| "other_tag_i32 Other_HardwareType = 268435760"
| "other_tag_i32 Other_MinSecondsBetweenOps = 805306771"
| "other_tag_i32 Other_UniqueId = - 1879047485"
| "other_tag_i32 Other_IdentityCredentialKey = 1879048913"
| "other_tag_i32 Other_AssociatedData = - 1879047192"
| "other_tag_i32 Other_ConfirmationToken = - 1879047187"

primrec tag_i32 :: "tag \<Rightarrow> int" where
  "tag_i32 (Tag_Enum t) = enum_tag_i32 t"
| "tag_i32 (Tag_U32 t) = u32_tag_i32 t"
| "tag_i32 (Tag_U64 t) = u64_tag_i32 t"
| "tag_i32 (Tag_Bool t) = bool_tag_i32 t"
| "tag_i32 (Tag_Date t) = date_tag_i32 t"
| "tag_i32 (Tag_Bytes t) = bytes_tag_i32 t"
| "tag_i32 (Tag_Other t) = other_tag_i32 t"

definition tag_variants :: "tag list" where
  "tag_variants =
    [Tag_Invalid, Tag_Purpose, Tag_Algorithm, Tag_KeySize, Tag_BlockMode, Tag_Digest,
     Tag_Padding, Tag_CallerNonce, Tag_MinMacLength, Tag_EcCurve, Tag_RsaPublicExponent,
     Tag_IncludeUniqueId, Tag_RsaOaepMgfDigest, Tag_BootloaderOnly, Tag_RollbackResistance,
     Tag_HardwareType, Tag_EarlyBootOnly, Tag_ActiveDatetime, Tag_OriginationExpireDatetime,
     Tag_UsageExpireDatetime, Tag_MinSecondsBetweenOps, Tag_MaxUsesPerBoot, Tag_UsageCountLimit,
     Tag_UserId, Tag_UserSecureId, Tag_NoAuthRequired, Tag_UserAuthType, Tag_AuthTimeout,
     Tag_AllowWhileOnBody, Tag_TrustedUserPresenceRequired, Tag_TrustedConfirmationRequired,
     Tag_UnlockedDeviceRequired, Tag_ApplicationId, Tag_ApplicationData, Tag_CreationDatetime,
     Tag_Origin, Tag_RootOfTrust, Tag_OsVersion, Tag_OsPatchlevel, Tag_UniqueId,
     Tag_AttestationChallenge, Tag_AttestationApplicationId, Tag_AttestationIdBrand,
     Tag_AttestationIdDevice, Tag_AttestationIdProduct, Tag_AttestationIdSerial,
     Tag_AttestationIdImei, Tag_AttestationIdMeid, Tag_AttestationIdManufacturer,
     Tag_AttestationIdModel, Tag_VendorPatchlevel, Tag_BootPatchlevel,
     Tag_DeviceUniqueAttestation, Tag_IdentityCredentialKey, Tag_StorageKey,
     Tag_AttestationIdSecondImei, Tag_AssociatedData, Tag_Nonce, Tag_MacLength,
     Tag_ResetSinceIdRotation, Tag_ConfirmationToken, Tag_CertificateSerial,
     Tag_CertificateSubject, Tag_CertificateNotBefore, Tag_CertificateNotAfter,
     Tag_MaxBootLevel, Tag_ModuleHash]"

section \<open>Key parameters\<close>

text \<open>
  \<open>KeySizeInBits\<close> and \<open>RsaExponent\<close> are transparent wrappers of \<open>u32\<close> and \<open>u64\<close>;
  \<open>DateTime\<close> wraps a signed 64-bit count of milliseconds (read with \<open>sint\<close>).
\<close>

datatype key_param =
    KP_Purpose key_purpose
  | KP_Algorithm algorithm
  | KP_BlockMode block_mode
  | KP_Digest digest
  | KP_Padding padding_mode
  | KP_EcCurve ec_curve
  | KP_RsaOaepMgfDigest digest
  | KP_Origin key_origin
  | KP_U32 u32_tag u32
  | KP_U64 u64_tag u64
  | KP_Bool bool_tag
  | KP_Date date_tag i64
  | KP_Bytes bytes_tag bytes

abbreviation KP_KeySize :: "u32 \<Rightarrow> key_param" where "KP_KeySize \<equiv> KP_U32 U32_KeySize"
abbreviation KP_CallerNonce :: "key_param" where "KP_CallerNonce \<equiv> KP_Bool Bool_CallerNonce"
abbreviation KP_MinMacLength :: "u32 \<Rightarrow> key_param" where "KP_MinMacLength \<equiv> KP_U32 U32_MinMacLength"
abbreviation KP_RsaPublicExponent :: "u64 \<Rightarrow> key_param" where "KP_RsaPublicExponent \<equiv> KP_U64 U64_RsaPublicExponent"
abbreviation KP_IncludeUniqueId :: "key_param" where "KP_IncludeUniqueId \<equiv> KP_Bool Bool_IncludeUniqueId"
abbreviation KP_BootloaderOnly :: "key_param" where "KP_BootloaderOnly \<equiv> KP_Bool Bool_BootloaderOnly"
abbreviation KP_RollbackResistance :: "key_param" where "KP_RollbackResistance \<equiv> KP_Bool Bool_RollbackResistance"
abbreviation KP_EarlyBootOnly :: "key_param" where "KP_EarlyBootOnly \<equiv> KP_Bool Bool_EarlyBootOnly"
abbreviation KP_ActiveDatetime :: "i64 \<Rightarrow> key_param" where "KP_ActiveDatetime \<equiv> KP_Date Date_ActiveDatetime"
abbreviation KP_OriginationExpireDatetime :: "i64 \<Rightarrow> key_param" where "KP_OriginationExpireDatetime \<equiv> KP_Date Date_OriginationExpireDatetime"
abbreviation KP_UsageExpireDatetime :: "i64 \<Rightarrow> key_param" where "KP_UsageExpireDatetime \<equiv> KP_Date Date_UsageExpireDatetime"
abbreviation KP_MaxUsesPerBoot :: "u32 \<Rightarrow> key_param" where "KP_MaxUsesPerBoot \<equiv> KP_U32 U32_MaxUsesPerBoot"
abbreviation KP_UsageCountLimit :: "u32 \<Rightarrow> key_param" where "KP_UsageCountLimit \<equiv> KP_U32 U32_UsageCountLimit"
abbreviation KP_UserId :: "u32 \<Rightarrow> key_param" where "KP_UserId \<equiv> KP_U32 U32_UserId"
abbreviation KP_UserSecureId :: "u64 \<Rightarrow> key_param" where "KP_UserSecureId \<equiv> KP_U64 U64_UserSecureId"
abbreviation KP_NoAuthRequired :: "key_param" where "KP_NoAuthRequired \<equiv> KP_Bool Bool_NoAuthRequired"
abbreviation KP_UserAuthType :: "u32 \<Rightarrow> key_param" where "KP_UserAuthType \<equiv> KP_U32 U32_UserAuthType"
abbreviation KP_AuthTimeout :: "u32 \<Rightarrow> key_param" where "KP_AuthTimeout \<equiv> KP_U32 U32_AuthTimeout"
abbreviation KP_AllowWhileOnBody :: "key_param" where "KP_AllowWhileOnBody \<equiv> KP_Bool Bool_AllowWhileOnBody"
abbreviation KP_TrustedUserPresenceRequired :: "key_param" where "KP_TrustedUserPresenceRequired \<equiv> KP_Bool Bool_TrustedUserPresenceRequired"
abbreviation KP_TrustedConfirmationRequired :: "key_param" where "KP_TrustedConfirmationRequired \<equiv> KP_Bool Bool_TrustedConfirmationRequired"
abbreviation KP_UnlockedDeviceRequired :: "key_param" where "KP_UnlockedDeviceRequired \<equiv> KP_Bool Bool_UnlockedDeviceRequired"
abbreviation KP_ApplicationId :: "bytes \<Rightarrow> key_param" where "KP_ApplicationId \<equiv> KP_Bytes Bytes_ApplicationId"
abbreviation KP_ApplicationData :: "bytes \<Rightarrow> key_param" where "KP_ApplicationData \<equiv> KP_Bytes Bytes_ApplicationData"
abbreviation KP_CreationDatetime :: "i64 \<Rightarrow> key_param" where "KP_CreationDatetime \<equiv> KP_Date Date_CreationDatetime"
abbreviation KP_RootOfTrust :: "bytes \<Rightarrow> key_param" where "KP_RootOfTrust \<equiv> KP_Bytes Bytes_RootOfTrust"
abbreviation KP_OsVersion :: "u32 \<Rightarrow> key_param" where "KP_OsVersion \<equiv> KP_U32 U32_OsVersion"
abbreviation KP_OsPatchlevel :: "u32 \<Rightarrow> key_param" where "KP_OsPatchlevel \<equiv> KP_U32 U32_OsPatchlevel"
abbreviation KP_AttestationChallenge :: "bytes \<Rightarrow> key_param" where "KP_AttestationChallenge \<equiv> KP_Bytes Bytes_AttestationChallenge"
abbreviation KP_AttestationApplicationId :: "bytes \<Rightarrow> key_param" where "KP_AttestationApplicationId \<equiv> KP_Bytes Bytes_AttestationApplicationId"
abbreviation KP_AttestationIdBrand :: "bytes \<Rightarrow> key_param" where "KP_AttestationIdBrand \<equiv> KP_Bytes Bytes_AttestationIdBrand"
abbreviation KP_AttestationIdDevice :: "bytes \<Rightarrow> key_param" where "KP_AttestationIdDevice \<equiv> KP_Bytes Bytes_AttestationIdDevice"
abbreviation KP_AttestationIdProduct :: "bytes \<Rightarrow> key_param" where "KP_AttestationIdProduct \<equiv> KP_Bytes Bytes_AttestationIdProduct"
abbreviation KP_AttestationIdSerial :: "bytes \<Rightarrow> key_param" where "KP_AttestationIdSerial \<equiv> KP_Bytes Bytes_AttestationIdSerial"
abbreviation KP_AttestationIdImei :: "bytes \<Rightarrow> key_param" where "KP_AttestationIdImei \<equiv> KP_Bytes Bytes_AttestationIdImei"
abbreviation KP_AttestationIdSecondImei :: "bytes \<Rightarrow> key_param" where "KP_AttestationIdSecondImei \<equiv> KP_Bytes Bytes_AttestationIdSecondImei"
abbreviation KP_AttestationIdMeid :: "bytes \<Rightarrow> key_param" where "KP_AttestationIdMeid \<equiv> KP_Bytes Bytes_AttestationIdMeid"
abbreviation KP_AttestationIdManufacturer :: "bytes \<Rightarrow> key_param" where "KP_AttestationIdManufacturer \<equiv> KP_Bytes Bytes_AttestationIdManufacturer"
abbreviation KP_AttestationIdModel :: "bytes \<Rightarrow> key_param" where "KP_AttestationIdModel \<equiv> KP_Bytes Bytes_AttestationIdModel"
abbreviation KP_VendorPatchlevel :: "u32 \<Rightarrow> key_param" where "KP_VendorPatchlevel \<equiv> KP_U32 U32_VendorPatchlevel"
abbreviation KP_BootPatchlevel :: "u32 \<Rightarrow> key_param" where "KP_BootPatchlevel \<equiv> KP_U32 U32_BootPatchlevel"
abbreviation KP_DeviceUniqueAttestation :: "key_param" where "KP_DeviceUniqueAttestation \<equiv> KP_Bool Bool_DeviceUniqueAttestation"
abbreviation KP_StorageKey :: "key_param" where "KP_StorageKey \<equiv> KP_Bool Bool_StorageKey"
abbreviation KP_Nonce :: "bytes \<Rightarrow> key_param" where "KP_Nonce \<equiv> KP_Bytes Bytes_Nonce"
abbreviation KP_MacLength :: "u32 \<Rightarrow> key_param" where "KP_MacLength \<equiv> KP_U32 U32_MacLength"
abbreviation KP_ResetSinceIdRotation :: "key_param" where "KP_ResetSinceIdRotation \<equiv> KP_Bool Bool_ResetSinceIdRotation"
abbreviation KP_CertificateSerial :: "bytes \<Rightarrow> key_param" where "KP_CertificateSerial \<equiv> KP_Bytes Bytes_CertificateSerial"
abbreviation KP_CertificateSubject :: "bytes \<Rightarrow> key_param" where "KP_CertificateSubject \<equiv> KP_Bytes Bytes_CertificateSubject"
abbreviation KP_CertificateNotBefore :: "i64 \<Rightarrow> key_param" where "KP_CertificateNotBefore \<equiv> KP_Date Date_CertificateNotBefore"
abbreviation KP_CertificateNotAfter :: "i64 \<Rightarrow> key_param" where "KP_CertificateNotAfter \<equiv> KP_Date Date_CertificateNotAfter"
abbreviation KP_MaxBootLevel :: "u32 \<Rightarrow> key_param" where "KP_MaxBootLevel \<equiv> KP_U32 U32_MaxBootLevel"
abbreviation KP_ModuleHash :: "bytes \<Rightarrow> key_param" where "KP_ModuleHash \<equiv> KP_Bytes Bytes_ModuleHash"

primrec key_param_tag :: "key_param \<Rightarrow> tag" where
  "key_param_tag (KP_Purpose _) = Tag_Purpose"
| "key_param_tag (KP_Algorithm _) = Tag_Algorithm"
| "key_param_tag (KP_BlockMode _) = Tag_BlockMode"
| "key_param_tag (KP_Digest _) = Tag_Digest"
| "key_param_tag (KP_Padding _) = Tag_Padding"
| "key_param_tag (KP_EcCurve _) = Tag_EcCurve"
| "key_param_tag (KP_RsaOaepMgfDigest _) = Tag_RsaOaepMgfDigest"
| "key_param_tag (KP_Origin _) = Tag_Origin"
| "key_param_tag (KP_U32 t _) = Tag_U32 t"
| "key_param_tag (KP_U64 t _) = Tag_U64 t"
| "key_param_tag (KP_Bool t) = Tag_Bool t"
| "key_param_tag (KP_Date t _) = Tag_Date t"
| "key_param_tag (KP_Bytes t _) = Tag_Bytes t"

section \<open>Tag numbering\<close>

text \<open>The cast \<open>tag as u32\<close> and the split into type nibble and raw value.\<close>

definition tag_u32 :: "tag \<Rightarrow> u32" where
  "tag_u32 t = word_of_int (tag_i32 t)"

definition tag_type_of :: "tag \<Rightarrow> tag_type" where
  "tag_type_of t = (let x = sint (and (tag_u32 t) 0xf0000000) in
     if x = tag_type_i32 TagType_Enum then TagType_Enum
     else if x = tag_type_i32 TagType_EnumRep then TagType_EnumRep
     else if x = tag_type_i32 TagType_Uint then TagType_Uint
     else if x = tag_type_i32 TagType_UintRep then TagType_UintRep
     else if x = tag_type_i32 TagType_Ulong then TagType_Ulong
     else if x = tag_type_i32 TagType_Date then TagType_Date
     else if x = tag_type_i32 TagType_Bool then TagType_Bool
     else if x = tag_type_i32 TagType_Bignum then TagType_Bignum
     else if x = tag_type_i32 TagType_Bytes then TagType_Bytes
     else if x = tag_type_i32 TagType_UlongRep then TagType_UlongRep
     else TagType_Invalid)"

definition raw_tag_value :: "tag \<Rightarrow> u32" where
  "raw_tag_value t = and (tag_u32 t) 0x0fffffff"

section \<open>Interpretations\<close>

interpretation verified_boot_state_enum: rust_enum verified_boot_state_i32 verified_boot_state_variants
proof
  show "set verified_boot_state_variants = UNIV"
  proof (intro equalityI subsetI)
    fix x :: verified_boot_state
    show "x \<in> set verified_boot_state_variants"
      by (cases x) (simp_all add: verified_boot_state_variants_def)
  qed simp
  show "distinct (map verified_boot_state_i32 verified_boot_state_variants)"
    by (simp add: verified_boot_state_variants_def)
  show "i32_range (verified_boot_state_i32 x)" for x
    by (cases x) (simp_all add: i32_range_def)
qed

interpretation algorithm_enum: rust_enum algorithm_i32 algorithm_variants
proof
  show "set algorithm_variants = UNIV"
  proof (intro equalityI subsetI)
    fix x :: algorithm
    show "x \<in> set algorithm_variants"
      by (cases x) (simp_all add: algorithm_variants_def)
  qed simp
  show "distinct (map algorithm_i32 algorithm_variants)"
    by (simp add: algorithm_variants_def)
  show "i32_range (algorithm_i32 x)" for x
    by (cases x) (simp_all add: i32_range_def)
qed

interpretation block_mode_enum: rust_enum block_mode_i32 block_mode_variants
proof
  show "set block_mode_variants = UNIV"
  proof (intro equalityI subsetI)
    fix x :: block_mode
    show "x \<in> set block_mode_variants"
      by (cases x) (simp_all add: block_mode_variants_def)
  qed simp
  show "distinct (map block_mode_i32 block_mode_variants)"
    by (simp add: block_mode_variants_def)
  show "i32_range (block_mode_i32 x)" for x
    by (cases x) (simp_all add: i32_range_def)
qed

interpretation digest_enum: rust_enum digest_i32 digest_variants
proof
  show "set digest_variants = UNIV"
  proof (intro equalityI subsetI)
    fix x :: digest
    show "x \<in> set digest_variants"
      by (cases x) (simp_all add: digest_variants_def)
  qed simp
  show "distinct (map digest_i32 digest_variants)"
    by (simp add: digest_variants_def)
  show "i32_range (digest_i32 x)" for x
    by (cases x) (simp_all add: i32_range_def)
qed

interpretation ec_curve_enum: rust_enum ec_curve_i32 ec_curve_variants
proof
  show "set ec_curve_variants = UNIV"
  proof (intro equalityI subsetI)
    fix x :: ec_curve
    show "x \<in> set ec_curve_variants"
      by (cases x) (simp_all add: ec_curve_variants_def)
  qed simp
  show "distinct (map ec_curve_i32 ec_curve_variants)"
    by (simp add: ec_curve_variants_def)
  show "i32_range (ec_curve_i32 x)" for x
    by (cases x) (simp_all add: i32_range_def)
qed

interpretation hw_auth_type_enum: rust_enum hw_auth_type_i32 hw_auth_type_variants
proof
  show "set hw_auth_type_variants = UNIV"
  proof (intro equalityI subsetI)
    fix x :: hw_auth_type
    show "x \<in> set hw_auth_type_variants"
      by (cases x) (simp_all add: hw_auth_type_variants_def)
  qed simp
  show "distinct (map hw_auth_type_i32 hw_auth_type_variants)"
    by (simp add: hw_auth_type_variants_def)
  show "i32_range (hw_auth_type_i32 x)" for x
    by (cases x) (simp_all add: i32_range_def)
qed

interpretation key_format_enum: rust_enum key_format_i32 key_format_variants
proof
  show "set key_format_variants = UNIV"
  proof (intro equalityI subsetI)
    fix x :: key_format
    show "x \<in> set key_format_variants"
      by (cases x) (simp_all add: key_format_variants_def)
  qed simp
  show "distinct (map key_format_i32 key_format_variants)"
    by (simp add: key_format_variants_def)
  show "i32_range (key_format_i32 x)" for x
    by (cases x) (simp_all add: i32_range_def)
qed

interpretation key_origin_enum: rust_enum key_origin_i32 key_origin_variants
proof
  show "set key_origin_variants = UNIV"
  proof (intro equalityI subsetI)
    fix x :: key_origin
    show "x \<in> set key_origin_variants"
      by (cases x) (simp_all add: key_origin_variants_def)
  qed simp
  show "distinct (map key_origin_i32 key_origin_variants)"
    by (simp add: key_origin_variants_def)
  show "i32_range (key_origin_i32 x)" for x
    by (cases x) (simp_all add: i32_range_def)
qed

interpretation key_purpose_enum: rust_enum key_purpose_i32 key_purpose_variants
proof
  show "set key_purpose_variants = UNIV"
  proof (intro equalityI subsetI)
    fix x :: key_purpose
    show "x \<in> set key_purpose_variants"
      by (cases x) (simp_all add: key_purpose_variants_def)
  qed simp
  show "distinct (map key_purpose_i32 key_purpose_variants)"
    by (simp add: key_purpose_variants_def)
  show "i32_range (key_purpose_i32 x)" for x
    by (cases x) (simp_all add: i32_range_def)
qed

interpretation padding_mode_enum: rust_enum padding_mode_i32 padding_mode_variants
proof
  show "set padding_mode_variants = UNIV"
  proof (intro equalityI subsetI)
    fix x :: padding_mode
    show "x \<in> set padding_mode_variants"
      by (cases x) (simp_all add: padding_mode_variants_def)
  qed simp
  show "distinct (map padding_mode_i32 padding_mode_variants)"
    by (simp add: padding_mode_variants_def)
  show "i32_range (padding_mode_i32 x)" for x
    by (cases x) (simp_all add: i32_range_def)
qed

interpretation security_level_enum: rust_enum security_level_i32 security_level_variants
proof
  show "set security_level_variants = UNIV"
  proof (intro equalityI subsetI)
    fix x :: security_level
    show "x \<in> set security_level_variants"
      by (cases x) (simp_all add: security_level_variants_def)
  qed simp
  show "distinct (map security_level_i32 security_level_variants)"
    by (simp add: security_level_variants_def)
  show "i32_range (security_level_i32 x)" for x
    by (cases x) (simp_all add: i32_range_def)
qed

interpretation tag_type_enum: rust_enum tag_type_i32 tag_type_variants
proof
  show "set tag_type_variants = UNIV"
  proof (intro equalityI subsetI)
    fix x :: tag_type
    show "x \<in> set tag_type_variants"
      by (cases x) (simp_all add: tag_type_variants_def)
  qed simp
  show "distinct (map tag_type_i32 tag_type_variants)"
    by (simp add: tag_type_variants_def)
  show "i32_range (tag_type_i32 x)" for x
    by (cases x) (simp_all add: i32_range_def)
qed

interpretation tag_enum: rust_enum tag_i32 tag_variants
proof
  show "set tag_variants = UNIV"
  proof (intro equalityI subsetI)
    fix x :: tag
    show "x \<in> set tag_variants"
    proof (cases x)
      case (Tag_Enum t)
      then show ?thesis by (cases t) (simp_all add: tag_variants_def)
    next
      case (Tag_U32 t)
      then show ?thesis by (cases t) (simp_all add: tag_variants_def)
    next
      case (Tag_U64 t)
      then show ?thesis by (cases t) (simp_all add: tag_variants_def)
    next
      case (Tag_Bool t)
      then show ?thesis by (cases t) (simp_all add: tag_variants_def)
    next
      case (Tag_Date t)
      then show ?thesis by (cases t) (simp_all add: tag_variants_def)
    next
      case (Tag_Bytes t)
      then show ?thesis by (cases t) (simp_all add: tag_variants_def)
    next
      case (Tag_Other t)
      then show ?thesis by (cases t) (simp_all add: tag_variants_def)
    qed
  qed simp
  show "distinct (map tag_i32 tag_variants)"
    by (simp add: tag_variants_def)
  show "i32_range (tag_i32 x)" for x
  proof (cases x)
    case (Tag_Enum t)
    then show ?thesis by (cases t) (simp_all add: i32_range_def)
  next
    case (Tag_U32 t)
    then show ?thesis by (cases t) (simp_all add: i32_range_def)
  next
    case (Tag_U64 t)
    then show ?thesis by (cases t) (simp_all add: i32_range_def)
  next
    case (Tag_Bool t)
    then show ?thesis by (cases t) (simp_all add: i32_range_def)
  next
    case (Tag_Date t)
    then show ?thesis by (cases t) (simp_all add: i32_range_def)
  next
    case (Tag_Bytes t)
    then show ?thesis by (cases t) (simp_all add: i32_range_def)
  next
    case (Tag_Other t)
    then show ?thesis by (cases t) (simp_all add: i32_range_def)
  qed
qed

text \<open>\<open>derive(PartialOrd, Ord)\<close> compares fieldless variants by discriminant.\<close>

instantiation algorithm :: linorder
begin

definition less_eq_algorithm :: "algorithm \<Rightarrow> algorithm \<Rightarrow> bool" where
  "less_eq_algorithm x y \<longleftrightarrow> algorithm_i32 x \<le> algorithm_i32 y"

definition less_algorithm :: "algorithm \<Rightarrow> algorithm \<Rightarrow> bool" where
  "less_algorithm x y \<longleftrightarrow> algorithm_i32 x < algorithm_i32 y"

instance
  by standard (auto simp: less_eq_algorithm_def less_algorithm_def algorithm_enum.as_i32_inj [symmetric])

end

instantiation block_mode :: linorder
begin

definition less_eq_block_mode :: "block_mode \<Rightarrow> block_mode \<Rightarrow> bool" where
  "less_eq_block_mode x y \<longleftrightarrow> block_mode_i32 x \<le> block_mode_i32 y"

definition less_block_mode :: "block_mode \<Rightarrow> block_mode \<Rightarrow> bool" where
  "less_block_mode x y \<longleftrightarrow> block_mode_i32 x < block_mode_i32 y"

instance
  by standard (auto simp: less_eq_block_mode_def less_block_mode_def block_mode_enum.as_i32_inj [symmetric])

end

instantiation digest :: linorder
begin

definition less_eq_digest :: "digest \<Rightarrow> digest \<Rightarrow> bool" where
  "less_eq_digest x y \<longleftrightarrow> digest_i32 x \<le> digest_i32 y"

definition less_digest :: "digest \<Rightarrow> digest \<Rightarrow> bool" where
  "less_digest x y \<longleftrightarrow> digest_i32 x < digest_i32 y"

instance
  by standard (auto simp: less_eq_digest_def less_digest_def digest_enum.as_i32_inj [symmetric])

end

instantiation ec_curve :: linorder
begin

definition less_eq_ec_curve :: "ec_curve \<Rightarrow> ec_curve \<Rightarrow> bool" where
  "less_eq_ec_curve x y \<longleftrightarrow> ec_curve_i32 x \<le> ec_curve_i32 y"

definition less_ec_curve :: "ec_curve \<Rightarrow> ec_curve \<Rightarrow> bool" where
  "less_ec_curve x y \<longleftrightarrow> ec_curve_i32 x < ec_curve_i32 y"

instance
  by standard (auto simp: less_eq_ec_curve_def less_ec_curve_def ec_curve_enum.as_i32_inj [symmetric])

end

instantiation key_origin :: linorder
begin

definition less_eq_key_origin :: "key_origin \<Rightarrow> key_origin \<Rightarrow> bool" where
  "less_eq_key_origin x y \<longleftrightarrow> key_origin_i32 x \<le> key_origin_i32 y"

definition less_key_origin :: "key_origin \<Rightarrow> key_origin \<Rightarrow> bool" where
  "less_key_origin x y \<longleftrightarrow> key_origin_i32 x < key_origin_i32 y"

instance
  by standard (auto simp: less_eq_key_origin_def less_key_origin_def key_origin_enum.as_i32_inj [symmetric])

end

instantiation key_purpose :: linorder
begin

definition less_eq_key_purpose :: "key_purpose \<Rightarrow> key_purpose \<Rightarrow> bool" where
  "less_eq_key_purpose x y \<longleftrightarrow> key_purpose_i32 x \<le> key_purpose_i32 y"

definition less_key_purpose :: "key_purpose \<Rightarrow> key_purpose \<Rightarrow> bool" where
  "less_key_purpose x y \<longleftrightarrow> key_purpose_i32 x < key_purpose_i32 y"

instance
  by standard (auto simp: less_eq_key_purpose_def less_key_purpose_def key_purpose_enum.as_i32_inj [symmetric])

end

instantiation padding_mode :: linorder
begin

definition less_eq_padding_mode :: "padding_mode \<Rightarrow> padding_mode \<Rightarrow> bool" where
  "less_eq_padding_mode x y \<longleftrightarrow> padding_mode_i32 x \<le> padding_mode_i32 y"

definition less_padding_mode :: "padding_mode \<Rightarrow> padding_mode \<Rightarrow> bool" where
  "less_padding_mode x y \<longleftrightarrow> padding_mode_i32 x < padding_mode_i32 y"

instance
  by standard (auto simp: less_eq_padding_mode_def less_padding_mode_def padding_mode_enum.as_i32_inj [symmetric])

end

instantiation security_level :: linorder
begin

definition less_eq_security_level :: "security_level \<Rightarrow> security_level \<Rightarrow> bool" where
  "less_eq_security_level x y \<longleftrightarrow> security_level_i32 x \<le> security_level_i32 y"

definition less_security_level :: "security_level \<Rightarrow> security_level \<Rightarrow> bool" where
  "less_security_level x y \<longleftrightarrow> security_level_i32 x < security_level_i32 y"

instance
  by standard (auto simp: less_eq_security_level_def less_security_level_def security_level_enum.as_i32_inj [symmetric])

end

instantiation tag :: linorder
begin

definition less_eq_tag :: "tag \<Rightarrow> tag \<Rightarrow> bool" where
  "less_eq_tag x y \<longleftrightarrow> tag_i32 x \<le> tag_i32 y"

definition less_tag :: "tag \<Rightarrow> tag \<Rightarrow> bool" where
  "less_tag x y \<longleftrightarrow> tag_i32 x < tag_i32 y"

instance
  by standard (auto simp: less_eq_tag_def less_tag_def tag_enum.as_i32_inj [symmetric])

end

text \<open>Two parameters with the same tag are built by the same constructor of the same group.\<close>

lemma key_param_tag_simps:
  "key_param_tag p = Tag_U32 t \<longleftrightarrow> (\<exists>v. p = KP_U32 t v)"
  "key_param_tag p = Tag_U64 u \<longleftrightarrow> (\<exists>v. p = KP_U64 u v)"
  "key_param_tag p = Tag_Bool b \<longleftrightarrow> p = KP_Bool b"
  "key_param_tag p = Tag_Date d \<longleftrightarrow> (\<exists>v. p = KP_Date d v)"
  "key_param_tag p = Tag_Bytes y \<longleftrightarrow> (\<exists>v. p = KP_Bytes y v)"
  "key_param_tag p = Tag_Other z \<longleftrightarrow> False"
  by (cases p; auto)+

lemma error_code_variants_distinct: "distinct (map error_code_i32 error_code_variants)"
  by (simp add: error_code_variants_def)

end
