(* ===== verification/Cbor.thy ===== *)
theory Cbor
  imports Keymint_Types
begin

text \<open>
  Conversion to and from CBOR values (\<open>wire/src/lib.rs\<close>, and what \<open>derive(AsCborValue)\<close> of
  \<open>derive/src/lib.rs\<close> generates).  The value type and the byte-level reader and writer belong to the
  crate \<open>ciborium\<close>: values are the datatype below, with the variants of its \<open>Value\<close>, and the reader
  and writer are a record of functions.

  A type with \<open>AsCborValue\<close> is a pair of functions \<open>_to_cbor\<close> and \<open>_from_cbor\<close>; as allocation never
  fails in the model, conversion to a value is total.  Locale \<open>cbor_codec\<close> holds the contract of such
  a pair and is interpreted for every type that the theory defines.
\<close>

datatype cbor =
    Cbor_Integer int | Cbor_Bytes bytes | Cbor_Float u64 | Cbor_Text string | Cbor_Bool bool | Cbor_Null
  | Cbor_Tag u64 cbor | Cbor_Array "cbor list" | Cbor_Map "(cbor \<times> cbor) list"

type_synonym 'a cb = "('a, cbor_error) res"

fun cbor_type_name :: "cbor \<Rightarrow> string" where
  "cbor_type_name (Cbor_Integer _) = ''int''"
| "cbor_type_name (Cbor_Bytes _) = ''bstr''"
| "cbor_type_name (Cbor_Text _) = ''tstr''"
| "cbor_type_name (Cbor_Array _) = ''array''"
| "cbor_type_name (Cbor_Map _) = ''map''"
| "cbor_type_name (Cbor_Tag _ _) = ''tag''"
| "cbor_type_name (Cbor_Float _) = ''float''"
| "cbor_type_name (Cbor_Bool _) = ''bool''"
| "cbor_type_name Cbor_Null = ''null''"

definition cbor_type_error :: "cbor \<Rightarrow> string \<Rightarrow> 'a cb" where
  "cbor_type_error v want = Err (UnexpectedItem (cbor_type_name v) want)"

section \<open>Primitive types\<close>

definition int_from_cbor :: "(int \<Rightarrow> 'a option) \<Rightarrow> string \<Rightarrow> cbor \<Rightarrow> 'a cb" where
  "int_from_cbor conv want v = (case v of
     Cbor_Integer i \<Rightarrow> ok_or (conv i) OutOfRangeIntegerValue
   | v \<Rightarrow> cbor_type_error v want)"

definition u64_to_cbor :: "u64 \<Rightarrow> cbor" where
  "u64_to_cbor w = Cbor_Integer (uint w)"

definition u64_from_cbor :: "cbor \<Rightarrow> u64 cb" where
  "u64_from_cbor = int_from_cbor (\<lambda>i. if 0 \<le> i \<and> i < 2 ^ 64 then Some (word_of_int i) else None) ''u64''"

definition i64_to_cbor :: "i64 \<Rightarrow> cbor" where
  "i64_to_cbor w = Cbor_Integer (sint w)"

definition i64_from_cbor :: "cbor \<Rightarrow> i64 cb" where
  "i64_from_cbor = int_from_cbor (\<lambda>i. if - (2 ^ 63) \<le> i \<and> i < 2 ^ 63 then Some (word_of_int i) else None) ''i64''"

definition u32_to_cbor :: "u32 \<Rightarrow> cbor" where
  "u32_to_cbor w = Cbor_Integer (uint w)"

definition u32_from_cbor :: "cbor \<Rightarrow> u32 cb" where
  "u32_from_cbor = int_from_cbor (\<lambda>i. if 0 \<le> i \<and> i < 2 ^ 32 then Some (word_of_int i) else None) ''u32''"

definition i32_to_cbor :: "int \<Rightarrow> cbor" where
  "i32_to_cbor i = Cbor_Integer i"

definition i32_from_cbor :: "cbor \<Rightarrow> int cb" where
  "i32_from_cbor = int_from_cbor (\<lambda>i. if i32_range i then Some i else None) ''i64''"

definition bool_to_cbor :: "bool \<Rightarrow> cbor" where
  "bool_to_cbor b = Cbor_Bool b"

definition bool_from_cbor :: "cbor \<Rightarrow> bool cb" where
  "bool_from_cbor v = (case v of Cbor_Bool b \<Rightarrow> Ok b | v \<Rightarrow> cbor_type_error v ''bool'')"

definition unit_to_cbor :: "unit \<Rightarrow> cbor" where
  "unit_to_cbor u = Cbor_Null"

definition unit_from_cbor :: "cbor \<Rightarrow> unit cb" where
  "unit_from_cbor v = (case v of Cbor_Null \<Rightarrow> Ok () | v \<Rightarrow> cbor_type_error v ''null'')"

definition bytes_to_cbor :: "bytes \<Rightarrow> cbor" where
  "bytes_to_cbor b = Cbor_Bytes b"

definition bytes_from_cbor :: "cbor \<Rightarrow> bytes cb" where
  "bytes_from_cbor v = (case v of Cbor_Bytes b \<Rightarrow> Ok b | v \<Rightarrow> cbor_type_error v ''bstr'')"

definition array_from_cbor :: "nat \<Rightarrow> cbor \<Rightarrow> bytes cb" where
  "array_from_cbor n v = (case v of
     Cbor_Bytes b \<Rightarrow> if length b = n then Ok b else Err (UnexpectedItem ''bstr other size'' ''bstr specific size'')
   | v \<Rightarrow> cbor_type_error v ''bstr'')"

definition string_to_cbor :: "string \<Rightarrow> cbor" where
  "string_to_cbor s = Cbor_Text s"

definition string_from_cbor :: "cbor \<Rightarrow> string cb" where
  "string_from_cbor v = (case v of Cbor_Text s \<Rightarrow> Ok s | v \<Rightarrow> cbor_type_error v ''tstr'')"

text \<open>Generated code for a fieldless enum.\<close>

definition enum_to_cbor :: "('a \<Rightarrow> int) \<Rightarrow> 'a \<Rightarrow> cbor" where
  "enum_to_cbor as_i32 x = Cbor_Integer (as_i32 x)"

definition enum_from_cbor :: "('a \<Rightarrow> int) \<Rightarrow> 'a list \<Rightarrow> cbor \<Rightarrow> 'a cb" where
  "enum_from_cbor as_i32 variants v = (case v of
     Cbor_Integer i \<Rightarrow> if i32_range i then ok_or (enum_n as_i32 variants i) OutOfRangeIntegerValue
                      else Err OutOfRangeIntegerValue
   | v \<Rightarrow> cbor_type_error v ''int'')"

section \<open>Containers and structures\<close>

definition option_to_cbor :: "('a \<Rightarrow> cbor) \<Rightarrow> 'a option \<Rightarrow> cbor" where
  "option_to_cbor to x = (case x of Some t \<Rightarrow> Cbor_Array [to t] | None \<Rightarrow> Cbor_Array [])"

definition option_from_cbor :: "(cbor \<Rightarrow> 'a cb) \<Rightarrow> cbor \<Rightarrow> 'a option cb" where
  "option_from_cbor from v = (case v of
     Cbor_Array arr \<Rightarrow> (case arr of
         [] \<Rightarrow> Ok None
       | [x] \<Rightarrow> and_then (from x) (\<lambda>t. Ok (Some t))
       | _ \<Rightarrow> Err (UnexpectedItem ''arr len >1'' ''arr len 0/1''))
   | _ \<Rightarrow> Err (UnexpectedItem ''non-arr'' ''arr''))"

definition vec_to_cbor :: "('a \<Rightarrow> cbor) \<Rightarrow> 'a list \<Rightarrow> cbor" where
  "vec_to_cbor to xs = Cbor_Array (map to xs)"

definition vec_from_cbor :: "(cbor \<Rightarrow> 'a cb) \<Rightarrow> cbor \<Rightarrow> 'a list cb" where
  "vec_from_cbor from v = (case v of Cbor_Array arr \<Rightarrow> traverse from arr | v \<Rightarrow> cbor_type_error v ''arr'')"

text \<open>
  Generated code for a structure with \<open>n\<close> fields: the array is checked for its length, then the
  fields are decoded from the last to the first (the functions below take the decoders in that order).
\<close>

definition struct_fields :: "nat \<Rightarrow> string \<Rightarrow> cbor \<Rightarrow> cbor list cb" where
  "struct_fields n want v = (case v of
     Cbor_Array a \<Rightarrow> if length a \<noteq> n then Err (UnexpectedItem ''arr'' want) else Ok a
   | v \<Rightarrow> cbor_type_error v ''arr'')"

definition struct2_from_cbor :: "(cbor \<Rightarrow> 'a cb) \<Rightarrow> (cbor \<Rightarrow> 'b cb) \<Rightarrow> cbor \<Rightarrow> ('a \<times> 'b) cb" where
  "struct2_from_cbor fa fb v = and_then (struct_fields 2 ''arr len 2'' v) (\<lambda>a.
     and_then (fb (a ! 1)) (\<lambda>y. and_then (fa (a ! 0)) (\<lambda>x. Ok (x, y))))"

definition struct3_from_cbor ::
  "(cbor \<Rightarrow> 'a cb) \<Rightarrow> (cbor \<Rightarrow> 'b cb) \<Rightarrow> (cbor \<Rightarrow> 'c cb) \<Rightarrow> cbor \<Rightarrow> ('a \<times> 'b \<times> 'c) cb" where
  "struct3_from_cbor fa fb fc v = and_then (struct_fields 3 ''arr len 3'' v) (\<lambda>a.
     and_then (fc (a ! 2)) (\<lambda>z. and_then (fb (a ! 1)) (\<lambda>y. and_then (fa (a ! 0)) (\<lambda>x. Ok (x, y, z)))))"

definition struct5_from_cbor ::
  "(cbor \<Rightarrow> 'a cb) \<Rightarrow> (cbor \<Rightarrow> 'b cb) \<Rightarrow> (cbor \<Rightarrow> 'c cb) \<Rightarrow> (cbor \<Rightarrow> 'd cb) \<Rightarrow> (cbor \<Rightarrow> 'e cb) \<Rightarrow>
    cbor \<Rightarrow> ('a \<times> 'b \<times> 'c \<times> 'd \<times> 'e) cb" where
  "struct5_from_cbor fa fb fc fd fe v = and_then (struct_fields 5 ''arr len 5'' v) (\<lambda>a.
     and_then (fe (a ! 4)) (\<lambda>e. and_then (fd (a ! 3)) (\<lambda>d. and_then (fc (a ! 2)) (\<lambda>c.
     and_then (fb (a ! 1)) (\<lambda>b. and_then (fa (a ! 0)) (\<lambda>x. Ok (x, b, c, d, e)))))))"

text \<open>The same for any number of fields: decoders are chained with \<open>field\<close>.\<close>

definition field_end :: "cbor list \<Rightarrow> unit cb" where
  "field_end a = Ok ()"

definition field :: "(cbor \<Rightarrow> 'a cb) \<Rightarrow> (cbor list \<Rightarrow> 'b cb) \<Rightarrow> cbor list \<Rightarrow> ('a \<times> 'b) cb" where
  "field fa fb a = and_then (fb (tl a)) (\<lambda>y. and_then (fa (hd a)) (\<lambda>x. Ok (x, y)))"

definition struct_from_cbor :: "nat \<Rightarrow> string \<Rightarrow> (cbor list \<Rightarrow> 'a cb) \<Rightarrow> cbor \<Rightarrow> 'a cb" where
  "struct_from_cbor n want f v = and_then (struct_fields n want v) f"

lemmas struct_defs = struct_from_cbor_def struct_fields_def field_def field_end_def

section \<open>Bytes\<close>

text \<open>The writer and the reader of the library; the reader also gives the unread rest.\<close>

record cbor_lib =
  cl_write :: "cbor \<Rightarrow> bytes option"
  cl_read :: "bytes \<Rightarrow> (cbor \<times> bytes) option"

definition read_to_value :: "cbor_lib \<Rightarrow> bytes \<Rightarrow> cbor cb" where
  "read_to_value lib bs = (case cl_read lib bs of
     None \<Rightarrow> Err DecodeFailed
   | Some (v, rest) \<Rightarrow> if rest = [] then Ok v else Err ExtraneousData)"

definition from_slice :: "cbor_lib \<Rightarrow> (cbor \<Rightarrow> 'a cb) \<Rightarrow> bytes \<Rightarrow> 'a cb" where
  "from_slice lib from bs = and_then (read_to_value lib bs) from"

definition into_vec :: "cbor_lib \<Rightarrow> ('a \<Rightarrow> cbor) \<Rightarrow> 'a \<Rightarrow> bytes cb" where
  "into_vec lib to x = ok_or (cl_write lib (to x)) EncodeFailed"

text \<open>
  Values that fit CBOR's integers, with at most \<open>d\<close> levels of nesting (the reader is called with a
  recursion limit of 16; the values of this development need at most 12).
\<close>

fun cbor_fits :: "nat \<Rightarrow> cbor \<Rightarrow> bool" where
  "cbor_fits d (Cbor_Integer i) \<longleftrightarrow> - (2 ^ 64) \<le> i \<and> i < 2 ^ 64"
| "cbor_fits d (Cbor_Bytes b) \<longleftrightarrow> length b < 2 ^ 64"
| "cbor_fits d (Cbor_Float _) \<longleftrightarrow> True"
| "cbor_fits d (Cbor_Text s) \<longleftrightarrow> length s < 2 ^ 64"
| "cbor_fits d (Cbor_Bool _) \<longleftrightarrow> True"
| "cbor_fits d Cbor_Null \<longleftrightarrow> True"
| "cbor_fits d (Cbor_Tag _ v) \<longleftrightarrow> 0 < d \<and> cbor_fits (d - 1) v"
| "cbor_fits d (Cbor_Array vs) \<longleftrightarrow> 0 < d \<and> length vs < 2 ^ 64 \<and> list_all (cbor_fits (d - 1)) vs"
| "cbor_fits d (Cbor_Map kvs) \<longleftrightarrow> 0 < d \<and> length kvs < 2 ^ 64 \<and>
     list_all (\<lambda>(k, v). cbor_fits (d - 1) k \<and> cbor_fits (d - 1) v) kvs"

lemma cbor_fits_mono: "cbor_fits d v \<Longrightarrow> d \<le> d' \<Longrightarrow> cbor_fits d' v"
proof (induction d v arbitrary: d' rule: cbor_fits.induct)
  case (8 d vs)
  have "d - 1 \<le> d' - 1"
    using "8.prems"(2) by simp
  then have "cbor_fits (d - 1) v \<Longrightarrow> v \<in> set vs \<Longrightarrow> cbor_fits (d' - 1) v" for v
    using "8.IH" by blast
  then show ?case
    using "8.prems" by (auto simp: list_all_iff)
next
  case (9 d kvs)
  have "d - 1 \<le> d' - 1"
    using "9.prems"(2) by simp
  then have "(k, v) \<in> set kvs \<Longrightarrow> (cbor_fits (d - 1) k \<longrightarrow> cbor_fits (d' - 1) k) \<and>
      (cbor_fits (d - 1) v \<longrightarrow> cbor_fits (d' - 1) v)" for k v
    using "9.IH" by blast
  then show ?case
    using "9.prems" by (fastforce simp: list_all_iff)
qed auto

definition cbor_lib_works :: "cbor_lib \<Rightarrow> bool" where
  "cbor_lib_works lib \<longleftrightarrow> (\<forall>v. cbor_fits 12 v \<longrightarrow>
     (\<exists>b. cl_write lib v = Some b \<and> (\<forall>rest. cl_read lib (b @ rest) = Some (v, rest))))"

section \<open>Codecs\<close>

locale cbor_codec =
  fixes to_cbor :: "'a \<Rightarrow> cbor" and from_cbor :: "cbor \<Rightarrow> 'a cb" and valid :: "'a \<Rightarrow> bool" and depth :: nat
  assumes round_trip: "valid x \<Longrightarrow> from_cbor (to_cbor x) = Ok x"
    and fits: "valid x \<Longrightarrow> cbor_fits depth (to_cbor x)"
begin

lemma to_cbor_inj: "valid x \<Longrightarrow> valid y \<Longrightarrow> to_cbor x = to_cbor y \<longleftrightarrow> x = y"
  using round_trip by (metis res.inject(1))

lemma fits_in: "valid x \<Longrightarrow> depth \<le> d \<Longrightarrow> cbor_fits d (to_cbor x)"
  using fits cbor_fits_mono by blast

text \<open>Through bytes: what is written is read back, and encodings are self-delimiting.\<close>

lemma bytes_round_trip:
  assumes "cbor_lib_works lib" "valid x" "depth \<le> 12"
  obtains b where "into_vec lib to_cbor x = Ok b" "from_slice lib from_cbor b = Ok x"
    "\<And>rest. cl_read lib (b @ rest) = Some (to_cbor x, rest)"
proof -
  have "cbor_fits 12 (to_cbor x)"
    using fits_in [OF assms(2,3)] .
  then obtain b where b: "cl_write lib (to_cbor x) = Some b"
    "\<And>rest. cl_read lib (b @ rest) = Some (to_cbor x, rest)"
    using assms(1) unfolding cbor_lib_works_def by blast
  have "from_slice lib from_cbor b = Ok x"
    using b(2) [of "[]"] round_trip [OF assms(2)] by (simp add: from_slice_def read_to_value_def)
  then show thesis
    using that b by (simp add: into_vec_def)
qed

lemma prefix_free:
  assumes "cbor_lib_works lib" "valid x" "valid y" "depth \<le> 12"
    "into_vec lib to_cbor x = Ok b" "into_vec lib to_cbor y = Ok c" "b @ s = c @ t"
  shows "x = y \<and> s = t"
proof -
  have "cl_read lib (b @ s) = Some (to_cbor x, s)" "cl_read lib (c @ t) = Some (to_cbor y, t)"
    using assms bytes_round_trip [OF assms(1,2,4)] bytes_round_trip [OF assms(1,3,4)]
    by (metis res.inject(1))+
  then show ?thesis
    using assms to_cbor_inj by (metis option.inject prod.inject)
qed

end

text \<open>Closure under the containers.\<close>

lemma cbor_codec_vec:
  "cbor_codec to from valid d \<Longrightarrow>
     cbor_codec (vec_to_cbor to) (vec_from_cbor from) (\<lambda>xs. length xs < 2 ^ 64 \<and> list_all valid xs) (Suc d)"
  unfolding cbor_codec_def
  by (auto simp: vec_to_cbor_def vec_from_cbor_def list_all_iff traverse_map_round_trip)

lemma cbor_codec_option:
  "cbor_codec to from valid d \<Longrightarrow>
     cbor_codec (option_to_cbor to) (option_from_cbor from) (pred_option valid) (Suc d)"
  unfolding cbor_codec_def
  by (auto simp: option_to_cbor_def option_from_cbor_def split: option.splits)

interpretation u64_codec: cbor_codec u64_to_cbor u64_from_cbor "\<lambda>_. True" 0
proof
  fix w :: u64
  have "uint w < 2 ^ 64" "0 \<le> uint w"
    using unsigned_less [of w, where ?'a = int] by simp_all
  moreover have "- (2 ^ 64) \<le> uint w"
    by (rule order_trans [OF _ unsigned_greater_eq]) simp
  ultimately show "u64_from_cbor (u64_to_cbor w) = Ok w" "cbor_fits 0 (u64_to_cbor w)"
    by (simp_all add: u64_from_cbor_def u64_to_cbor_def int_from_cbor_def)
qed

interpretation u32_codec: cbor_codec u32_to_cbor u32_from_cbor "\<lambda>_. True" 0
proof
  fix w :: u32
  have "uint w < 2 ^ 32" "0 \<le> uint w"
    using unsigned_less [of w, where ?'a = int] by simp_all
  moreover have "- (2 ^ 64) \<le> uint w"
    by (rule order_trans [OF _ unsigned_greater_eq]) simp
  ultimately show "u32_from_cbor (u32_to_cbor w) = Ok w" "cbor_fits 0 (u32_to_cbor w)"
    by (simp_all add: u32_from_cbor_def u32_to_cbor_def int_from_cbor_def)
qed

interpretation i64_codec: cbor_codec i64_to_cbor i64_from_cbor "\<lambda>_. True" 0
proof
  fix w :: i64
  have "- (2 ^ 63) \<le> sint w" "sint w < 2 ^ 63"
    using sint_greater_eq [of w] sint_less [of w] by simp_all
  then show "i64_from_cbor (i64_to_cbor w) = Ok w" "cbor_fits 0 (i64_to_cbor w)"
    by (simp_all add: i64_from_cbor_def i64_to_cbor_def int_from_cbor_def)
qed

interpretation i32_codec: cbor_codec i32_to_cbor i32_from_cbor i32_range 0
  by unfold_locales (simp_all add: i32_from_cbor_def i32_to_cbor_def int_from_cbor_def i32_range_def)

interpretation bool_codec: cbor_codec bool_to_cbor bool_from_cbor "\<lambda>_. True" 0
  by unfold_locales (simp_all add: bool_from_cbor_def bool_to_cbor_def)

interpretation unit_codec: cbor_codec unit_to_cbor unit_from_cbor "\<lambda>_. True" 0
  by unfold_locales (simp_all add: unit_from_cbor_def unit_to_cbor_def)

interpretation bytes_codec: cbor_codec bytes_to_cbor bytes_from_cbor "\<lambda>b. length b < 2 ^ 64" 0
  by unfold_locales (simp_all add: bytes_from_cbor_def bytes_to_cbor_def)

interpretation string_codec: cbor_codec string_to_cbor string_from_cbor "\<lambda>s. length s < 2 ^ 64" 0
  by unfold_locales (simp_all add: string_from_cbor_def string_to_cbor_def)

lemma cbor_codec_array:
  "n < 2 ^ 64 \<Longrightarrow> cbor_codec bytes_to_cbor (array_from_cbor n) (\<lambda>b. length b = n) 0"
  by unfold_locales (simp_all add: array_from_cbor_def bytes_to_cbor_def)

lemma cbor_codec_enum:
  assumes "rust_enum as_i32 variants"
  shows "cbor_codec (enum_to_cbor as_i32) (enum_from_cbor as_i32 variants) (\<lambda>_. True) 0"
proof
  fix x
  have "i32_range (as_i32 x)" "enum_n as_i32 variants (as_i32 x) = Some x"
    using rust_enum.discriminants_i32 [OF assms] rust_enum.n_as_i32 [OF assms] by auto
  then show "enum_from_cbor as_i32 variants (enum_to_cbor as_i32 x) = Ok x"
    "cbor_fits 0 (enum_to_cbor as_i32 x)"
    by (simp_all add: enum_from_cbor_def enum_to_cbor_def i32_range_def)
qed

end
