(* ===== verification/Cbor_Rfc8949.thy ===== *)
theory Cbor_Rfc8949
  imports Cbor
begin

text \<open>
  The byte encoding of CBOR values by RFC 8949 (shortest heads, definite lengths, 64-bit floats):
  a writer and a reader, and that they meet the contract that the rest of the development asks of the
  CBOR library.  The theory shows that the contract can be met; it is not a model of the library.
\<close>

section \<open>Heads\<close>

definition cbor_head :: "nat \<Rightarrow> nat \<Rightarrow> bytes" where
  "cbor_head mt n =
    (if n < 24 then [word_of_nat (32 * mt + n)]
     else if n < 256 then word_of_nat (32 * mt + 24) # be_bytes 1 n
     else if n < 256 ^ 2 then word_of_nat (32 * mt + 25) # be_bytes 2 n
     else if n < 256 ^ 4 then word_of_nat (32 * mt + 26) # be_bytes 4 n
     else word_of_nat (32 * mt + 27) # be_bytes 8 n)"

definition arg_len :: "nat \<Rightarrow> nat" where
  "arg_len ai = (if ai = 24 then 1 else if ai = 25 then 2 else if ai = 26 then 4 else 8)"

definition parse_head :: "bytes \<Rightarrow> (nat \<times> nat \<times> nat \<times> bytes) option" where
  "parse_head bs = (case bs of
     [] \<Rightarrow> None
   | b # bs \<Rightarrow> let mt = unat b div 32; ai = unat b mod 32 in
       if ai < 24 then Some (mt, ai, ai, bs)
       else if 27 < ai \<or> length bs < arg_len ai then None
       else Some (mt, ai, be_val (take (arg_len ai) bs), drop (arg_len ai) bs))"

lemma parse_head_byte:
  assumes "mt < 8" "ai < 32"
  shows "unat (word_of_nat (32 * mt + ai) :: u8) div 32 = mt"
    and "unat (word_of_nat (32 * mt + ai) :: u8) mod 32 = ai"
proof -
  have "unat (word_of_nat (32 * mt + ai) :: u8) = (32 * mt + ai) mod 256"
    by (simp only: unat_of_nat) simp
  also have "\<dots> = 32 * mt + ai"
    using assms by simp
  finally have u: "unat (word_of_nat (32 * mt + ai) :: u8) = 32 * mt + ai" .
  show "unat (word_of_nat (32 * mt + ai) :: u8) div 32 = mt"
    unfolding u using assms by simp
  show "unat (word_of_nat (32 * mt + ai) :: u8) mod 32 = ai"
    unfolding u using assms by simp
qed

lemma parse_head_arg:
  "mt < 8 \<Longrightarrow> ai \<in> {24, 25, 26, 27} \<Longrightarrow> n < 256 ^ arg_len ai \<Longrightarrow>
     parse_head (word_of_nat (32 * mt + ai) # be_bytes (arg_len ai) n @ rest) = Some (mt, ai, n, rest)"
  by (auto simp: parse_head_def parse_head_byte be_val_be_bytes Let_def simp del: of_nat_add of_nat_mult)

lemma parse_cbor_head:
  assumes "mt < 8" "n < 2 ^ 64"
  shows "\<exists>ai. parse_head (cbor_head mt n @ rest) = Some (mt, ai, n, rest)"
proof -
  consider "n < 24" | "24 \<le> n" "n < 256" | "256 \<le> n" "n < 256 ^ 2" | "256 ^ 2 \<le> n" "n < 256 ^ 4"
    | "256 ^ 4 \<le> n"
    by linarith
  then show ?thesis
  proof cases
    case 1
    then show ?thesis
      using assms(1) parse_head_byte [of mt n]
      by (simp add: cbor_head_def parse_head_def Let_def del: of_nat_add of_nat_mult)
  next
    case 2
    then show ?thesis
      using assms(1) parse_head_arg [of mt 24 n rest] by (simp add: cbor_head_def arg_len_def)
  next
    case 3
    then show ?thesis
      using assms(1) parse_head_arg [of mt 25 n rest] by (simp add: cbor_head_def arg_len_def)
  next
    case 4
    then show ?thesis
      using assms(1) parse_head_arg [of mt 26 n rest] by (simp add: cbor_head_def arg_len_def)
  next
    case 5
    then show ?thesis
      using assms parse_head_arg [of mt 27 n rest] by (simp add: cbor_head_def arg_len_def)
  qed
qed

section \<open>Values\<close>

fun cbor_enc :: "cbor \<Rightarrow> bytes" where
  "cbor_enc (Cbor_Integer i) = (if 0 \<le> i then cbor_head 0 (nat i) else cbor_head 1 (nat (- 1 - i)))"
| "cbor_enc (Cbor_Bytes b) = cbor_head 2 (length b) @ b"
| "cbor_enc (Cbor_Text s) = cbor_head 3 (length s) @ map (\<lambda>c. word_of_nat (of_char c)) s"
| "cbor_enc (Cbor_Array vs) = cbor_head 4 (length vs) @ concat (map cbor_enc vs)"
| "cbor_enc (Cbor_Map kvs) = cbor_head 5 (length kvs) @ concat (map (\<lambda>(k, v). cbor_enc k @ cbor_enc v) kvs)"
| "cbor_enc (Cbor_Tag t v) = cbor_head 6 (unat t) @ cbor_enc v"
| "cbor_enc (Cbor_Bool b) = [if b then 0xf5 else 0xf4]"
| "cbor_enc Cbor_Null = [0xf6]"
| "cbor_enc (Cbor_Float f) = 0xfb # be_bytes 8 (unat f)"

fun dec_list :: "(bytes \<Rightarrow> ('a \<times> bytes) option) \<Rightarrow> nat \<Rightarrow> bytes \<Rightarrow> ('a list \<times> bytes) option" where
  "dec_list f 0 bs = Some ([], bs)"
| "dec_list f (Suc n) bs = (case f bs of
     None \<Rightarrow> None
   | Some (v, rest) \<Rightarrow> (case dec_list f n rest of None \<Rightarrow> None | Some (vs, rest) \<Rightarrow> Some (v # vs, rest)))"

definition dec_pair :: "(bytes \<Rightarrow> (cbor \<times> bytes) option) \<Rightarrow> bytes \<Rightarrow> ((cbor \<times> cbor) \<times> bytes) option" where
  "dec_pair f bs = (case f bs of
     None \<Rightarrow> None
   | Some (k, rest) \<Rightarrow> (case f rest of None \<Rightarrow> None | Some (v, rest) \<Rightarrow> Some ((k, v), rest)))"

definition dec_take :: "nat \<Rightarrow> bytes \<Rightarrow> (bytes \<times> bytes) option" where
  "dec_take n bs = (if length bs < n then None else Some (take n bs, drop n bs))"

definition dec_item :: "(bytes \<Rightarrow> (cbor \<times> bytes) option) \<Rightarrow> bytes \<Rightarrow> (cbor \<times> bytes) option" where
  "dec_item f bs = (case parse_head bs of
     None \<Rightarrow> None
   | Some (mt, ai, n, rest) \<Rightarrow>
       if mt = 0 then Some (Cbor_Integer (int n), rest)
       else if mt = 1 then Some (Cbor_Integer (- 1 - int n), rest)
       else if mt = 2 then map_option (\<lambda>(b, r). (Cbor_Bytes b, r)) (dec_take n rest)
       else if mt = 3 then map_option (\<lambda>(b, r). (Cbor_Text (map (\<lambda>w. char_of (unat w)) b), r)) (dec_take n rest)
       else if mt = 4 then map_option (\<lambda>(vs, r). (Cbor_Array vs, r)) (dec_list f n rest)
       else if mt = 5 then map_option (\<lambda>(kvs, r). (Cbor_Map kvs, r)) (dec_list (dec_pair f) n rest)
       else if mt = 6 then map_option (\<lambda>(v, r). (Cbor_Tag (word_of_nat n) v, r)) (f rest)
       else if ai = 20 then Some (Cbor_Bool False, rest)
       else if ai = 21 then Some (Cbor_Bool True, rest)
       else if ai = 22 then Some (Cbor_Null, rest)
       else if ai = 27 then Some (Cbor_Float (word_of_nat n), rest)
       else None)"

fun cbor_dec :: "nat \<Rightarrow> bytes \<Rightarrow> (cbor \<times> bytes) option" where
  "cbor_dec 0 bs = dec_item (\<lambda>_. None) bs"
| "cbor_dec (Suc d) bs = dec_item (cbor_dec d) bs"

lemma dec_list_round_trip:
  "(\<And>x rest. x \<in> set xs \<Longrightarrow> f (g x @ rest) = Some (x, rest)) \<Longrightarrow>
     dec_list f (length xs) (concat (map g xs) @ rest) = Some (xs, rest)"
  by (induction xs) auto

lemma dec_pair_round_trip:
  "(\<And>rest. f (g k @ rest) = Some (k, rest)) \<Longrightarrow> (\<And>rest. f (g v @ rest) = Some (v, rest)) \<Longrightarrow>
     dec_pair f (g k @ g v @ rest) = Some ((k, v), rest)"
  by (simp add: dec_pair_def)

lemma char_byte [simp]: "char_of (unat (word_of_nat (of_char c) :: u8)) = c"
proof -
  have "unat (word_of_nat (of_char c) :: u8) = of_char c mod 256"
    by (simp only: unat_of_nat) simp
  then show ?thesis
    by simp
qed

lemma dec_item_head:
  assumes "mt < 7" "n < 2 ^ 64"
  shows "dec_item f (cbor_head mt n @ rest) =
      (if mt = 0 then Some (Cbor_Integer (int n), rest)
       else if mt = 1 then Some (Cbor_Integer (- 1 - int n), rest)
       else if mt = 2 then map_option (\<lambda>(b, r). (Cbor_Bytes b, r)) (dec_take n rest)
       else if mt = 3 then map_option (\<lambda>(b, r). (Cbor_Text (map (\<lambda>w. char_of (unat w)) b), r)) (dec_take n rest)
       else if mt = 4 then map_option (\<lambda>(vs, r). (Cbor_Array vs, r)) (dec_list f n rest)
       else if mt = 5 then map_option (\<lambda>(kvs, r). (Cbor_Map kvs, r)) (dec_list (dec_pair f) n rest)
       else map_option (\<lambda>(v, r). (Cbor_Tag (word_of_nat n) v, r)) (f rest))"
  using parse_cbor_head [of mt n rest] assms by (auto simp: dec_item_def)

lemma cbor_dec_pos: "0 < d \<Longrightarrow> cbor_dec d = dec_item (cbor_dec (d - 1))"
  by (cases d) auto

lemma dec_item_scalar:
  "cbor_fits 0 v \<Longrightarrow> dec_item f (cbor_enc v @ rest) = Some (v, rest)"
proof (cases v)
  case (Cbor_Integer i)
  assume "cbor_fits 0 v"
  then show ?thesis
    using Cbor_Integer by (auto simp: dec_item_head nat_less_iff)
next
  case (Cbor_Bytes b)
  assume "cbor_fits 0 v"
  then show ?thesis
    using Cbor_Bytes by (simp add: dec_item_head dec_take_def)
next
  case (Cbor_Text s)
  assume "cbor_fits 0 v"
  then show ?thesis
    using Cbor_Text by (simp add: dec_item_head dec_take_def comp_def)
next
  case (Cbor_Float f)
  then show ?thesis
    by (simp add: dec_item_def parse_head_def arg_len_def be_val_be_bytes [OF unat64_bound])
qed (auto simp: dec_item_def parse_head_def)

lemma cbor_dec_scalar: "cbor_fits 0 v \<Longrightarrow> cbor_dec d (cbor_enc v @ rest) = Some (v, rest)"
  by (cases d) (simp_all add: dec_item_scalar)

lemma cbor_dec_enc: "cbor_fits d v \<Longrightarrow> cbor_dec d (cbor_enc v @ rest) = Some (v, rest)"
proof (induction d v arbitrary: rest rule: cbor_fits.induct)
  case (7 d t v)
  then show ?case
    by (simp add: cbor_dec_pos dec_item_head unsigned_less [of t, simplified])
next
  case (8 d vs)
  then have "dec_list (cbor_dec (d - 1)) (length vs) (concat (map cbor_enc vs) @ rest) = Some (vs, rest)"
    by (intro dec_list_round_trip) (auto simp: list_all_iff)
  then show ?case
    using 8 by (simp add: cbor_dec_pos dec_item_head)
next
  case (9 d kvs)
  have "dec_list (dec_pair (cbor_dec (d - 1))) (length kvs)
      (concat (map (\<lambda>(k, v). cbor_enc k @ cbor_enc v) kvs) @ rest) = Some (kvs, rest)"
  proof (intro dec_list_round_trip)
    fix kv rest
    assume kv: "kv \<in> set kvs"
    obtain k v where kv_eq: "kv = (k, v)"
      by fastforce
    moreover have "cbor_fits (d - 1) k" "cbor_fits (d - 1) v"
      using kv kv_eq "9.prems" by (auto simp: list_all_iff)
    ultimately show "dec_pair (cbor_dec (d - 1)) ((case kv of (k, v) \<Rightarrow> cbor_enc k @ cbor_enc v) @ rest) = Some (kv, rest)"
      using "9.IH" [OF kv kv_eq [symmetric]] by (simp add: dec_pair_round_trip)
  qed
  then show ?case
    using 9 by (simp add: cbor_dec_pos dec_item_head)
qed (simp_all add: cbor_dec_scalar del: cbor_enc.simps cbor_dec.simps)

definition rfc8949 :: cbor_lib where
  "rfc8949 = \<lparr>cl_write = Some \<circ> cbor_enc, cl_read = cbor_dec 16\<rparr>"

lemma rfc8949_works: "cbor_lib_works rfc8949"
  unfolding cbor_lib_works_def rfc8949_def
  by (auto intro!: cbor_dec_enc elim: cbor_fits_mono)

end
