(* ===== verification/Tag_Info.thy ===== *)
theory Tag_Info
  imports Keymint_Types
begin

text \<open>
  Static information about tags (\<open>common/src/tag/info.rs\<close>): the \<open>INFO\<close> table, split into seven
  pieces of consecutive entries, the lookup \<open>tag_info\<close>, the predicate \<open>multivalued\<close>, and the
  bit-set based \<open>DuplicateTagChecker\<close>.

  The checker is shown to implement its abstract specification, a set of tags: a sequence of
  \<open>add\<close> calls succeeds exactly when every tag is in the table and no single-valued tag occurs
  twice.  The constants that list enforced and automatically added characteristics are shown to
  agree with the table.
\<close>

datatype characteristic =
  KeyMintEnforced | KeyMintHidden | KeystoreEnforced | BothEnforced | NotKeyCharacteristic

definition KEYSTORE_ENFORCED_CHARACTERISTICS :: "tag list" where
  "KEYSTORE_ENFORCED_CHARACTERISTICS =
    [Tag_ActiveDatetime, Tag_OriginationExpireDatetime, Tag_UsageExpireDatetime, Tag_UserId,
     Tag_AllowWhileOnBody, Tag_CreationDatetime, Tag_MaxBootLevel, Tag_UnlockedDeviceRequired]"

definition KEYMINT_ENFORCED_CHARACTERISTICS :: "tag list" where
  "KEYMINT_ENFORCED_CHARACTERISTICS =
    [Tag_UserSecureId, Tag_Algorithm, Tag_EcCurve, Tag_UserAuthType, Tag_Origin, Tag_Purpose,
     Tag_BlockMode, Tag_Digest, Tag_Padding, Tag_RsaOaepMgfDigest, Tag_KeySize,
     Tag_MinMacLength, Tag_MaxUsesPerBoot, Tag_AuthTimeout, Tag_OsVersion, Tag_OsPatchlevel,
     Tag_VendorPatchlevel, Tag_BootPatchlevel, Tag_RsaPublicExponent, Tag_CallerNonce,
     Tag_BootloaderOnly, Tag_RollbackResistance, Tag_EarlyBootOnly, Tag_NoAuthRequired,
     Tag_TrustedUserPresenceRequired, Tag_TrustedConfirmationRequired, Tag_StorageKey]"

definition AUTO_ADDED_CHARACTERISTICS :: "tag list" where
  "AUTO_ADDED_CHARACTERISTICS =
    [Tag_Origin, Tag_OsVersion, Tag_OsPatchlevel, Tag_VendorPatchlevel, Tag_BootPatchlevel]"

datatype operation_param =
    KeyGenImport | CipherExplicitArgOneOf | CipherParamOneOf | CipherParamExactMatch | CipherParam
  | NotOperationParam

datatype value_lifetime = Lifetime_FixedAtBoot | Lifetime_FixedAtStartup | Lifetime_Variable

datatype cert_gen_param =
    CertGen_NotRequired | CertGen_Required | CertGen_RequiredForAttestation | CertGen_Optional
  | CertGen_OptionalForAttestation | CertGen_Special

record info =
  info_name :: string
  info_tt :: tag_type
  info_ext_asn1_type :: "string option"
  info_user_can_specify :: bool
  info_characteristic :: characteristic
  info_op_param :: operation_param
  info_keymint_auto_adds :: bool
  info_lifetime :: value_lifetime
  info_cert_gen :: cert_gen_param
  info_bit_index :: nat

section \<open>The table\<close>

definition INFO_1 :: "(tag \<times> info) list" where
  "INFO_1 =
    [(Tag_Purpose, \<lparr> info_name = ''PURPOSE'', info_tt = TagType_EnumRep,
        info_ext_asn1_type = Some ''SET OF INTEGER'', info_user_can_specify = True,
        info_characteristic = KeyMintEnforced, info_op_param = CipherExplicitArgOneOf,
        info_keymint_auto_adds = False, info_lifetime = Lifetime_Variable,
        info_cert_gen = CertGen_NotRequired, info_bit_index = 0 \<rparr>),
     (Tag_Algorithm, \<lparr> info_name = ''ALGORITHM'', info_tt = TagType_Enum,
        info_ext_asn1_type = Some ''INTEGER'', info_user_can_specify = True,
        info_characteristic = KeyMintEnforced, info_op_param = NotOperationParam,
        info_keymint_auto_adds = False, info_lifetime = Lifetime_Variable,
        info_cert_gen = CertGen_NotRequired, info_bit_index = 1 \<rparr>),
     (Tag_KeySize, \<lparr> info_name = ''KEY_SIZE'', info_tt = TagType_Uint,
        info_ext_asn1_type = Some ''INTEGER'', info_user_can_specify = True,
        info_characteristic = KeyMintEnforced, info_op_param = NotOperationParam,
        info_keymint_auto_adds = False, info_lifetime = Lifetime_Variable,
        info_cert_gen = CertGen_NotRequired, info_bit_index = 2 \<rparr>),
     (Tag_BlockMode, \<lparr> info_name = ''BLOCK_MODE'', info_tt = TagType_EnumRep,
        info_ext_asn1_type = None, info_user_can_specify = True,
        info_characteristic = KeyMintEnforced, info_op_param = CipherParamOneOf,
        info_keymint_auto_adds = False, info_lifetime = Lifetime_Variable,
        info_cert_gen = CertGen_NotRequired, info_bit_index = 3 \<rparr>),
     (Tag_Digest, \<lparr> info_name = ''DIGEST'', info_tt = TagType_EnumRep,
        info_ext_asn1_type = Some ''SET OF INTEGER'', info_user_can_specify = True,
        info_characteristic = KeyMintEnforced, info_op_param = CipherParamOneOf,
        info_keymint_auto_adds = False, info_lifetime = Lifetime_Variable,
        info_cert_gen = CertGen_NotRequired, info_bit_index = 4 \<rparr>),
     (Tag_Padding, \<lparr> info_name = ''PADDING'', info_tt = TagType_EnumRep,
        info_ext_asn1_type = Some ''SET OF INTEGER'', info_user_can_specify = True,
        info_characteristic = KeyMintEnforced, info_op_param = CipherParamOneOf,
        info_keymint_auto_adds = False, info_lifetime = Lifetime_Variable,
        info_cert_gen = CertGen_NotRequired, info_bit_index = 5 \<rparr>),
     (Tag_CallerNonce, \<lparr> info_name = ''CALLER_NONCE'', info_tt = TagType_Bool,
        info_ext_asn1_type = None, info_user_can_specify = True,
        info_characteristic = KeyMintEnforced, info_op_param = NotOperationParam,
        info_keymint_auto_adds = False, info_lifetime = Lifetime_Variable,
        info_cert_gen = CertGen_NotRequired, info_bit_index = 6 \<rparr>),
     (Tag_MinMacLength, \<lparr> info_name = ''MIN_MAC_LENGTH'', info_tt = TagType_Uint,
        info_ext_asn1_type = None, info_user_can_specify = True,
        info_characteristic = KeyMintEnforced, info_op_param = NotOperationParam,
        info_keymint_auto_adds = False, info_lifetime = Lifetime_Variable,
        info_cert_gen = CertGen_NotRequired, info_bit_index = 7 \<rparr>),
     (Tag_EcCurve, \<lparr> info_name = ''EC_CURVE'', info_tt = TagType_Enum,
        info_ext_asn1_type = Some ''INTEGER'', info_user_can_specify = True,
        info_characteristic = KeyMintEnforced, info_op_param = NotOperationParam,
        info_keymint_auto_adds = False, info_lifetime = Lifetime_Variable,
        info_cert_gen = CertGen_NotRequired, info_bit_index = 8 \<rparr>)]"

definition INFO_2 :: "(tag \<times> info) list" where
  "INFO_2 =
    [(Tag_RsaPublicExponent, \<lparr> info_name = ''RSA_PUBLIC_EXPONENT'', info_tt = TagType_Ulong,
        info_ext_asn1_type = Some ''INTEGER'', info_user_can_specify = True,
        info_characteristic = KeyMintEnforced, info_op_param = NotOperationParam,
        info_keymint_auto_adds = False, info_lifetime = Lifetime_Variable,
        info_cert_gen = CertGen_NotRequired, info_bit_index = 9 \<rparr>),
     (Tag_IncludeUniqueId, \<lparr> info_name = ''INCLUDE_UNIQUE_ID'', info_tt = TagType_Bool,
        info_ext_asn1_type = None, info_user_can_specify = True,
        info_characteristic = NotKeyCharacteristic, info_op_param = KeyGenImport,
        info_keymint_auto_adds = False, info_lifetime = Lifetime_Variable,
        info_cert_gen = CertGen_OptionalForAttestation, info_bit_index = 10 \<rparr>),
     (Tag_RsaOaepMgfDigest, \<lparr> info_name = ''RSA_OAEP_MGF_DIGEST'', info_tt = TagType_EnumRep,
        info_ext_asn1_type = Some ''SET OF INTEGER'', info_user_can_specify = True,
        info_characteristic = KeyMintEnforced, info_op_param = CipherParamOneOf,
        info_keymint_auto_adds = False, info_lifetime = Lifetime_Variable,
        info_cert_gen = CertGen_NotRequired, info_bit_index = 11 \<rparr>),
     (Tag_BootloaderOnly, \<lparr> info_name = ''BOOTLOADER_ONLY'', info_tt = TagType_Bool,
        info_ext_asn1_type = None, info_user_can_specify = False,
        info_characteristic = KeyMintEnforced, info_op_param = NotOperationParam,
        info_keymint_auto_adds = False, info_lifetime = Lifetime_Variable,
        info_cert_gen = CertGen_NotRequired, info_bit_index = 12 \<rparr>),
     (Tag_RollbackResistance, \<lparr> info_name = ''ROLLBACK_RESISTANCE'', info_tt = TagType_Bool,
        info_ext_asn1_type = Some ''NULL'', info_user_can_specify = True,
        info_characteristic = KeyMintEnforced, info_op_param = NotOperationParam,
        info_keymint_auto_adds = False, info_lifetime = Lifetime_Variable,
        info_cert_gen = CertGen_NotRequired, info_bit_index = 13 \<rparr>),
     (Tag_EarlyBootOnly, \<lparr> info_name = ''EARLY_BOOT_ONLY'', info_tt = TagType_Bool,
        info_ext_asn1_type = Some ''NULL'', info_user_can_specify = True,
        info_characteristic = KeyMintEnforced, info_op_param = NotOperationParam,
        info_keymint_auto_adds = False, info_lifetime = Lifetime_Variable,
        info_cert_gen = CertGen_NotRequired, info_bit_index = 14 \<rparr>),
     (Tag_ActiveDatetime, \<lparr> info_name = ''ACTIVE_DATETIME'', info_tt = TagType_Date,
        info_ext_asn1_type = Some ''INTEGER'', info_user_can_specify = True,
        info_characteristic = KeystoreEnforced, info_op_param = NotOperationParam,
        info_keymint_auto_adds = False, info_lifetime = Lifetime_Variable,
        info_cert_gen = CertGen_NotRequired, info_bit_index = 15 \<rparr>),
     (Tag_OriginationExpireDatetime, \<lparr> info_name = ''ORIGINATION_EXPIRE_DATETIME'', info_tt = TagType_Date,
        info_ext_asn1_type = Some ''INTEGER'', info_user_can_specify = True,
        info_characteristic = KeystoreEnforced, info_op_param = NotOperationParam,
        info_keymint_auto_adds = False, info_lifetime = Lifetime_Variable,
        info_cert_gen = CertGen_NotRequired, info_bit_index = 16 \<rparr>),
     (Tag_UsageExpireDatetime, \<lparr> info_name = ''USAGE_EXPIRE_DATETIME'', info_tt = TagType_Date,
        info_ext_asn1_type = Some ''INTEGER'', info_user_can_specify = True,
        info_characteristic = KeystoreEnforced, info_op_param = NotOperationParam,
        info_keymint_auto_adds = False, info_lifetime = Lifetime_Variable,
        info_cert_gen = CertGen_NotRequired, info_bit_index = 17 \<rparr>)]"

definition INFO_3 :: "(tag \<times> info) list" where
  "INFO_3 =
    [(Tag_MaxUsesPerBoot, \<lparr> info_name = ''MAX_USES_PER_BOOT'', info_tt = TagType_Uint,
        info_ext_asn1_type = None, info_user_can_specify = True,
        info_characteristic = KeyMintEnforced, info_op_param = NotOperationParam,
        info_keymint_auto_adds = False, info_lifetime = Lifetime_Variable,
        info_cert_gen = CertGen_NotRequired, info_bit_index = 18 \<rparr>),
     (Tag_UsageCountLimit, \<lparr> info_name = ''USAGE_COUNT_LIMIT'', info_tt = TagType_Uint,
        info_ext_asn1_type = Some ''INTEGER'', info_user_can_specify = True,
        info_characteristic = BothEnforced, info_op_param = NotOperationParam,
        info_keymint_auto_adds = False, info_lifetime = Lifetime_Variable,
        info_cert_gen = CertGen_NotRequired, info_bit_index = 19 \<rparr>),
     (Tag_UserId, \<lparr> info_name = ''USER_ID'', info_tt = TagType_Uint,
        info_ext_asn1_type = None, info_user_can_specify = True,
        info_characteristic = KeystoreEnforced, info_op_param = NotOperationParam,
        info_keymint_auto_adds = False, info_lifetime = Lifetime_Variable,
        info_cert_gen = CertGen_NotRequired, info_bit_index = 20 \<rparr>),
     (Tag_UserSecureId, \<lparr> info_name = ''USER_SECURE_ID'', info_tt = TagType_UlongRep,
        info_ext_asn1_type = None, info_user_can_specify = True,
        info_characteristic = KeyMintEnforced, info_op_param = CipherExplicitArgOneOf,
        info_keymint_auto_adds = False, info_lifetime = Lifetime_Variable,
        info_cert_gen = CertGen_NotRequired, info_bit_index = 21 \<rparr>),
     (Tag_NoAuthRequired, \<lparr> info_name = ''NO_AUTH_REQUIRED'', info_tt = TagType_Bool,
        info_ext_asn1_type = Some ''NULL'', info_user_can_specify = True,
        info_characteristic = KeyMintEnforced, info_op_param = NotOperationParam,
        info_keymint_auto_adds = False, info_lifetime = Lifetime_Variable,
        info_cert_gen = CertGen_NotRequired, info_bit_index = 22 \<rparr>),
     (Tag_UserAuthType, \<lparr> info_name = ''USER_AUTH_TYPE'', info_tt = TagType_Enum,
        info_ext_asn1_type = Some ''INTEGER'', info_user_can_specify = True,
        info_characteristic = KeyMintEnforced, info_op_param = CipherParamOneOf,
        info_keymint_auto_adds = False, info_lifetime = Lifetime_Variable,
        info_cert_gen = CertGen_NotRequired, info_bit_index = 23 \<rparr>),
     (Tag_AuthTimeout, \<lparr> info_name = ''AUTH_TIMEOUT'', info_tt = TagType_Uint,
        info_ext_asn1_type = Some ''INTEGER'', info_user_can_specify = True,
        info_characteristic = KeyMintEnforced, info_op_param = NotOperationParam,
        info_keymint_auto_adds = False, info_lifetime = Lifetime_Variable,
        info_cert_gen = CertGen_NotRequired, info_bit_index = 24 \<rparr>),
     (Tag_AllowWhileOnBody, \<lparr> info_name = ''ALLOW_WHILE_ON_BODY'', info_tt = TagType_Bool,
        info_ext_asn1_type = Some ''NULL'', info_user_can_specify = True,
        info_characteristic = KeystoreEnforced, info_op_param = NotOperationParam,
        info_keymint_auto_adds = False, info_lifetime = Lifetime_Variable,
        info_cert_gen = CertGen_NotRequired, info_bit_index = 25 \<rparr>),
     (Tag_TrustedUserPresenceRequired, \<lparr> info_name = ''TRUSTED_USER_PRESENCE_REQUIRED'', info_tt = TagType_Bool,
        info_ext_asn1_type = Some ''NULL'', info_user_can_specify = True,
        info_characteristic = KeyMintEnforced, info_op_param = NotOperationParam,
        info_keymint_auto_adds = False, info_lifetime = Lifetime_Variable,
        info_cert_gen = CertGen_NotRequired, info_bit_index = 26 \<rparr>)]"

definition INFO_4 :: "(tag \<times> info) list" where
  "INFO_4 =
    [(Tag_TrustedConfirmationRequired, \<lparr> info_name = ''TRUSTED_CONFIRMATION_REQUIRED'', info_tt = TagType_Bool,
        info_ext_asn1_type = Some ''NULL'', info_user_can_specify = True,
        info_characteristic = KeyMintEnforced, info_op_param = NotOperationParam,
        info_keymint_auto_adds = False, info_lifetime = Lifetime_Variable,
        info_cert_gen = CertGen_NotRequired, info_bit_index = 27 \<rparr>),
     (Tag_UnlockedDeviceRequired, \<lparr> info_name = ''UNLOCKED_DEVICE_REQUIRED'', info_tt = TagType_Bool,
        info_ext_asn1_type = Some ''NULL'', info_user_can_specify = True,
        info_characteristic = KeystoreEnforced, info_op_param = NotOperationParam,
        info_keymint_auto_adds = False, info_lifetime = Lifetime_Variable,
        info_cert_gen = CertGen_NotRequired, info_bit_index = 28 \<rparr>),
     (Tag_ApplicationId, \<lparr> info_name = ''APPLICATION_ID'', info_tt = TagType_Bytes,
        info_ext_asn1_type = None, info_user_can_specify = True,
        info_characteristic = KeyMintHidden, info_op_param = CipherParamExactMatch,
        info_keymint_auto_adds = False, info_lifetime = Lifetime_Variable,
        info_cert_gen = CertGen_NotRequired, info_bit_index = 29 \<rparr>),
     (Tag_ApplicationData, \<lparr> info_name = ''APPLICATION_DATA'', info_tt = TagType_Bytes,
        info_ext_asn1_type = None, info_user_can_specify = True,
        info_characteristic = KeyMintHidden, info_op_param = CipherParamExactMatch,
        info_keymint_auto_adds = False, info_lifetime = Lifetime_Variable,
        info_cert_gen = CertGen_NotRequired, info_bit_index = 30 \<rparr>),
     (Tag_CreationDatetime, \<lparr> info_name = ''CREATION_DATETIME'', info_tt = TagType_Date,
        info_ext_asn1_type = Some ''INTEGER'', info_user_can_specify = True,
        info_characteristic = KeystoreEnforced, info_op_param = NotOperationParam,
        info_keymint_auto_adds = False, info_lifetime = Lifetime_Variable,
        info_cert_gen = CertGen_Special, info_bit_index = 31 \<rparr>),
     (Tag_Origin, \<lparr> info_name = ''ORIGIN'', info_tt = TagType_Enum,
        info_ext_asn1_type = Some ''INTEGER'', info_user_can_specify = False,
        info_characteristic = KeyMintEnforced, info_op_param = NotOperationParam,
        info_keymint_auto_adds = True, info_lifetime = Lifetime_Variable,
        info_cert_gen = CertGen_NotRequired, info_bit_index = 32 \<rparr>),
     (Tag_RootOfTrust, \<lparr> info_name = ''ROOT_OF_TRUST'', info_tt = TagType_Bytes,
        info_ext_asn1_type = Some ''RootOfTrust SEQUENCE'', info_user_can_specify = False,
        info_characteristic = NotKeyCharacteristic, info_op_param = NotOperationParam,
        info_keymint_auto_adds = False, info_lifetime = Lifetime_FixedAtBoot,
        info_cert_gen = CertGen_NotRequired, info_bit_index = 33 \<rparr>),
     (Tag_OsVersion, \<lparr> info_name = ''OS_VERSION'', info_tt = TagType_Uint,
        info_ext_asn1_type = Some ''INTEGER'', info_user_can_specify = False,
        info_characteristic = KeyMintEnforced, info_op_param = NotOperationParam,
        info_keymint_auto_adds = True, info_lifetime = Lifetime_FixedAtBoot,
        info_cert_gen = CertGen_NotRequired, info_bit_index = 34 \<rparr>),
     (Tag_OsPatchlevel, \<lparr> info_name = ''OS_PATCHLEVEL'', info_tt = TagType_Uint,
        info_ext_asn1_type = Some ''INTEGER'', info_user_can_specify = False,
        info_characteristic = KeyMintEnforced, info_op_param = NotOperationParam,
        info_keymint_auto_adds = True, info_lifetime = Lifetime_FixedAtBoot,
        info_cert_gen = CertGen_NotRequired, info_bit_index = 35 \<rparr>)]"

definition INFO_5 :: "(tag \<times> info) list" where
  "INFO_5 =
    [(Tag_UniqueId, \<lparr> info_name = ''UNIQUE_ID'', info_tt = TagType_Bytes,
        info_ext_asn1_type = Some ''OCTET STRING'', info_user_can_specify = False,
        info_characteristic = NotKeyCharacteristic, info_op_param = NotOperationParam,
        info_keymint_auto_adds = False, info_lifetime = Lifetime_Variable,
        info_cert_gen = CertGen_Special, info_bit_index = 36 \<rparr>),
     (Tag_AttestationChallenge, \<lparr> info_name = ''ATTESTATION_CHALLENGE'', info_tt = TagType_Bytes,
        info_ext_asn1_type = Some ''OCTET STRING'', info_user_can_specify = True,
        info_characteristic = NotKeyCharacteristic, info_op_param = KeyGenImport,
        info_keymint_auto_adds = False, info_lifetime = Lifetime_Variable,
        info_cert_gen = CertGen_RequiredForAttestation, info_bit_index = 37 \<rparr>),
     (Tag_AttestationApplicationId, \<lparr> info_name = ''ATTESTATION_APPLICATION_ID'', info_tt = TagType_Bytes,
        info_ext_asn1_type = Some ''OCTET STRING'', info_user_can_specify = True,
        info_characteristic = NotKeyCharacteristic, info_op_param = KeyGenImport,
        info_keymint_auto_adds = False, info_lifetime = Lifetime_Variable,
        info_cert_gen = CertGen_RequiredForAttestation, info_bit_index = 38 \<rparr>),
     (Tag_AttestationIdBrand, \<lparr> info_name = ''ATTESTATION_ID_BRAND'', info_tt = TagType_Bytes,
        info_ext_asn1_type = Some ''OCTET STRING'', info_user_can_specify = True,
        info_characteristic = NotKeyCharacteristic, info_op_param = KeyGenImport,
        info_keymint_auto_adds = False, info_lifetime = Lifetime_FixedAtBoot,
        info_cert_gen = CertGen_OptionalForAttestation, info_bit_index = 39 \<rparr>),
     (Tag_AttestationIdDevice, \<lparr> info_name = ''ATTESTATION_ID_DEVICE'', info_tt = TagType_Bytes,
        info_ext_asn1_type = Some ''OCTET STRING'', info_user_can_specify = True,
        info_characteristic = NotKeyCharacteristic, info_op_param = KeyGenImport,
        info_keymint_auto_adds = False, info_lifetime = Lifetime_FixedAtBoot,
        info_cert_gen = CertGen_OptionalForAttestation, info_bit_index = 40 \<rparr>),
     (Tag_AttestationIdProduct, \<lparr> info_name = ''ATTESTATION_ID_PRODUCT'', info_tt = TagType_Bytes,
        info_ext_asn1_type = Some ''OCTET STRING'', info_user_can_specify = True,
        info_characteristic = NotKeyCharacteristic, info_op_param = KeyGenImport,
        info_keymint_auto_adds = False, info_lifetime = Lifetime_FixedAtBoot,
        info_cert_gen = CertGen_OptionalForAttestation, info_bit_index = 41 \<rparr>),
     (Tag_AttestationIdSerial, \<lparr> info_name = ''ATTESTATION_ID_SERIAL'', info_tt = TagType_Bytes,
        info_ext_asn1_type = Some ''OCTET STRING'', info_user_can_specify = True,
        info_characteristic = NotKeyCharacteristic, info_op_param = KeyGenImport,
        info_keymint_auto_adds = False, info_lifetime = Lifetime_FixedAtBoot,
        info_cert_gen = CertGen_OptionalForAttestation, info_bit_index = 42 \<rparr>),
     (Tag_AttestationIdImei, \<lparr> info_name = ''ATTESTATION_ID_IMEI'', info_tt = TagType_Bytes,
        info_ext_asn1_type = Some ''OCTET STRING'', info_user_can_specify = True,
        info_characteristic = NotKeyCharacteristic, info_op_param = KeyGenImport,
        info_keymint_auto_adds = False, info_lifetime = Lifetime_FixedAtBoot,
        info_cert_gen = CertGen_OptionalForAttestation, info_bit_index = 43 \<rparr>),
     (Tag_AttestationIdSecondImei, \<lparr> info_name = ''ATTESTATION_ID_SECOND_IMEI'', info_tt = TagType_Bytes,
        info_ext_asn1_type = Some ''OCTET STRING'', info_user_can_specify = True,
        info_characteristic = NotKeyCharacteristic, info_op_param = KeyGenImport,
        info_keymint_auto_adds = False, info_lifetime = Lifetime_FixedAtBoot,
        info_cert_gen = CertGen_OptionalForAttestation, info_bit_index = 44 \<rparr>)]"

definition INFO_6 :: "(tag \<times> info) list" where
  "INFO_6 =
    [(Tag_AttestationIdMeid, \<lparr> info_name = ''ATTESTATION_ID_MEID'', info_tt = TagType_Bytes,
        info_ext_asn1_type = Some ''OCTET STRING'', info_user_can_specify = True,
        info_characteristic = NotKeyCharacteristic, info_op_param = KeyGenImport,
        info_keymint_auto_adds = False, info_lifetime = Lifetime_FixedAtBoot,
        info_cert_gen = CertGen_OptionalForAttestation, info_bit_index = 45 \<rparr>),
     (Tag_AttestationIdManufacturer, \<lparr> info_name = ''ATTESTATION_ID_MANUFACTURER'', info_tt = TagType_Bytes,
        info_ext_asn1_type = Some ''OCTET STRING'', info_user_can_specify = True,
        info_characteristic = NotKeyCharacteristic, info_op_param = KeyGenImport,
        info_keymint_auto_adds = False, info_lifetime = Lifetime_FixedAtBoot,
        info_cert_gen = CertGen_OptionalForAttestation, info_bit_index = 46 \<rparr>),
     (Tag_AttestationIdModel, \<lparr> info_name = ''ATTESTATION_ID_MODEL'', info_tt = TagType_Bytes,
        info_ext_asn1_type = Some ''OCTET STRING'', info_user_can_specify = True,
        info_characteristic = NotKeyCharacteristic, info_op_param = KeyGenImport,
        info_keymint_auto_adds = False, info_lifetime = Lifetime_FixedAtBoot,
        info_cert_gen = CertGen_OptionalForAttestation, info_bit_index = 47 \<rparr>),
     (Tag_VendorPatchlevel, \<lparr> info_name = ''VENDOR_PATCHLEVEL'', info_tt = TagType_Uint,
        info_ext_asn1_type = Some ''INTEGER'', info_user_can_specify = False,
        info_characteristic = KeyMintEnforced, info_op_param = NotOperationParam,
        info_keymint_auto_adds = True, info_lifetime = Lifetime_FixedAtStartup,
        info_cert_gen = CertGen_NotRequired, info_bit_index = 48 \<rparr>),
     (Tag_BootPatchlevel, \<lparr> info_name = ''BOOT_PATCHLEVEL'', info_tt = TagType_Uint,
        info_ext_asn1_type = Some ''INTEGER'', info_user_can_specify = False,
        info_characteristic = KeyMintEnforced, info_op_param = NotOperationParam,
        info_keymint_auto_adds = True, info_lifetime = Lifetime_FixedAtBoot,
        info_cert_gen = CertGen_NotRequired, info_bit_index = 49 \<rparr>),
     (Tag_DeviceUniqueAttestation, \<lparr> info_name = ''DEVICE_UNIQUE_ATTESTATION'', info_tt = TagType_Bool,
        info_ext_asn1_type = Some ''NULL'', info_user_can_specify = True,
        info_characteristic = NotKeyCharacteristic, info_op_param = KeyGenImport,
        info_keymint_auto_adds = False, info_lifetime = Lifetime_Variable,
        info_cert_gen = CertGen_Special, info_bit_index = 50 \<rparr>),
     (Tag_StorageKey, \<lparr> info_name = ''STORAGE_KEY'', info_tt = TagType_Bool,
        info_ext_asn1_type = None, info_user_can_specify = True,
        info_characteristic = KeyMintEnforced, info_op_param = NotOperationParam,
        info_keymint_auto_adds = False, info_lifetime = Lifetime_Variable,
        info_cert_gen = CertGen_NotRequired, info_bit_index = 51 \<rparr>),
     (Tag_Nonce, \<lparr> info_name = ''NONCE'', info_tt = TagType_Bytes,
        info_ext_asn1_type = None, info_user_can_specify = True,
        info_characteristic = NotKeyCharacteristic, info_op_param = CipherParam,
        info_keymint_auto_adds = False, info_lifetime = Lifetime_Variable,
        info_cert_gen = CertGen_NotRequired, info_bit_index = 52 \<rparr>),
     (Tag_MacLength, \<lparr> info_name = ''MAC_LENGTH'', info_tt = TagType_Uint,
        info_ext_asn1_type = None, info_user_can_specify = True,
        info_characteristic = NotKeyCharacteristic, info_op_param = CipherParam,
        info_keymint_auto_adds = False, info_lifetime = Lifetime_Variable,
        info_cert_gen = CertGen_NotRequired, info_bit_index = 53 \<rparr>)]"

definition INFO_7 :: "(tag \<times> info) list" where
  "INFO_7 =
    [(Tag_ResetSinceIdRotation, \<lparr> info_name = ''RESET_SINCE_ID_ROTATION'', info_tt = TagType_Bool,
        info_ext_asn1_type = Some ''part of UniqueID'', info_user_can_specify = True,
        info_characteristic = NotKeyCharacteristic, info_op_param = KeyGenImport,
        info_keymint_auto_adds = False, info_lifetime = Lifetime_Variable,
        info_cert_gen = CertGen_OptionalForAttestation, info_bit_index = 54 \<rparr>),
     (Tag_CertificateSerial, \<lparr> info_name = ''CERTIFICATE_SERIAL'', info_tt = TagType_Bignum,
        info_ext_asn1_type = None, info_user_can_specify = True,
        info_characteristic = NotKeyCharacteristic, info_op_param = KeyGenImport,
        info_keymint_auto_adds = False, info_lifetime = Lifetime_Variable,
        info_cert_gen = CertGen_Optional, info_bit_index = 55 \<rparr>),
     (Tag_CertificateSubject, \<lparr> info_name = ''CERTIFICATE_SUBJECT'', info_tt = TagType_Bytes,
        info_ext_asn1_type = None, info_user_can_specify = True,
        info_characteristic = NotKeyCharacteristic, info_op_param = KeyGenImport,
        info_keymint_auto_adds = False, info_lifetime = Lifetime_Variable,
        info_cert_gen = CertGen_Optional, info_bit_index = 56 \<rparr>),
     (Tag_CertificateNotBefore, \<lparr> info_name = ''CERTIFICATE_NOT_BEFORE'', info_tt = TagType_Date,
        info_ext_asn1_type = None, info_user_can_specify = True,
        info_characteristic = NotKeyCharacteristic, info_op_param = KeyGenImport,
        info_keymint_auto_adds = False, info_lifetime = Lifetime_Variable,
        info_cert_gen = CertGen_Required, info_bit_index = 57 \<rparr>),
     (Tag_CertificateNotAfter, \<lparr> info_name = ''CERTIFICATE_NOT_AFTER'', info_tt = TagType_Date,
        info_ext_asn1_type = None, info_user_can_specify = True,
        info_characteristic = NotKeyCharacteristic, info_op_param = KeyGenImport,
        info_keymint_auto_adds = False, info_lifetime = Lifetime_Variable,
        info_cert_gen = CertGen_Required, info_bit_index = 58 \<rparr>),
     (Tag_MaxBootLevel, \<lparr> info_name = ''MAX_BOOT_LEVEL'', info_tt = TagType_Uint,
        info_ext_asn1_type = None, info_user_can_specify = True,
        info_characteristic = KeystoreEnforced, info_op_param = NotOperationParam,
        info_keymint_auto_adds = False, info_lifetime = Lifetime_Variable,
        info_cert_gen = CertGen_NotRequired, info_bit_index = 59 \<rparr>),
     (Tag_ModuleHash, \<lparr> info_name = ''MODULE_HASH'', info_tt = TagType_Bytes,
        info_ext_asn1_type = Some ''OCTET STRING'', info_user_can_specify = False,
        info_characteristic = NotKeyCharacteristic, info_op_param = NotOperationParam,
        info_keymint_auto_adds = False, info_lifetime = Lifetime_FixedAtStartup,
        info_cert_gen = CertGen_NotRequired, info_bit_index = 60 \<rparr>)]"

definition INFO :: "(tag \<times> info) list" where
  "INFO = INFO_1 @ INFO_2 @ INFO_3 @ INFO_4 @ INFO_5 @ INFO_6 @ INFO_7"

fun find_info :: "tag \<Rightarrow> (tag \<times> info) list \<Rightarrow> info km" where
  "find_info t [] = Err (Hal InvalidTag)"
| "find_info t ((t', i) # rest) = (if t = t' then Ok i else find_info t rest)"

definition tag_info :: "tag \<Rightarrow> info km" where
  "tag_info t = find_info t INFO"

definition multivalued :: "tag \<Rightarrow> bool" where
  "multivalued t = (case tag_type_of t of
     TagType_EnumRep \<Rightarrow> True | TagType_UintRep \<Rightarrow> True | TagType_UlongRep \<Rightarrow> True | _ \<Rightarrow> False)"

section \<open>The duplicate checker\<close>

type_synonym duplicate_tag_checker = u64

definition dup_default :: duplicate_tag_checker where
  "dup_default = 0"

definition dup_add :: "tag \<Rightarrow> duplicate_tag_checker \<Rightarrow> duplicate_tag_checker km" where
  "dup_add t c = and_then (tag_info t) (\<lambda>i.
     let bit_idx = info_bit_index i in
     if 64 \<le> bit_idx then Panic else
     let bit_mask = push_bit bit_idx 1 in
     if \<not> multivalued t \<and> and c bit_mask \<noteq> 0 then Err (Hal InvalidKeyBlob)
     else Ok (or c bit_mask))"

definition dup_add_all :: "tag list \<Rightarrow> duplicate_tag_checker km" where
  "dup_add_all ts = fold_res dup_add ts dup_default"

section \<open>Facts about the table\<close>

lemmas INFO_parts =
  INFO_def INFO_1_def INFO_2_def INFO_3_def INFO_4_def INFO_5_def INFO_6_def INFO_7_def

lemma INFO_tags_distinct: "distinct (map fst INFO)"
  by (simp add: INFO_parts)

lemma INFO_bit_indices: "map (info_bit_index \<circ> snd) INFO = [0..<61]"
  by (simp add: INFO_parts upt_rec)

lemma find_info_map_of:
  "find_info t xs = (case map_of xs t of Some i \<Rightarrow> Ok i | None \<Rightarrow> Err (Hal InvalidTag))"
  by (induction xs) auto

lemma tag_info_eq_Ok: "tag_info t = Ok i \<longleftrightarrow> (t, i) \<in> set INFO"
  by (auto simp: tag_info_def find_info_map_of map_of_eq_Some_iff [OF INFO_tags_distinct, symmetric]
      split: option.splits)

definition known_tag :: "tag \<Rightarrow> bool" where
  "known_tag t \<longleftrightarrow> t \<in> fst ` set INFO"

lemma known_tag_iff: "known_tag t \<longleftrightarrow> is_ok (tag_info t)"
  by (force simp: known_tag_def is_ok_iff tag_info_eq_Ok image_iff)

lemma tag_info_unknown: "\<not> known_tag t \<Longrightarrow> tag_info t = Err (Hal InvalidTag)"
  by (simp add: known_tag_def tag_info_def find_info_map_of map_of_eq_None_iff split: option.splits)

lemma bit_index_bound: "(t, i) \<in> set INFO \<Longrightarrow> info_bit_index i < 61"
proof -
  assume "(t, i) \<in> set INFO"
  then have "info_bit_index i \<in> set (map (info_bit_index \<circ> snd) INFO)"
    by force
  then show ?thesis
    by (simp add: INFO_bit_indices)
qed

lemma bit_index_inj:
  assumes "(t, i) \<in> set INFO" "(t', i') \<in> set INFO" "info_bit_index i = info_bit_index i'"
  shows "t = t'"
proof -
  have "distinct (map (info_bit_index \<circ> snd) INFO)"
    by (simp add: INFO_bit_indices)
  then have inj: "inj_on (info_bit_index \<circ> snd) (set INFO)"
    by (simp add: distinct_map)
  show ?thesis
    using inj_onD [OF inj, of "(t, i)" "(t', i')"] assms by simp
qed

text \<open>The type nibble in a tag number is the type recorded in the table.\<close>

lemma INFO_tt: "(t, i) \<in> set INFO \<Longrightarrow> info_tt i = tag_type_of t"
proof -
  have "list_all (\<lambda>(t, i). info_tt i = tag_type_of t) INFO"
    by (simp add: INFO_parts tag_type_of_def tag_u32_def)
  then show "(t, i) \<in> set INFO \<Longrightarrow> info_tt i = tag_type_of t"
    by (auto simp: list_all_iff)
qed

text \<open>Every tag that a key parameter can carry is in the table.\<close>

lemma known_key_param_tag: "known_tag (key_param_tag p)"
proof -
  have "list_all (\<lambda>t. known_tag t \<or>
      t \<in> set [Tag_Invalid, Tag_HardwareType, Tag_MinSecondsBetweenOps, Tag_IdentityCredentialKey,
        Tag_AssociatedData, Tag_ConfirmationToken]) tag_variants"
    by code_simp
  then have "known_tag (key_param_tag p) \<or>
      key_param_tag p \<in> set [Tag_Invalid, Tag_HardwareType, Tag_MinSecondsBetweenOps,
        Tag_IdentityCredentialKey, Tag_AssociatedData, Tag_ConfirmationToken]"
    using tag_enum.exhaustive by (simp add: list_all_iff)
  then show ?thesis
    by (auto simp: key_param_tag_simps)
qed

section \<open>Specification of the duplicate checker\<close>

text \<open>
  What the callers rely on: a tracker is a set of tags, and \<open>add\<close> either inserts or rejects.
\<close>

definition spec_add :: "tag \<Rightarrow> tag set \<Rightarrow> tag set km" where
  "spec_add t S =
    (if \<not> known_tag t then Err (Hal InvalidTag)
     else if \<not> multivalued t \<and> t \<in> S then Err (Hal InvalidKeyBlob)
     else Ok (insert t S))"

lemma spec_add_eq_Ok:
  "spec_add t S = Ok S' \<longleftrightarrow> known_tag t \<and> (multivalued t \<or> t \<notin> S) \<and> S' = insert t S"
  by (auto simp: spec_add_def)

lemma spec_add_not_Panic: "spec_add t S \<noteq> Panic"
  by (simp add: spec_add_def)

lemma spec_add_all_eq_Ok:
  "fold_res spec_add ts S = Ok S' \<longleftrightarrow>
     S' = S \<union> set ts \<and> (\<forall>t \<in> set ts. known_tag t) \<and>
     (\<forall>t. \<not> multivalued t \<longrightarrow> count_list ts t \<le> 1 \<and> (t \<in> S \<longrightarrow> t \<notin> set ts))"
proof (induction ts arbitrary: S)
  case (Cons t ts)
  have count: "count_list (t # ts) u \<le> 1 \<longleftrightarrow> count_list ts u \<le> 1 \<and> (u = t \<longrightarrow> u \<notin> set ts)" for u
    by (auto simp: count_list_0_iff)
  have "fold_res spec_add (t # ts) S = Ok S' \<longleftrightarrow>
      known_tag t \<and> (multivalued t \<or> t \<notin> S) \<and> fold_res spec_add ts (insert t S) = Ok S'"
    by (simp add: and_then_eq_Ok spec_add_eq_Ok)
  then show ?case
    unfolding Cons.IH count by auto
qed auto

locale tag_tracker =
  fixes init :: 'c and add :: "tag \<Rightarrow> 'c \<Rightarrow> 'c km" and view :: "'c \<Rightarrow> tag set"
  assumes view_init: "view init = {}"
    and view_add: "map_ok view (add t c) = spec_add t (view c)"
begin

lemma add_all_simulates:
  "map_ok view (fold_res add ts c) = fold_res spec_add ts (view c)"
proof (induction ts arbitrary: c)
  case (Cons t ts)
  show ?case
    unfolding fold_res.simps map_ok_and_then Cons.IH view_add [symmetric]
    by (cases "add t c") auto
qed simp

lemma add_all_eq_Ok:
  "(\<exists>c. fold_res add ts init = Ok c) \<longleftrightarrow>
     (\<forall>t \<in> set ts. known_tag t) \<and> (\<forall>t. \<not> multivalued t \<longrightarrow> count_list ts t \<le> 1)"
proof -
  have "(\<exists>c. fold_res add ts init = Ok c) \<longleftrightarrow> (\<exists>S. map_ok view (fold_res add ts init) = Ok S)"
    by (cases "fold_res add ts init") auto
  then show ?thesis
    by (simp add: add_all_simulates spec_add_all_eq_Ok view_init)
qed

lemma add_all_not_Panic: "fold_res add ts c \<noteq> Panic"
proof
  assume "fold_res add ts c = Panic"
  then have "fold_res spec_add ts (view c) = Panic"
    using add_all_simulates [of ts c] by simp
  moreover have "fold_res spec_add ts S \<noteq> Panic" for S
    by (induction ts arbitrary: S) (auto simp: and_then_eq_Panic spec_add_eq_Ok spec_add_not_Panic)
  ultimately show False
    by simp
qed

end

text \<open>The bit set: a tag is present when the bit at its index is set.\<close>

definition dup_seen :: "duplicate_tag_checker \<Rightarrow> tag set" where
  "dup_seen c = {t. \<exists>i. (t, i) \<in> set INFO \<and> bit c (info_bit_index i)}"

lemma dup_seen_or:
  assumes "(t, i) \<in> set INFO"
  shows "dup_seen (or c (push_bit (info_bit_index i) 1)) = insert t (dup_seen c)"
proof -
  let ?n = "info_bit_index i"
  have bit_or: "bit (or c (push_bit ?n 1)) m \<longleftrightarrow> bit c m \<or> m = ?n" for m
    using bit_index_bound [OF assms] by (auto simp: bit_simps)
  have "(u, j) \<in> set INFO \<Longrightarrow> info_bit_index j = ?n \<Longrightarrow> u = t" for u j
    using bit_index_inj assms by blast
  then show ?thesis
    unfolding dup_seen_def bit_or using assms by blast
qed

lemma in_dup_seen:
  assumes "(t, i) \<in> set INFO"
  shows "t \<in> dup_seen c \<longleftrightarrow> and c (push_bit (info_bit_index i) 1) \<noteq> 0"
proof -
  have "(t, j) \<in> set INFO \<Longrightarrow> j = i" for j
    using assms by (simp add: map_of_eq_Some_iff [OF INFO_tags_distinct, symmetric])
  then have "t \<in> dup_seen c \<longleftrightarrow> bit c (info_bit_index i)"
    using assms unfolding dup_seen_def by blast
  then show ?thesis
    by (simp only: bit_iff_and_push_bit_not_eq_0)
qed

interpretation dup_checker: tag_tracker dup_default dup_add dup_seen
proof
  show "dup_seen dup_default = {}"
    by (simp add: dup_seen_def dup_default_def)
  show "map_ok dup_seen (dup_add t c) = spec_add t (dup_seen c)" for t c
  proof (cases "known_tag t")
    case True
    then obtain i where i: "tag_info t = Ok i" "(t, i) \<in> set INFO"
      by (auto simp: known_tag_iff is_ok_iff tag_info_eq_Ok)
    show ?thesis
      using True i bit_index_bound [OF i(2)]
      by (simp add: dup_add_def spec_add_def Let_def
          in_dup_seen [OF i(2), simplified] dup_seen_or [OF i(2), simplified])
  next
    case False
    then show ?thesis
      by (simp add: dup_add_def spec_add_def tag_info_unknown)
  qed
qed

text \<open>
  C34: the duplicate checker, a 64-bit set indexed by the table's bit indices, accepts a sequence
  of tags exactly when every tag is in the table and no tag that takes a single value occurs more
  than once; and it never panics, whatever the tags.
\<close>

theorem dup_add_all_correct:
  "is_ok (dup_add_all ts) =
     (list_all known_tag ts \<and> list_all (\<lambda>t. multivalued t \<or> count_list ts t = 1) ts)
   \<and> dup_add_all ts \<noteq> Panic"
proof -
  have single: "(\<forall>t. \<not> multivalued t \<longrightarrow> count_list ts t \<le> 1) \<longleftrightarrow>
      list_all (\<lambda>t. multivalued t \<or> count_list ts t = 1) ts"
    by (auto simp: list_all_iff le_Suc_eq count_list_0_iff)
  show ?thesis
    using dup_checker.add_all_eq_Ok [of ts] dup_checker.add_all_not_Panic [of ts dup_default]
    unfolding single by (simp add: dup_add_all_def is_ok_iff Ball_set)
qed

text \<open>The tags whose table entry satisfies a predicate.\<close>

definition tags_with :: "(info \<Rightarrow> bool) \<Rightarrow> tag list" where
  "tags_with P = map fst (filter (\<lambda>(t, i). P i) INFO)"

text \<open>
  The constants listing the characteristics that keystore enforces, that KeyMint enforces and
  that KeyMint adds by itself hold exactly the tags whose table entries say so, and the type
  recorded in every entry is the one encoded in the tag number.
\<close>

lemma enforced_lists_match_INFO:
  "set KEYSTORE_ENFORCED_CHARACTERISTICS =
     set (tags_with (\<lambda>i. info_characteristic i = KeystoreEnforced))
   \<and> set KEYMINT_ENFORCED_CHARACTERISTICS =
     set (tags_with (\<lambda>i. info_characteristic i = KeyMintEnforced))
   \<and> set AUTO_ADDED_CHARACTERISTICS = set (tags_with info_keymint_auto_adds)
   \<and> list_all (\<lambda>(t, i). info_tt i = tag_type_of t) INFO"
proof (intro conjI)
  show "set KEYSTORE_ENFORCED_CHARACTERISTICS =
      set (tags_with (\<lambda>i. info_characteristic i = KeystoreEnforced))"
    by code_simp
  show "set KEYMINT_ENFORCED_CHARACTERISTICS =
      set (tags_with (\<lambda>i. info_characteristic i = KeyMintEnforced))"
    by code_simp
  show "set AUTO_ADDED_CHARACTERISTICS = set (tags_with info_keymint_auto_adds)"
    by code_simp
  show "list_all (\<lambda>(t, i). info_tt i = tag_type_of t) INFO"
    using INFO_tt by (auto simp: list_all_iff)
qed

end
