(* ===== verification/Tag_Get.thy ===== *)
theory Tag_Get
  imports Tag_Info
begin

text \<open>
  Access to collections of key parameters (\<open>common/src/tag.rs\<close>, lines 54-265): the macros
  \<open>get_tag_value!\<close>, \<open>get_opt_tag_value!\<close>, \<open>get_bool_tag_value!\<close> and \<open>contains_tag_value!\<close>, the
  getters built on them, the validity check of key characteristics, the transcription of tags and
  the hidden parameters that bind a key to an application.

  A macro invocation names a variant of \<open>KeyParam\<close>; here the variant is a selector, a partial
  function from a parameter to the payload of that variant.
\<close>

section \<open>Selectors\<close>

fun sel_Purpose :: "key_param \<Rightarrow> key_purpose option" where
  "sel_Purpose (KP_Purpose v) = Some v"
| "sel_Purpose _ = None"

fun sel_Algorithm :: "key_param \<Rightarrow> algorithm option" where
  "sel_Algorithm (KP_Algorithm v) = Some v"
| "sel_Algorithm _ = None"

fun sel_BlockMode :: "key_param \<Rightarrow> block_mode option" where
  "sel_BlockMode (KP_BlockMode v) = Some v"
| "sel_BlockMode _ = None"

fun sel_Digest :: "key_param \<Rightarrow> digest option" where
  "sel_Digest (KP_Digest v) = Some v"
| "sel_Digest _ = None"

fun sel_Padding :: "key_param \<Rightarrow> padding_mode option" where
  "sel_Padding (KP_Padding v) = Some v"
| "sel_Padding _ = None"

fun sel_EcCurve :: "key_param \<Rightarrow> ec_curve option" where
  "sel_EcCurve (KP_EcCurve v) = Some v"
| "sel_EcCurve _ = None"

fun sel_RsaOaepMgfDigest :: "key_param \<Rightarrow> digest option" where
  "sel_RsaOaepMgfDigest (KP_RsaOaepMgfDigest v) = Some v"
| "sel_RsaOaepMgfDigest _ = None"

fun sel_u32 :: "u32_tag \<Rightarrow> key_param \<Rightarrow> u32 option" where
  "sel_u32 t (KP_U32 t' v) = (if t' = t then Some v else None)"
| "sel_u32 t _ = None"

fun sel_u64 :: "u64_tag \<Rightarrow> key_param \<Rightarrow> u64 option" where
  "sel_u64 t (KP_U64 t' v) = (if t' = t then Some v else None)"
| "sel_u64 t _ = None"

fun sel_bytes :: "bytes_tag \<Rightarrow> key_param \<Rightarrow> bytes option" where
  "sel_bytes t (KP_Bytes t' v) = (if t' = t then Some v else None)"
| "sel_bytes t _ = None"

section \<open>The macros\<close>

text \<open>The loops of the macros count the matching parameters and remember the last one.\<close>

fun scan_tag :: "(key_param \<Rightarrow> 'v option) \<Rightarrow> key_param list \<Rightarrow> nat \<times> 'v option \<Rightarrow> nat \<times> 'v option" where
  "scan_tag sel [] acc = acc"
| "scan_tag sel (p # ps) (count, result) = (case sel p of
     Some v \<Rightarrow> scan_tag sel ps (Suc count, Some v)
   | None \<Rightarrow> scan_tag sel ps (count, result))"

definition get_tag_value :: "(key_param \<Rightarrow> 'v option) \<Rightarrow> error_code \<Rightarrow> key_param list \<Rightarrow> 'v km" where
  "get_tag_value sel err params = (case scan_tag sel params (0, None) of (count, result) \<Rightarrow>
     if count = 0 then Err (Hal err)
     else if count = 1 then (case result of Some v \<Rightarrow> Ok v | None \<Rightarrow> Panic)
     else Err (Hal err))"

definition get_opt_tag_value ::
  "(key_param \<Rightarrow> 'v option) \<Rightarrow> error_code \<Rightarrow> key_param list \<Rightarrow> 'v option km" where
  "get_opt_tag_value sel dup_error params = (case scan_tag sel params (0, None) of (count, result) \<Rightarrow>
     if count = 0 then Ok None
     else if count = 1 then (case result of Some v \<Rightarrow> Ok (Some v) | None \<Rightarrow> Panic)
     else Err (Hal dup_error))"

definition get_bool_tag_value :: "bool_tag \<Rightarrow> key_param list \<Rightarrow> bool km" where
  "get_bool_tag_value t params = (let count = length (filter (\<lambda>p. p = KP_Bool t) params) in
     if count = 0 then Ok False else if count = 1 then Ok True else Err (Hal InvalidTag))"

definition contains_tag_value :: "(key_param \<Rightarrow> 'v option) \<Rightarrow> 'v \<Rightarrow> key_param list \<Rightarrow> bool" where
  "contains_tag_value sel value params = list_ex (\<lambda>p. sel p = Some value) params"

text \<open>Reference reading: the list of payloads of the selected variant.\<close>

definition tag_values :: "(key_param \<Rightarrow> 'v option) \<Rightarrow> key_param list \<Rightarrow> 'v list" where
  "tag_values sel params = List.map_filter sel params"

lemma tag_values_simps [simp]:
  "tag_values sel [] = []"
  "tag_values sel (p # ps) = (case sel p of Some v \<Rightarrow> v # tag_values sel ps | None \<Rightarrow> tag_values sel ps)"
  "tag_values sel (ps @ qs) = tag_values sel ps @ tag_values sel qs"
  by (simp_all add: tag_values_def List.map_filter_def split: option.splits)

lemma set_tag_values: "v \<in> set (tag_values sel ps) \<longleftrightarrow> (\<exists>p \<in> set ps. sel p = Some v)"
  by (induction ps) (auto split: option.splits)

lemma scan_tag_tag_values:
  "scan_tag sel ps (n, r) = (n + length (tag_values sel ps),
     if tag_values sel ps = [] then r else Some (last (tag_values sel ps)))"
  by (induction ps arbitrary: n r) (auto split: option.splits)

lemma get_tag_value_values:
  "get_tag_value sel err ps = (case tag_values sel ps of [v] \<Rightarrow> Ok v | _ \<Rightarrow> Err (Hal err))"
  by (auto simp: get_tag_value_def scan_tag_tag_values split: list.splits)

lemma get_opt_tag_value_values:
  "get_opt_tag_value sel err ps =
     (case tag_values sel ps of [] \<Rightarrow> Ok None | [v] \<Rightarrow> Ok (Some v) | _ \<Rightarrow> Err (Hal err))"
  by (auto simp: get_opt_tag_value_def scan_tag_tag_values split: list.splits)

lemma contains_tag_value_iff: "contains_tag_value sel v ps \<longleftrightarrow> v \<in> set (tag_values sel ps)"
  by (auto simp: contains_tag_value_def list_ex_iff set_tag_values)

lemma get_tag_value_eq [res_simps]:
  "get_tag_value sel err ps = Ok v \<longleftrightarrow> tag_values sel ps = [v]"
  "get_tag_value sel err ps = Err e \<longleftrightarrow> length (tag_values sel ps) \<noteq> 1 \<and> e = Hal err"
  "get_tag_value sel err ps = Panic \<longleftrightarrow> False"
  by (auto simp: get_tag_value_values split: list.splits)

lemma get_opt_tag_value_eq [res_simps]:
  "get_opt_tag_value sel err ps = Ok None \<longleftrightarrow> tag_values sel ps = []"
  "get_opt_tag_value sel err ps = Ok (Some v) \<longleftrightarrow> tag_values sel ps = [v]"
  "get_opt_tag_value sel err ps = Err e \<longleftrightarrow> 1 < length (tag_values sel ps) \<and> e = Hal err"
  "get_opt_tag_value sel err ps = Panic \<longleftrightarrow> False"
  by (auto simp: get_opt_tag_value_values split: list.splits)

lemma get_bool_tag_value_eq [res_simps]:
  "get_bool_tag_value t ps = Ok b \<longleftrightarrow>
     (if b then count_list ps (KP_Bool t) = 1 else KP_Bool t \<notin> set ps)"
  "get_bool_tag_value t ps = Panic \<longleftrightarrow> False"
proof -
  have count: "length (filter (\<lambda>p. p = KP_Bool t) ps) = count_list ps (KP_Bool t)"
    by (induction ps) auto
  show "get_bool_tag_value t ps = Ok b \<longleftrightarrow>
     (if b then count_list ps (KP_Bool t) = 1 else KP_Bool t \<notin> set ps)"
    by (auto simp: get_bool_tag_value_def Let_def count count_list_0_iff)
  show "get_bool_tag_value t ps = Panic \<longleftrightarrow> False"
    by (simp add: get_bool_tag_value_def Let_def)
qed

section \<open>Getters\<close>

definition get_algorithm :: "key_param list \<Rightarrow> algorithm km" where
  "get_algorithm = get_tag_value sel_Algorithm UnsupportedAlgorithm"

definition get_block_mode :: "key_param list \<Rightarrow> block_mode km" where
  "get_block_mode = get_tag_value sel_BlockMode UnsupportedBlockMode"

definition get_padding_mode :: "key_param list \<Rightarrow> padding_mode km" where
  "get_padding_mode = get_tag_value sel_Padding UnsupportedPaddingMode"

definition get_digest :: "key_param list \<Rightarrow> digest km" where
  "get_digest = get_tag_value sel_Digest UnsupportedDigest"

definition get_ec_curve :: "key_param list \<Rightarrow> ec_curve km" where
  "get_ec_curve = get_tag_value sel_EcCurve UnsupportedKeySize"

definition get_mgf_digest :: "key_param list \<Rightarrow> digest km" where
  "get_mgf_digest params =
     and_then (get_opt_tag_value sel_RsaOaepMgfDigest InvalidTag params) (\<lambda>d.
     Ok (case d of Some d \<Rightarrow> d | None \<Rightarrow> Digest_Sha1))"

definition DEFAULT_CERT_SERIAL :: bytes where
  "DEFAULT_CERT_SERIAL = [0x01]"

definition DEFAULT_CERT_SUBJECT :: bytes where
  "DEFAULT_CERT_SUBJECT =
    [0x30, 0x1f, 0x31, 0x1d, 0x30, 0x1b, 0x06, 0x03, 0x55, 0x04, 0x03, 0x0c, 0x14,
     0x41, 0x6e, 0x64, 0x72, 0x6f, 0x69, 0x64, 0x20, 0x4b, 0x65, 0x79, 0x73, 0x74, 0x6f, 0x72, 0x65,
     0x20, 0x4b, 0x65, 0x79]"

definition get_cert_serial :: "key_param list \<Rightarrow> bytes km" where
  "get_cert_serial params =
     and_then (get_opt_tag_value (sel_bytes Bytes_CertificateSerial) InvalidTag params) (\<lambda>s.
     Ok (case s of Some s \<Rightarrow> s | None \<Rightarrow> DEFAULT_CERT_SERIAL))"

definition get_cert_subject :: "key_param list \<Rightarrow> bytes km" where
  "get_cert_subject params =
     and_then (get_opt_tag_value (sel_bytes Bytes_CertificateSubject) InvalidTag params) (\<lambda>s.
     Ok (case s of Some s \<Rightarrow> s | None \<Rightarrow> DEFAULT_CERT_SUBJECT))"

lemmas getter_defs =
  get_algorithm_def get_block_mode_def get_padding_mode_def get_digest_def get_ec_curve_def

section \<open>Characteristics\<close>

record key_characteristics =
  kc_security_level :: security_level
  kc_authorizations :: "key_param list"

fun characteristics_valid_from ::
  "duplicate_tag_checker \<Rightarrow> key_param list \<Rightarrow> unit km" where
  "characteristics_valid_from c [] = Ok ()"
| "characteristics_valid_from c (p # ps) =
     and_then (dup_add (key_param_tag p) c) (\<lambda>c'.
     and_then (tag_info (key_param_tag p)) (\<lambda>i.
     if info_characteristic i = NotKeyCharacteristic then Err (Hal InvalidKeyBlob)
     else characteristics_valid_from c' ps))"

definition characteristics_valid :: "key_param list \<Rightarrow> unit km" where
  "characteristics_valid = characteristics_valid_from dup_default"

fun transcribe_tags_from ::
  "duplicate_tag_checker \<Rightarrow> key_param list \<Rightarrow> key_param list \<Rightarrow> tag list \<Rightarrow> key_param list km" where
  "transcribe_tags_from c dest [] tags = Ok dest"
| "transcribe_tags_from c dest (p # ps) tags =
     and_then (dup_add (key_param_tag p) c) (\<lambda>c'.
     transcribe_tags_from c'
       (if list_ex (\<lambda>t. t = key_param_tag p) tags then dest @ [p] else dest) ps tags)"

definition transcribe_tags ::
  "key_param list \<Rightarrow> key_param list \<Rightarrow> tag list \<Rightarrow> key_param list km" where
  "transcribe_tags dest src tags = transcribe_tags_from dup_default dest src tags"

fun characteristics_at_from ::
  "key_param list option \<Rightarrow> key_characteristics list \<Rightarrow> security_level \<Rightarrow> key_param list km" where
  "characteristics_at_from result [] sec_level = ok_or result (Hal InvalidKeyBlob)"
| "characteristics_at_from result (c # cs) sec_level =
    (if kc_security_level c \<noteq> sec_level then characteristics_at_from result cs sec_level
     else if result = None then characteristics_at_from (Some (kc_authorizations c)) cs sec_level
     else Err (Hal InvalidKeyBlob))"

definition characteristics_at ::
  "key_characteristics list \<Rightarrow> security_level \<Rightarrow> key_param list km" where
  "characteristics_at = characteristics_at_from None"

text \<open>
  \<open>hidden\<close>: an application id or application data parameter is used only when its lookup
  succeeds (\<open>if let Ok(Some(..))\<close>).
\<close>

definition hidden :: "key_param list \<Rightarrow> bytes \<Rightarrow> key_param list km" where
  "hidden params rot = Ok (
     (case get_opt_tag_value (sel_bytes Bytes_ApplicationId) InvalidTag params of
        Ok (Some app_id) \<Rightarrow> [KP_ApplicationId app_id] | _ \<Rightarrow> []) @
     (case get_opt_tag_value (sel_bytes Bytes_ApplicationData) InvalidTag params of
        Ok (Some app_data) \<Rightarrow> [KP_ApplicationData app_data] | _ \<Rightarrow> []) @
     [KP_RootOfTrust rot])"

section \<open>Properties\<close>

lemma dup_known_not_Err_InvalidTag: "dup_add (key_param_tag p) c \<noteq> Err (Hal InvalidTag)"
  using known_key_param_tag [of p]
  by (auto simp: dup_add_def known_tag_iff is_ok_iff and_then_eq_Err Let_def split: if_splits)

definition is_characteristic :: "tag \<Rightarrow> bool" where
  "is_characteristic t = list_ex (\<lambda>(t', i). t' = t \<and> info_characteristic i \<noteq> NotKeyCharacteristic) INFO"

lemma is_characteristic_info:
  "tag_info t = Ok i \<Longrightarrow> is_characteristic t \<longleftrightarrow> info_characteristic i \<noteq> NotKeyCharacteristic"
proof -
  assume i: "tag_info t = Ok i"
  have "(t, j) \<in> set INFO \<longleftrightarrow> j = i" for j
    using i by (auto simp: tag_info_eq_Ok [symmetric])
  then show ?thesis
    by (auto simp: is_characteristic_def list_ex_iff)
qed

lemma tag_info_param: "\<exists>i. tag_info (key_param_tag p) = Ok i"
  using known_key_param_tag by (simp add: known_tag_iff is_ok_iff)

lemma characteristics_valid_from_Ok:
  "characteristics_valid_from c ps = Ok () \<longleftrightarrow>
     is_ok (fold_res dup_add (map key_param_tag ps) c) \<and> list_all (is_characteristic \<circ> key_param_tag) ps"
proof (induction ps arbitrary: c)
  case (Cons p ps)
  obtain i where i: "tag_info (key_param_tag p) = Ok i"
    using tag_info_param by blast
  show ?case
    using is_characteristic_info [OF i] i
    by (cases "dup_add (key_param_tag p) c") (auto simp: Cons.IH)
qed simp

lemma transcribe_tags_from_Ok:
  "transcribe_tags_from c dest src tags =
     map_ok (\<lambda>_. dest @ filter (\<lambda>p. key_param_tag p \<in> set tags) src)
       (fold_res dup_add (map key_param_tag src) c)"
proof (induction src arbitrary: c dest)
  case (Cons p ps)
  then show ?case
    by (cases "dup_add (key_param_tag p) c") (auto simp: list_ex_iff)
qed simp

lemma characteristics_at_from_Some:
  "characteristics_at_from (Some qs) cs l =
     (if filter (\<lambda>c. kc_security_level c = l) cs = [] then Ok qs else Err (Hal InvalidKeyBlob))"
  by (induction cs) auto

text \<open>
  C36: \<open>characteristics_valid\<close> accepts a list of parameters exactly when every parameter's tag is
  a key characteristic and no single-valued tag occurs twice; it never panics.
\<close>

theorem characteristics_valid_correct:
  "(characteristics_valid ps = Ok ()) =
     (list_all (is_characteristic \<circ> key_param_tag) ps \<and>
      list_all (\<lambda>p. multivalued (key_param_tag p) \<or>
        count_list (map key_param_tag ps) (key_param_tag p) = 1) ps)
   \<and> characteristics_valid ps \<noteq> Panic"
proof
  have known: "\<forall>t \<in> set (map key_param_tag ps). known_tag t"
    using known_key_param_tag by auto
  have single: "(\<forall>t. \<not> multivalued t \<longrightarrow> count_list (map key_param_tag ps) t \<le> 1) \<longleftrightarrow>
      list_all (\<lambda>p. multivalued (key_param_tag p) \<or>
        count_list (map key_param_tag ps) (key_param_tag p) = 1) ps"
    (is "?l \<longleftrightarrow> ?r")
  proof
    assume ?l
    then show ?r
      by (auto simp: list_all_iff le_Suc_eq count_list_0_iff)
  next
    assume r: ?r
    show ?l
    proof (intro allI impI)
      fix t
      assume "\<not> multivalued t"
      then show "count_list (map key_param_tag ps) t \<le> 1"
        using r by (cases "t \<in> key_param_tag ` set ps") (auto simp: list_all_iff count_list_0_iff)
    qed
  qed
  show "(characteristics_valid ps = Ok ()) =
     (list_all (is_characteristic \<circ> key_param_tag) ps \<and>
      list_all (\<lambda>p. multivalued (key_param_tag p) \<or>
        count_list (map key_param_tag ps) (key_param_tag p) = 1) ps)"
    using dup_checker.add_all_eq_Ok [of "map key_param_tag ps"] known single
    unfolding characteristics_valid_def characteristics_valid_from_Ok is_ok_iff by blast
  have "characteristics_valid_from c ps \<noteq> Panic" for c
  proof (induction ps arbitrary: c)
    case (Cons p ps)
    have "dup_add (key_param_tag p) c \<noteq> Panic"
      using dup_checker.add_all_not_Panic [of "[key_param_tag p]" c] by (auto simp: and_then_eq_Panic)
    moreover obtain i where "tag_info (key_param_tag p) = Ok i"
      using tag_info_param by blast
    ultimately show ?case
      using Cons.IH by (auto simp: and_then_eq_Panic)
  qed simp
  then show "characteristics_valid ps \<noteq> Panic"
    by (simp add: characteristics_valid_def)
qed

text \<open>
  \<open>transcribe_tags\<close> appends exactly the parameters whose tags are listed, in their order; it
  succeeds exactly when no single-valued tag occurs twice in the source, even with equal values.
\<close>

theorem transcribe_tags_correct:
  "transcribe_tags dest src tags =
     (if is_ok (dup_add_all (map key_param_tag src))
      then Ok (dest @ filter (\<lambda>p. key_param_tag p \<in> set tags) src)
      else Err (Hal InvalidKeyBlob))"
proof -
  have not_tag: "fold_res dup_add (map key_param_tag ps) c \<in> range Ok \<union> {Err (Hal InvalidKeyBlob)}"
    for ps c
  proof (induction ps arbitrary: c)
    case (Cons p ps)
    obtain i where i: "tag_info (key_param_tag p) = Ok i" "(key_param_tag p, i) \<in> set INFO"
      using tag_info_param tag_info_eq_Ok by blast
    show ?case
      using Cons.IH i(1) bit_index_bound [OF i(2)] by (auto simp: dup_add_def Let_def)
  qed simp
  show ?thesis
    using not_tag [of src dup_default]
    by (auto simp: transcribe_tags_def transcribe_tags_from_Ok dup_add_all_def)
qed

text \<open>
  \<open>characteristics_at\<close> returns the authorizations of the only entry at the given security
  level; with no such entry, or more than one, it fails with \<open>InvalidKeyBlob\<close>.
\<close>

lemma characteristics_at_eq:
  "characteristics_at cs l =
     (case filter (\<lambda>c. kc_security_level c = l) cs of
        [c] \<Rightarrow> Ok (kc_authorizations c)
      | _ \<Rightarrow> Err (Hal InvalidKeyBlob))"
  unfolding characteristics_at_def
  by (induction cs) (auto simp: characteristics_at_from_Some split: list.splits)

text \<open>
  A parameter list with several application ids is treated by \<open>hidden\<close> as one with none: a
  key created with a repeated application id is bound to no application id at all.
\<close>

lemma hidden_drops_repeated_app_id:
  "1 < length (tag_values (sel_bytes Bytes_ApplicationId) ps) \<Longrightarrow>
     hidden ps rot = hidden (filter (\<lambda>p. sel_bytes Bytes_ApplicationId p = None) ps) rot"
proof -
  let ?id = "sel_bytes Bytes_ApplicationId" and ?data = "sel_bytes Bytes_ApplicationData"
  let ?qs = "filter (\<lambda>p. ?id p = None) ps"
  assume "1 < length (tag_values ?id ps)"
  then have "get_opt_tag_value ?id InvalidTag ps = Err (Hal InvalidTag)"
    by (simp add: get_opt_tag_value_eq)
  moreover have "tag_values ?id ?qs = []"
    by (induction ps) (auto split: option.splits)
  then have "get_opt_tag_value ?id InvalidTag ?qs = Ok None"
    by (simp add: get_opt_tag_value_eq)
  moreover have "?id p \<noteq> None \<Longrightarrow> ?data p = None" for p
    by (cases p) (auto split: if_splits)
  then have "tag_values ?data ?qs = tag_values ?data ps"
    by (induction ps) (auto split: option.splits)
  then have "get_opt_tag_value ?data InvalidTag ?qs = get_opt_tag_value ?data InvalidTag ps"
    by (simp add: get_opt_tag_value_values)
  ultimately show ?thesis
    by (simp add: hidden_def)
qed

end
