(* ===== verification/Crypto_Types.thy ===== *)
theory Crypto_Types
  imports Tag_Get
begin

text \<open>
  Key material and operation modes (\<open>common/src/crypto.rs\<close> and its submodules \<open>aes\<close>, \<open>des\<close>,
  \<open>hmac\<close>, \<open>rsa\<close>, \<open>ec\<close>): the types, the sizes, the choice of a cipher mode from begin parameters,
  and the conversions of elliptic curve data.

  Fixed-size arrays \<open>[u8; N]\<close> are byte lists; a conversion \<open>try_into\<close> checks the length.  The
  random number generator is a state \<open>'r\<close> with the function \<open>fill\<close> of the trait \<open>Rng\<close>
  (\<open>fill_bytes\<close> on a zeroed buffer of the given length).  Locale \<open>rng\<close> states what the type of
  \<open>fill_bytes\<close> guarantees.
\<close>

section \<open>Random numbers\<close>

type_synonym 'r fill = "'r \<Rightarrow> nat \<Rightarrow> bytes \<times> 'r"

locale rng =
  fixes fill :: "'r fill"
  assumes length_fill: "length (fst (fill r n)) = n"

text \<open>\<open>NoOpRng\<close> leaves the buffer as it is.\<close>

definition noop_fill :: "unit fill" where
  "noop_fill r n = (replicate n 0, r)"

interpretation noop_rng: rng noop_fill
  by unfold_locales (simp add: noop_fill_def)

definition nonce :: "'r fill \<Rightarrow> nat \<Rightarrow> bytes option \<Rightarrow> 'r \<Rightarrow> bytes km \<times> 'r" where
  "nonce fill sz caller_nonce r = (case caller_nonce of
     Some n \<Rightarrow> (if length n = sz then Ok n else Err (Hal InvalidNonce), r)
   | None \<Rightarrow> (case fill r sz of (n, r') \<Rightarrow> (Ok n, r')))"

section \<open>AES\<close>

definition aes_BLOCK_SIZE :: nat where "aes_BLOCK_SIZE = 16"
definition GCM_NONCE_SIZE :: nat where "GCM_NONCE_SIZE = 12"

datatype aes_variant = Variant_Aes128 | Variant_Aes192 | Variant_Aes256

primrec variant_key_size :: "aes_variant \<Rightarrow> nat" where
  "variant_key_size Variant_Aes128 = 16"
| "variant_key_size Variant_Aes192 = 24"
| "variant_key_size Variant_Aes256 = 32"

datatype aes_key = Aes128 bytes | Aes192 bytes | Aes256 bytes

definition aes_key_new :: "bytes \<Rightarrow> aes_key km" where
  "aes_key_new data =
    (if length data = 16 then Ok (Aes128 data)
     else if length data = 24 then Ok (Aes192 data)
     else if length data = 32 then Ok (Aes256 data)
     else Err (Hal UnsupportedKeySize))"

primrec aes_key_size :: "aes_key \<Rightarrow> u32" where
  "aes_key_size (Aes128 _) = 128"
| "aes_key_size (Aes192 _) = 192"
| "aes_key_size (Aes256 _) = 256"

datatype aes_cipher_mode =
    EcbNoPadding | EcbPkcs7Padding | CbcNoPadding bytes | CbcPkcs7Padding bytes | Ctr bytes

datatype gcm_mode = GcmTag12 bytes | GcmTag13 bytes | GcmTag14 bytes | GcmTag15 bytes | GcmTag16 bytes

datatype aes_mode = Mode_Cipher aes_cipher_mode | Mode_Aead gcm_mode

primrec gcm_tag_len :: "gcm_mode \<Rightarrow> nat" where
  "gcm_tag_len (GcmTag12 _) = 12"
| "gcm_tag_len (GcmTag13 _) = 13"
| "gcm_tag_len (GcmTag14 _) = 14"
| "gcm_tag_len (GcmTag15 _) = 15"
| "gcm_tag_len (GcmTag16 _) = 16"

fun aes_is_aead :: "aes_mode \<Rightarrow> bool" where
  "aes_is_aead (Mode_Aead _) = True"
| "aes_is_aead (Mode_Cipher _) = False"

definition gcm_mode_for :: "key_param list \<Rightarrow> bytes \<Rightarrow> aes_mode km" where
  "gcm_mode_for params n =
     and_then (get_tag_value (sel_u32 U32_MacLength) InvalidMacLength params) (\<lambda>tag_len.
     if tag_len mod 8 \<noteq> 0 then Err (Hal InvalidMacLength)
     else let l = tag_len div 8 in
       if l = 12 then Ok (Mode_Aead (GcmTag12 n))
       else if l = 13 then Ok (Mode_Aead (GcmTag13 n))
       else if l = 14 then Ok (Mode_Aead (GcmTag14 n))
       else if l = 15 then Ok (Mode_Aead (GcmTag15 n))
       else if l = 16 then Ok (Mode_Aead (GcmTag16 n))
       else Err (Hal InvalidMacLength))"

definition array_of :: "nat \<Rightarrow> error \<Rightarrow> bytes \<Rightarrow> bytes km" where
  "array_of sz err v = (if length v = sz then Ok v else Err err)"

definition aes_mode_new :: "'r fill \<Rightarrow> key_param list \<Rightarrow> bytes option \<Rightarrow> 'r \<Rightarrow> aes_mode km \<times> 'r" where
  "aes_mode_new fill params caller_nonce =
     st_then (st_ret (get_block_mode params)) (\<lambda>mode.
     st_then (st_ret (get_padding_mode params)) (\<lambda>padding.
     case mode of
       BlockMode_Ecb \<Rightarrow> st_ret (
         if caller_nonce \<noteq> None then Err (Hal InvalidNonce)
         else if padding = PaddingMode_None then Ok (Mode_Cipher EcbNoPadding)
         else if padding = PaddingMode_Pkcs7 then Ok (Mode_Cipher EcbPkcs7Padding)
         else Err (Hal IncompatiblePaddingMode))
     | BlockMode_Cbc \<Rightarrow>
         st_then (nonce fill aes_BLOCK_SIZE caller_nonce) (\<lambda>n. st_ret (
         and_then (array_of aes_BLOCK_SIZE (Hal InvalidNonce) n) (\<lambda>n.
         if padding = PaddingMode_None then Ok (Mode_Cipher (CbcNoPadding n))
         else if padding = PaddingMode_Pkcs7 then Ok (Mode_Cipher (CbcPkcs7Padding n))
         else Err (Hal IncompatiblePaddingMode))))
     | BlockMode_Ctr \<Rightarrow>
         if padding \<noteq> PaddingMode_None then st_ret (Err (Hal IncompatiblePaddingMode))
         else st_then (nonce fill aes_BLOCK_SIZE caller_nonce) (\<lambda>n. st_ret (
           and_then (array_of aes_BLOCK_SIZE (Hal InvalidNonce) n) (\<lambda>n. Ok (Mode_Cipher (Ctr n)))))
     | BlockMode_Gcm \<Rightarrow>
         if padding \<noteq> PaddingMode_None then st_ret (Err (Hal IncompatiblePaddingMode))
         else st_then (nonce fill GCM_NONCE_SIZE caller_nonce) (\<lambda>n. st_ret (
           and_then (array_of GCM_NONCE_SIZE (Hal InvalidNonce) n) (gcm_mode_for params)))))"

text \<open>The nonce inside a mode.\<close>

primrec cipher_mode_nonce :: "aes_cipher_mode \<Rightarrow> bytes option" where
  "cipher_mode_nonce EcbNoPadding = None"
| "cipher_mode_nonce EcbPkcs7Padding = None"
| "cipher_mode_nonce (CbcNoPadding n) = Some n"
| "cipher_mode_nonce (CbcPkcs7Padding n) = Some n"
| "cipher_mode_nonce (Ctr n) = Some n"

primrec gcm_mode_nonce :: "gcm_mode \<Rightarrow> bytes" where
  "gcm_mode_nonce (GcmTag12 n) = n"
| "gcm_mode_nonce (GcmTag13 n) = n"
| "gcm_mode_nonce (GcmTag14 n) = n"
| "gcm_mode_nonce (GcmTag15 n) = n"
| "gcm_mode_nonce (GcmTag16 n) = n"

primrec aes_mode_nonce :: "aes_mode \<Rightarrow> bytes option" where
  "aes_mode_nonce (Mode_Cipher m) = cipher_mode_nonce m"
| "aes_mode_nonce (Mode_Aead m) = Some (gcm_mode_nonce m)"

section \<open>Triple DES\<close>

definition des_BLOCK_SIZE :: nat where "des_BLOCK_SIZE = 8"
definition des_KEY_SIZE_BITS :: u32 where "des_KEY_SIZE_BITS = 168"
definition des_KEY_SIZE_BYTES :: nat where "des_KEY_SIZE_BYTES = 24"

datatype des_key = DesKey bytes

definition des_key_new :: "bytes \<Rightarrow> des_key km" where
  "des_key_new data = (if length data = des_KEY_SIZE_BYTES then Ok (DesKey data)
     else Err (Hal UnsupportedKeySize))"

datatype des_mode =
    Des_EcbNoPadding | Des_EcbPkcs7Padding | Des_CbcNoPadding bytes | Des_CbcPkcs7Padding bytes

definition des_mode_new :: "'r fill \<Rightarrow> key_param list \<Rightarrow> bytes option \<Rightarrow> 'r \<Rightarrow> des_mode km \<times> 'r" where
  "des_mode_new fill params caller_nonce =
     st_then (st_ret (get_block_mode params)) (\<lambda>mode.
     st_then (st_ret (get_padding_mode params)) (\<lambda>padding.
     case mode of
       BlockMode_Ecb \<Rightarrow> st_ret (
         if caller_nonce \<noteq> None then Err (Hal InvalidNonce)
         else if padding = PaddingMode_None then Ok Des_EcbNoPadding
         else if padding = PaddingMode_Pkcs7 then Ok Des_EcbPkcs7Padding
         else Err (Hal IncompatiblePaddingMode))
     | BlockMode_Cbc \<Rightarrow>
         st_then (nonce fill des_BLOCK_SIZE caller_nonce) (\<lambda>n. st_ret (
         and_then (array_of des_BLOCK_SIZE (Hal InvalidNonce) n) (\<lambda>n.
         if padding = PaddingMode_None then Ok (Des_CbcNoPadding n)
         else if padding = PaddingMode_Pkcs7 then Ok (Des_CbcPkcs7Padding n)
         else Err (Hal IncompatiblePaddingMode))))
     | _ \<Rightarrow> st_ret (Err (Hal UnsupportedBlockMode))))"

primrec des_mode_nonce :: "des_mode \<Rightarrow> bytes option" where
  "des_mode_nonce Des_EcbNoPadding = None"
| "des_mode_nonce Des_EcbPkcs7Padding = None"
| "des_mode_nonce (Des_CbcNoPadding n) = Some n"
| "des_mode_nonce (Des_CbcPkcs7Padding n) = Some n"

section \<open>HMAC\<close>

definition hmac_MIN_KEY_SIZE_BITS :: nat where "hmac_MIN_KEY_SIZE_BITS = 64"
definition hmac_MAX_STRONGBOX_KEY_SIZE_BITS :: nat where "hmac_MAX_STRONGBOX_KEY_SIZE_BITS = 512"
definition hmac_MAX_KEY_SIZE_BITS :: nat where "hmac_MAX_KEY_SIZE_BITS = 1024"

datatype hmac_key = HmacKey bytes

definition hmac_valid_size :: "u32 \<Rightarrow> nat \<Rightarrow> unit km" where
  "hmac_valid_size key_size max_size_bits =
    (if key_size mod 8 \<noteq> 0 then Err (Hal UnsupportedKeySize)
     else if \<not> (hmac_MIN_KEY_SIZE_BITS \<le> unat key_size \<and> unat key_size \<le> max_size_bits)
       then Err (Hal UnsupportedKeySize)
     else Ok ())"

definition valid_hal_size :: "u32 \<Rightarrow> unit km" where
  "valid_hal_size key_size = hmac_valid_size key_size hmac_MAX_KEY_SIZE_BITS"

definition valid_strongbox_hal_size :: "u32 \<Rightarrow> unit km" where
  "valid_strongbox_hal_size key_size = hmac_valid_size key_size hmac_MAX_STRONGBOX_KEY_SIZE_BITS"

fun hmac_key_size :: "hmac_key \<Rightarrow> u32" where
  "hmac_key_size (HmacKey k) = word_of_nat (length k * 8)"

section \<open>RSA\<close>

datatype rsa_key = RsaKey bytes

datatype rsa_decryption_mode =
    Decrypt_NoPadding | Decrypt_OaepPadding digest digest | Decrypt_Pkcs1_1_5Padding

definition rsa_decryption_mode_new :: "key_param list \<Rightarrow> rsa_decryption_mode km" where
  "rsa_decryption_mode_new params = and_then (get_padding_mode params) (\<lambda>padding. case padding of
     PaddingMode_None \<Rightarrow> Ok Decrypt_NoPadding
   | PaddingMode_RsaOaep \<Rightarrow>
       and_then (get_digest params) (\<lambda>msg_digest.
       and_then (get_mgf_digest params) (\<lambda>mgf_digest.
       Ok (Decrypt_OaepPadding msg_digest mgf_digest)))
   | PaddingMode_RsaPkcs115Encrypt \<Rightarrow> Ok Decrypt_Pkcs1_1_5Padding
   | _ \<Rightarrow> Err (Hal UnsupportedPaddingMode))"

datatype rsa_sign_mode = Sign_NoPadding | Sign_PssPadding digest | Sign_Pkcs1_1_5Padding digest

definition rsa_sign_mode_new :: "key_param list \<Rightarrow> rsa_sign_mode km" where
  "rsa_sign_mode_new params = and_then (get_padding_mode params) (\<lambda>padding. case padding of
     PaddingMode_None \<Rightarrow> Ok Sign_NoPadding
   | PaddingMode_RsaPss \<Rightarrow> map_ok Sign_PssPadding (get_digest params)
   | PaddingMode_RsaPkcs115Sign \<Rightarrow> map_ok Sign_Pkcs1_1_5Padding (get_digest params)
   | _ \<Rightarrow> Err (Hal UnsupportedPaddingMode))"

section \<open>Elliptic curves\<close>

definition CURVE25519_PRIV_KEY_LEN :: nat where "CURVE25519_PRIV_KEY_LEN = 32"
definition SEC1_UNCOMPRESSED_PREFIX :: u8 where "SEC1_UNCOMPRESSED_PREFIX = 0x04"

datatype curve_type = CurveType_Nist | CurveType_EdDsa | CurveType_Xdh

primrec curve_type_i32 :: "curve_type \<Rightarrow> int" where
  "curve_type_i32 CurveType_Nist = 0"
| "curve_type_i32 CurveType_EdDsa = 1"
| "curve_type_i32 CurveType_Xdh = 2"

definition curve_type_variants :: "curve_type list" where
  "curve_type_variants = [CurveType_Nist, CurveType_EdDsa, CurveType_Xdh]"

interpretation curve_type_enum: rust_enum curve_type_i32 curve_type_variants
proof
  show "set curve_type_variants = UNIV"
  proof (intro equalityI subsetI)
    fix x :: curve_type
    show "x \<in> set curve_type_variants"
      by (cases x) (simp_all add: curve_type_variants_def)
  qed simp
  show "distinct (map curve_type_i32 curve_type_variants)"
    by (simp add: curve_type_variants_def)
  show "i32_range (curve_type_i32 x)" for x
    by (cases x) (simp_all add: i32_range_def)
qed

datatype nist_curve = NistCurve_P224 | NistCurve_P256 | NistCurve_P384 | NistCurve_P521

primrec coord_len :: "nist_curve \<Rightarrow> nat" where
  "coord_len NistCurve_P224 = 28"
| "coord_len NistCurve_P256 = 32"
| "coord_len NistCurve_P384 = 48"
| "coord_len NistCurve_P521 = 66"

primrec ec_curve_of_nist :: "nist_curve \<Rightarrow> ec_curve" where
  "ec_curve_of_nist NistCurve_P224 = EcCurve_P224"
| "ec_curve_of_nist NistCurve_P256 = EcCurve_P256"
| "ec_curve_of_nist NistCurve_P384 = EcCurve_P384"
| "ec_curve_of_nist NistCurve_P521 = EcCurve_P521"

primrec nist_curve_try_from :: "ec_curve \<Rightarrow> nist_curve km" where
  "nist_curve_try_from EcCurve_P224 = Ok NistCurve_P224"
| "nist_curve_try_from EcCurve_P256 = Ok NistCurve_P256"
| "nist_curve_try_from EcCurve_P384 = Ok NistCurve_P384"
| "nist_curve_try_from EcCurve_P521 = Ok NistCurve_P521"
| "nist_curve_try_from EcCurve_Curve25519 = Err (Hal InvalidArgument)"

datatype ec_key =
    Ec_P224 bytes | Ec_P256 bytes | Ec_P384 bytes | Ec_P521 bytes | Ec_Ed25519 bytes | Ec_X25519 bytes

primrec private_key_bytes :: "ec_key \<Rightarrow> bytes" where
  "private_key_bytes (Ec_P224 k) = k"
| "private_key_bytes (Ec_P256 k) = k"
| "private_key_bytes (Ec_P384 k) = k"
| "private_key_bytes (Ec_P521 k) = k"
| "private_key_bytes (Ec_Ed25519 k) = k"
| "private_key_bytes (Ec_X25519 k) = k"

primrec ec_key_curve_type :: "ec_key \<Rightarrow> curve_type" where
  "ec_key_curve_type (Ec_P224 _) = CurveType_Nist"
| "ec_key_curve_type (Ec_P256 _) = CurveType_Nist"
| "ec_key_curve_type (Ec_P384 _) = CurveType_Nist"
| "ec_key_curve_type (Ec_P521 _) = CurveType_Nist"
| "ec_key_curve_type (Ec_Ed25519 _) = CurveType_EdDsa"
| "ec_key_curve_type (Ec_X25519 _) = CurveType_Xdh"

primrec ec_key_curve :: "ec_key \<Rightarrow> ec_curve" where
  "ec_key_curve (Ec_P224 _) = EcCurve_P224"
| "ec_key_curve (Ec_P256 _) = EcCurve_P256"
| "ec_key_curve (Ec_P384 _) = EcCurve_P384"
| "ec_key_curve (Ec_P521 _) = EcCurve_P521"
| "ec_key_curve (Ec_Ed25519 _) = EcCurve_Curve25519"
| "ec_key_curve (Ec_X25519 _) = EcCurve_Curve25519"

primrec curve_to_key_size :: "ec_curve \<Rightarrow> u32" where
  "curve_to_key_size EcCurve_P224 = 224"
| "curve_to_key_size EcCurve_P256 = 256"
| "curve_to_key_size EcCurve_P384 = 384"
| "curve_to_key_size EcCurve_P521 = 521"
| "curve_to_key_size EcCurve_Curve25519 = 256"

definition coordinates_from_pub_key :: "bytes \<Rightarrow> nist_curve \<Rightarrow> (bytes \<times> bytes) km" where
  "coordinates_from_pub_key pub_key curve = (let l = coord_len curve in
     if length pub_key \<noteq> 1 + 2 * l then Err (Hal UnsupportedKeySize)
     else if pub_key ! 0 \<noteq> SEC1_UNCOMPRESSED_PREFIX then Err (Hal UnsupportedKeySize)
     else Ok (take l (drop 1 pub_key), drop (1 + l) pub_key))"

text \<open>
  Conversion of a DER signature into the fixed-size form used by COSE; the DER parser, which
  gives the two integers without leading zeros, is a parameter.  The subtraction that computes the
  padding is checked by the language.
\<close>

definition to_cose_signature ::
  "(bytes \<Rightarrow> (bytes \<times> bytes) option) \<Rightarrow> ec_curve \<Rightarrow> bytes \<Rightarrow> bytes km" where
  "to_cose_signature parse curve sig = (case nist_curve_try_from curve of
     Ok nist_curve \<Rightarrow>
       and_then (ok_or (parse sig) (Hal EncodingError)) (\<lambda>(r, s).
       let l = coord_len nist_curve in
       if l < length r \<or> 2 * l < length s then Panic
       else let sig = replicate (2 * l) 0;
                r_offset = l - length r; s_offset = l + l - length s;
                sig = take r_offset sig @ r @ drop (r_offset + length r) sig
            in Ok (take s_offset sig @ s @ drop (s_offset + length s) sig))
   | _ \<Rightarrow> Ok sig)"

definition from_cose_signature ::
  "(bytes \<Rightarrow> bytes \<Rightarrow> bytes km) \<Rightarrow> ec_curve \<Rightarrow> bytes \<Rightarrow> bytes km" where
  "from_cose_signature encode curve sig = (case nist_curve_try_from curve of
     Ok nist_curve \<Rightarrow> (let l = coord_len nist_curve in
       if length sig \<noteq> 2 * l then Err (Hal EncodingError)
       else encode (take l sig) (drop l sig))
   | _ \<Rightarrow> Ok sig)"

section \<open>Key material\<close>

datatype key_gen_info =
    KeyGenInfo_Aes aes_variant | KeyGenInfo_TripleDes | KeyGenInfo_Hmac u32
  | KeyGenInfo_Rsa u32 u64 | KeyGenInfo_NistEc nist_curve | KeyGenInfo_Ed25519 | KeyGenInfo_X25519

datatype 'k opaque_or = Explicit 'k | Opaque bytes

datatype key_material =
    Material_Aes "aes_key opaque_or"
  | Material_TripleDes "des_key opaque_or"
  | Material_Hmac "hmac_key opaque_or"
  | Material_Rsa "rsa_key opaque_or"
  | Material_Ec ec_curve curve_type "ec_key opaque_or"

fun explicit :: "'k opaque_or \<Rightarrow> 'k km" where
  "explicit (Explicit k) = Ok k"
| "explicit (Opaque _) = Err (Hal IncompatibleKeyFormat)"

primrec is_asymmetric :: "key_material \<Rightarrow> bool" where
  "is_asymmetric (Material_Aes _) = False"
| "is_asymmetric (Material_TripleDes _) = False"
| "is_asymmetric (Material_Hmac _) = False"
| "is_asymmetric (Material_Ec _ _ _) = True"
| "is_asymmetric (Material_Rsa _) = True"

definition is_symmetric :: "key_material \<Rightarrow> bool" where
  "is_symmetric k \<longleftrightarrow> \<not> is_asymmetric k"

datatype symmetric_operation = Op_Encrypt | Op_Decrypt

text \<open>What the array types of the code say about key lengths.\<close>

fun aes_key_wf :: "aes_key \<Rightarrow> bool" where
  "aes_key_wf (Aes128 k) \<longleftrightarrow> length k = 16"
| "aes_key_wf (Aes192 k) \<longleftrightarrow> length k = 24"
| "aes_key_wf (Aes256 k) \<longleftrightarrow> length k = 32"

fun ec_key_wf :: "ec_key \<Rightarrow> bool" where
  "ec_key_wf (Ec_Ed25519 k) \<longleftrightarrow> length k = CURVE25519_PRIV_KEY_LEN"
| "ec_key_wf (Ec_X25519 k) \<longleftrightarrow> length k = CURVE25519_PRIV_KEY_LEN"
| "ec_key_wf _ \<longleftrightarrow> True"

fun key_material_wf :: "key_material \<Rightarrow> bool" where
  "key_material_wf (Material_Aes (Explicit k)) \<longleftrightarrow> aes_key_wf k"
| "key_material_wf (Material_TripleDes (Explicit (DesKey k))) \<longleftrightarrow> length k = des_KEY_SIZE_BYTES"
| "key_material_wf (Material_Ec c t (Explicit k)) \<longleftrightarrow>
     ec_key_wf k \<and> c = ec_key_curve k \<and> t = ec_key_curve_type k"
| "key_material_wf _ \<longleftrightarrow> True"

text \<open>Default implementations of the trait methods that generate and import symmetric keys.\<close>

definition aes_generate_key :: "'r fill \<Rightarrow> aes_variant \<Rightarrow> 'r \<Rightarrow> key_material km \<times> 'r" where
  "aes_generate_key fill variant r = (case fill r (variant_key_size variant) of (k, r') \<Rightarrow>
     (Ok (Material_Aes (Explicit (case variant of
        Variant_Aes128 \<Rightarrow> Aes128 k | Variant_Aes192 \<Rightarrow> Aes192 k | Variant_Aes256 \<Rightarrow> Aes256 k))), r'))"

definition aes_import_key :: "bytes \<Rightarrow> (key_material \<times> u32) km" where
  "aes_import_key data = and_then (aes_key_new data) (\<lambda>k.
     Ok (Material_Aes (Explicit k), aes_key_size k))"

definition des_generate_key :: "'r fill \<Rightarrow> 'r \<Rightarrow> key_material km \<times> 'r" where
  "des_generate_key fill r = (case fill r 24 of (k, r') \<Rightarrow>
     (map_ok (Material_TripleDes \<circ> Explicit) (des_key_new k), r'))"

definition des_import_key :: "bytes \<Rightarrow> key_material km" where
  "des_import_key data = map_ok (Material_TripleDes \<circ> Explicit) (des_key_new data)"

definition hmac_generate_key :: "'r fill \<Rightarrow> u32 \<Rightarrow> 'r \<Rightarrow> key_material km \<times> 'r" where
  "hmac_generate_key fill key_size =
     st_then (st_ret (valid_hal_size key_size)) (\<lambda>_ r.
     case fill r (unat (key_size div 8)) of (k, r') \<Rightarrow> (Ok (Material_Hmac (Explicit (HmacKey k))), r'))"

definition hmac_import_key :: "bytes \<Rightarrow> (key_material \<times> u32) km" where
  "hmac_import_key data = (let k = HmacKey data; key_size = hmac_key_size k in
     and_then (valid_hal_size key_size) (\<lambda>_. Ok (Material_Hmac (Explicit k), key_size)))"

definition import_raw_ed25519_key :: "bytes \<Rightarrow> key_material km" where
  "import_raw_ed25519_key data = and_then (array_of CURVE25519_PRIV_KEY_LEN (Hal InvalidInputLength) data)
     (\<lambda>k. Ok (Material_Ec EcCurve_Curve25519 CurveType_EdDsa (Explicit (Ec_Ed25519 k))))"

definition import_raw_x25519_key :: "bytes \<Rightarrow> key_material km" where
  "import_raw_x25519_key data = and_then (array_of CURVE25519_PRIV_KEY_LEN (Hal InvalidInputLength) data)
     (\<lambda>k. Ok (Material_Ec EcCurve_Curve25519 CurveType_Xdh (Explicit (Ec_X25519 k))))"

section \<open>Modes describe the parameters they come from\<close>

primrec aes_mode_block :: "aes_mode \<Rightarrow> block_mode" where
  "aes_mode_block (Mode_Cipher m) = (case m of
     EcbNoPadding \<Rightarrow> BlockMode_Ecb | EcbPkcs7Padding \<Rightarrow> BlockMode_Ecb
   | CbcNoPadding _ \<Rightarrow> BlockMode_Cbc | CbcPkcs7Padding _ \<Rightarrow> BlockMode_Cbc | Ctr _ \<Rightarrow> BlockMode_Ctr)"
| "aes_mode_block (Mode_Aead _) = BlockMode_Gcm"

primrec aes_mode_padding :: "aes_mode \<Rightarrow> padding_mode" where
  "aes_mode_padding (Mode_Cipher m) = (case m of
     EcbPkcs7Padding \<Rightarrow> PaddingMode_Pkcs7 | CbcPkcs7Padding _ \<Rightarrow> PaddingMode_Pkcs7
   | _ \<Rightarrow> PaddingMode_None)"
| "aes_mode_padding (Mode_Aead _) = PaddingMode_None"

definition mac_length_ok :: "key_param list \<Rightarrow> aes_mode \<Rightarrow> bool" where
  "mac_length_ok ps m = (case m of Mode_Cipher _ \<Rightarrow> True
     | Mode_Aead g \<Rightarrow> tag_values (sel_u32 U32_MacLength) ps = [word_of_nat (8 * gcm_tag_len g)])"

primrec block_nonce_len :: "block_mode \<Rightarrow> nat option" where
  "block_nonce_len BlockMode_Ecb = None"
| "block_nonce_len BlockMode_Cbc = Some 16"
| "block_nonce_len BlockMode_Ctr = Some 16"
| "block_nonce_len BlockMode_Gcm = Some 12"

text \<open>The nonce a mode needs: none, the caller's (of the right length), or a fresh one.\<close>

fun chosen_nonce :: "'r fill \<Rightarrow> 'r \<Rightarrow> nat option \<Rightarrow> bytes option \<Rightarrow> bytes option \<Rightarrow> bool" where
  "chosen_nonce fill r None cn n \<longleftrightarrow> cn = None \<and> n = None"
| "chosen_nonce fill r (Some l) None n \<longleftrightarrow> n = Some (fst (fill r l))"
| "chosen_nonce fill r (Some l) (Some v) n \<longleftrightarrow> length v = l \<and> n = Some v"

lemma u32_div_8: "w mod 8 = 0 \<Longrightarrow> w div 8 = k \<Longrightarrow> (w :: u32) = k * 8"
  using div_mult_mod_eq [of w 8] by simp

lemma gcm_mode_for_eq_Ok:
  "gcm_mode_for ps n = Ok m \<longleftrightarrow> (\<exists>g. m = Mode_Aead g \<and> gcm_mode_nonce g = n) \<and> mac_length_ok ps m"
  (is "?l \<longleftrightarrow> ?r")
proof
  assume ?l
  then obtain w where w: "tag_values (sel_u32 U32_MacLength) ps = [w]" and m: "w mod 8 = 0"
    and *: "(if w div 8 = 12 then Ok (Mode_Aead (GcmTag12 n))
       else if w div 8 = 13 then Ok (Mode_Aead (GcmTag13 n))
       else if w div 8 = 14 then Ok (Mode_Aead (GcmTag14 n))
       else if w div 8 = 15 then Ok (Mode_Aead (GcmTag15 n))
       else if w div 8 = 16 then Ok (Mode_Aead (GcmTag16 n))
       else Err (Hal InvalidMacLength)) = Ok m"
    by (auto simp: gcm_mode_for_def Let_def res_simps split: if_splits)
  show ?r
    using * w by (auto simp: mac_length_ok_def split: if_splits dest: u32_div_8 [OF m])
next
  assume ?r
  then obtain g where "m = Mode_Aead g" "gcm_mode_nonce g = n"
    "tag_values (sel_u32 U32_MacLength) ps = [word_of_nat (8 * gcm_tag_len g)]"
    by (auto simp: mac_length_ok_def)
  then show ?l
    by (cases g) (simp_all add: gcm_mode_for_def get_tag_value_values)
qed

lemma nonce_chosen:
  assumes "rng fill"
  shows "(\<exists>r'. nonce fill l cn r = (Ok n, r')) \<longleftrightarrow> chosen_nonce fill r (Some l) cn (Some n)"
    and "nonce fill l cn r = (Ok n, r') \<Longrightarrow> length n = l"
  using rng.length_fill [OF assms, of r l]
  by (auto simp: nonce_def split: option.splits prod.splits if_splits)

lemma nonce_array:
  "rng fill \<Longrightarrow>
   fst (st_then (nonce fill l cn) (\<lambda>n. st_ret (and_then (array_of l err n) f)) r) = Ok m \<longleftrightarrow>
   (\<exists>n. chosen_nonce fill r (Some l) cn (Some n) \<and> f n = Ok m)"
  using nonce_chosen [of fill l cn r] by (fastforce simp: array_of_def fst_st_then_eq_Ok)

lemma aes_mode_new_eq_Ok:
  assumes "rng fill"
  shows "fst (aes_mode_new fill ps cn r) = Ok m \<longleftrightarrow>
     tag_values sel_BlockMode ps = [aes_mode_block m] \<and> tag_values sel_Padding ps = [aes_mode_padding m]
     \<and> mac_length_ok ps m \<and> chosen_nonce fill r (block_nonce_len (aes_mode_block m)) cn (aes_mode_nonce m)"
proof (cases "\<exists>b p. tag_values sel_BlockMode ps = [b] \<and> tag_values sel_Padding ps = [p]")
  case True
  then obtain b p where bp: "tag_values sel_BlockMode ps = [b]" "tag_values sel_Padding ps = [p]"
    by blast
  have new: "get_block_mode ps = Ok b" "get_padding_mode ps = Ok p"
    using bp by (simp_all add: getter_defs res_simps)
  show ?thesis
    using bp new
    by (cases b; cases m)
      (auto simp: aes_mode_new_def nonce_array [OF assms] gcm_mode_for_eq_Ok mac_length_ok_def
        aes_BLOCK_SIZE_def GCM_NONCE_SIZE_def split: aes_cipher_mode.splits if_splits)
next
  case False
  then show ?thesis
    by (auto simp: aes_mode_new_def fst_st_then_eq_Ok getter_defs res_simps)
qed

text \<open>
  C31: \<open>aes::Mode::new\<close> builds exactly the mode that the parameters describe: it succeeds with \<open>m\<close>
  iff the parameters hold exactly one block mode and one padding, those of \<open>m\<close>; for GCM exactly
  one tag length, eight times the byte length of \<open>m\<close>'s tag; and the nonce in \<open>m\<close> is the caller's,
  if it has the length the block mode needs, or else that many fresh random bytes; ECB takes none.
\<close>

theorem aes_mode_new_correct:
  assumes "rng fill"
  shows "fst (aes_mode_new fill ps cn r) = Ok m \<longleftrightarrow>
     tag_values sel_BlockMode ps = [aes_mode_block m] \<and> tag_values sel_Padding ps = [aes_mode_padding m]
     \<and> mac_length_ok ps m \<and> chosen_nonce fill r (block_nonce_len (aes_mode_block m)) cn (aes_mode_nonce m)"
  using assms by (rule aes_mode_new_eq_Ok)

theorem aes_mode_new_correct_witness:
  "fst (aes_mode_new noop_fill [KP_BlockMode BlockMode_Gcm, KP_Padding PaddingMode_None, KP_MacLength 104]
     None ()) = Ok (Mode_Aead (GcmTag13 (replicate 12 0)))"
  by (subst aes_mode_new_correct [OF noop_rng.rng_axioms])
    (simp add: mac_length_ok_def noop_fill_def)

end
