(* ===== verification/Cbor_Types.thy ===== *)
theory Cbor_Types
  imports Cbor_Rfc8949 Crypto_Types
begin

text \<open>
  CBOR encodings of the KeyMint types: key parameters (\<open>wire/src/keymint.rs\<close>, written by hand in the
  code), key material (\<open>common/src/crypto.rs\<close>, likewise), and the structures whose encodings are
  derived: key characteristics, boot information, tokens, shared secret parameters.
\<close>

section \<open>Enumerations\<close>

interpretation key_purpose_codec: cbor_codec "enum_to_cbor key_purpose_i32"
    "enum_from_cbor key_purpose_i32 key_purpose_variants" "\<lambda>_. True" 0
  by (rule cbor_codec_enum) unfold_locales

interpretation algorithm_codec: cbor_codec "enum_to_cbor algorithm_i32"
    "enum_from_cbor algorithm_i32 algorithm_variants" "\<lambda>_. True" 0
  by (rule cbor_codec_enum) unfold_locales

interpretation block_mode_codec: cbor_codec "enum_to_cbor block_mode_i32"
    "enum_from_cbor block_mode_i32 block_mode_variants" "\<lambda>_. True" 0
  by (rule cbor_codec_enum) unfold_locales

interpretation digest_codec: cbor_codec "enum_to_cbor digest_i32"
    "enum_from_cbor digest_i32 digest_variants" "\<lambda>_. True" 0
  by (rule cbor_codec_enum) unfold_locales

interpretation padding_mode_codec: cbor_codec "enum_to_cbor padding_mode_i32"
    "enum_from_cbor padding_mode_i32 padding_mode_variants" "\<lambda>_. True" 0
  by (rule cbor_codec_enum) unfold_locales

interpretation ec_curve_codec: cbor_codec "enum_to_cbor ec_curve_i32"
    "enum_from_cbor ec_curve_i32 ec_curve_variants" "\<lambda>_. True" 0
  by (rule cbor_codec_enum) unfold_locales

interpretation key_origin_codec: cbor_codec "enum_to_cbor key_origin_i32"
    "enum_from_cbor key_origin_i32 key_origin_variants" "\<lambda>_. True" 0
  by (rule cbor_codec_enum) unfold_locales

interpretation tag_codec: cbor_codec "enum_to_cbor tag_i32" "enum_from_cbor tag_i32 tag_variants" "\<lambda>_. True" 0
  by (rule cbor_codec_enum) unfold_locales

interpretation security_level_codec: cbor_codec "enum_to_cbor security_level_i32"
    "enum_from_cbor security_level_i32 security_level_variants" "\<lambda>_. True" 0
  by (rule cbor_codec_enum) unfold_locales

interpretation curve_type_codec: cbor_codec "enum_to_cbor curve_type_i32"
    "enum_from_cbor curve_type_i32 curve_type_variants" "\<lambda>_. True" 0
  by (rule cbor_codec_enum) unfold_locales

interpretation verified_boot_state_codec: cbor_codec "enum_to_cbor verified_boot_state_i32"
    "enum_from_cbor verified_boot_state_i32 verified_boot_state_variants" "\<lambda>_. True" 0
  by (rule cbor_codec_enum) unfold_locales

interpretation hw_auth_type_codec: cbor_codec "enum_to_cbor hw_auth_type_i32"
    "enum_from_cbor hw_auth_type_i32 hw_auth_type_variants" "\<lambda>_. True" 0
  by (rule cbor_codec_enum) unfold_locales

lemmas enum_round_trips =
  key_purpose_codec.round_trip algorithm_codec.round_trip block_mode_codec.round_trip
  digest_codec.round_trip padding_mode_codec.round_trip ec_curve_codec.round_trip
  key_origin_codec.round_trip tag_codec.round_trip security_level_codec.round_trip
  curve_type_codec.round_trip verified_boot_state_codec.round_trip hw_auth_type_codec.round_trip

lemmas enum_fits =
  key_purpose_codec.fits_in algorithm_codec.fits_in block_mode_codec.fits_in
  digest_codec.fits_in padding_mode_codec.fits_in ec_curve_codec.fits_in
  key_origin_codec.fits_in tag_codec.fits_in security_level_codec.fits_in
  curve_type_codec.fits_in verified_boot_state_codec.fits_in hw_auth_type_codec.fits_in

lemmas prim_round_trips =
  u64_codec.round_trip u32_codec.round_trip i64_codec.round_trip bool_codec.round_trip
  bytes_codec.round_trip i32_codec.round_trip string_codec.round_trip

lemmas prim_fits =
  u64_codec.fits_in u32_codec.fits_in i64_codec.fits_in bool_codec.fits_in bytes_codec.fits_in
  i32_codec.fits_in string_codec.fits_in

section \<open>Key parameters\<close>

definition check_bool :: "cbor \<Rightarrow> unit cb" where
  "check_bool v = (case v of
     Cbor_Bool b \<Rightarrow> if b then Ok () else Err (UnexpectedItem ''false'' ''true'')
   | v \<Rightarrow> cbor_type_error v ''true'')"

fun enum_param_from_cbor :: "enum_tag \<Rightarrow> cbor \<Rightarrow> key_param cb" where
  "enum_param_from_cbor Enum_Purpose raw =
     map_ok KP_Purpose (enum_from_cbor key_purpose_i32 key_purpose_variants raw)"
| "enum_param_from_cbor Enum_Algorithm raw =
     map_ok KP_Algorithm (enum_from_cbor algorithm_i32 algorithm_variants raw)"
| "enum_param_from_cbor Enum_BlockMode raw =
     map_ok KP_BlockMode (enum_from_cbor block_mode_i32 block_mode_variants raw)"
| "enum_param_from_cbor Enum_Digest raw =
     map_ok KP_Digest (enum_from_cbor digest_i32 digest_variants raw)"
| "enum_param_from_cbor Enum_Padding raw =
     map_ok KP_Padding (enum_from_cbor padding_mode_i32 padding_mode_variants raw)"
| "enum_param_from_cbor Enum_EcCurve raw =
     map_ok KP_EcCurve (enum_from_cbor ec_curve_i32 ec_curve_variants raw)"
| "enum_param_from_cbor Enum_RsaOaepMgfDigest raw =
     map_ok KP_RsaOaepMgfDigest (enum_from_cbor digest_i32 digest_variants raw)"
| "enum_param_from_cbor Enum_Origin raw =
     map_ok KP_Origin (enum_from_cbor key_origin_i32 key_origin_variants raw)"

definition unchecked_bool :: "bool_tag \<Rightarrow> bool" where
  "unchecked_bool t \<longleftrightarrow> t \<in> {Bool_CallerNonce, Bool_AllowWhileOnBody, Bool_StorageKey}"

fun param_from_cbor :: "tag \<Rightarrow> cbor \<Rightarrow> key_param cb" where
  "param_from_cbor (Tag_Enum t) raw = enum_param_from_cbor t raw"
| "param_from_cbor (Tag_U32 t) raw = map_ok (KP_U32 t) (u32_from_cbor raw)"
| "param_from_cbor (Tag_U64 t) raw = map_ok (KP_U64 t) (u64_from_cbor raw)"
| "param_from_cbor (Tag_Bool t) raw =
    (if unchecked_bool t then Ok (KP_Bool t) else and_then (check_bool raw) (\<lambda>_. Ok (KP_Bool t)))"
| "param_from_cbor (Tag_Date t) raw = map_ok (KP_Date t) (i64_from_cbor raw)"
| "param_from_cbor (Tag_Bytes t) raw = map_ok (KP_Bytes t) (bytes_from_cbor raw)"
| "param_from_cbor (Tag_Other t) raw = Err (UnexpectedItem ''tag'' ''known tag'')"

definition key_param_from_cbor :: "cbor \<Rightarrow> key_param cb" where
  "key_param_from_cbor v = and_then (struct_fields 2 ''arr len 2'' v) (\<lambda>a.
     and_then (enum_from_cbor tag_i32 tag_variants (a ! 0)) (\<lambda>tag. param_from_cbor tag (a ! 1)))"

fun param_value_to_cbor :: "key_param \<Rightarrow> cbor" where
  "param_value_to_cbor (KP_Purpose v) = enum_to_cbor key_purpose_i32 v"
| "param_value_to_cbor (KP_Algorithm v) = enum_to_cbor algorithm_i32 v"
| "param_value_to_cbor (KP_BlockMode v) = enum_to_cbor block_mode_i32 v"
| "param_value_to_cbor (KP_Digest v) = enum_to_cbor digest_i32 v"
| "param_value_to_cbor (KP_Padding v) = enum_to_cbor padding_mode_i32 v"
| "param_value_to_cbor (KP_EcCurve v) = enum_to_cbor ec_curve_i32 v"
| "param_value_to_cbor (KP_RsaOaepMgfDigest v) = enum_to_cbor digest_i32 v"
| "param_value_to_cbor (KP_Origin v) = enum_to_cbor key_origin_i32 v"
| "param_value_to_cbor (KP_U32 t v) = u32_to_cbor v"
| "param_value_to_cbor (KP_U64 t v) = u64_to_cbor v"
| "param_value_to_cbor (KP_Bool t) = bool_to_cbor True"
| "param_value_to_cbor (KP_Date t v) = i64_to_cbor v"
| "param_value_to_cbor (KP_Bytes t v) = bytes_to_cbor v"

definition key_param_to_cbor :: "key_param \<Rightarrow> cbor" where
  "key_param_to_cbor p = Cbor_Array [enum_to_cbor tag_i32 (key_param_tag p), param_value_to_cbor p]"

text \<open>Byte strings must have a length that CBOR can express.\<close>

fun key_param_wf :: "key_param \<Rightarrow> bool" where
  "key_param_wf (KP_Bytes t v) \<longleftrightarrow> length v < 2 ^ 64"
| "key_param_wf _ \<longleftrightarrow> True"

lemma param_from_cbor_round_trip:
  "key_param_wf p \<Longrightarrow> param_from_cbor (key_param_tag p) (param_value_to_cbor p) = Ok p"
  by (cases p) (simp_all add: enum_round_trips prim_round_trips check_bool_def bool_to_cbor_def)

lemma param_value_fits: "key_param_wf p \<Longrightarrow> cbor_fits d (param_value_to_cbor p)"
  by (cases p) (simp_all add: enum_fits prim_fits)

interpretation key_param_codec: cbor_codec key_param_to_cbor key_param_from_cbor key_param_wf 1
  by unfold_locales
    (simp_all add: key_param_to_cbor_def key_param_from_cbor_def struct_fields_def enum_round_trips
      param_from_cbor_round_trip enum_fits param_value_fits)

definition key_params_wf :: "key_param list \<Rightarrow> bool" where
  "key_params_wf ps \<longleftrightarrow> length ps < 2 ^ 64 \<and> list_all key_param_wf ps"

interpretation key_params_codec: cbor_codec "vec_to_cbor key_param_to_cbor"
    "vec_from_cbor key_param_from_cbor" key_params_wf 2
  using cbor_codec_vec [OF key_param_codec.cbor_codec_axioms] unfolding key_params_wf_def Suc_1 .

section \<open>Key characteristics\<close>

definition key_characteristics_to_cbor :: "key_characteristics \<Rightarrow> cbor" where
  "key_characteristics_to_cbor kc = Cbor_Array
     [enum_to_cbor security_level_i32 (kc_security_level kc), vec_to_cbor key_param_to_cbor (kc_authorizations kc)]"

definition key_characteristics_from_cbor :: "cbor \<Rightarrow> key_characteristics cb" where
  "key_characteristics_from_cbor v =
     map_ok (\<lambda>(l, ps). \<lparr>kc_security_level = l, kc_authorizations = ps\<rparr>)
       (struct2_from_cbor (enum_from_cbor security_level_i32 security_level_variants)
          (vec_from_cbor key_param_from_cbor) v)"

definition key_characteristics_wf :: "key_characteristics \<Rightarrow> bool" where
  "key_characteristics_wf kc \<longleftrightarrow> key_params_wf (kc_authorizations kc)"

interpretation key_characteristics_codec: cbor_codec key_characteristics_to_cbor
    key_characteristics_from_cbor key_characteristics_wf 3
  by unfold_locales
    (simp_all add: key_characteristics_to_cbor_def key_characteristics_from_cbor_def
      struct2_from_cbor_def struct_fields_def enum_round_trips enum_fits key_characteristics_wf_def
      key_params_codec.round_trip key_params_codec.fits_in)

definition characteristics_wf :: "key_characteristics list \<Rightarrow> bool" where
  "characteristics_wf cs \<longleftrightarrow> length cs < 2 ^ 64 \<and> list_all key_characteristics_wf cs"

interpretation characteristics_codec: cbor_codec "vec_to_cbor key_characteristics_to_cbor"
    "vec_from_cbor key_characteristics_from_cbor" characteristics_wf 4
  using cbor_codec_vec [OF key_characteristics_codec.cbor_codec_axioms]
  unfolding characteristics_wf_def by simp

section \<open>Key material\<close>

definition bytes_key :: "cbor \<Rightarrow> bool \<Rightarrow> ('k opaque_or \<Rightarrow> key_material) \<Rightarrow> (bytes \<Rightarrow> 'k cb) \<Rightarrow> key_material cb" where
  "bytes_key raw_key_value opaque mk conv =
     and_then (bytes_from_cbor raw_key_value) (\<lambda>raw_key.
     if opaque then Ok (mk (Opaque raw_key))
     else and_then (conv raw_key) (\<lambda>k. Ok (mk (Explicit k))))"

definition ec_key_from_raw :: "ec_curve \<Rightarrow> curve_type \<Rightarrow> bytes \<Rightarrow> ec_key cb" where
  "ec_key_from_raw curve curve_type raw_key =
    (if curve_type = CurveType_Nist \<and> curve = EcCurve_P224 then Ok (Ec_P224 raw_key)
     else if curve_type = CurveType_Nist \<and> curve = EcCurve_P256 then Ok (Ec_P256 raw_key)
     else if curve_type = CurveType_Nist \<and> curve = EcCurve_P384 then Ok (Ec_P384 raw_key)
     else if curve_type = CurveType_Nist \<and> curve = EcCurve_P521 then Ok (Ec_P521 raw_key)
     else if curve_type = CurveType_EdDsa \<and> curve = EcCurve_Curve25519 then
       (if length raw_key = CURVE25519_PRIV_KEY_LEN then Ok (Ec_Ed25519 raw_key) else Err OutOfRangeIntegerValue)
     else if curve_type = CurveType_Xdh \<and> curve = EcCurve_Curve25519 then
       (if length raw_key = CURVE25519_PRIV_KEY_LEN then Ok (Ec_X25519 raw_key) else Err OutOfRangeIntegerValue)
     else Err NonEnumValue)"

definition ec_material_from_cbor :: "cbor \<Rightarrow> bool \<Rightarrow> key_material cb" where
  "ec_material_from_cbor raw_key_value opaque =
     and_then (case raw_key_value of
         Cbor_Array a \<Rightarrow> if length a = 3 then Ok a else cbor_type_error raw_key_value ''arr len 2''
       | _ \<Rightarrow> cbor_type_error raw_key_value ''arr len 2'') (\<lambda>a.
     and_then (bytes_from_cbor (a ! 2)) (\<lambda>raw_key.
     and_then (enum_from_cbor curve_type_i32 curve_type_variants (a ! 1)) (\<lambda>curve_type.
     and_then (enum_from_cbor ec_curve_i32 ec_curve_variants (a ! 0)) (\<lambda>curve.
     if opaque then Ok (Material_Ec curve curve_type (Opaque raw_key))
     else and_then (ec_key_from_raw curve curve_type raw_key) (\<lambda>key.
       Ok (Material_Ec curve curve_type (Explicit key)))))))"

definition key_material_from_cbor :: "cbor \<Rightarrow> key_material cb" where
  "key_material_from_cbor v =
     and_then (case v of
         Cbor_Array a \<Rightarrow> if length a = 3 then Ok a else cbor_type_error v ''arr len 3''
       | _ \<Rightarrow> cbor_type_error v ''arr len 3'') (\<lambda>a.
     let raw_key_value = a ! 2 in
     and_then (bool_from_cbor (a ! 1)) (\<lambda>opaque.
     and_then (int_from_cbor (\<lambda>i. if i32_range i then Some i else None) ''uint'' (a ! 0)) (\<lambda>algo.
     if algo = algorithm_i32 Algorithm_Aes then
       bytes_key raw_key_value opaque Material_Aes
         (\<lambda>k. map_err (\<lambda>_. UnexpectedItem ''bstr'' ''bstr len 16/24/32'') (aes_key_new k))
     else if algo = algorithm_i32 Algorithm_TripleDes then
       bytes_key raw_key_value opaque Material_TripleDes
         (\<lambda>k. if length k = des_KEY_SIZE_BYTES then Ok (DesKey k) else Err (UnexpectedItem ''bstr'' ''bstr len 24''))
     else if algo = algorithm_i32 Algorithm_Hmac then
       bytes_key raw_key_value opaque Material_Hmac (\<lambda>k. Ok (HmacKey k))
     else if algo = algorithm_i32 Algorithm_Rsa then
       bytes_key raw_key_value opaque Material_Rsa (\<lambda>k. Ok (RsaKey k))
     else if algo = algorithm_i32 Algorithm_Ec then ec_material_from_cbor raw_key_value opaque
     else Err (UnexpectedItem ''unknown enum'' ''algo enum''))))"

primrec aes_key_bytes :: "aes_key \<Rightarrow> bytes" where
  "aes_key_bytes (Aes128 k) = k"
| "aes_key_bytes (Aes192 k) = k"
| "aes_key_bytes (Aes256 k) = k"

definition material_to_cbor :: "algorithm \<Rightarrow> bool \<Rightarrow> cbor \<Rightarrow> cbor" where
  "material_to_cbor algo opaque raw = Cbor_Array [Cbor_Integer (algorithm_i32 algo), Cbor_Bool opaque, raw]"

definition ec_raw_to_cbor :: "ec_curve \<Rightarrow> curve_type \<Rightarrow> bytes \<Rightarrow> cbor" where
  "ec_raw_to_cbor curve curve_type k =
     Cbor_Array [Cbor_Integer (ec_curve_i32 curve), Cbor_Integer (curve_type_i32 curve_type), Cbor_Bytes k]"

fun key_material_to_cbor :: "key_material \<Rightarrow> cbor" where
  "key_material_to_cbor (Material_Aes (Opaque k)) = material_to_cbor Algorithm_Aes True (Cbor_Bytes k)"
| "key_material_to_cbor (Material_TripleDes (Opaque k)) = material_to_cbor Algorithm_TripleDes True (Cbor_Bytes k)"
| "key_material_to_cbor (Material_Hmac (Opaque k)) = material_to_cbor Algorithm_Hmac True (Cbor_Bytes k)"
| "key_material_to_cbor (Material_Rsa (Opaque k)) = material_to_cbor Algorithm_Rsa True (Cbor_Bytes k)"
| "key_material_to_cbor (Material_Ec c t (Opaque k)) = material_to_cbor Algorithm_Ec True (ec_raw_to_cbor c t k)"
| "key_material_to_cbor (Material_Aes (Explicit k)) = material_to_cbor Algorithm_Aes False (Cbor_Bytes (aes_key_bytes k))"
| "key_material_to_cbor (Material_TripleDes (Explicit (DesKey k))) = material_to_cbor Algorithm_TripleDes False (Cbor_Bytes k)"
| "key_material_to_cbor (Material_Hmac (Explicit (HmacKey k))) = material_to_cbor Algorithm_Hmac False (Cbor_Bytes k)"
| "key_material_to_cbor (Material_Rsa (Explicit (RsaKey k))) = material_to_cbor Algorithm_Rsa False (Cbor_Bytes k)"
| "key_material_to_cbor (Material_Ec c t (Explicit k)) =
     material_to_cbor Algorithm_Ec False (ec_raw_to_cbor c t (private_key_bytes k))"

fun key_material_bytes :: "key_material \<Rightarrow> bytes" where
  "key_material_bytes (Material_Aes (Explicit k)) = aes_key_bytes k"
| "key_material_bytes (Material_TripleDes (Explicit (DesKey k))) = k"
| "key_material_bytes (Material_Hmac (Explicit (HmacKey k))) = k"
| "key_material_bytes (Material_Rsa (Explicit (RsaKey k))) = k"
| "key_material_bytes (Material_Ec _ _ (Explicit k)) = private_key_bytes k"
| "key_material_bytes (Material_Aes (Opaque k)) = k"
| "key_material_bytes (Material_TripleDes (Opaque k)) = k"
| "key_material_bytes (Material_Hmac (Opaque k)) = k"
| "key_material_bytes (Material_Rsa (Opaque k)) = k"
| "key_material_bytes (Material_Ec _ _ (Opaque k)) = k"

lemma material_fields:
  "key_material_from_cbor (material_to_cbor algo opaque raw) =
    (case algo of
       Algorithm_Aes \<Rightarrow> bytes_key raw opaque Material_Aes
         (\<lambda>k. map_err (\<lambda>_. UnexpectedItem ''bstr'' ''bstr len 16/24/32'') (aes_key_new k))
     | Algorithm_TripleDes \<Rightarrow> bytes_key raw opaque Material_TripleDes
         (\<lambda>k. if length k = des_KEY_SIZE_BYTES then Ok (DesKey k) else Err (UnexpectedItem ''bstr'' ''bstr len 24''))
     | Algorithm_Hmac \<Rightarrow> bytes_key raw opaque Material_Hmac (\<lambda>k. Ok (HmacKey k))
     | Algorithm_Rsa \<Rightarrow> bytes_key raw opaque Material_Rsa (\<lambda>k. Ok (RsaKey k))
     | Algorithm_Ec \<Rightarrow> ec_material_from_cbor raw opaque)"
  by (cases algo) (simp_all add: key_material_from_cbor_def material_to_cbor_def bool_from_cbor_def
    int_from_cbor_def i32_range_def)

lemma ec_material_fields:
  "ec_material_from_cbor (ec_raw_to_cbor c t k) opaque =
    (if opaque then Ok (Material_Ec c t (Opaque k))
     else and_then (ec_key_from_raw c t k) (\<lambda>key. Ok (Material_Ec c t (Explicit key))))"
  using ec_curve_codec.round_trip [of c] curve_type_codec.round_trip [of t]
  by (simp add: ec_material_from_cbor_def ec_raw_to_cbor_def bytes_from_cbor_def enum_to_cbor_def)

lemma ec_key_from_raw_bytes:
  "ec_key_wf k \<Longrightarrow> ec_key_from_raw (ec_key_curve k) (ec_key_curve_type k) (private_key_bytes k) = Ok k"
  by (cases k) (simp_all add: ec_key_from_raw_def)

lemma aes_key_new_bytes: "aes_key_wf k \<Longrightarrow> aes_key_new (aes_key_bytes k) = Ok k"
  by (cases k) (simp_all add: aes_key_new_def)

interpretation key_material_codec: cbor_codec key_material_to_cbor key_material_from_cbor
    "\<lambda>k. key_material_wf k \<and> length (key_material_bytes k) < 2 ^ 64" 2
proof
  fix k
  assume "key_material_wf k \<and> length (key_material_bytes k) < 2 ^ 64"
  then show "key_material_from_cbor (key_material_to_cbor k) = Ok k"
    by (cases k rule: key_material_to_cbor.cases)
      (auto simp: material_fields ec_material_fields bytes_key_def bytes_from_cbor_def aes_key_new_bytes
        ec_key_from_raw_bytes)
  show "cbor_fits 2 (key_material_to_cbor k)"
    using \<open>key_material_wf k \<and> length (key_material_bytes k) < 2 ^ 64\<close>
    by (cases k rule: key_material_to_cbor.cases)
      (auto simp: material_to_cbor_def ec_raw_to_cbor_def enum_fits [unfolded enum_to_cbor_def, where d = 0, simplified])
qed

section \<open>Structures with derived encodings\<close>

record timestamp =
  ts_milliseconds :: i64

definition timestamp_to_cbor :: "timestamp \<Rightarrow> cbor" where
  "timestamp_to_cbor t = Cbor_Array [i64_to_cbor (ts_milliseconds t)]"

definition timestamp_from_cbor :: "cbor \<Rightarrow> timestamp cb" where
  "timestamp_from_cbor v = and_then (struct_fields 1 ''arr len 1'' v) (\<lambda>a.
     map_ok (\<lambda>m. \<lparr>ts_milliseconds = m\<rparr>) (i64_from_cbor (a ! 0)))"

interpretation timestamp_codec: cbor_codec timestamp_to_cbor timestamp_from_cbor "\<lambda>_. True" 1
  by unfold_locales (simp_all add: timestamp_to_cbor_def timestamp_from_cbor_def struct_fields_def
    prim_round_trips prim_fits)

record hardware_auth_token =
  hat_challenge :: i64
  hat_user_id :: i64
  hat_authenticator_id :: i64
  hat_authenticator_type :: hw_auth_type
  hat_timestamp :: timestamp
  hat_mac :: bytes

definition hardware_auth_token_to_cbor :: "hardware_auth_token \<Rightarrow> cbor" where
  "hardware_auth_token_to_cbor t = Cbor_Array
     [i64_to_cbor (hat_challenge t), i64_to_cbor (hat_user_id t), i64_to_cbor (hat_authenticator_id t),
      enum_to_cbor hw_auth_type_i32 (hat_authenticator_type t), timestamp_to_cbor (hat_timestamp t),
      bytes_to_cbor (hat_mac t)]"

definition hardware_auth_token_from_cbor :: "cbor \<Rightarrow> hardware_auth_token cb" where
  "hardware_auth_token_from_cbor v = and_then (struct_fields 6 ''arr len 6'' v) (\<lambda>a.
     and_then (bytes_from_cbor (a ! 5)) (\<lambda>mac.
     and_then (timestamp_from_cbor (a ! 4)) (\<lambda>ts.
     and_then (enum_from_cbor hw_auth_type_i32 hw_auth_type_variants (a ! 3)) (\<lambda>at.
     and_then (i64_from_cbor (a ! 2)) (\<lambda>aid.
     and_then (i64_from_cbor (a ! 1)) (\<lambda>uid.
     and_then (i64_from_cbor (a ! 0)) (\<lambda>c.
     Ok \<lparr>hat_challenge = c, hat_user_id = uid, hat_authenticator_id = aid, hat_authenticator_type = at,
         hat_timestamp = ts, hat_mac = mac\<rparr>)))))))"

interpretation hardware_auth_token_codec: cbor_codec hardware_auth_token_to_cbor
    hardware_auth_token_from_cbor "\<lambda>t. length (hat_mac t) < 2 ^ 64" 2
  by unfold_locales (simp_all add: hardware_auth_token_to_cbor_def hardware_auth_token_from_cbor_def
    struct_fields_def prim_round_trips prim_fits enum_round_trips enum_fits timestamp_codec.round_trip
    timestamp_codec.fits_in)

record time_stamp_token =
  tst_challenge :: i64
  tst_timestamp :: timestamp
  tst_mac :: bytes

definition time_stamp_token_to_cbor :: "time_stamp_token \<Rightarrow> cbor" where
  "time_stamp_token_to_cbor t = Cbor_Array
     [i64_to_cbor (tst_challenge t), timestamp_to_cbor (tst_timestamp t), bytes_to_cbor (tst_mac t)]"

definition time_stamp_token_from_cbor :: "cbor \<Rightarrow> time_stamp_token cb" where
  "time_stamp_token_from_cbor v =
     map_ok (\<lambda>(c, ts, mac). \<lparr>tst_challenge = c, tst_timestamp = ts, tst_mac = mac\<rparr>)
       (struct3_from_cbor i64_from_cbor timestamp_from_cbor bytes_from_cbor v)"

interpretation time_stamp_token_codec: cbor_codec time_stamp_token_to_cbor time_stamp_token_from_cbor
    "\<lambda>t. length (tst_mac t) < 2 ^ 64" 2
  by unfold_locales (simp_all add: time_stamp_token_to_cbor_def time_stamp_token_from_cbor_def
    struct3_from_cbor_def struct_fields_def prim_round_trips prim_fits timestamp_codec.round_trip
    timestamp_codec.fits_in)

record shared_secret_params =
  ssp_seed :: bytes
  ssp_nonce :: bytes

definition shared_secret_params_to_cbor :: "shared_secret_params \<Rightarrow> cbor" where
  "shared_secret_params_to_cbor p = Cbor_Array [bytes_to_cbor (ssp_seed p), bytes_to_cbor (ssp_nonce p)]"

definition shared_secret_params_from_cbor :: "cbor \<Rightarrow> shared_secret_params cb" where
  "shared_secret_params_from_cbor v =
     map_ok (\<lambda>(s, n). \<lparr>ssp_seed = s, ssp_nonce = n\<rparr>) (struct2_from_cbor bytes_from_cbor bytes_from_cbor v)"

interpretation shared_secret_params_codec: cbor_codec shared_secret_params_to_cbor
    shared_secret_params_from_cbor "\<lambda>p. length (ssp_seed p) < 2 ^ 64 \<and> length (ssp_nonce p) < 2 ^ 64" 1
  by unfold_locales (simp_all add: shared_secret_params_to_cbor_def shared_secret_params_from_cbor_def
    struct2_from_cbor_def struct_fields_def prim_round_trips prim_fits)

record boot_info =
  bi_verified_boot_key :: bytes
  bi_device_boot_locked :: bool
  bi_verified_boot_state :: verified_boot_state
  bi_verified_boot_hash :: bytes
  bi_boot_patchlevel :: u32

definition boot_info_to_cbor :: "boot_info \<Rightarrow> cbor" where
  "boot_info_to_cbor b = Cbor_Array
     [bytes_to_cbor (bi_verified_boot_key b), bool_to_cbor (bi_device_boot_locked b),
      enum_to_cbor verified_boot_state_i32 (bi_verified_boot_state b),
      bytes_to_cbor (bi_verified_boot_hash b), u32_to_cbor (bi_boot_patchlevel b)]"

definition boot_info_from_cbor :: "cbor \<Rightarrow> boot_info cb" where
  "boot_info_from_cbor v =
     map_ok (\<lambda>(k, l, s, h, p). \<lparr>bi_verified_boot_key = k, bi_device_boot_locked = l,
         bi_verified_boot_state = s, bi_verified_boot_hash = h, bi_boot_patchlevel = p\<rparr>)
       (struct5_from_cbor bytes_from_cbor bool_from_cbor
          (enum_from_cbor verified_boot_state_i32 verified_boot_state_variants) bytes_from_cbor u32_from_cbor v)"

interpretation boot_info_codec: cbor_codec boot_info_to_cbor boot_info_from_cbor
    "\<lambda>b. length (bi_verified_boot_key b) < 2 ^ 64 \<and> length (bi_verified_boot_hash b) < 2 ^ 64" 1
  by unfold_locales (simp_all add: boot_info_to_cbor_def boot_info_from_cbor_def struct5_from_cbor_def
    struct_fields_def prim_round_trips prim_fits enum_round_trips enum_fits)

record root_of_trust_info =
  rot_verified_boot_key :: bytes
  rot_device_boot_locked :: bool
  rot_verified_boot_state :: verified_boot_state

definition root_of_trust_info_to_cbor :: "root_of_trust_info \<Rightarrow> cbor" where
  "root_of_trust_info_to_cbor r = Cbor_Array
     [bytes_to_cbor (rot_verified_boot_key r), bool_to_cbor (rot_device_boot_locked r),
      enum_to_cbor verified_boot_state_i32 (rot_verified_boot_state r)]"

definition root_of_trust_info_from_cbor :: "cbor \<Rightarrow> root_of_trust_info cb" where
  "root_of_trust_info_from_cbor v =
     map_ok (\<lambda>(k, l, s). \<lparr>rot_verified_boot_key = k, rot_device_boot_locked = l, rot_verified_boot_state = s\<rparr>)
       (struct3_from_cbor bytes_from_cbor bool_from_cbor
          (enum_from_cbor verified_boot_state_i32 verified_boot_state_variants) v)"

interpretation root_of_trust_info_codec: cbor_codec root_of_trust_info_to_cbor
    root_of_trust_info_from_cbor "\<lambda>r. length (rot_verified_boot_key r) < 2 ^ 64" 1
  by unfold_locales (simp_all add: root_of_trust_info_to_cbor_def root_of_trust_info_from_cbor_def
    struct3_from_cbor_def struct_fields_def prim_round_trips prim_fits enum_round_trips enum_fits)

record secure_deletion_data =
  sdd_factory_reset_secret :: bytes
  sdd_secure_deletion_secret :: bytes

definition sdd_to_cbor :: "secure_deletion_data \<Rightarrow> cbor" where
  "sdd_to_cbor s = Cbor_Array
     [bytes_to_cbor (sdd_factory_reset_secret s), bytes_to_cbor (sdd_secure_deletion_secret s)]"

definition sdd_from_cbor :: "cbor \<Rightarrow> secure_deletion_data cb" where
  "sdd_from_cbor v =
     map_ok (\<lambda>(f, s). \<lparr>sdd_factory_reset_secret = f, sdd_secure_deletion_secret = s\<rparr>)
       (struct2_from_cbor (array_from_cbor 32) (array_from_cbor 16) v)"

definition sdd_wf :: "secure_deletion_data \<Rightarrow> bool" where
  "sdd_wf s \<longleftrightarrow> length (sdd_factory_reset_secret s) = 32 \<and> length (sdd_secure_deletion_secret s) = 16"

interpretation sdd_codec: cbor_codec sdd_to_cbor sdd_from_cbor sdd_wf 1
  by unfold_locales (simp_all add: sdd_to_cbor_def sdd_from_cbor_def struct2_from_cbor_def
    struct_fields_def sdd_wf_def array_from_cbor_def bytes_to_cbor_def)

section \<open>Properties\<close>

text \<open>
  C29: a list of key parameters survives the trip through CBOR bytes: with a CBOR library that reads
  back what it writes, serialization succeeds and deserialization returns the same parameters, for
  every variant of \<open>KeyParam\<close>.
\<close>

theorem key_params_cbor_round_trip:
  assumes "cbor_lib_works lib" "key_params_wf ps"
  shows "\<exists>b. into_vec lib (vec_to_cbor key_param_to_cbor) ps = Ok b
     \<and> from_slice lib (vec_from_cbor key_param_from_cbor) b = Ok ps"
  by (rule key_params_codec.bytes_round_trip [OF assms]) auto

theorem key_params_cbor_round_trip_witness:
  "\<exists>b. into_vec rfc8949 (vec_to_cbor key_param_to_cbor) [KP_KeySize 256, KP_NoAuthRequired, KP_Nonce [1, 2]] = Ok b
     \<and> from_slice rfc8949 (vec_from_cbor key_param_from_cbor) b =
       Ok [KP_KeySize 256, KP_NoAuthRequired, KP_Nonce [1, 2]]"
  by (rule key_params_cbor_round_trip [OF rfc8949_works]) (simp add: key_params_wf_def)

text \<open>
  C30: key material survives the trip through CBOR bytes: every explicit key of the right length,
  with the curve and curve type that the key has, and every opaque key, is read back as it was.
\<close>

theorem key_material_cbor_round_trip:
  assumes "cbor_lib_works lib" "key_material_wf k" "length (key_material_bytes k) < 2 ^ 64"
  shows "\<exists>b. into_vec lib key_material_to_cbor k = Ok b \<and> from_slice lib key_material_from_cbor b = Ok k"
  by (rule key_material_codec.bytes_round_trip [OF assms(1), of k]) (use assms in auto)

theorem key_material_cbor_round_trip_witness:
  "\<exists>b. into_vec rfc8949 key_material_to_cbor
         (Material_Ec EcCurve_Curve25519 CurveType_Xdh (Explicit (Ec_X25519 (replicate 32 9)))) = Ok b
     \<and> from_slice rfc8949 key_material_from_cbor b =
       Ok (Material_Ec EcCurve_Curve25519 CurveType_Xdh (Explicit (Ec_X25519 (replicate 32 9))))"
  by (rule key_material_cbor_round_trip [OF rfc8949_works]) (simp_all add: CURVE25519_PRIV_KEY_LEN_def)

text \<open>
  A boolean parameter is decoded only from the value true, except for three tags whose value is
  not looked at: any CBOR item at all is accepted as \<open>CallerNonce\<close>, \<open>AllowWhileOnBody\<close> and
  \<open>StorageKey\<close>.
\<close>

lemma bool_param_from_cbor_iff:
  "key_param_from_cbor (Cbor_Array [enum_to_cbor tag_i32 (Tag_Bool t), v]) = Ok (KP_Bool t) \<longleftrightarrow>
     v = Cbor_Bool True \<or> unchecked_bool t"
  by (cases v)
    (auto simp: key_param_from_cbor_def struct_fields_def enum_round_trips check_bool_def
      cbor_type_error_def res_simps)

end
