(* ===== verification/Messages.thy ===== *)
theory Messages
  imports Cbor_Types
begin

text \<open>
  The request and response messages between the HAL service and the TA (\<open>wire/src/types.rs\<close>, and the
  structures of \<open>wire/src/rpc.rs\<close> and \<open>wire/src/keymint.rs\<close> that they carry).  Each \<open>...Request\<close> and
  \<open>...Response\<close> structure is a constructor of \<open>perform_op_req\<close> or \<open>perform_op_rsp\<close> with the fields of
  the structure in the order of the code; the encodings are those that \<open>derive(AsCborValue)\<close> and the
  macro \<open>declare_req_rsp_enums!\<close> generate.
\<close>

named_theorems codec_facts \<open>round trips and sizes of the encodings\<close>

declare enum_round_trips [codec_facts] enum_fits [codec_facts]

abbreviation bytes_wf :: "bytes \<Rightarrow> bool" where
  "bytes_wf b \<equiv> length b < 2 ^ 64"

abbreviation string_wf :: "string \<Rightarrow> bool" where
  "string_wf s \<equiv> length s < 2 ^ 64"

declare
  bytes_codec.round_trip [codec_facts] bytes_codec.fits_in [codec_facts]
  string_codec.round_trip [codec_facts] string_codec.fits_in [codec_facts]
  i64_codec.round_trip [codec_facts] i64_codec.fits_in [codec_facts]
  u32_codec.round_trip [codec_facts] u32_codec.fits_in [codec_facts]
  i32_codec.round_trip [codec_facts] i32_codec.fits_in [codec_facts]
  bool_codec.round_trip [codec_facts] bool_codec.fits_in [codec_facts]
  key_params_codec.round_trip [codec_facts] key_params_codec.fits_in [codec_facts]
  characteristics_codec.round_trip [codec_facts] characteristics_codec.fits_in [codec_facts]
  hardware_auth_token_codec.round_trip [codec_facts] hardware_auth_token_codec.fits_in [codec_facts]
  time_stamp_token_codec.round_trip [codec_facts] time_stamp_token_codec.fits_in [codec_facts]
  shared_secret_params_codec.round_trip [codec_facts] shared_secret_params_codec.fits_in [codec_facts]

lemma cbor_codec_vec_eq:
  "cbor_codec to from valid d \<Longrightarrow> d' = Suc d \<Longrightarrow>
     cbor_codec (vec_to_cbor to) (vec_from_cbor from) (\<lambda>xs. length xs < 2 ^ 64 \<and> list_all valid xs) d'"
  using cbor_codec_vec by blast

lemma cbor_codec_option_eq:
  "cbor_codec to from valid d \<Longrightarrow> d' = Suc d \<Longrightarrow>
     cbor_codec (option_to_cbor to) (option_from_cbor from) (pred_option valid) d'"
  using cbor_codec_option by blast

interpretation key_format_codec: cbor_codec "enum_to_cbor key_format_i32"
    "enum_from_cbor key_format_i32 key_format_variants" "\<lambda>_. True" 0
  by (rule cbor_codec_enum [OF key_format_enum.rust_enum_axioms])

interpretation array16_codec: cbor_codec bytes_to_cbor "array_from_cbor 16" "\<lambda>b. length b = 16" 0
  by (rule cbor_codec_array) simp

declare
  key_format_codec.round_trip [codec_facts] key_format_codec.fits_in [codec_facts]
  array16_codec.round_trip [codec_facts]

datatype eek_curve = EekCurve_None | EekCurve_P256 | EekCurve_Curve25519

primrec eek_curve_i32 :: "eek_curve \<Rightarrow> int" where
  "eek_curve_i32 EekCurve_None = 0"
| "eek_curve_i32 EekCurve_P256 = 1"
| "eek_curve_i32 EekCurve_Curve25519 = 2"

definition eek_curve_variants :: "eek_curve list" where
  "eek_curve_variants = [EekCurve_None, EekCurve_P256, EekCurve_Curve25519]"

interpretation eek_curve_enum: rust_enum eek_curve_i32 eek_curve_variants
proof
  show "set eek_curve_variants = UNIV"
    using eek_curve.exhaust by (auto simp: eek_curve_variants_def)
  show "i32_range (eek_curve_i32 x)" for x
    by (cases x) (simp_all add: i32_range_def)
qed (simp add: eek_curve_variants_def)

interpretation eek_curve_codec: cbor_codec "enum_to_cbor eek_curve_i32"
    "enum_from_cbor eek_curve_i32 eek_curve_variants" "\<lambda>_. True" 0
  by (rule cbor_codec_enum [OF eek_curve_enum.rust_enum_axioms])

declare eek_curve_codec.round_trip [codec_facts] eek_curve_codec.fits_in [codec_facts]

section \<open>Structures\<close>

interpretation opt_bytes_codec: cbor_codec "(option_to_cbor bytes_to_cbor)"
    "(option_from_cbor bytes_from_cbor)" "(pred_option bytes_wf)" 1
  by (rule cbor_codec_option_eq [OF bytes_codec.cbor_codec_axioms]) simp

declare opt_bytes_codec.round_trip [codec_facts] opt_bytes_codec.fits_in [codec_facts]

interpretation opt_string_codec: cbor_codec "(option_to_cbor string_to_cbor)"
    "(option_from_cbor string_from_cbor)" "(pred_option string_wf)" 1
  by (rule cbor_codec_option_eq [OF string_codec.cbor_codec_axioms]) simp

declare opt_string_codec.round_trip [codec_facts] opt_string_codec.fits_in [codec_facts]

interpretation opt_hardware_auth_token_codec: cbor_codec "(option_to_cbor hardware_auth_token_to_cbor)"
    "(option_from_cbor hardware_auth_token_from_cbor)" "(pred_option (\<lambda>t. bytes_wf (hat_mac t)))" 3
  by (rule cbor_codec_option_eq [OF hardware_auth_token_codec.cbor_codec_axioms]) simp

declare opt_hardware_auth_token_codec.round_trip [codec_facts] opt_hardware_auth_token_codec.fits_in [codec_facts]

interpretation opt_time_stamp_token_codec: cbor_codec "(option_to_cbor time_stamp_token_to_cbor)"
    "(option_from_cbor time_stamp_token_from_cbor)" "(pred_option (\<lambda>t. bytes_wf (tst_mac t)))" 3
  by (rule cbor_codec_option_eq [OF time_stamp_token_codec.cbor_codec_axioms]) simp

declare opt_time_stamp_token_codec.round_trip [codec_facts] opt_time_stamp_token_codec.fits_in [codec_facts]

interpretation vec_shared_secret_params_codec: cbor_codec "(vec_to_cbor shared_secret_params_to_cbor)"
    "(vec_from_cbor shared_secret_params_from_cbor)" "(\<lambda>xs. length xs < 2 ^ 64 \<and> list_all (\<lambda>p. bytes_wf (ssp_seed p) \<and> bytes_wf (ssp_nonce p)) xs)" 2
  by (rule cbor_codec_vec_eq [OF shared_secret_params_codec.cbor_codec_axioms]) simp

declare vec_shared_secret_params_codec.round_trip [codec_facts] vec_shared_secret_params_codec.fits_in [codec_facts]

record certificate =
  cert_encoded_certificate :: bytes

definition certificate_to_cbor :: "certificate \<Rightarrow> cbor" where
  "certificate_to_cbor x = Cbor_Array
     [bytes_to_cbor (cert_encoded_certificate x)]"

definition certificate_from_cbor :: "cbor \<Rightarrow> certificate cb" where
  "certificate_from_cbor v =
     map_ok (\<lambda>(a0, _). \<lparr>cert_encoded_certificate = a0\<rparr>)
       (struct_from_cbor 1 ''arr len 1''
         (field bytes_from_cbor field_end) v)"

definition certificate_wf :: "certificate \<Rightarrow> bool" where
  "certificate_wf x \<longleftrightarrow> bytes_wf (cert_encoded_certificate x)"

interpretation certificate_codec: cbor_codec certificate_to_cbor certificate_from_cbor certificate_wf 1
  by unfold_locales (simp_all add: certificate_to_cbor_def certificate_from_cbor_def certificate_wf_def struct_defs codec_facts)

declare certificate_codec.round_trip [codec_facts] certificate_codec.fits_in [codec_facts]

interpretation vec_certificate_codec: cbor_codec "(vec_to_cbor certificate_to_cbor)"
    "(vec_from_cbor certificate_from_cbor)" "(\<lambda>xs. length xs < 2 ^ 64 \<and> list_all certificate_wf xs)" 2
  by (rule cbor_codec_vec_eq [OF certificate_codec.cbor_codec_axioms]) simp

declare vec_certificate_codec.round_trip [codec_facts] vec_certificate_codec.fits_in [codec_facts]

record attestation_key =
  ak_key_blob :: bytes
  ak_attest_key_params :: "key_param list"
  ak_issuer_subject_name :: bytes

definition attestation_key_to_cbor :: "attestation_key \<Rightarrow> cbor" where
  "attestation_key_to_cbor x = Cbor_Array
     [bytes_to_cbor (ak_key_blob x),
      (vec_to_cbor key_param_to_cbor) (ak_attest_key_params x),
      bytes_to_cbor (ak_issuer_subject_name x)]"

definition attestation_key_from_cbor :: "cbor \<Rightarrow> attestation_key cb" where
  "attestation_key_from_cbor v =
     map_ok (\<lambda>(a0, b0, c0, _). \<lparr>ak_key_blob = a0, ak_attest_key_params = b0, ak_issuer_subject_name = c0\<rparr>)
       (struct_from_cbor 3 ''arr len 3''
         (field bytes_from_cbor (field (vec_from_cbor key_param_from_cbor) (field bytes_from_cbor field_end))) v)"

definition attestation_key_wf :: "attestation_key \<Rightarrow> bool" where
  "attestation_key_wf x \<longleftrightarrow> bytes_wf (ak_key_blob x) \<and> key_params_wf (ak_attest_key_params x) \<and> bytes_wf (ak_issuer_subject_name x)"

interpretation attestation_key_codec: cbor_codec attestation_key_to_cbor attestation_key_from_cbor attestation_key_wf 3
  by unfold_locales (simp_all add: attestation_key_to_cbor_def attestation_key_from_cbor_def attestation_key_wf_def struct_defs codec_facts)

declare attestation_key_codec.round_trip [codec_facts] attestation_key_codec.fits_in [codec_facts]

interpretation opt_attestation_key_codec: cbor_codec "(option_to_cbor attestation_key_to_cbor)"
    "(option_from_cbor attestation_key_from_cbor)" "(pred_option attestation_key_wf)" 4
  by (rule cbor_codec_option_eq [OF attestation_key_codec.cbor_codec_axioms]) simp

declare opt_attestation_key_codec.round_trip [codec_facts] opt_attestation_key_codec.fits_in [codec_facts]

record key_creation_result =
  kcr_key_blob :: bytes
  kcr_key_characteristics :: "key_characteristics list"
  kcr_certificate_chain :: "certificate list"

definition key_creation_result_to_cbor :: "key_creation_result \<Rightarrow> cbor" where
  "key_creation_result_to_cbor x = Cbor_Array
     [bytes_to_cbor (kcr_key_blob x),
      (vec_to_cbor key_characteristics_to_cbor) (kcr_key_characteristics x),
      (vec_to_cbor certificate_to_cbor) (kcr_certificate_chain x)]"

definition key_creation_result_from_cbor :: "cbor \<Rightarrow> key_creation_result cb" where
  "key_creation_result_from_cbor v =
     map_ok (\<lambda>(a0, b0, c0, _). \<lparr>kcr_key_blob = a0, kcr_key_characteristics = b0, kcr_certificate_chain = c0\<rparr>)
       (struct_from_cbor 3 ''arr len 3''
         (field bytes_from_cbor (field (vec_from_cbor key_characteristics_from_cbor) (field (vec_from_cbor certificate_from_cbor) field_end))) v)"

definition key_creation_result_wf :: "key_creation_result \<Rightarrow> bool" where
  "key_creation_result_wf x \<longleftrightarrow> bytes_wf (kcr_key_blob x) \<and> characteristics_wf (kcr_key_characteristics x) \<and> (\<lambda>xs. length xs < 2 ^ 64 \<and> list_all certificate_wf xs) (kcr_certificate_chain x)"

interpretation key_creation_result_codec: cbor_codec key_creation_result_to_cbor key_creation_result_from_cbor key_creation_result_wf 5
  by unfold_locales (simp_all add: key_creation_result_to_cbor_def key_creation_result_from_cbor_def key_creation_result_wf_def struct_defs codec_facts)

declare key_creation_result_codec.round_trip [codec_facts] key_creation_result_codec.fits_in [codec_facts]

record keymint_hardware_info =
  hwi_version_number :: int
  hwi_security_level :: security_level
  hwi_key_mint_name :: string
  hwi_key_mint_author_name :: string
  hwi_timestamp_token_required :: bool

definition keymint_hardware_info_to_cbor :: "keymint_hardware_info \<Rightarrow> cbor" where
  "keymint_hardware_info_to_cbor x = Cbor_Array
     [i32_to_cbor (hwi_version_number x),
      (enum_to_cbor security_level_i32) (hwi_security_level x),
      string_to_cbor (hwi_key_mint_name x),
      string_to_cbor (hwi_key_mint_author_name x),
      bool_to_cbor (hwi_timestamp_token_required x)]"

definition keymint_hardware_info_from_cbor :: "cbor \<Rightarrow> keymint_hardware_info cb" where
  "keymint_hardware_info_from_cbor v =
     map_ok (\<lambda>(a0, b0, c0, d0, e0, _). \<lparr>hwi_version_number = a0, hwi_security_level = b0, hwi_key_mint_name = c0, hwi_key_mint_author_name = d0, hwi_timestamp_token_required = e0\<rparr>)
       (struct_from_cbor 5 ''arr len 5''
         (field i32_from_cbor (field (enum_from_cbor security_level_i32 security_level_variants) (field string_from_cbor (field string_from_cbor (field bool_from_cbor field_end))))) v)"

definition keymint_hardware_info_wf :: "keymint_hardware_info \<Rightarrow> bool" where
  "keymint_hardware_info_wf x \<longleftrightarrow> i32_range (hwi_version_number x) \<and> string_wf (hwi_key_mint_name x) \<and> string_wf (hwi_key_mint_author_name x)"

interpretation keymint_hardware_info_codec: cbor_codec keymint_hardware_info_to_cbor keymint_hardware_info_from_cbor keymint_hardware_info_wf 1
  by unfold_locales (simp_all add: keymint_hardware_info_to_cbor_def keymint_hardware_info_from_cbor_def keymint_hardware_info_wf_def struct_defs codec_facts)

declare keymint_hardware_info_codec.round_trip [codec_facts] keymint_hardware_info_codec.fits_in [codec_facts]

record internal_begin_result =
  ibr_challenge :: i64
  ibr_params :: "key_param list"
  ibr_op_handle :: i64

definition internal_begin_result_to_cbor :: "internal_begin_result \<Rightarrow> cbor" where
  "internal_begin_result_to_cbor x = Cbor_Array
     [i64_to_cbor (ibr_challenge x),
      (vec_to_cbor key_param_to_cbor) (ibr_params x),
      i64_to_cbor (ibr_op_handle x)]"

definition internal_begin_result_from_cbor :: "cbor \<Rightarrow> internal_begin_result cb" where
  "internal_begin_result_from_cbor v =
     map_ok (\<lambda>(a0, b0, c0, _). \<lparr>ibr_challenge = a0, ibr_params = b0, ibr_op_handle = c0\<rparr>)
       (struct_from_cbor 3 ''arr len 3''
         (field i64_from_cbor (field (vec_from_cbor key_param_from_cbor) (field i64_from_cbor field_end))) v)"

definition internal_begin_result_wf :: "internal_begin_result \<Rightarrow> bool" where
  "internal_begin_result_wf x \<longleftrightarrow> key_params_wf (ibr_params x)"

interpretation internal_begin_result_codec: cbor_codec internal_begin_result_to_cbor internal_begin_result_from_cbor internal_begin_result_wf 3
  by unfold_locales (simp_all add: internal_begin_result_to_cbor_def internal_begin_result_from_cbor_def internal_begin_result_wf_def struct_defs codec_facts)

declare internal_begin_result_codec.round_trip [codec_facts] internal_begin_result_codec.fits_in [codec_facts]

record rpc_hardware_info =
  rhi_version_number :: int
  rhi_rpc_author_name :: string
  rhi_supported_eek_curve :: eek_curve
  rhi_unique_id :: "string option"
  rhi_supported_num_keys_in_csr :: int

definition rpc_hardware_info_to_cbor :: "rpc_hardware_info \<Rightarrow> cbor" where
  "rpc_hardware_info_to_cbor x = Cbor_Array
     [i32_to_cbor (rhi_version_number x),
      string_to_cbor (rhi_rpc_author_name x),
      (enum_to_cbor eek_curve_i32) (rhi_supported_eek_curve x),
      (option_to_cbor string_to_cbor) (rhi_unique_id x),
      i32_to_cbor (rhi_supported_num_keys_in_csr x)]"

definition rpc_hardware_info_from_cbor :: "cbor \<Rightarrow> rpc_hardware_info cb" where
  "rpc_hardware_info_from_cbor v =
     map_ok (\<lambda>(a0, b0, c0, d0, e0, _). \<lparr>rhi_version_number = a0, rhi_rpc_author_name = b0, rhi_supported_eek_curve = c0, rhi_unique_id = d0, rhi_supported_num_keys_in_csr = e0\<rparr>)
       (struct_from_cbor 5 ''arr len 5''
         (field i32_from_cbor (field string_from_cbor (field (enum_from_cbor eek_curve_i32 eek_curve_variants) (field (option_from_cbor string_from_cbor) (field i32_from_cbor field_end))))) v)"

definition rpc_hardware_info_wf :: "rpc_hardware_info \<Rightarrow> bool" where
  "rpc_hardware_info_wf x \<longleftrightarrow> i32_range (rhi_version_number x) \<and> string_wf (rhi_rpc_author_name x) \<and> (pred_option string_wf) (rhi_unique_id x) \<and> i32_range (rhi_supported_num_keys_in_csr x)"

interpretation rpc_hardware_info_codec: cbor_codec rpc_hardware_info_to_cbor rpc_hardware_info_from_cbor rpc_hardware_info_wf 2
  by unfold_locales (simp_all add: rpc_hardware_info_to_cbor_def rpc_hardware_info_from_cbor_def rpc_hardware_info_wf_def struct_defs codec_facts)

declare rpc_hardware_info_codec.round_trip [codec_facts] rpc_hardware_info_codec.fits_in [codec_facts]

record maced_public_key =
  mpk_maced_key :: bytes

definition maced_public_key_to_cbor :: "maced_public_key \<Rightarrow> cbor" where
  "maced_public_key_to_cbor x = Cbor_Array
     [bytes_to_cbor (mpk_maced_key x)]"

definition maced_public_key_from_cbor :: "cbor \<Rightarrow> maced_public_key cb" where
  "maced_public_key_from_cbor v =
     map_ok (\<lambda>(a0, _). \<lparr>mpk_maced_key = a0\<rparr>)
       (struct_from_cbor 1 ''arr len 1''
         (field bytes_from_cbor field_end) v)"

definition maced_public_key_wf :: "maced_public_key \<Rightarrow> bool" where
  "maced_public_key_wf x \<longleftrightarrow> bytes_wf (mpk_maced_key x)"

interpretation maced_public_key_codec: cbor_codec maced_public_key_to_cbor maced_public_key_from_cbor maced_public_key_wf 1
  by unfold_locales (simp_all add: maced_public_key_to_cbor_def maced_public_key_from_cbor_def maced_public_key_wf_def struct_defs codec_facts)

declare maced_public_key_codec.round_trip [codec_facts] maced_public_key_codec.fits_in [codec_facts]

interpretation vec_maced_public_key_codec: cbor_codec "(vec_to_cbor maced_public_key_to_cbor)"
    "(vec_from_cbor maced_public_key_from_cbor)" "(\<lambda>xs. length xs < 2 ^ 64 \<and> list_all maced_public_key_wf xs)" 2
  by (rule cbor_codec_vec_eq [OF maced_public_key_codec.cbor_codec_axioms]) simp

declare vec_maced_public_key_codec.round_trip [codec_facts] vec_maced_public_key_codec.fits_in [codec_facts]

record protected_data =
  pd_protected_data :: bytes

definition protected_data_to_cbor :: "protected_data \<Rightarrow> cbor" where
  "protected_data_to_cbor x = Cbor_Array
     [bytes_to_cbor (pd_protected_data x)]"

definition protected_data_from_cbor :: "cbor \<Rightarrow> protected_data cb" where
  "protected_data_from_cbor v =
     map_ok (\<lambda>(a0, _). \<lparr>pd_protected_data = a0\<rparr>)
       (struct_from_cbor 1 ''arr len 1''
         (field bytes_from_cbor field_end) v)"

definition protected_data_wf :: "protected_data \<Rightarrow> bool" where
  "protected_data_wf x \<longleftrightarrow> bytes_wf (pd_protected_data x)"

interpretation protected_data_codec: cbor_codec protected_data_to_cbor protected_data_from_cbor protected_data_wf 1
  by unfold_locales (simp_all add: protected_data_to_cbor_def protected_data_from_cbor_def protected_data_wf_def struct_defs codec_facts)

declare protected_data_codec.round_trip [codec_facts] protected_data_codec.fits_in [codec_facts]

record device_info =
  di_device_info :: bytes

definition device_info_to_cbor :: "device_info \<Rightarrow> cbor" where
  "device_info_to_cbor x = Cbor_Array
     [bytes_to_cbor (di_device_info x)]"

definition device_info_from_cbor :: "cbor \<Rightarrow> device_info cb" where
  "device_info_from_cbor v =
     map_ok (\<lambda>(a0, _). \<lparr>di_device_info = a0\<rparr>)
       (struct_from_cbor 1 ''arr len 1''
         (field bytes_from_cbor field_end) v)"

definition device_info_wf :: "device_info \<Rightarrow> bool" where
  "device_info_wf x \<longleftrightarrow> bytes_wf (di_device_info x)"

interpretation device_info_codec: cbor_codec device_info_to_cbor device_info_from_cbor device_info_wf 1
  by unfold_locales (simp_all add: device_info_to_cbor_def device_info_from_cbor_def device_info_wf_def struct_defs codec_facts)

declare device_info_codec.round_trip [codec_facts] device_info_codec.fits_in [codec_facts]

record attestation_id_info =
  aid_brand :: bytes
  aid_device :: bytes
  aid_product :: bytes
  aid_serial :: bytes
  aid_imei :: bytes
  aid_imei2 :: bytes
  aid_meid :: bytes
  aid_manufacturer :: bytes
  aid_model :: bytes

definition attestation_id_info_to_cbor :: "attestation_id_info \<Rightarrow> cbor" where
  "attestation_id_info_to_cbor x = Cbor_Array
     [bytes_to_cbor (aid_brand x),
      bytes_to_cbor (aid_device x),
      bytes_to_cbor (aid_product x),
      bytes_to_cbor (aid_serial x),
      bytes_to_cbor (aid_imei x),
      bytes_to_cbor (aid_imei2 x),
      bytes_to_cbor (aid_meid x),
      bytes_to_cbor (aid_manufacturer x),
      bytes_to_cbor (aid_model x)]"

definition attestation_id_info_from_cbor :: "cbor \<Rightarrow> attestation_id_info cb" where
  "attestation_id_info_from_cbor v =
     map_ok (\<lambda>(a0, b0, c0, d0, e0, f0, g0, h0, i0, _). \<lparr>aid_brand = a0, aid_device = b0, aid_product = c0, aid_serial = d0, aid_imei = e0, aid_imei2 = f0, aid_meid = g0, aid_manufacturer = h0, aid_model = i0\<rparr>)
       (struct_from_cbor 9 ''arr len 9''
         (field bytes_from_cbor (field bytes_from_cbor (field bytes_from_cbor (field bytes_from_cbor (field bytes_from_cbor (field bytes_from_cbor (field bytes_from_cbor (field bytes_from_cbor (field bytes_from_cbor field_end))))))))) v)"

definition attestation_id_info_wf :: "attestation_id_info \<Rightarrow> bool" where
  "attestation_id_info_wf x \<longleftrightarrow> bytes_wf (aid_brand x) \<and> bytes_wf (aid_device x) \<and> bytes_wf (aid_product x) \<and> bytes_wf (aid_serial x) \<and> bytes_wf (aid_imei x) \<and> bytes_wf (aid_imei2 x) \<and> bytes_wf (aid_meid x) \<and> bytes_wf (aid_manufacturer x) \<and> bytes_wf (aid_model x)"

interpretation attestation_id_info_codec: cbor_codec attestation_id_info_to_cbor attestation_id_info_from_cbor attestation_id_info_wf 1
  by unfold_locales (simp_all add: attestation_id_info_to_cbor_def attestation_id_info_from_cbor_def attestation_id_info_wf_def struct_defs codec_facts)

declare attestation_id_info_codec.round_trip [codec_facts] attestation_id_info_codec.fits_in [codec_facts]

section \<open>Operation codes\<close>

datatype keymint_operation =
    Op_DeviceGetHardwareInfo
  | Op_DeviceAddRngEntropy
  | Op_DeviceGenerateKey
  | Op_DeviceImportKey
  | Op_DeviceImportWrappedKey
  | Op_DeviceUpgradeKey
  | Op_DeviceDeleteKey
  | Op_DeviceDeleteAllKeys
  | Op_DeviceDestroyAttestationIds
  | Op_DeviceBegin
  | Op_DeviceEarlyBootEnded
  | Op_DeviceConvertStorageKeyToEphemeral
  | Op_DeviceGetKeyCharacteristics
  | Op_OperationUpdateAad
  | Op_OperationUpdate
  | Op_OperationFinish
  | Op_OperationAbort
  | Op_RpcGetHardwareInfo
  | Op_RpcGenerateEcdsaP256KeyPair
  | Op_RpcGenerateCertificateRequest
  | Op_RpcGenerateCertificateV2Request
  | Op_SharedSecretGetSharedSecretParameters
  | Op_SharedSecretComputeSharedSecret
  | Op_SecureClockGenerateTimeStamp
  | Op_GetRootOfTrustChallenge
  | Op_GetRootOfTrust
  | Op_SendRootOfTrust
  | Op_SetHalInfo
  | Op_SetBootInfo
  | Op_SetAttestationIds
  | Op_SetHalVersion
  | Op_SetAdditionalAttestationInfo

primrec keymint_operation_i32 :: "keymint_operation \<Rightarrow> int" where
  "keymint_operation_i32 Op_DeviceGetHardwareInfo = 0x11"
| "keymint_operation_i32 Op_DeviceAddRngEntropy = 0x12"
| "keymint_operation_i32 Op_DeviceGenerateKey = 0x13"
| "keymint_operation_i32 Op_DeviceImportKey = 0x14"
| "keymint_operation_i32 Op_DeviceImportWrappedKey = 0x15"
| "keymint_operation_i32 Op_DeviceUpgradeKey = 0x16"
| "keymint_operation_i32 Op_DeviceDeleteKey = 0x17"
| "keymint_operation_i32 Op_DeviceDeleteAllKeys = 0x18"
| "keymint_operation_i32 Op_DeviceDestroyAttestationIds = 0x19"
| "keymint_operation_i32 Op_DeviceBegin = 0x1a"
| "keymint_operation_i32 Op_DeviceEarlyBootEnded = 0x1c"
| "keymint_operation_i32 Op_DeviceConvertStorageKeyToEphemeral = 0x1d"
| "keymint_operation_i32 Op_DeviceGetKeyCharacteristics = 0x1e"
| "keymint_operation_i32 Op_OperationUpdateAad = 0x31"
| "keymint_operation_i32 Op_OperationUpdate = 0x32"
| "keymint_operation_i32 Op_OperationFinish = 0x33"
| "keymint_operation_i32 Op_OperationAbort = 0x34"
| "keymint_operation_i32 Op_RpcGetHardwareInfo = 0x41"
| "keymint_operation_i32 Op_RpcGenerateEcdsaP256KeyPair = 0x42"
| "keymint_operation_i32 Op_RpcGenerateCertificateRequest = 0x43"
| "keymint_operation_i32 Op_RpcGenerateCertificateV2Request = 0x44"
| "keymint_operation_i32 Op_SharedSecretGetSharedSecretParameters = 0x51"
| "keymint_operation_i32 Op_SharedSecretComputeSharedSecret = 0x52"
| "keymint_operation_i32 Op_SecureClockGenerateTimeStamp = 0x61"
| "keymint_operation_i32 Op_GetRootOfTrustChallenge = 0x71"
| "keymint_operation_i32 Op_GetRootOfTrust = 0x72"
| "keymint_operation_i32 Op_SendRootOfTrust = 0x73"
| "keymint_operation_i32 Op_SetHalInfo = 0x81"
| "keymint_operation_i32 Op_SetBootInfo = 0x82"
| "keymint_operation_i32 Op_SetAttestationIds = 0x83"
| "keymint_operation_i32 Op_SetHalVersion = 0x84"
| "keymint_operation_i32 Op_SetAdditionalAttestationInfo = 0x91"

definition keymint_operation_variants :: "keymint_operation list" where
  "keymint_operation_variants =
     [Op_DeviceGetHardwareInfo,
      Op_DeviceAddRngEntropy,
      Op_DeviceGenerateKey,
      Op_DeviceImportKey,
      Op_DeviceImportWrappedKey,
      Op_DeviceUpgradeKey,
      Op_DeviceDeleteKey,
      Op_DeviceDeleteAllKeys,
      Op_DeviceDestroyAttestationIds,
      Op_DeviceBegin,
      Op_DeviceEarlyBootEnded,
      Op_DeviceConvertStorageKeyToEphemeral,
      Op_DeviceGetKeyCharacteristics,
      Op_OperationUpdateAad,
      Op_OperationUpdate,
      Op_OperationFinish,
      Op_OperationAbort,
      Op_RpcGetHardwareInfo,
      Op_RpcGenerateEcdsaP256KeyPair,
      Op_RpcGenerateCertificateRequest,
      Op_RpcGenerateCertificateV2Request,
      Op_SharedSecretGetSharedSecretParameters,
      Op_SharedSecretComputeSharedSecret,
      Op_SecureClockGenerateTimeStamp,
      Op_GetRootOfTrustChallenge,
      Op_GetRootOfTrust,
      Op_SendRootOfTrust,
      Op_SetHalInfo,
      Op_SetBootInfo,
      Op_SetAttestationIds,
      Op_SetHalVersion,
      Op_SetAdditionalAttestationInfo]"

interpretation keymint_operation_enum: rust_enum keymint_operation_i32 keymint_operation_variants
proof
  show "set keymint_operation_variants = UNIV"
  proof (intro equalityI subsetI)
    fix x :: keymint_operation
    show "x \<in> set keymint_operation_variants"
      by (cases x) (simp_all add: keymint_operation_variants_def)
  qed simp
  show "i32_range (keymint_operation_i32 x)" for x
    by (cases x) (simp_all add: i32_range_def)
  show "distinct (map keymint_operation_i32 keymint_operation_variants)"
    by (simp add: keymint_operation_variants_def)
qed

text \<open>Unlike the derived conversion of the other enumerations, an unknown code is a \<open>NonEnumValue\<close>.\<close>

definition keymint_operation_to_cbor :: "keymint_operation \<Rightarrow> cbor" where
  "keymint_operation_to_cbor op = Cbor_Integer (keymint_operation_i32 op)"

definition keymint_operation_from_cbor :: "cbor \<Rightarrow> keymint_operation cb" where
  "keymint_operation_from_cbor v = (case v of
     Cbor_Integer i \<Rightarrow> if i32_range i
       then ok_or (enum_n keymint_operation_i32 keymint_operation_variants i) NonEnumValue
       else Err OutOfRangeIntegerValue
   | v \<Rightarrow> cbor_type_error v ''int'')"

definition is_rpc_operation :: "keymint_operation \<Rightarrow> bool" where
  "is_rpc_operation code \<longleftrightarrow> code \<in> {Op_RpcGetHardwareInfo, Op_RpcGenerateEcdsaP256KeyPair,
     Op_RpcGenerateCertificateRequest, Op_RpcGenerateCertificateV2Request}"

interpretation keymint_operation_codec: cbor_codec keymint_operation_to_cbor keymint_operation_from_cbor "\<lambda>_. True" 0
proof
  fix op
  have "i32_range (keymint_operation_i32 op)"
    by (rule keymint_operation_enum.discriminants_i32)
  then show "keymint_operation_from_cbor (keymint_operation_to_cbor op) = Ok op" "cbor_fits 0 (keymint_operation_to_cbor op)"
    by (simp_all add: keymint_operation_from_cbor_def keymint_operation_to_cbor_def
        keymint_operation_enum.n_as_i32 i32_range_def)
qed

declare keymint_operation_codec.round_trip [codec_facts] keymint_operation_codec.fits_in [codec_facts]

section \<open>Requests\<close>

datatype perform_op_req =
    Req_DeviceGetHardwareInfo
  | Req_DeviceAddRngEntropy bytes
  | Req_DeviceGenerateKey "key_param list" "attestation_key option"
  | Req_DeviceImportKey "key_param list" key_format bytes "attestation_key option"
  | Req_DeviceImportWrappedKey bytes bytes bytes "key_param list" i64 i64
  | Req_DeviceUpgradeKey bytes "key_param list"
  | Req_DeviceDeleteKey bytes
  | Req_DeviceDeleteAllKeys
  | Req_DeviceDestroyAttestationIds
  | Req_DeviceBegin key_purpose bytes "key_param list" "hardware_auth_token option"
  | Req_DeviceEarlyBootEnded
  | Req_DeviceConvertStorageKeyToEphemeral bytes
  | Req_DeviceGetKeyCharacteristics bytes bytes bytes
  | Req_OperationUpdateAad i64 bytes "hardware_auth_token option" "time_stamp_token option"
  | Req_OperationUpdate i64 bytes "hardware_auth_token option" "time_stamp_token option"
  | Req_OperationFinish i64 "bytes option" "bytes option" "hardware_auth_token option" "time_stamp_token option" "bytes option"
  | Req_OperationAbort i64
  | Req_RpcGetHardwareInfo
  | Req_RpcGenerateEcdsaP256KeyPair bool
  | Req_RpcGenerateCertificateRequest bool "maced_public_key list" bytes bytes
  | Req_RpcGenerateCertificateV2Request "maced_public_key list" bytes
  | Req_SharedSecretGetSharedSecretParameters
  | Req_SharedSecretComputeSharedSecret "shared_secret_params list"
  | Req_SecureClockGenerateTimeStamp i64
  | Req_GetRootOfTrustChallenge
  | Req_GetRootOfTrust bytes
  | Req_SendRootOfTrust bytes
  | Req_SetHalInfo u32 u32 u32
  | Req_SetBootInfo bytes bool int bytes u32
  | Req_SetAttestationIds attestation_id_info
  | Req_SetHalVersion u32
  | Req_SetAdditionalAttestationInfo "key_param list"

primrec req_code :: "perform_op_req \<Rightarrow> keymint_operation" where
  "req_code Req_DeviceGetHardwareInfo = Op_DeviceGetHardwareInfo"
| "req_code (Req_DeviceAddRngEntropy _) = Op_DeviceAddRngEntropy"
| "req_code (Req_DeviceGenerateKey _ _) = Op_DeviceGenerateKey"
| "req_code (Req_DeviceImportKey _ _ _ _) = Op_DeviceImportKey"
| "req_code (Req_DeviceImportWrappedKey _ _ _ _ _ _) = Op_DeviceImportWrappedKey"
| "req_code (Req_DeviceUpgradeKey _ _) = Op_DeviceUpgradeKey"
| "req_code (Req_DeviceDeleteKey _) = Op_DeviceDeleteKey"
| "req_code Req_DeviceDeleteAllKeys = Op_DeviceDeleteAllKeys"
| "req_code Req_DeviceDestroyAttestationIds = Op_DeviceDestroyAttestationIds"
| "req_code (Req_DeviceBegin _ _ _ _) = Op_DeviceBegin"
| "req_code Req_DeviceEarlyBootEnded = Op_DeviceEarlyBootEnded"
| "req_code (Req_DeviceConvertStorageKeyToEphemeral _) = Op_DeviceConvertStorageKeyToEphemeral"
| "req_code (Req_DeviceGetKeyCharacteristics _ _ _) = Op_DeviceGetKeyCharacteristics"
| "req_code (Req_OperationUpdateAad _ _ _ _) = Op_OperationUpdateAad"
| "req_code (Req_OperationUpdate _ _ _ _) = Op_OperationUpdate"
| "req_code (Req_OperationFinish _ _ _ _ _ _) = Op_OperationFinish"
| "req_code (Req_OperationAbort _) = Op_OperationAbort"
| "req_code Req_RpcGetHardwareInfo = Op_RpcGetHardwareInfo"
| "req_code (Req_RpcGenerateEcdsaP256KeyPair _) = Op_RpcGenerateEcdsaP256KeyPair"
| "req_code (Req_RpcGenerateCertificateRequest _ _ _ _) = Op_RpcGenerateCertificateRequest"
| "req_code (Req_RpcGenerateCertificateV2Request _ _) = Op_RpcGenerateCertificateV2Request"
| "req_code Req_SharedSecretGetSharedSecretParameters = Op_SharedSecretGetSharedSecretParameters"
| "req_code (Req_SharedSecretComputeSharedSecret _) = Op_SharedSecretComputeSharedSecret"
| "req_code (Req_SecureClockGenerateTimeStamp _) = Op_SecureClockGenerateTimeStamp"
| "req_code Req_GetRootOfTrustChallenge = Op_GetRootOfTrustChallenge"
| "req_code (Req_GetRootOfTrust _) = Op_GetRootOfTrust"
| "req_code (Req_SendRootOfTrust _) = Op_SendRootOfTrust"
| "req_code (Req_SetHalInfo _ _ _) = Op_SetHalInfo"
| "req_code (Req_SetBootInfo _ _ _ _ _) = Op_SetBootInfo"
| "req_code (Req_SetAttestationIds _) = Op_SetAttestationIds"
| "req_code (Req_SetHalVersion _) = Op_SetHalVersion"
| "req_code (Req_SetAdditionalAttestationInfo _) = Op_SetAdditionalAttestationInfo"

primrec req_fields :: "perform_op_req \<Rightarrow> cbor list" where
  "req_fields Req_DeviceGetHardwareInfo = []"
| "req_fields (Req_DeviceAddRngEntropy a) = [bytes_to_cbor a]"
| "req_fields (Req_DeviceGenerateKey a b) = [(vec_to_cbor key_param_to_cbor) a, (option_to_cbor attestation_key_to_cbor) b]"
| "req_fields (Req_DeviceImportKey a b c d) = [(vec_to_cbor key_param_to_cbor) a, (enum_to_cbor key_format_i32) b, bytes_to_cbor c, (option_to_cbor attestation_key_to_cbor) d]"
| "req_fields (Req_DeviceImportWrappedKey a b c d e f) = [bytes_to_cbor a, bytes_to_cbor b, bytes_to_cbor c, (vec_to_cbor key_param_to_cbor) d, i64_to_cbor e, i64_to_cbor f]"
| "req_fields (Req_DeviceUpgradeKey a b) = [bytes_to_cbor a, (vec_to_cbor key_param_to_cbor) b]"
| "req_fields (Req_DeviceDeleteKey a) = [bytes_to_cbor a]"
| "req_fields Req_DeviceDeleteAllKeys = []"
| "req_fields Req_DeviceDestroyAttestationIds = []"
| "req_fields (Req_DeviceBegin a b c d) = [(enum_to_cbor key_purpose_i32) a, bytes_to_cbor b, (vec_to_cbor key_param_to_cbor) c, (option_to_cbor hardware_auth_token_to_cbor) d]"
| "req_fields Req_DeviceEarlyBootEnded = []"
| "req_fields (Req_DeviceConvertStorageKeyToEphemeral a) = [bytes_to_cbor a]"
| "req_fields (Req_DeviceGetKeyCharacteristics a b c) = [bytes_to_cbor a, bytes_to_cbor b, bytes_to_cbor c]"
| "req_fields (Req_OperationUpdateAad a b c d) = [i64_to_cbor a, bytes_to_cbor b, (option_to_cbor hardware_auth_token_to_cbor) c, (option_to_cbor time_stamp_token_to_cbor) d]"
| "req_fields (Req_OperationUpdate a b c d) = [i64_to_cbor a, bytes_to_cbor b, (option_to_cbor hardware_auth_token_to_cbor) c, (option_to_cbor time_stamp_token_to_cbor) d]"
| "req_fields (Req_OperationFinish a b c d e f) = [i64_to_cbor a, (option_to_cbor bytes_to_cbor) b, (option_to_cbor bytes_to_cbor) c, (option_to_cbor hardware_auth_token_to_cbor) d, (option_to_cbor time_stamp_token_to_cbor) e, (option_to_cbor bytes_to_cbor) f]"
| "req_fields (Req_OperationAbort a) = [i64_to_cbor a]"
| "req_fields Req_RpcGetHardwareInfo = []"
| "req_fields (Req_RpcGenerateEcdsaP256KeyPair a) = [bool_to_cbor a]"
| "req_fields (Req_RpcGenerateCertificateRequest a b c d) = [bool_to_cbor a, (vec_to_cbor maced_public_key_to_cbor) b, bytes_to_cbor c, bytes_to_cbor d]"
| "req_fields (Req_RpcGenerateCertificateV2Request a b) = [(vec_to_cbor maced_public_key_to_cbor) a, bytes_to_cbor b]"
| "req_fields Req_SharedSecretGetSharedSecretParameters = []"
| "req_fields (Req_SharedSecretComputeSharedSecret a) = [(vec_to_cbor shared_secret_params_to_cbor) a]"
| "req_fields (Req_SecureClockGenerateTimeStamp a) = [i64_to_cbor a]"
| "req_fields Req_GetRootOfTrustChallenge = []"
| "req_fields (Req_GetRootOfTrust a) = [bytes_to_cbor a]"
| "req_fields (Req_SendRootOfTrust a) = [bytes_to_cbor a]"
| "req_fields (Req_SetHalInfo a b c) = [u32_to_cbor a, u32_to_cbor b, u32_to_cbor c]"
| "req_fields (Req_SetBootInfo a b c d e) = [bytes_to_cbor a, bool_to_cbor b, i32_to_cbor c, bytes_to_cbor d, u32_to_cbor e]"
| "req_fields (Req_SetAttestationIds a) = [attestation_id_info_to_cbor a]"
| "req_fields (Req_SetHalVersion a) = [u32_to_cbor a]"
| "req_fields (Req_SetAdditionalAttestationInfo a) = [(vec_to_cbor key_param_to_cbor) a]"

fun req_payload_from_cbor :: "keymint_operation \<Rightarrow> cbor \<Rightarrow> perform_op_req cb" where
  "req_payload_from_cbor Op_DeviceGetHardwareInfo v = map_ok (\<lambda>_. Req_DeviceGetHardwareInfo)
     (struct_from_cbor 0 ''arr len 0'' field_end v)"
| "req_payload_from_cbor Op_DeviceAddRngEntropy v = map_ok (\<lambda>(a, _). Req_DeviceAddRngEntropy a)
     (struct_from_cbor 1 ''arr len 1'' (field bytes_from_cbor field_end) v)"
| "req_payload_from_cbor Op_DeviceGenerateKey v = map_ok (\<lambda>(a, b, _). Req_DeviceGenerateKey a b)
     (struct_from_cbor 2 ''arr len 2'' (field (vec_from_cbor key_param_from_cbor) (field (option_from_cbor attestation_key_from_cbor) field_end)) v)"
| "req_payload_from_cbor Op_DeviceImportKey v = map_ok (\<lambda>(a, b, c, d, _). Req_DeviceImportKey a b c d)
     (struct_from_cbor 4 ''arr len 4'' (field (vec_from_cbor key_param_from_cbor) (field (enum_from_cbor key_format_i32 key_format_variants) (field bytes_from_cbor (field (option_from_cbor attestation_key_from_cbor) field_end)))) v)"
| "req_payload_from_cbor Op_DeviceImportWrappedKey v = map_ok (\<lambda>(a, b, c, d, e, f, _). Req_DeviceImportWrappedKey a b c d e f)
     (struct_from_cbor 6 ''arr len 6'' (field bytes_from_cbor (field bytes_from_cbor (field bytes_from_cbor (field (vec_from_cbor key_param_from_cbor) (field i64_from_cbor (field i64_from_cbor field_end)))))) v)"
| "req_payload_from_cbor Op_DeviceUpgradeKey v = map_ok (\<lambda>(a, b, _). Req_DeviceUpgradeKey a b)
     (struct_from_cbor 2 ''arr len 2'' (field bytes_from_cbor (field (vec_from_cbor key_param_from_cbor) field_end)) v)"
| "req_payload_from_cbor Op_DeviceDeleteKey v = map_ok (\<lambda>(a, _). Req_DeviceDeleteKey a)
     (struct_from_cbor 1 ''arr len 1'' (field bytes_from_cbor field_end) v)"
| "req_payload_from_cbor Op_DeviceDeleteAllKeys v = map_ok (\<lambda>_. Req_DeviceDeleteAllKeys)
     (struct_from_cbor 0 ''arr len 0'' field_end v)"
| "req_payload_from_cbor Op_DeviceDestroyAttestationIds v = map_ok (\<lambda>_. Req_DeviceDestroyAttestationIds)
     (struct_from_cbor 0 ''arr len 0'' field_end v)"
| "req_payload_from_cbor Op_DeviceBegin v = map_ok (\<lambda>(a, b, c, d, _). Req_DeviceBegin a b c d)
     (struct_from_cbor 4 ''arr len 4'' (field (enum_from_cbor key_purpose_i32 key_purpose_variants) (field bytes_from_cbor (field (vec_from_cbor key_param_from_cbor) (field (option_from_cbor hardware_auth_token_from_cbor) field_end)))) v)"
| "req_payload_from_cbor Op_DeviceEarlyBootEnded v = map_ok (\<lambda>_. Req_DeviceEarlyBootEnded)
     (struct_from_cbor 0 ''arr len 0'' field_end v)"
| "req_payload_from_cbor Op_DeviceConvertStorageKeyToEphemeral v = map_ok (\<lambda>(a, _). Req_DeviceConvertStorageKeyToEphemeral a)
     (struct_from_cbor 1 ''arr len 1'' (field bytes_from_cbor field_end) v)"
| "req_payload_from_cbor Op_DeviceGetKeyCharacteristics v = map_ok (\<lambda>(a, b, c, _). Req_DeviceGetKeyCharacteristics a b c)
     (struct_from_cbor 3 ''arr len 3'' (field bytes_from_cbor (field bytes_from_cbor (field bytes_from_cbor field_end))) v)"
| "req_payload_from_cbor Op_OperationUpdateAad v = map_ok (\<lambda>(a, b, c, d, _). Req_OperationUpdateAad a b c d)
     (struct_from_cbor 4 ''arr len 4'' (field i64_from_cbor (field bytes_from_cbor (field (option_from_cbor hardware_auth_token_from_cbor) (field (option_from_cbor time_stamp_token_from_cbor) field_end)))) v)"
| "req_payload_from_cbor Op_OperationUpdate v = map_ok (\<lambda>(a, b, c, d, _). Req_OperationUpdate a b c d)
     (struct_from_cbor 4 ''arr len 4'' (field i64_from_cbor (field bytes_from_cbor (field (option_from_cbor hardware_auth_token_from_cbor) (field (option_from_cbor time_stamp_token_from_cbor) field_end)))) v)"
| "req_payload_from_cbor Op_OperationFinish v = map_ok (\<lambda>(a, b, c, d, e, f, _). Req_OperationFinish a b c d e f)
     (struct_from_cbor 6 ''arr len 6'' (field i64_from_cbor (field (option_from_cbor bytes_from_cbor) (field (option_from_cbor bytes_from_cbor) (field (option_from_cbor hardware_auth_token_from_cbor) (field (option_from_cbor time_stamp_token_from_cbor) (field (option_from_cbor bytes_from_cbor) field_end)))))) v)"
| "req_payload_from_cbor Op_OperationAbort v = map_ok (\<lambda>(a, _). Req_OperationAbort a)
     (struct_from_cbor 1 ''arr len 1'' (field i64_from_cbor field_end) v)"
| "req_payload_from_cbor Op_RpcGetHardwareInfo v = map_ok (\<lambda>_. Req_RpcGetHardwareInfo)
     (struct_from_cbor 0 ''arr len 0'' field_end v)"
| "req_payload_from_cbor Op_RpcGenerateEcdsaP256KeyPair v = map_ok (\<lambda>(a, _). Req_RpcGenerateEcdsaP256KeyPair a)
     (struct_from_cbor 1 ''arr len 1'' (field bool_from_cbor field_end) v)"
| "req_payload_from_cbor Op_RpcGenerateCertificateRequest v = map_ok (\<lambda>(a, b, c, d, _). Req_RpcGenerateCertificateRequest a b c d)
     (struct_from_cbor 4 ''arr len 4'' (field bool_from_cbor (field (vec_from_cbor maced_public_key_from_cbor) (field bytes_from_cbor (field bytes_from_cbor field_end)))) v)"
| "req_payload_from_cbor Op_RpcGenerateCertificateV2Request v = map_ok (\<lambda>(a, b, _). Req_RpcGenerateCertificateV2Request a b)
     (struct_from_cbor 2 ''arr len 2'' (field (vec_from_cbor maced_public_key_from_cbor) (field bytes_from_cbor field_end)) v)"
| "req_payload_from_cbor Op_SharedSecretGetSharedSecretParameters v = map_ok (\<lambda>_. Req_SharedSecretGetSharedSecretParameters)
     (struct_from_cbor 0 ''arr len 0'' field_end v)"
| "req_payload_from_cbor Op_SharedSecretComputeSharedSecret v = map_ok (\<lambda>(a, _). Req_SharedSecretComputeSharedSecret a)
     (struct_from_cbor 1 ''arr len 1'' (field (vec_from_cbor shared_secret_params_from_cbor) field_end) v)"
| "req_payload_from_cbor Op_SecureClockGenerateTimeStamp v = map_ok (\<lambda>(a, _). Req_SecureClockGenerateTimeStamp a)
     (struct_from_cbor 1 ''arr len 1'' (field i64_from_cbor field_end) v)"
| "req_payload_from_cbor Op_GetRootOfTrustChallenge v = map_ok (\<lambda>_. Req_GetRootOfTrustChallenge)
     (struct_from_cbor 0 ''arr len 0'' field_end v)"
| "req_payload_from_cbor Op_GetRootOfTrust v = map_ok (\<lambda>(a, _). Req_GetRootOfTrust a)
     (struct_from_cbor 1 ''arr len 1'' (field (array_from_cbor 16) field_end) v)"
| "req_payload_from_cbor Op_SendRootOfTrust v = map_ok (\<lambda>(a, _). Req_SendRootOfTrust a)
     (struct_from_cbor 1 ''arr len 1'' (field bytes_from_cbor field_end) v)"
| "req_payload_from_cbor Op_SetHalInfo v = map_ok (\<lambda>(a, b, c, _). Req_SetHalInfo a b c)
     (struct_from_cbor 3 ''arr len 3'' (field u32_from_cbor (field u32_from_cbor (field u32_from_cbor field_end))) v)"
| "req_payload_from_cbor Op_SetBootInfo v = map_ok (\<lambda>(a, b, c, d, e, _). Req_SetBootInfo a b c d e)
     (struct_from_cbor 5 ''arr len 5'' (field bytes_from_cbor (field bool_from_cbor (field i32_from_cbor (field bytes_from_cbor (field u32_from_cbor field_end))))) v)"
| "req_payload_from_cbor Op_SetAttestationIds v = map_ok (\<lambda>(a, _). Req_SetAttestationIds a)
     (struct_from_cbor 1 ''arr len 1'' (field attestation_id_info_from_cbor field_end) v)"
| "req_payload_from_cbor Op_SetHalVersion v = map_ok (\<lambda>(a, _). Req_SetHalVersion a)
     (struct_from_cbor 1 ''arr len 1'' (field u32_from_cbor field_end) v)"
| "req_payload_from_cbor Op_SetAdditionalAttestationInfo v = map_ok (\<lambda>(a, _). Req_SetAdditionalAttestationInfo a)
     (struct_from_cbor 1 ''arr len 1'' (field (vec_from_cbor key_param_from_cbor) field_end) v)"

definition perform_op_req_to_cbor :: "perform_op_req \<Rightarrow> cbor" where
  "perform_op_req_to_cbor r = Cbor_Array [keymint_operation_to_cbor (req_code r), Cbor_Array (req_fields r)]"

definition perform_op_req_from_cbor :: "cbor \<Rightarrow> perform_op_req cb" where
  "perform_op_req_from_cbor v = and_then (struct_fields 2 ''arr len 2'' v) (\<lambda>a.
     and_then (keymint_operation_from_cbor (a ! 0)) (\<lambda>ret_type. req_payload_from_cbor ret_type (a ! 1)))"

primrec req_wf :: "perform_op_req \<Rightarrow> bool" where
  "req_wf Req_DeviceGetHardwareInfo \<longleftrightarrow> True"
| "req_wf (Req_DeviceAddRngEntropy a) \<longleftrightarrow> bytes_wf a"
| "req_wf (Req_DeviceGenerateKey a b) \<longleftrightarrow> key_params_wf a \<and> (pred_option attestation_key_wf) b"
| "req_wf (Req_DeviceImportKey a _ c d) \<longleftrightarrow> key_params_wf a \<and> bytes_wf c \<and> (pred_option attestation_key_wf) d"
| "req_wf (Req_DeviceImportWrappedKey a b c d _ _) \<longleftrightarrow> bytes_wf a \<and> bytes_wf b \<and> bytes_wf c \<and> key_params_wf d"
| "req_wf (Req_DeviceUpgradeKey a b) \<longleftrightarrow> bytes_wf a \<and> key_params_wf b"
| "req_wf (Req_DeviceDeleteKey a) \<longleftrightarrow> bytes_wf a"
| "req_wf Req_DeviceDeleteAllKeys \<longleftrightarrow> True"
| "req_wf Req_DeviceDestroyAttestationIds \<longleftrightarrow> True"
| "req_wf (Req_DeviceBegin _ b c d) \<longleftrightarrow> bytes_wf b \<and> key_params_wf c \<and> (pred_option (\<lambda>t. bytes_wf (hat_mac t))) d"
| "req_wf Req_DeviceEarlyBootEnded \<longleftrightarrow> True"
| "req_wf (Req_DeviceConvertStorageKeyToEphemeral a) \<longleftrightarrow> bytes_wf a"
| "req_wf (Req_DeviceGetKeyCharacteristics a b c) \<longleftrightarrow> bytes_wf a \<and> bytes_wf b \<and> bytes_wf c"
| "req_wf (Req_OperationUpdateAad _ b c d) \<longleftrightarrow> bytes_wf b \<and> (pred_option (\<lambda>t. bytes_wf (hat_mac t))) c \<and> (pred_option (\<lambda>t. bytes_wf (tst_mac t))) d"
| "req_wf (Req_OperationUpdate _ b c d) \<longleftrightarrow> bytes_wf b \<and> (pred_option (\<lambda>t. bytes_wf (hat_mac t))) c \<and> (pred_option (\<lambda>t. bytes_wf (tst_mac t))) d"
| "req_wf (Req_OperationFinish _ b c d e f) \<longleftrightarrow> (pred_option bytes_wf) b \<and> (pred_option bytes_wf) c \<and> (pred_option (\<lambda>t. bytes_wf (hat_mac t))) d \<and> (pred_option (\<lambda>t. bytes_wf (tst_mac t))) e \<and> (pred_option bytes_wf) f"
| "req_wf (Req_OperationAbort _) \<longleftrightarrow> True"
| "req_wf Req_RpcGetHardwareInfo \<longleftrightarrow> True"
| "req_wf (Req_RpcGenerateEcdsaP256KeyPair _) \<longleftrightarrow> True"
| "req_wf (Req_RpcGenerateCertificateRequest _ b c d) \<longleftrightarrow> (\<lambda>xs. length xs < 2 ^ 64 \<and> list_all maced_public_key_wf xs) b \<and> bytes_wf c \<and> bytes_wf d"
| "req_wf (Req_RpcGenerateCertificateV2Request a b) \<longleftrightarrow> (\<lambda>xs. length xs < 2 ^ 64 \<and> list_all maced_public_key_wf xs) a \<and> bytes_wf b"
| "req_wf Req_SharedSecretGetSharedSecretParameters \<longleftrightarrow> True"
| "req_wf (Req_SharedSecretComputeSharedSecret a) \<longleftrightarrow> (\<lambda>xs. length xs < 2 ^ 64 \<and> list_all (\<lambda>p. bytes_wf (ssp_seed p) \<and> bytes_wf (ssp_nonce p)) xs) a"
| "req_wf (Req_SecureClockGenerateTimeStamp _) \<longleftrightarrow> True"
| "req_wf Req_GetRootOfTrustChallenge \<longleftrightarrow> True"
| "req_wf (Req_GetRootOfTrust a) \<longleftrightarrow> (\<lambda>b. length b = 16) a"
| "req_wf (Req_SendRootOfTrust a) \<longleftrightarrow> bytes_wf a"
| "req_wf (Req_SetHalInfo _ _ _) \<longleftrightarrow> True"
| "req_wf (Req_SetBootInfo a _ c d _) \<longleftrightarrow> bytes_wf a \<and> i32_range c \<and> bytes_wf d"
| "req_wf (Req_SetAttestationIds a) \<longleftrightarrow> attestation_id_info_wf a"
| "req_wf (Req_SetHalVersion _) \<longleftrightarrow> True"
| "req_wf (Req_SetAdditionalAttestationInfo a) \<longleftrightarrow> key_params_wf a"

lemma req_payload_round_trip:
  "req_wf r \<Longrightarrow> req_payload_from_cbor (req_code r) (Cbor_Array (req_fields r)) = Ok r"
  by (cases r) (simp_all add: struct_defs codec_facts)

lemma req_fields_fit: "req_wf r \<Longrightarrow> list_all (cbor_fits 4) (req_fields r)"
  by (cases r) (simp_all add: codec_facts array16_codec.fits_in)

lemma length_req_fields: "length (req_fields r) < 2 ^ 64"
  by (cases r) simp_all

interpretation perform_op_req_codec: cbor_codec perform_op_req_to_cbor perform_op_req_from_cbor req_wf 6
  by unfold_locales (simp_all add: perform_op_req_to_cbor_def perform_op_req_from_cbor_def struct_fields_def
    keymint_operation_codec.round_trip keymint_operation_codec.fits_in req_payload_round_trip
    req_fields_fit length_req_fields [simplified])

section \<open>Responses\<close>

datatype perform_op_rsp =
    Rsp_DeviceGetHardwareInfo keymint_hardware_info
  | Rsp_DeviceAddRngEntropy
  | Rsp_DeviceGenerateKey key_creation_result
  | Rsp_DeviceImportKey key_creation_result
  | Rsp_DeviceImportWrappedKey key_creation_result
  | Rsp_DeviceUpgradeKey bytes
  | Rsp_DeviceDeleteKey
  | Rsp_DeviceDeleteAllKeys
  | Rsp_DeviceDestroyAttestationIds
  | Rsp_DeviceBegin internal_begin_result
  | Rsp_DeviceEarlyBootEnded
  | Rsp_DeviceConvertStorageKeyToEphemeral bytes
  | Rsp_DeviceGetKeyCharacteristics "key_characteristics list"
  | Rsp_OperationUpdateAad
  | Rsp_OperationUpdate bytes
  | Rsp_OperationFinish bytes
  | Rsp_OperationAbort
  | Rsp_RpcGetHardwareInfo rpc_hardware_info
  | Rsp_RpcGenerateEcdsaP256KeyPair maced_public_key bytes
  | Rsp_RpcGenerateCertificateRequest device_info protected_data bytes
  | Rsp_RpcGenerateCertificateV2Request bytes
  | Rsp_SharedSecretGetSharedSecretParameters shared_secret_params
  | Rsp_SharedSecretComputeSharedSecret bytes
  | Rsp_SecureClockGenerateTimeStamp time_stamp_token
  | Rsp_GetRootOfTrustChallenge bytes
  | Rsp_GetRootOfTrust bytes
  | Rsp_SendRootOfTrust
  | Rsp_SetHalInfo
  | Rsp_SetBootInfo
  | Rsp_SetAttestationIds
  | Rsp_SetHalVersion
  | Rsp_SetAdditionalAttestationInfo

primrec rsp_code :: "perform_op_rsp \<Rightarrow> keymint_operation" where
  "rsp_code (Rsp_DeviceGetHardwareInfo _) = Op_DeviceGetHardwareInfo"
| "rsp_code Rsp_DeviceAddRngEntropy = Op_DeviceAddRngEntropy"
| "rsp_code (Rsp_DeviceGenerateKey _) = Op_DeviceGenerateKey"
| "rsp_code (Rsp_DeviceImportKey _) = Op_DeviceImportKey"
| "rsp_code (Rsp_DeviceImportWrappedKey _) = Op_DeviceImportWrappedKey"
| "rsp_code (Rsp_DeviceUpgradeKey _) = Op_DeviceUpgradeKey"
| "rsp_code Rsp_DeviceDeleteKey = Op_DeviceDeleteKey"
| "rsp_code Rsp_DeviceDeleteAllKeys = Op_DeviceDeleteAllKeys"
| "rsp_code Rsp_DeviceDestroyAttestationIds = Op_DeviceDestroyAttestationIds"
| "rsp_code (Rsp_DeviceBegin _) = Op_DeviceBegin"
| "rsp_code Rsp_DeviceEarlyBootEnded = Op_DeviceEarlyBootEnded"
| "rsp_code (Rsp_DeviceConvertStorageKeyToEphemeral _) = Op_DeviceConvertStorageKeyToEphemeral"
| "rsp_code (Rsp_DeviceGetKeyCharacteristics _) = Op_DeviceGetKeyCharacteristics"
| "rsp_code Rsp_OperationUpdateAad = Op_OperationUpdateAad"
| "rsp_code (Rsp_OperationUpdate _) = Op_OperationUpdate"
| "rsp_code (Rsp_OperationFinish _) = Op_OperationFinish"
| "rsp_code Rsp_OperationAbort = Op_OperationAbort"
| "rsp_code (Rsp_RpcGetHardwareInfo _) = Op_RpcGetHardwareInfo"
| "rsp_code (Rsp_RpcGenerateEcdsaP256KeyPair _ _) = Op_RpcGenerateEcdsaP256KeyPair"
| "rsp_code (Rsp_RpcGenerateCertificateRequest _ _ _) = Op_RpcGenerateCertificateRequest"
| "rsp_code (Rsp_RpcGenerateCertificateV2Request _) = Op_RpcGenerateCertificateV2Request"
| "rsp_code (Rsp_SharedSecretGetSharedSecretParameters _) = Op_SharedSecretGetSharedSecretParameters"
| "rsp_code (Rsp_SharedSecretComputeSharedSecret _) = Op_SharedSecretComputeSharedSecret"
| "rsp_code (Rsp_SecureClockGenerateTimeStamp _) = Op_SecureClockGenerateTimeStamp"
| "rsp_code (Rsp_GetRootOfTrustChallenge _) = Op_GetRootOfTrustChallenge"
| "rsp_code (Rsp_GetRootOfTrust _) = Op_GetRootOfTrust"
| "rsp_code Rsp_SendRootOfTrust = Op_SendRootOfTrust"
| "rsp_code Rsp_SetHalInfo = Op_SetHalInfo"
| "rsp_code Rsp_SetBootInfo = Op_SetBootInfo"
| "rsp_code Rsp_SetAttestationIds = Op_SetAttestationIds"
| "rsp_code Rsp_SetHalVersion = Op_SetHalVersion"
| "rsp_code Rsp_SetAdditionalAttestationInfo = Op_SetAdditionalAttestationInfo"

primrec rsp_fields :: "perform_op_rsp \<Rightarrow> cbor list" where
  "rsp_fields (Rsp_DeviceGetHardwareInfo a) = [keymint_hardware_info_to_cbor a]"
| "rsp_fields Rsp_DeviceAddRngEntropy = []"
| "rsp_fields (Rsp_DeviceGenerateKey a) = [key_creation_result_to_cbor a]"
| "rsp_fields (Rsp_DeviceImportKey a) = [key_creation_result_to_cbor a]"
| "rsp_fields (Rsp_DeviceImportWrappedKey a) = [key_creation_result_to_cbor a]"
| "rsp_fields (Rsp_DeviceUpgradeKey a) = [bytes_to_cbor a]"
| "rsp_fields Rsp_DeviceDeleteKey = []"
| "rsp_fields Rsp_DeviceDeleteAllKeys = []"
| "rsp_fields Rsp_DeviceDestroyAttestationIds = []"
| "rsp_fields (Rsp_DeviceBegin a) = [internal_begin_result_to_cbor a]"
| "rsp_fields Rsp_DeviceEarlyBootEnded = []"
| "rsp_fields (Rsp_DeviceConvertStorageKeyToEphemeral a) = [bytes_to_cbor a]"
| "rsp_fields (Rsp_DeviceGetKeyCharacteristics a) = [(vec_to_cbor key_characteristics_to_cbor) a]"
| "rsp_fields Rsp_OperationUpdateAad = []"
| "rsp_fields (Rsp_OperationUpdate a) = [bytes_to_cbor a]"
| "rsp_fields (Rsp_OperationFinish a) = [bytes_to_cbor a]"
| "rsp_fields Rsp_OperationAbort = []"
| "rsp_fields (Rsp_RpcGetHardwareInfo a) = [rpc_hardware_info_to_cbor a]"
| "rsp_fields (Rsp_RpcGenerateEcdsaP256KeyPair a b) = [maced_public_key_to_cbor a, bytes_to_cbor b]"
| "rsp_fields (Rsp_RpcGenerateCertificateRequest a b c) = [device_info_to_cbor a, protected_data_to_cbor b, bytes_to_cbor c]"
| "rsp_fields (Rsp_RpcGenerateCertificateV2Request a) = [bytes_to_cbor a]"
| "rsp_fields (Rsp_SharedSecretGetSharedSecretParameters a) = [shared_secret_params_to_cbor a]"
| "rsp_fields (Rsp_SharedSecretComputeSharedSecret a) = [bytes_to_cbor a]"
| "rsp_fields (Rsp_SecureClockGenerateTimeStamp a) = [time_stamp_token_to_cbor a]"
| "rsp_fields (Rsp_GetRootOfTrustChallenge a) = [bytes_to_cbor a]"
| "rsp_fields (Rsp_GetRootOfTrust a) = [bytes_to_cbor a]"
| "rsp_fields Rsp_SendRootOfTrust = []"
| "rsp_fields Rsp_SetHalInfo = []"
| "rsp_fields Rsp_SetBootInfo = []"
| "rsp_fields Rsp_SetAttestationIds = []"
| "rsp_fields Rsp_SetHalVersion = []"
| "rsp_fields Rsp_SetAdditionalAttestationInfo = []"

fun rsp_payload_from_cbor :: "keymint_operation \<Rightarrow> cbor \<Rightarrow> perform_op_rsp cb" where
  "rsp_payload_from_cbor Op_DeviceGetHardwareInfo v = map_ok (\<lambda>(a, _). Rsp_DeviceGetHardwareInfo a)
     (struct_from_cbor 1 ''arr len 1'' (field keymint_hardware_info_from_cbor field_end) v)"
| "rsp_payload_from_cbor Op_DeviceAddRngEntropy v = map_ok (\<lambda>_. Rsp_DeviceAddRngEntropy)
     (struct_from_cbor 0 ''arr len 0'' field_end v)"
| "rsp_payload_from_cbor Op_DeviceGenerateKey v = map_ok (\<lambda>(a, _). Rsp_DeviceGenerateKey a)
     (struct_from_cbor 1 ''arr len 1'' (field key_creation_result_from_cbor field_end) v)"
| "rsp_payload_from_cbor Op_DeviceImportKey v = map_ok (\<lambda>(a, _). Rsp_DeviceImportKey a)
     (struct_from_cbor 1 ''arr len 1'' (field key_creation_result_from_cbor field_end) v)"
| "rsp_payload_from_cbor Op_DeviceImportWrappedKey v = map_ok (\<lambda>(a, _). Rsp_DeviceImportWrappedKey a)
     (struct_from_cbor 1 ''arr len 1'' (field key_creation_result_from_cbor field_end) v)"
| "rsp_payload_from_cbor Op_DeviceUpgradeKey v = map_ok (\<lambda>(a, _). Rsp_DeviceUpgradeKey a)
     (struct_from_cbor 1 ''arr len 1'' (field bytes_from_cbor field_end) v)"
| "rsp_payload_from_cbor Op_DeviceDeleteKey v = map_ok (\<lambda>_. Rsp_DeviceDeleteKey)
     (struct_from_cbor 0 ''arr len 0'' field_end v)"
| "rsp_payload_from_cbor Op_DeviceDeleteAllKeys v = map_ok (\<lambda>_. Rsp_DeviceDeleteAllKeys)
     (struct_from_cbor 0 ''arr len 0'' field_end v)"
| "rsp_payload_from_cbor Op_DeviceDestroyAttestationIds v = map_ok (\<lambda>_. Rsp_DeviceDestroyAttestationIds)
     (struct_from_cbor 0 ''arr len 0'' field_end v)"
| "rsp_payload_from_cbor Op_DeviceBegin v = map_ok (\<lambda>(a, _). Rsp_DeviceBegin a)
     (struct_from_cbor 1 ''arr len 1'' (field internal_begin_result_from_cbor field_end) v)"
| "rsp_payload_from_cbor Op_DeviceEarlyBootEnded v = map_ok (\<lambda>_. Rsp_DeviceEarlyBootEnded)
     (struct_from_cbor 0 ''arr len 0'' field_end v)"
| "rsp_payload_from_cbor Op_DeviceConvertStorageKeyToEphemeral v = map_ok (\<lambda>(a, _). Rsp_DeviceConvertStorageKeyToEphemeral a)
     (struct_from_cbor 1 ''arr len 1'' (field bytes_from_cbor field_end) v)"
| "rsp_payload_from_cbor Op_DeviceGetKeyCharacteristics v = map_ok (\<lambda>(a, _). Rsp_DeviceGetKeyCharacteristics a)
     (struct_from_cbor 1 ''arr len 1'' (field (vec_from_cbor key_characteristics_from_cbor) field_end) v)"
| "rsp_payload_from_cbor Op_OperationUpdateAad v = map_ok (\<lambda>_. Rsp_OperationUpdateAad)
     (struct_from_cbor 0 ''arr len 0'' field_end v)"
| "rsp_payload_from_cbor Op_OperationUpdate v = map_ok (\<lambda>(a, _). Rsp_OperationUpdate a)
     (struct_from_cbor 1 ''arr len 1'' (field bytes_from_cbor field_end) v)"
| "rsp_payload_from_cbor Op_OperationFinish v = map_ok (\<lambda>(a, _). Rsp_OperationFinish a)
     (struct_from_cbor 1 ''arr len 1'' (field bytes_from_cbor field_end) v)"
| "rsp_payload_from_cbor Op_OperationAbort v = map_ok (\<lambda>_. Rsp_OperationAbort)
     (struct_from_cbor 0 ''arr len 0'' field_end v)"
| "rsp_payload_from_cbor Op_RpcGetHardwareInfo v = map_ok (\<lambda>(a, _). Rsp_RpcGetHardwareInfo a)
     (struct_from_cbor 1 ''arr len 1'' (field rpc_hardware_info_from_cbor field_end) v)"
| "rsp_payload_from_cbor Op_RpcGenerateEcdsaP256KeyPair v = map_ok (\<lambda>(a, b, _). Rsp_RpcGenerateEcdsaP256KeyPair a b)
     (struct_from_cbor 2 ''arr len 2'' (field maced_public_key_from_cbor (field bytes_from_cbor field_end)) v)"
| "rsp_payload_from_cbor Op_RpcGenerateCertificateRequest v = map_ok (\<lambda>(a, b, c, _). Rsp_RpcGenerateCertificateRequest a b c)
     (struct_from_cbor 3 ''arr len 3'' (field device_info_from_cbor (field protected_data_from_cbor (field bytes_from_cbor field_end))) v)"
| "rsp_payload_from_cbor Op_RpcGenerateCertificateV2Request v = map_ok (\<lambda>(a, _). Rsp_RpcGenerateCertificateV2Request a)
     (struct_from_cbor 1 ''arr len 1'' (field bytes_from_cbor field_end) v)"
| "rsp_payload_from_cbor Op_SharedSecretGetSharedSecretParameters v = map_ok (\<lambda>(a, _). Rsp_SharedSecretGetSharedSecretParameters a)
     (struct_from_cbor 1 ''arr len 1'' (field shared_secret_params_from_cbor field_end) v)"
| "rsp_payload_from_cbor Op_SharedSecretComputeSharedSecret v = map_ok (\<lambda>(a, _). Rsp_SharedSecretComputeSharedSecret a)
     (struct_from_cbor 1 ''arr len 1'' (field bytes_from_cbor field_end) v)"
| "rsp_payload_from_cbor Op_SecureClockGenerateTimeStamp v = map_ok (\<lambda>(a, _). Rsp_SecureClockGenerateTimeStamp a)
     (struct_from_cbor 1 ''arr len 1'' (field time_stamp_token_from_cbor field_end) v)"
| "rsp_payload_from_cbor Op_GetRootOfTrustChallenge v = map_ok (\<lambda>(a, _). Rsp_GetRootOfTrustChallenge a)
     (struct_from_cbor 1 ''arr len 1'' (field (array_from_cbor 16) field_end) v)"
| "rsp_payload_from_cbor Op_GetRootOfTrust v = map_ok (\<lambda>(a, _). Rsp_GetRootOfTrust a)
     (struct_from_cbor 1 ''arr len 1'' (field bytes_from_cbor field_end) v)"
| "rsp_payload_from_cbor Op_SendRootOfTrust v = map_ok (\<lambda>_. Rsp_SendRootOfTrust)
     (struct_from_cbor 0 ''arr len 0'' field_end v)"
| "rsp_payload_from_cbor Op_SetHalInfo v = map_ok (\<lambda>_. Rsp_SetHalInfo)
     (struct_from_cbor 0 ''arr len 0'' field_end v)"
| "rsp_payload_from_cbor Op_SetBootInfo v = map_ok (\<lambda>_. Rsp_SetBootInfo)
     (struct_from_cbor 0 ''arr len 0'' field_end v)"
| "rsp_payload_from_cbor Op_SetAttestationIds v = map_ok (\<lambda>_. Rsp_SetAttestationIds)
     (struct_from_cbor 0 ''arr len 0'' field_end v)"
| "rsp_payload_from_cbor Op_SetHalVersion v = map_ok (\<lambda>_. Rsp_SetHalVersion)
     (struct_from_cbor 0 ''arr len 0'' field_end v)"
| "rsp_payload_from_cbor Op_SetAdditionalAttestationInfo v = map_ok (\<lambda>_. Rsp_SetAdditionalAttestationInfo)
     (struct_from_cbor 0 ''arr len 0'' field_end v)"

definition perform_op_rsp_to_cbor :: "perform_op_rsp \<Rightarrow> cbor" where
  "perform_op_rsp_to_cbor r = Cbor_Array [keymint_operation_to_cbor (rsp_code r), Cbor_Array (rsp_fields r)]"

definition perform_op_rsp_from_cbor :: "cbor \<Rightarrow> perform_op_rsp cb" where
  "perform_op_rsp_from_cbor v = and_then (struct_fields 2 ''arr len 2'' v) (\<lambda>a.
     and_then (keymint_operation_from_cbor (a ! 0)) (\<lambda>ret_type. rsp_payload_from_cbor ret_type (a ! 1)))"

primrec rsp_wf :: "perform_op_rsp \<Rightarrow> bool" where
  "rsp_wf (Rsp_DeviceGetHardwareInfo a) \<longleftrightarrow> keymint_hardware_info_wf a"
| "rsp_wf Rsp_DeviceAddRngEntropy \<longleftrightarrow> True"
| "rsp_wf (Rsp_DeviceGenerateKey a) \<longleftrightarrow> key_creation_result_wf a"
| "rsp_wf (Rsp_DeviceImportKey a) \<longleftrightarrow> key_creation_result_wf a"
| "rsp_wf (Rsp_DeviceImportWrappedKey a) \<longleftrightarrow> key_creation_result_wf a"
| "rsp_wf (Rsp_DeviceUpgradeKey a) \<longleftrightarrow> bytes_wf a"
| "rsp_wf Rsp_DeviceDeleteKey \<longleftrightarrow> True"
| "rsp_wf Rsp_DeviceDeleteAllKeys \<longleftrightarrow> True"
| "rsp_wf Rsp_DeviceDestroyAttestationIds \<longleftrightarrow> True"
| "rsp_wf (Rsp_DeviceBegin a) \<longleftrightarrow> internal_begin_result_wf a"
| "rsp_wf Rsp_DeviceEarlyBootEnded \<longleftrightarrow> True"
| "rsp_wf (Rsp_DeviceConvertStorageKeyToEphemeral a) \<longleftrightarrow> bytes_wf a"
| "rsp_wf (Rsp_DeviceGetKeyCharacteristics a) \<longleftrightarrow> characteristics_wf a"
| "rsp_wf Rsp_OperationUpdateAad \<longleftrightarrow> True"
| "rsp_wf (Rsp_OperationUpdate a) \<longleftrightarrow> bytes_wf a"
| "rsp_wf (Rsp_OperationFinish a) \<longleftrightarrow> bytes_wf a"
| "rsp_wf Rsp_OperationAbort \<longleftrightarrow> True"
| "rsp_wf (Rsp_RpcGetHardwareInfo a) \<longleftrightarrow> rpc_hardware_info_wf a"
| "rsp_wf (Rsp_RpcGenerateEcdsaP256KeyPair a b) \<longleftrightarrow> maced_public_key_wf a \<and> bytes_wf b"
| "rsp_wf (Rsp_RpcGenerateCertificateRequest a b c) \<longleftrightarrow> device_info_wf a \<and> protected_data_wf b \<and> bytes_wf c"
| "rsp_wf (Rsp_RpcGenerateCertificateV2Request a) \<longleftrightarrow> bytes_wf a"
| "rsp_wf (Rsp_SharedSecretGetSharedSecretParameters a) \<longleftrightarrow> (\<lambda>p. bytes_wf (ssp_seed p) \<and> bytes_wf (ssp_nonce p)) a"
| "rsp_wf (Rsp_SharedSecretComputeSharedSecret a) \<longleftrightarrow> bytes_wf a"
| "rsp_wf (Rsp_SecureClockGenerateTimeStamp a) \<longleftrightarrow> (\<lambda>t. bytes_wf (tst_mac t)) a"
| "rsp_wf (Rsp_GetRootOfTrustChallenge a) \<longleftrightarrow> (\<lambda>b. length b = 16) a"
| "rsp_wf (Rsp_GetRootOfTrust a) \<longleftrightarrow> bytes_wf a"
| "rsp_wf Rsp_SendRootOfTrust \<longleftrightarrow> True"
| "rsp_wf Rsp_SetHalInfo \<longleftrightarrow> True"
| "rsp_wf Rsp_SetBootInfo \<longleftrightarrow> True"
| "rsp_wf Rsp_SetAttestationIds \<longleftrightarrow> True"
| "rsp_wf Rsp_SetHalVersion \<longleftrightarrow> True"
| "rsp_wf Rsp_SetAdditionalAttestationInfo \<longleftrightarrow> True"

lemma rsp_payload_round_trip:
  "rsp_wf r \<Longrightarrow> rsp_payload_from_cbor (rsp_code r) (Cbor_Array (rsp_fields r)) = Ok r"
  by (cases r) (simp_all add: struct_defs codec_facts)

lemma rsp_fields_fit: "rsp_wf r \<Longrightarrow> list_all (cbor_fits 5) (rsp_fields r)"
  by (cases r) (simp_all add: codec_facts array16_codec.fits_in)

lemma length_rsp_fields: "length (rsp_fields r) < 2 ^ 64"
  by (cases r) simp_all

interpretation perform_op_rsp_codec: cbor_codec perform_op_rsp_to_cbor perform_op_rsp_from_cbor rsp_wf 7
  by unfold_locales (simp_all add: perform_op_rsp_to_cbor_def perform_op_rsp_from_cbor_def struct_fields_def
    keymint_operation_codec.round_trip keymint_operation_codec.fits_in rsp_payload_round_trip
    rsp_fields_fit length_rsp_fields [simplified])

record perform_op_response =
  por_error_code :: int
  por_rsp :: "perform_op_rsp option"

definition perform_op_response_to_cbor :: "perform_op_response \<Rightarrow> cbor" where
  "perform_op_response_to_cbor r = Cbor_Array
     [i32_to_cbor (por_error_code r), option_to_cbor perform_op_rsp_to_cbor (por_rsp r)]"

definition perform_op_response_from_cbor :: "cbor \<Rightarrow> perform_op_response cb" where
  "perform_op_response_from_cbor v = map_ok (\<lambda>(c, r, _). \<lparr>por_error_code = c, por_rsp = r\<rparr>)
     (struct_from_cbor 2 ''arr len 2'' (field i32_from_cbor (field (option_from_cbor perform_op_rsp_from_cbor) field_end)) v)"

definition perform_op_response_wf :: "perform_op_response \<Rightarrow> bool" where
  "perform_op_response_wf r \<longleftrightarrow> i32_range (por_error_code r) \<and> pred_option rsp_wf (por_rsp r)"

interpretation opt_rsp_codec: cbor_codec "option_to_cbor perform_op_rsp_to_cbor"
    "option_from_cbor perform_op_rsp_from_cbor" "pred_option rsp_wf" 8
  by (rule cbor_codec_option_eq [OF perform_op_rsp_codec.cbor_codec_axioms]) simp

interpretation perform_op_response_codec: cbor_codec perform_op_response_to_cbor
    perform_op_response_from_cbor perform_op_response_wf 9
  by unfold_locales (simp_all add: perform_op_response_to_cbor_def perform_op_response_from_cbor_def
    perform_op_response_wf_def struct_defs codec_facts opt_rsp_codec.round_trip opt_rsp_codec.fits_in)

end
