(* ===== verification/Channel.thy ===== *)
theory Channel
  imports Messages Cbor_Rfc8949
begin

text \<open>
  The channel between the HAL service and the TA: splitting of long responses (\<open>split_rsp\<close> of
  \<open>ta/src/lib.rs\<close>) and its counterpart \<open>extract_rsp\<close>, length framing on a byte stream, the outer
  request loop of the TA (\<open>process\<close>) with its error responses, and \<open>channel_execute\<close> of
  \<open>hal/src/lib.rs\<close>, which sends a request and decodes the response.

  Loops that need not end for every argument are partial functions whose value \<open>None\<close> means that
  the loop does not end.
\<close>

section \<open>Binder statuses\<close>

datatype exception_code = ILLEGAL_ARGUMENT | BAD_PARCELABLE | TRANSACTION_FAILED

datatype binder_status = Status_Exception exception_code | Status_ServiceSpecific int

type_synonym 'a bres = "('a, binder_status) res"

definition failed_cbor :: "cbor_error \<Rightarrow> binder_status" where
  "failed_cbor err = Status_ServiceSpecific (error_code_i32 EncodingError)"

section \<open>Splitting responses\<close>

definition NEXT_MESSAGE_SIGNAL_TRUE :: u8 where "NEXT_MESSAGE_SIGNAL_TRUE = 1"
definition NEXT_MESSAGE_SIGNAL_FALSE :: u8 where "NEXT_MESSAGE_SIGNAL_FALSE = 0"

partial_function (option) split_loop :: "nat \<Rightarrow> bytes \<Rightarrow> bytes list \<Rightarrow> bytes list option" where
  "split_loop allowed_msg_length rsp_data split =
     (if allowed_msg_length < length rsp_data
      then split_loop allowed_msg_length (drop allowed_msg_length rsp_data)
             (split @ [NEXT_MESSAGE_SIGNAL_TRUE # take allowed_msg_length rsp_data])
      else Some (split @ [NEXT_MESSAGE_SIGNAL_FALSE # rsp_data]))"

definition split_rsp :: "bytes \<Rightarrow> nat \<Rightarrow> bytes list km option" where
  "split_rsp rsp_data max_size =
     (if rsp_data = [] \<or> max_size < 2 then Some (Err (Hal InvalidArgument))
      else map_option Ok (split_loop (max_size - 1) rsp_data []))"

definition extract_rsp :: "bytes \<Rightarrow> (bool \<times> bytes) bres" where
  "extract_rsp rsp =
     (if length rsp < 2 then Err (Status_Exception ILLEGAL_ARGUMENT)
      else Ok (hd rsp = NEXT_MESSAGE_SIGNAL_TRUE, tl rsp))"

text \<open>What a receiver does with the parts: it reads until a part says that it is the last.\<close>

fun reassemble :: "bytes list \<Rightarrow> (bytes \<times> bytes list) bres" where
  "reassemble [] = Err (Status_Exception TRANSACTION_FAILED)"
| "reassemble (m # ms) = and_then (extract_rsp m) (\<lambda>(more, data).
     if more then and_then (reassemble ms) (\<lambda>(rest, ms). Ok (data @ rest, ms)) else Ok (data, ms))"

text \<open>The parts of a message.\<close>

function chunks :: "nat \<Rightarrow> bytes \<Rightarrow> bytes list" where
  "chunks n d = (if 0 < n \<and> n < length d then take n d # chunks n (drop n d) else [d])"
  by auto

termination
  by (relation "measure (\<lambda>(n, d). length d)") auto

declare chunks.simps [simp del]

lemma chunks_more: "0 < n \<Longrightarrow> n < length d \<Longrightarrow> chunks n d = take n d # chunks n (drop n d)"
  by (subst chunks.simps) simp

lemma chunks_last: "length d \<le> n \<Longrightarrow> chunks n d = [d]"
  by (subst chunks.simps) simp

lemma chunks_0: "chunks 0 d = [d]"
  by (subst chunks.simps) simp

text \<open>Induction over the chunks of a message.\<close>

lemma chunks_induct [consumes 1, case_names last more]:
  assumes "0 < n"
    and "\<And>d. length d \<le> n \<Longrightarrow> P d"
    and "\<And>d. n < length d \<Longrightarrow> P (drop n d) \<Longrightarrow> P d"
  shows "P d"
proof (induction d rule: length_induct)
  case (1 d)
  show ?case
  proof (cases "n < length d")
    case True
    then have "P (drop n d)"
      using 1 assms(1) by simp
    then show ?thesis
      by (rule assms(3) [OF True])
  qed (simp add: assms(2))
qed

lemma chunks_concat: "concat (chunks n d) = d"
proof (cases "0 < n")
  case True
  then show ?thesis
    by (induction d rule: chunks_induct) (simp_all add: chunks_last chunks_more [OF True])
qed (simp add: chunks_0)

lemma chunks_length:
  assumes "0 < n"
  shows "d \<noteq> [] \<Longrightarrow> c \<in> set (chunks n d) \<Longrightarrow> c \<noteq> [] \<and> length c \<le> n"
  using assms by (induction d rule: chunks_induct) (use assms in \<open>auto simp: chunks_last chunks_more\<close>)

lemma chunks_number:
  assumes "0 < n"
  shows "d \<noteq> [] \<Longrightarrow> length (chunks n d) = (length d - 1) div n + 1"
  using assms
proof (induction d rule: chunks_induct)
  case (last d)
  then have "length d - 1 < n"
    using assms by simp
  then show ?case
    using last by (simp add: chunks_last)
next
  case (more d)
  then have "length (chunks n d) = (length d - n - 1) div n + 1 + 1"
    using assms by (simp add: chunks_more)
  also have "(length d - n - 1) div n + 1 = (length d - n - 1 + n) div n"
    using assms by (simp only: div_add_self2)
  also have "length d - n - 1 + n = length d - 1"
    using more(1) by simp
  finally show ?case .
qed

text \<open>The loop ends and marks every part but the last.\<close>

fun mark_parts :: "bytes list \<Rightarrow> bytes list" where
  "mark_parts [] = []"
| "mark_parts [c] = [NEXT_MESSAGE_SIGNAL_FALSE # c]"
| "mark_parts (c # cs) = (NEXT_MESSAGE_SIGNAL_TRUE # c) # mark_parts cs"

lemma chunks_nonempty [simp]: "chunks n d \<noteq> []"
  by (subst chunks.simps) simp

lemma mark_parts_Cons: "cs \<noteq> [] \<Longrightarrow> mark_parts (c # cs) = (NEXT_MESSAGE_SIGNAL_TRUE # c) # mark_parts cs"
  by (cases cs) auto

lemma split_loop_eq:
  assumes "0 < n"
  shows "split_loop n d acc = Some (acc @ mark_parts (chunks n d))"
  using assms
proof (induction d arbitrary: acc rule: chunks_induct)
  case (last d)
  then show ?case
    by (subst split_loop.simps) (simp add: chunks_last)
next
  case (more d)
  then show ?case
    using assms by (subst split_loop.simps) (simp add: chunks_more mark_parts_Cons)
qed

lemma reassemble_parts:
  "cs \<noteq> [] \<Longrightarrow> (\<And>c. c \<in> set cs \<Longrightarrow> c \<noteq> []) \<Longrightarrow> reassemble (mark_parts cs @ ms) = Ok (concat cs, ms)"
proof (induction cs rule: mark_parts.induct)
  case (2 c)
  then show ?case
    by (cases c) (auto simp: extract_rsp_def NEXT_MESSAGE_SIGNAL_TRUE_def NEXT_MESSAGE_SIGNAL_FALSE_def)
next
  case (3 c c' cs)
  then have "c \<noteq> []"
    by simp
  then show ?case
    using 3 by (cases c) (auto simp: extract_rsp_def)
qed simp

lemma reassemble_chunks:
  assumes "0 < n" "d \<noteq> []"
  shows "reassemble (mark_parts (chunks n d) @ later) = Ok (d, later)"
proof -
  have "c \<noteq> []" if "c \<in> set (chunks n d)" for c
    using chunks_length [OF assms that] by simp
  then show ?thesis
    by (subst reassemble_parts) (simp_all add: chunks_concat)
qed

lemma split_rsp_eq:
  "d \<noteq> [] \<Longrightarrow> 2 \<le> mx \<Longrightarrow> split_rsp d mx = Some (Ok (mark_parts (chunks (mx - 1) d)))"
  by (simp add: split_rsp_def split_loop_eq)

lemma length_mark_parts [simp]: "length (mark_parts cs) = length cs"
  by (induction cs rule: mark_parts.induct) auto

lemma set_mark_parts: "m \<in> set (mark_parts cs) \<Longrightarrow> \<exists>b. \<exists>c \<in> set cs. m = b # c"
  by (induction cs rule: mark_parts.induct) auto

text \<open>
  C25: Splitting always ends.  It fails exactly on empty data or a channel of fewer than two bytes;
  otherwise every part fits the channel, there are as many parts as the code reserves room for, and
  a receiver that reads parts until one is marked as the last gets back the data, whatever follows.
\<close>

theorem split_rsp_correct:
  "\<exists>r. split_rsp d mx = Some r \<and>
     (r = Err (Hal InvalidArgument) \<and> (d = [] \<or> mx < 2) \<or>
      (\<exists>ms. r = Ok ms \<and> d \<noteq> [] \<and> 2 \<le> mx \<and> list_all (\<lambda>m. 2 \<le> length m \<and> length m \<le> mx) ms
        \<and> length ms = (length d - 1) div (mx - 1) + 1
        \<and> (\<forall>later. reassemble (ms @ later) = Ok (d, later))))"
proof (cases "d = [] \<or> mx < 2")
  case True
  then show ?thesis
    by (auto simp: split_rsp_def)
next
  case False
  let ?cs = "chunks (mx - 1) d"
  have "2 \<le> length m \<and> length m \<le> mx" if m: "m \<in> set (mark_parts ?cs)" for m
  proof -
    obtain b c where "m = b # c" "c \<in> set ?cs"
      using set_mark_parts [OF m] by blast
    then show ?thesis
      using chunks_length [of "mx - 1" d c] False by (cases c) auto
  qed
  then have "list_all (\<lambda>m. 2 \<le> length m \<and> length m \<le> mx) (mark_parts ?cs)"
    by (simp add: list_all_iff)
  moreover have "length (mark_parts ?cs) = (length d - 1) div (mx - 1) + 1"
    using chunks_number [of "mx - 1" d] False by simp
  moreover have "reassemble (mark_parts ?cs @ later) = Ok (d, later)" for later
    using False by (intro reassemble_chunks) simp_all
  moreover have "split_rsp d mx = Some (Ok (mark_parts ?cs))" "d \<noteq> []" "2 \<le> mx"
    using False split_rsp_eq [of d mx] by simp_all
  ultimately show ?thesis
    by blast
qed

section \<open>Length framing\<close>

text \<open>
  \<open>Write::write_all\<close> and \<open>Read::read_exact\<close> of the stream are arguments; those of \<open>Vec<u8>\<close> and of a
  byte slice in the standard library are below.
\<close>

definition write_msg :: "('w \<Rightarrow> bytes \<Rightarrow> 'w option) \<Rightarrow> bytes \<Rightarrow> ('w, unit, binder_status) act" where
  "write_msg write_all data =
     st_then (st_ret (require (length data < 2 ^ 32) (Status_Exception BAD_PARCELABLE))) (\<lambda>_ w.
     case write_all w (be_bytes 4 (length data)) of
       None \<Rightarrow> (Err (Status_Exception BAD_PARCELABLE), w)
     | Some w \<Rightarrow> (case write_all w data of
         None \<Rightarrow> (Err (Status_Exception BAD_PARCELABLE), w)
       | Some w \<Rightarrow> (Ok (), w)))"

definition read_msg :: "('i \<Rightarrow> nat \<Rightarrow> (bytes \<times> 'i) option) \<Rightarrow> ('i, bytes, binder_status) act" where
  "read_msg read_exact = (\<lambda>r.
     case read_exact r 4 of
       None \<Rightarrow> (Err (Status_Exception TRANSACTION_FAILED), r)
     | Some (len_data, r) \<Rightarrow> (case read_exact r (be_val len_data) of
         None \<Rightarrow> (Err (Status_Exception TRANSACTION_FAILED), r)
       | Some (data, r) \<Rightarrow> (Ok data, r)))"

definition vec_write_all :: "bytes \<Rightarrow> bytes \<Rightarrow> bytes option" where
  "vec_write_all w b = Some (w @ b)"

definition slice_read_exact :: "bytes \<Rightarrow> nat \<Rightarrow> (bytes \<times> bytes) option" where
  "slice_read_exact r n = (if n \<le> length r then Some (take n r, drop n r) else None)"

definition message_channel_execute ::
  "('w \<Rightarrow> bytes \<Rightarrow> 'w option) \<Rightarrow> ('i \<Rightarrow> nat \<Rightarrow> (bytes \<times> 'i) option) \<Rightarrow> bytes \<Rightarrow> ('i \<times> 'w, bytes, binder_status) act" where
  "message_channel_execute write_all read_exact serialized_req = (\<lambda>(r, w).
     case write_msg write_all serialized_req w of
       (Ok _, w) \<Rightarrow> (case read_msg read_exact r of (out, r) \<Rightarrow> (out, (r, w)))
     | (Err e, w) \<Rightarrow> (Err e, (r, w))
     | (Panic, w) \<Rightarrow> (Panic, (r, w)))"

text \<open>Writing and reading a sequence of messages.\<close>

fun write_msgs :: "bytes list \<Rightarrow> (bytes, unit, binder_status) act" where
  "write_msgs [] = st_ret (Ok ())"
| "write_msgs (m # ms) = st_then (write_msg vec_write_all m) (\<lambda>_. write_msgs ms)"

fun read_msgs :: "nat \<Rightarrow> (bytes, bytes list, binder_status) act" where
  "read_msgs 0 = st_ret (Ok [])"
| "read_msgs (Suc n) = st_then (read_msg slice_read_exact) (\<lambda>m. st_then (read_msgs n) (\<lambda>ms. st_ret (Ok (m # ms))))"

lemma write_msg_vec:
  "write_msg vec_write_all m w =
     (if length m < 2 ^ 32 then (Ok (), w @ be_bytes 4 (length m) @ m) else (Err (Status_Exception BAD_PARCELABLE), w))"
  by (simp add: write_msg_def vec_write_all_def)

lemma read_msg_framed:
  "length m < 2 ^ 32 \<Longrightarrow> read_msg slice_read_exact (be_bytes 4 (length m) @ m @ rest) = (Ok m, rest)"
  by (simp add: read_msg_def slice_read_exact_def be_val_be_bytes)

lemma write_msgs_Ok:
  "write_msgs ms w = (Ok (), w') \<Longrightarrow> \<exists>s. w' = w @ s \<and> read_msgs (length ms) (s @ rest) = (Ok ms, rest)"
proof (induction ms arbitrary: w w')
  case (Cons m ms)
  then have m: "length m < 2 ^ 32" and "write_msgs ms (w @ be_bytes 4 (length m) @ m) = (Ok (), w')"
    by (auto simp: write_msg_vec st_then_eq_Ok split: if_splits)
  then obtain s where s: "w' = (w @ be_bytes 4 (length m) @ m) @ s" "read_msgs (length ms) (s @ rest) = (Ok ms, rest)"
    using Cons.IH by blast
  have "read_msgs (length (m # ms)) ((be_bytes 4 (length m) @ m @ s) @ rest) = (Ok (m # ms), rest)"
    using read_msg_framed [OF m, of "s @ rest"] s(2) by simp
  then show ?case
    using s(1) by (intro exI [of _ "be_bytes 4 (length m) @ m @ s"]) simp
qed simp

text \<open>
  C26: Framing preserves message boundaries: any sequence of messages written to a byte stream is read
  back from it message by message, exactly as it was, with whatever follows left unread.
\<close>

theorem framing_round_trip:
  assumes "write_msgs ms [] = (Ok (), w)"
  shows "read_msgs (length ms) (w @ rest) = (Ok ms, rest)"
  using write_msgs_Ok [OF assms] by auto

lemma be_bytes_4:
  "be_bytes 4 v = [word_of_nat (v div 256 div 256 div 256 mod 256), word_of_nat (v div 256 div 256 mod 256),
     word_of_nat (v div 256 mod 256), word_of_nat (v mod 256)]"
proof -
  have "(4 :: nat) = Suc (Suc (Suc (Suc 0)))"
    by simp
  then show ?thesis
    unfolding be_bytes_def by (simp only: le_bytes.simps rev.simps append.simps)
qed

theorem framing_round_trip_witness: "read_msgs (Suc (Suc 0)) ([0, 0, 0, 1, 7, 0, 0, 0, 0] @ [9]) = (Ok [[7], []], [9])"
  using framing_round_trip [of "[[7], []]" "[0, 0, 0, 1, 7, 0, 0, 0, 0]" "[9]"]
  by (simp add: write_msg_vec be_bytes_4)

section \<open>The request loop of the TA\<close>

definition op_ok_rsp :: "perform_op_rsp \<Rightarrow> perform_op_response" where
  "op_ok_rsp rsp = \<lparr>por_error_code = 0, por_rsp = Some rsp\<rparr>"

definition error_rsp :: "int \<Rightarrow> perform_op_response" where
  "error_rsp error_code = \<lparr>por_error_code = error_code, por_rsp = None\<rparr>"

definition op_error_rsp :: "keymint_operation \<Rightarrow> error \<Rightarrow> perform_op_response" where
  "op_error_rsp op err =
     (if is_rpc_operation op
      then error_rsp (rpc_error_code_i32 (case err of
          Cbor _ \<Rightarrow> RpcErrorCode_Failed | Der \<Rightarrow> RpcErrorCode_Failed | Alloc \<Rightarrow> RpcErrorCode_Failed
        | Hal _ \<Rightarrow> RpcErrorCode_Failed | Rpc e \<Rightarrow> e))
      else error_rsp (error_code_i32 (case err of
          Cbor _ \<Rightarrow> InvalidArgument | Der \<Rightarrow> InvalidArgument | Hal e \<Rightarrow> e
        | Rpc _ \<Rightarrow> InvalidArgument | Alloc \<Rightarrow> MemoryAllocationFailed)))"

definition invalid_cbor_rsp_data :: bytes where
  "invalid_cbor_rsp_data = [0x82, 0x39, 0x03, 0xe7, 0x80]"

text \<open>
  \<open>process\<close>, over any handler of requests; the handler of the TA is in a later theory.
\<close>

definition encode_response :: "cbor_lib \<Rightarrow> perform_op_response \<Rightarrow> bytes" where
  "encode_response lib rsp = (case into_vec lib perform_op_response_to_cbor rsp of
     Ok rsp_data \<Rightarrow> rsp_data
   | _ \<Rightarrow> invalid_cbor_rsp_data)"

definition process ::
  "cbor_lib \<Rightarrow> (perform_op_req \<Rightarrow> ('t, perform_op_response, 'e) act) \<Rightarrow> bytes \<Rightarrow> ('t, bytes, 'e) act" where
  "process lib process_req req_data =
     st_then (case from_slice lib perform_op_req_from_cbor req_data of
         Ok req \<Rightarrow> process_req req
       | _ \<Rightarrow> st_ret (Ok (error_rsp (error_code_i32 EncodingError))))
       (\<lambda>rsp. st_ret (Ok (encode_response lib rsp)))"

section \<open>Execution of a request by the HAL service\<close>

definition array2 :: "cbor \<Rightarrow> (cbor \<times> cbor) bres" where
  "array2 v = (case v of Cbor_Array [x, y] \<Rightarrow> Ok (x, y) | _ \<Rightarrow> map_err failed_cbor (cbor_type_error v ''arr of len 2''))"

definition decode_response :: "cbor_lib \<Rightarrow> keymint_operation \<Rightarrow> bytes \<Rightarrow> perform_op_rsp bres" where
  "decode_response lib code rsp_data =
     and_then (map_err failed_cbor (read_to_value lib rsp_data)) (\<lambda>rsp_value.
     and_then (array2 rsp_value) (\<lambda>(error_code, opt_response).
     and_then (map_err failed_cbor (i32_from_cbor error_code)) (\<lambda>error_code.
     and_then (require (error_code = error_code_i32 ErrorCode_Ok) (Status_ServiceSpecific error_code)) (\<lambda>_.
     and_then (case opt_response of
         Cbor_Array [rsp] \<Rightarrow> Ok rsp
       | _ \<Rightarrow> map_err failed_cbor (cbor_type_error opt_response ''arr of len 1'')) (\<lambda>rsp.
     and_then (array2 rsp) (\<lambda>(op_type, inner_rsp).
     and_then (map_err failed_cbor (keymint_operation_from_cbor op_type)) (\<lambda>op_type.
     and_then (require (op_type = code) (failed_cbor (UnexpectedItem ''wrong ret code'' ''rsp ret code''))) (\<lambda>_.
     map_err failed_cbor (rsp_payload_from_cbor code inner_rsp)))))))))"

definition channel_execute ::
  "cbor_lib \<Rightarrow> nat \<Rightarrow> (bytes \<Rightarrow> ('c, bytes, binder_status) act) \<Rightarrow> perform_op_req \<Rightarrow> keymint_operation \<Rightarrow>
   ('c, perform_op_rsp, binder_status) act" where
  "channel_execute lib MAX_SIZE execute req rsp_code_wanted =
     st_then (st_ret (map_err (\<lambda>_. Status_ServiceSpecific (error_code_i32 EncodingError))
       (into_vec lib id (Cbor_Array [keymint_operation_to_cbor (req_code req), Cbor_Array (req_fields req)])))) (\<lambda>req_data.
     st_then (st_ret (require (length req_data \<le> MAX_SIZE) (Status_ServiceSpecific (error_code_i32 InvalidInputLength)))) (\<lambda>_.
     st_then (execute req_data) (\<lambda>rsp_data.
     st_ret (decode_response lib rsp_code_wanted rsp_data))))"

section \<open>Requests through the channel\<close>

text \<open>What the HAL service should get for a response of the TA to a request of type \<open>code\<close>.\<close>

definition response_outcome :: "keymint_operation \<Rightarrow> perform_op_response \<Rightarrow> perform_op_rsp bres" where
  "response_outcome code resp =
     (if por_error_code resp \<noteq> 0 then Err (Status_ServiceSpecific (por_error_code resp))
      else case por_rsp resp of
        Some rsp \<Rightarrow> if rsp_code rsp = code then Ok rsp else Err (Status_ServiceSpecific (error_code_i32 EncodingError))
      | None \<Rightarrow> Err (Status_ServiceSpecific (error_code_i32 EncodingError)))"

lemma decode_response_correct:
  assumes "cbor_lib_works lib" "perform_op_response_wf resp"
  shows "decode_response lib code (encode_response lib resp) = response_outcome code resp"
proof -
  obtain b where b: "into_vec lib perform_op_response_to_cbor resp = Ok b"
    "\<And>rest. cl_read lib (b @ rest) = Some (perform_op_response_to_cbor resp, rest)"
    using perform_op_response_codec.bytes_round_trip [OF assms] by auto
  have "read_to_value lib b = Ok (perform_op_response_to_cbor resp)"
    using b(2) [of "[]"] by (simp add: read_to_value_def)
  moreover have "i32_from_cbor (i32_to_cbor (por_error_code resp)) = Ok (por_error_code resp)"
    using assms(2) by (simp add: perform_op_response_wf_def i32_codec.round_trip)
  moreover have "rsp_payload_from_cbor (rsp_code rsp) (Cbor_Array (rsp_fields rsp)) = Ok rsp" if "por_rsp resp = Some rsp" for rsp
    using assms(2) that by (simp add: perform_op_response_wf_def rsp_payload_round_trip)
  ultimately show ?thesis
    using b(1)
    by (auto simp: decode_response_def encode_response_def response_outcome_def array2_def failed_cbor_def
        perform_op_response_to_cbor_def option_to_cbor_def perform_op_rsp_to_cbor_def cbor_type_error_def
        keymint_operation_codec.round_trip split: option.splits)
qed

lemma channel_execute_process:
  assumes "cbor_lib_works lib" "req_wf req" "into_vec lib perform_op_req_to_cbor req = Ok b"
    and "process_req req t = (Ok resp, t')" "perform_op_response_wf resp"
  shows "channel_execute lib mx (process lib process_req) req code t =
    (if length b \<le> mx then (response_outcome code resp, t')
     else (Err (Status_ServiceSpecific (error_code_i32 InvalidInputLength)), t))"
proof -
  have "from_slice lib perform_op_req_from_cbor b = Ok req"
    using perform_op_req_codec.bytes_round_trip [OF assms(1,2)] assms(3) by auto
  moreover have "into_vec lib id (Cbor_Array [keymint_operation_to_cbor (req_code req), Cbor_Array (req_fields req)]) = Ok b"
    using assms(3) by (simp add: into_vec_def perform_op_req_to_cbor_def)
  ultimately show ?thesis
    using assms(4) decode_response_correct [OF assms(1,5), of code]
    by (simp add: channel_execute_def process_def)
qed

text \<open>
  C20: A HAL service and a TA on the two ends of a channel: for every request that fits the channel,
  the service gets exactly what the TA's handler answered (the response, or the handler's error code
  as a service specific error), and the TA has moved exactly as its handler moves on that request; a
  request that does not fit is refused by the service and never reaches the TA.
\<close>

theorem hal_ta_execute_correct:
  assumes "cbor_lib_works lib" "req_wf req" "into_vec lib perform_op_req_to_cbor req = Ok b"
    and "process_req req t = (Ok resp, t')" "perform_op_response_wf resp"
  shows "channel_execute lib mx (process lib process_req) req (req_code req) t =
    (if length b \<le> mx then (response_outcome (req_code req) resp, t')
     else (Err (Status_ServiceSpecific (error_code_i32 InvalidInputLength)), t))"
  using assms by (rule channel_execute_process)

text \<open>A handler that knows one request.\<close>

definition early_boot_handler :: "perform_op_req \<Rightarrow> (bool, perform_op_response, binder_status) act" where
  "early_boot_handler req = (\<lambda>t. case req of
     Req_DeviceEarlyBootEnded \<Rightarrow> (Ok (op_ok_rsp Rsp_DeviceEarlyBootEnded), False)
   | _ \<Rightarrow> (Ok (error_rsp (error_code_i32 Unimplemented)), t))"

theorem hal_ta_execute_correct_witness:
  "channel_execute rfc8949 4096 (process rfc8949 early_boot_handler) Req_DeviceEarlyBootEnded Op_DeviceEarlyBootEnded True =
     (Ok Rsp_DeviceEarlyBootEnded, False)"
proof -
  have "into_vec rfc8949 perform_op_req_to_cbor Req_DeviceEarlyBootEnded = Ok (cbor_enc (perform_op_req_to_cbor Req_DeviceEarlyBootEnded))"
    by (simp add: into_vec_def rfc8949_def)
  moreover have "length (cbor_enc (perform_op_req_to_cbor Req_DeviceEarlyBootEnded)) \<le> 4096"
    by (simp add: perform_op_req_to_cbor_def keymint_operation_to_cbor_def cbor_head_def)
  ultimately show ?thesis
    using hal_ta_execute_correct [OF rfc8949_works, of Req_DeviceEarlyBootEnded _ early_boot_handler True
        "op_ok_rsp Rsp_DeviceEarlyBootEnded" False 4096]
    by (simp add: early_boot_handler_def op_ok_rsp_def perform_op_response_wf_def response_outcome_def i32_range_def)
qed

text \<open>
  The hand-encoded reply that is sent when a response cannot be serialized is the CBOR encoding
  of the response with error \<open>UNKNOWN_ERROR\<close> and no payload, so a HAL service reports it as such.
\<close>

lemma invalid_cbor_rsp_data_correct:
  "invalid_cbor_rsp_data = cbor_enc (perform_op_response_to_cbor (error_rsp (error_code_i32 UnknownError)))
   \<and> decode_response rfc8949 code invalid_cbor_rsp_data = Err (Status_ServiceSpecific (error_code_i32 UnknownError))"
proof -
  have enc: "invalid_cbor_rsp_data = cbor_enc (perform_op_response_to_cbor (error_rsp (error_code_i32 UnknownError)))"
    by (simp add: invalid_cbor_rsp_data_def perform_op_response_to_cbor_def error_rsp_def option_to_cbor_def
        i32_to_cbor_def cbor_head_def be_bytes_def numeral_2_eq_2)
  have "perform_op_response_wf (error_rsp (error_code_i32 UnknownError))"
    by (simp add: perform_op_response_wf_def error_rsp_def i32_range_def)
  then have "decode_response rfc8949 code (encode_response rfc8949 (error_rsp (error_code_i32 UnknownError))) =
      Err (Status_ServiceSpecific (error_code_i32 UnknownError))"
    by (simp add: decode_response_correct [OF rfc8949_works] response_outcome_def error_rsp_def)
  then show ?thesis
    using enc by (simp add: encode_response_def into_vec_def rfc8949_def)
qed

end
