(* ===== verification/Tag_Legacy.thy ===== *)
theory Tag_Legacy
  imports Tag_Get "HOL-Library.List_Lexorder"
begin

text \<open>
  Legacy serialization of key parameters (\<open>common/src/tag/legacy.rs\<close>): the consumers that split
  a value off a byte slice, \<open>serialize\<close>, \<open>deserialize\<close>, and the comparison \<open>param_compare\<close> used to
  order key characteristics.

  A function that takes \<open>data: &mut &[u8]\<close> returns its value together with the unconsumed rest.
  \<open>deserialize\<close> indexes its input without a length check; that run-time failure is an outcome of
  the model.
\<close>

section \<open>Consumers\<close>

definition consume_u8 :: "bytes \<Rightarrow> (u8 \<times> bytes) km" where
  "consume_u8 data = (case data of b # rest \<Rightarrow> Ok (b, rest) | [] \<Rightarrow> Err (Hal InvalidKeyBlob))"

definition consume_bool :: "bytes \<Rightarrow> (unit \<times> bytes) km" where
  "consume_bool data = and_then (consume_u8 data) (\<lambda>(b, rest).
     if b = 0x01 then Ok ((), rest) else Err (Hal InvalidKeyBlob))"

definition consume_u32 :: "bytes \<Rightarrow> (u32 \<times> bytes) km" where
  "consume_u32 data = (if length data < 4 then Err (Hal InvalidKeyBlob)
     else Ok (u32_from_ne (take 4 data), drop 4 data))"

definition consume_i32 :: "bytes \<Rightarrow> (int \<times> bytes) km" where
  "consume_i32 data = (if length data < 4 then Err (Hal InvalidKeyBlob)
     else Ok (sint (u32_from_ne (take 4 data)), drop 4 data))"

definition consume_u64 :: "bytes \<Rightarrow> (u64 \<times> bytes) km" where
  "consume_u64 data = (if length data < 8 then Err (Hal InvalidKeyBlob)
     else Ok (u64_from_ne (take 8 data), drop 8 data))"

definition consume_i64 :: "bytes \<Rightarrow> (i64 \<times> bytes) km" where
  "consume_i64 data = (if length data < 8 then Err (Hal InvalidKeyBlob)
     else Ok (u64_from_ne (take 8 data), drop 8 data))"

definition consume_vec :: "bytes \<Rightarrow> (bytes \<times> bytes) km" where
  "consume_vec data = and_then (consume_u32 data) (\<lambda>(n, rest). let len = unat n in
     if length rest < len then Err (Hal InvalidKeyBlob)
     else Ok (take len rest, drop len rest))"

lemma consume_Ok [simp]:
  "consume_u8 (b # rest) = Ok (b, rest)"
  "consume_bool (1 # rest) = Ok ((), rest)"
  "consume_u32 (u32_to_ne w @ rest) = Ok (w, rest)"
  "consume_i32 (u32_to_ne w @ rest) = Ok (sint w, rest)"
  "consume_u64 (u64_to_ne v @ rest) = Ok (v, rest)"
  "consume_i64 (u64_to_ne v @ rest) = Ok (v, rest)"
  by (simp_all add: consume_u8_def consume_bool_def consume_u32_def consume_i32_def consume_u64_def
      consume_i64_def)

lemma consume_not_Panic [simp]:
  "consume_u8 d \<noteq> Panic" "consume_bool d \<noteq> Panic" "consume_u32 d \<noteq> Panic" "consume_i32 d \<noteq> Panic"
  "consume_u64 d \<noteq> Panic" "consume_i64 d \<noteq> Panic" "consume_vec d \<noteq> Panic"
proof -
  have "consume_u8 d \<noteq> Panic"
    by (simp add: consume_u8_def split: list.splits)
  then show "consume_u8 d \<noteq> Panic" "consume_bool d \<noteq> Panic"
    by (auto simp: consume_bool_def and_then_eq_Panic split: if_splits)
  show "consume_u32 d \<noteq> Panic" "consume_i32 d \<noteq> Panic" "consume_u64 d \<noteq> Panic" "consume_i64 d \<noteq> Panic"
    "consume_vec d \<noteq> Panic"
    by (auto simp: consume_vec_def consume_u32_def consume_i32_def consume_u64_def consume_i64_def
        Let_def and_then_eq_Panic split: if_splits)
qed

lemma consume_vec_Ok [simp]:
  "length v < 2 ^ 32 \<Longrightarrow> consume_vec (u32_to_ne (word_of_nat (length v)) @ v @ rest) = Ok (v, rest)"
  by (simp add: consume_vec_def unat_of_nat)

section \<open>Serialization\<close>

fun param_blob :: "key_param \<Rightarrow> bytes" where
  "param_blob (KP_Bytes _ v) = v"
| "param_blob _ = []"

definition blob_data :: "key_param list \<Rightarrow> bytes" where
  "blob_data params = concat (map param_blob params)"

text \<open>The running total \<open>blob_size\<close>: only byte-string parameters contribute.\<close>

fun add_blob_size :: "key_param \<Rightarrow> u32 \<Rightarrow> u32 km" where
  "add_blob_size (KP_Bytes _ v) blob_size = u32_add blob_size (word_of_nat (length v))"
| "add_blob_size _ blob_size = Ok blob_size"

definition enum_to_ne :: "int \<Rightarrow> bytes" where
  "enum_to_ne v = u32_to_ne (word_of_int v)"

lemma length_enum_to_ne [simp]: "length (enum_to_ne v) = 4"
  by (simp add: enum_to_ne_def)

text \<open>Serialized value of one parameter; byte strings are a length and an offset.\<close>

fun serialize_value :: "key_param \<Rightarrow> u32 \<Rightarrow> (bytes \<times> u32) km" where
  "serialize_value (KP_Purpose v) off = Ok (enum_to_ne (key_purpose_i32 v), off)"
| "serialize_value (KP_Algorithm v) off = Ok (enum_to_ne (algorithm_i32 v), off)"
| "serialize_value (KP_BlockMode v) off = Ok (enum_to_ne (block_mode_i32 v), off)"
| "serialize_value (KP_Digest v) off = Ok (enum_to_ne (digest_i32 v), off)"
| "serialize_value (KP_Padding v) off = Ok (enum_to_ne (padding_mode_i32 v), off)"
| "serialize_value (KP_EcCurve v) off = Ok (enum_to_ne (ec_curve_i32 v), off)"
| "serialize_value (KP_RsaOaepMgfDigest v) off = Ok (enum_to_ne (digest_i32 v), off)"
| "serialize_value (KP_Origin v) off = Ok (enum_to_ne (key_origin_i32 v), off)"
| "serialize_value (KP_U32 _ v) off = Ok (u32_to_ne v, off)"
| "serialize_value (KP_U64 _ v) off = Ok (u64_to_ne v, off)"
| "serialize_value (KP_Bool _) off = Ok ([0x01], off)"
| "serialize_value (KP_Date _ v) off = Ok (u64_to_ne v, off)"
| "serialize_value (KP_Bytes _ v) off =
     (let blob_len = word_of_nat (length v) in
      and_then (u32_add off blob_len) (\<lambda>off'. Ok (u32_to_ne blob_len @ u32_to_ne off, off')))"

fun serialize_params :: "key_param list \<Rightarrow> u32 \<Rightarrow> bytes km" where
  "serialize_params [] off = Ok []"
| "serialize_params (p # ps) off =
     and_then (serialize_value p off) (\<lambda>(v, off').
     and_then (serialize_params ps off') (\<lambda>rest.
     Ok (u32_to_ne (tag_u32 (key_param_tag p)) @ v @ rest)))"

definition serialize :: "key_param list \<Rightarrow> bytes km" where
  "serialize params =
     and_then (fold_res add_blob_size params 0) (\<lambda>blob_size.
     and_then (serialize_params params 0) (\<lambda>encoded.
     Ok (u32_to_ne blob_size @ blob_data params @
         u32_to_ne (word_of_nat (length params)) @
         u32_to_ne (word_of_nat (length encoded)) @ encoded)))"

section \<open>Deserialization\<close>

definition consume_blob :: "bytes \<Rightarrow> nat \<Rightarrow> bytes \<Rightarrow> (bytes \<times> nat \<times> bytes) km" where
  "consume_blob data next_blob_offset blob =
     and_then (consume_u32 data) (\<lambda>(len, data).
     and_then (consume_u32 data) (\<lambda>(off, data).
     let data_len = unat len; data_offset = unat off in
     if data_offset \<noteq> next_blob_offset then Err (Hal InvalidKeyBlob)
     else if length blob < data_offset + data_len then Err (Hal InvalidKeyBlob)
     else Ok (take data_len (drop data_offset blob), next_blob_offset + data_len, data)))"

definition consume_enum :: "('a \<Rightarrow> int) \<Rightarrow> 'a list \<Rightarrow> bytes \<Rightarrow> ('a \<times> bytes) km" where
  "consume_enum as_i32 variants data =
     and_then (consume_i32 data) (\<lambda>(n, rest).
     and_then (ok_or (enum_n as_i32 variants n) (Hal InvalidKeyBlob)) (\<lambda>v. Ok (v, rest)))"

text \<open>The value that follows a tag: parameter, next blob offset, rest of the data.\<close>

fun deserialize_enum :: "enum_tag \<Rightarrow> bytes \<Rightarrow> (key_param \<times> bytes) km" where
  "deserialize_enum Enum_Purpose data =
     map_ok (apfst KP_Purpose) (consume_enum key_purpose_i32 key_purpose_variants data)"
| "deserialize_enum Enum_Algorithm data =
     map_ok (apfst KP_Algorithm) (consume_enum algorithm_i32 algorithm_variants data)"
| "deserialize_enum Enum_BlockMode data =
     map_ok (apfst KP_BlockMode) (consume_enum block_mode_i32 block_mode_variants data)"
| "deserialize_enum Enum_Digest data =
     map_ok (apfst KP_Digest) (consume_enum digest_i32 digest_variants data)"
| "deserialize_enum Enum_Padding data =
     map_ok (apfst KP_Padding) (consume_enum padding_mode_i32 padding_mode_variants data)"
| "deserialize_enum Enum_EcCurve data =
     map_ok (apfst KP_EcCurve) (consume_enum ec_curve_i32 ec_curve_variants data)"
| "deserialize_enum Enum_RsaOaepMgfDigest data =
     map_ok (apfst KP_RsaOaepMgfDigest) (consume_enum digest_i32 digest_variants data)"
| "deserialize_enum Enum_Origin data =
     map_ok (apfst KP_Origin) (consume_enum key_origin_i32 key_origin_variants data)"

fun deserialize_value ::
  "tag \<Rightarrow> bytes \<Rightarrow> nat \<Rightarrow> bytes \<Rightarrow> (key_param \<times> nat \<times> bytes) km" where
  "deserialize_value (Tag_Enum t) blob off data =
     and_then (deserialize_enum t data) (\<lambda>(p, rest). Ok (p, off, rest))"
| "deserialize_value (Tag_U32 t) blob off data =
     and_then (consume_u32 data) (\<lambda>(v, rest). Ok (KP_U32 t v, off, rest))"
| "deserialize_value (Tag_U64 t) blob off data =
     and_then (consume_u64 data) (\<lambda>(v, rest). Ok (KP_U64 t v, off, rest))"
| "deserialize_value (Tag_Bool t) blob off data =
     and_then (consume_bool data) (\<lambda>(_, rest). Ok (KP_Bool t, off, rest))"
| "deserialize_value (Tag_Date t) blob off data =
     and_then (consume_i64 data) (\<lambda>(v, rest). Ok (KP_Date t v, off, rest))"
| "deserialize_value (Tag_Bytes t) blob off data =
     and_then (consume_blob data off blob) (\<lambda>(v, off', rest). Ok (KP_Bytes t v, off', rest))"
| "deserialize_value (Tag_Other t) blob off data = Err (Hal InvalidKeyBlob)"

fun deserialize_params :: "nat \<Rightarrow> bytes \<Rightarrow> nat \<Rightarrow> bytes \<Rightarrow> (key_param list \<times> bytes) km" where
  "deserialize_params 0 blob off data = Ok ([], data)"
| "deserialize_params (Suc n) blob off data =
     and_then (consume_u32 data) (\<lambda>(tag_num, data).
     and_then (ok_or (enum_n tag_i32 tag_variants (sint tag_num)) (Hal InvalidKeyBlob)) (\<lambda>tag.
     and_then (deserialize_value tag blob off data) (\<lambda>(p, off, data).
     and_then (deserialize_params n blob off data) (\<lambda>(ps, data). Ok (p # ps, data)))))"

definition deserialize :: "bytes \<Rightarrow> (key_param list \<times> bytes) km" where
  "deserialize data =
     and_then (consume_u32 data) (\<lambda>(n, data). let blob_data_size = unat n in
     if length data < blob_data_size then Panic
     else let blob = take blob_data_size data; data = drop blob_data_size data in
     and_then (consume_u32 data) (\<lambda>(param_count, data).
     and_then (consume_u32 data) (\<lambda>(param_size, data).
     if length data < unat param_size then Err (Hal InvalidKeyBlob)
     else deserialize_params (unat param_count) blob 0 data)))"

section \<open>Round trip\<close>

lemma sint_word_of_i32: "i32_range i \<Longrightarrow> sint (word_of_int i :: u32) = i"
  by (simp add: i32_range_def signed_of_int signed_take_bit_int_eq_self)

context rust_enum
begin

lemma consume_enum_Ok: "consume_enum as_i32 variants (enum_to_ne (as_i32 x) @ rest) = Ok (x, rest)"
  using discriminants_i32 [of x] by (simp add: consume_enum_def enum_to_ne_def sint_word_of_i32 n_as_i32)

end

lemma sint_tag_u32: "sint (tag_u32 t) = tag_i32 t"
  using tag_enum.discriminants_i32 by (simp add: tag_u32_def sint_word_of_i32)

lemmas consume_enums =
  key_purpose_enum.consume_enum_Ok algorithm_enum.consume_enum_Ok block_mode_enum.consume_enum_Ok
  digest_enum.consume_enum_Ok padding_mode_enum.consume_enum_Ok ec_curve_enum.consume_enum_Ok
  key_origin_enum.consume_enum_Ok

lemma serialize_value_round_trip:
  assumes "serialize_value p off = Ok (v, off')" "length blob < 2 ^ 32"
    and "take (length (param_blob p)) (drop (unat off) blob) = param_blob p"
    and "unat off + length (param_blob p) \<le> length blob"
  shows "deserialize_value (key_param_tag p) blob (unat off) (v @ rest) = Ok (p, unat off', rest)"
    and "unat off' = unat off + length (param_blob p)" and "length v \<le> 8"
proof -
  have "deserialize_value (key_param_tag p) blob (unat off) (v @ rest) = Ok (p, unat off', rest) \<and>
    unat off' = unat off + length (param_blob p) \<and> length v \<le> 8"
  proof (cases p)
    case (KP_Bytes t w)
    then have "unat (word_of_nat (length w) :: u32) = length w"
      using assms(2,4) by (simp add: unat_of_nat)
    then show ?thesis
      using assms KP_Bytes
      by (auto simp: u32_add_def consume_blob_def Let_def unat_add_lem [THEN iffD1] and_then_eq_Ok
          split: if_splits)
  qed (use assms in \<open>auto simp: consume_enums\<close>)
  then show "deserialize_value (key_param_tag p) blob (unat off) (v @ rest) = Ok (p, unat off', rest)"
    and "unat off' = unat off + length (param_blob p)" and "length v \<le> 8"
    by blast+
qed

lemma serialize_value_Ok:
  "unat off + length (param_blob p) < 2 ^ 32 \<Longrightarrow> \<exists>v off'. serialize_value p off = Ok (v, off')"
  by (cases p) (auto simp: Let_def u32_add_def unat_of_nat)

lemma blob_data_simps [simp]: "blob_data [] = []" "blob_data (p # ps) = param_blob p @ blob_data ps"
  by (simp_all add: blob_data_def)

lemma serialize_params_round_trip:
  assumes "length pre + length (blob_data ps) + length post < 2 ^ 32" "unat off = length pre"
  shows "\<exists>enc. serialize_params ps off = Ok enc \<and> length enc \<le> 12 * length ps \<and>
    deserialize_params (length ps) (pre @ blob_data ps @ post) (length pre) (enc @ rest) = Ok (ps, rest)"
  using assms
proof (induction ps arbitrary: pre off)
  case (Cons p ps)
  obtain v off' where v: "serialize_value p off = Ok (v, off')"
    using serialize_value_Ok Cons.prems by fastforce
  let ?blob = "pre @ blob_data (p # ps) @ post"
  have val: "deserialize_value (key_param_tag p) ?blob (unat off) (v @ r) = Ok (p, unat off', r)" for r
    using serialize_value_round_trip(1) [OF v, of ?blob r] Cons.prems by simp
  have off': "unat off' = unat off + length (param_blob p)" and len: "length v \<le> 8"
    using serialize_value_round_trip(2,3) [OF v, of ?blob] Cons.prems by simp_all
  obtain enc where enc: "serialize_params ps off' = Ok enc" "length enc \<le> 12 * length ps"
    "deserialize_params (length ps) ((pre @ param_blob p) @ blob_data ps @ post)
      (length (pre @ param_blob p)) (enc @ rest) = Ok (ps, rest)"
    using Cons.IH [of "pre @ param_blob p" off'] Cons.prems off' by auto
  show ?case
    using v val [of "enc @ rest"] enc len off' Cons.prems(2)
    by (simp add: sint_tag_u32 tag_enum.n_as_i32)
qed simp

lemma blob_size_Ok:
  "m + length (blob_data ps) < 2 ^ 32 \<Longrightarrow>
     fold_res add_blob_size ps (word_of_nat m) = Ok (word_of_nat (m + length (blob_data ps)))"
proof (induction ps arbitrary: m)
  case (Cons p ps)
  have "add_blob_size p (word_of_nat m) = Ok (word_of_nat (m + length (param_blob p)))"
  proof (cases p)
    case (KP_Bytes t v)
    then show ?thesis
      using Cons.prems u32_add_of_nat [of m "length v"] by simp
  qed simp_all
  then show ?case
    using Cons.IH [of "m + length (param_blob p)"] Cons.prems by (simp add: add.assoc)
qed simp

text \<open>
  C27: serializing a list of key parameters in the legacy format succeeds, and deserializing the
  result (followed by any other data) gives back the same parameters and the data that follows.
  The total size of the byte strings and of the encoded parameters must fit in 32 bits, as the
  format's length fields do.
\<close>

theorem legacy_round_trip:
  assumes "length (blob_data ps) < 2 ^ 32" "12 * length ps < 2 ^ 32"
  shows "\<exists>d. serialize ps = Ok d \<and> deserialize (d @ rest) = Ok (ps, rest)"
proof -
  obtain enc where enc: "serialize_params ps 0 = Ok enc" "length enc \<le> 12 * length ps"
    "deserialize_params (length ps) (blob_data ps) 0 (enc @ rest) = Ok (ps, rest)"
    using serialize_params_round_trip [of "[]" ps "[]" 0 rest] assms by auto
  have size: "fold_res add_blob_size ps 0 = Ok (word_of_nat (length (blob_data ps)))"
    using blob_size_Ok [of 0 ps] assms by simp
  have "length enc < 2 ^ 32" "length ps < 2 ^ 32"
    using enc(2) assms(2) by linarith+
  then show ?thesis
    using enc size assms by (simp add: serialize_def deserialize_def Let_def unat_of_nat)
qed

theorem legacy_round_trip_witness:
  "\<exists>d. serialize [KP_Purpose KeyPurpose_Sign, KP_ApplicationId [1, 2], KP_CallerNonce, KP_KeySize 256] = Ok d
    \<and> deserialize (d @ [9]) =
      Ok ([KP_Purpose KeyPurpose_Sign, KP_ApplicationId [1, 2], KP_CallerNonce, KP_KeySize 256], [9])"
  by (rule legacy_round_trip) simp_all

section \<open>Safety of deserialization\<close>

lemma consume_blob_not_Panic: "consume_blob d off blob \<noteq> Panic"
  by (auto simp: consume_blob_def and_then_eq_Panic Let_def split: if_splits)

lemma consume_enum_not_Panic: "consume_enum f vs d \<noteq> Panic"
  by (auto simp: consume_enum_def and_then_eq_Panic ok_or_eq)

lemma deserialize_value_not_Panic: "deserialize_value t blob off d \<noteq> Panic"
proof (cases t)
  case (Tag_Enum e)
  then show ?thesis
    by (cases e) (auto simp: and_then_eq_Panic map_ok_eq consume_enum_not_Panic)
qed (auto simp: and_then_eq_Panic consume_blob_not_Panic)

lemma deserialize_params_not_Panic: "deserialize_params n blob off d \<noteq> Panic"
  by (induction n arbitrary: off d)
     (auto simp: and_then_eq_Panic ok_or_eq deserialize_value_not_Panic)

text \<open>
  C38: the only input on which legacy deserialization panics is one whose leading size field
  promises more byte-string data than follows it; every other malformed input is an error value.
  The size field is not checked before it is used to slice the input.
\<close>

theorem deserialize_panics_iff:
  "deserialize data = Panic \<longleftrightarrow>
     4 \<le> length data \<and> length data - 4 < unat (u32_from_ne (take 4 data))"
  by (cases "length data < 4")
     (auto simp: deserialize_def consume_u32_def [of data] Let_def and_then_eq_Panic
       deserialize_params_not_Panic split: if_splits)

section \<open>Ordering\<close>

datatype ordering = Ordering_Less | Ordering_Equal | Ordering_Greater

definition cmp :: "'a :: linorder \<Rightarrow> 'a \<Rightarrow> ordering" where
  "cmp l r = (if l < r then Ordering_Less else if l = r then Ordering_Equal else Ordering_Greater)"

text \<open>Parameters of different variants are compared by tag.\<close>

definition param_compare :: "key_param \<Rightarrow> key_param \<Rightarrow> ordering" where
  "param_compare left right = (case (left, right) of
     (KP_Purpose l, KP_Purpose r) \<Rightarrow> cmp l r
   | (KP_Algorithm l, KP_Algorithm r) \<Rightarrow> cmp l r
   | (KP_BlockMode l, KP_BlockMode r) \<Rightarrow> cmp l r
   | (KP_Digest l, KP_Digest r) \<Rightarrow> cmp l r
   | (KP_Padding l, KP_Padding r) \<Rightarrow> cmp l r
   | (KP_EcCurve l, KP_EcCurve r) \<Rightarrow> cmp l r
   | (KP_RsaOaepMgfDigest l, KP_RsaOaepMgfDigest r) \<Rightarrow> cmp l r
   | (KP_Origin l, KP_Origin r) \<Rightarrow> cmp l r
   | (KP_U32 s l, KP_U32 t r) \<Rightarrow> if s = t then cmp l r else cmp (Tag_U32 s) (Tag_U32 t)
   | (KP_U64 s l, KP_U64 t r) \<Rightarrow> if s = t then cmp l r else cmp (Tag_U64 s) (Tag_U64 t)
   | (KP_Bool s, KP_Bool t) \<Rightarrow> if s = t then Ordering_Equal else cmp (Tag_Bool s) (Tag_Bool t)
   | (KP_Date s l, KP_Date t r) \<Rightarrow> if s = t then cmp (sint l) (sint r) else cmp (Tag_Date s) (Tag_Date t)
   | (KP_Bytes s l, KP_Bytes t r) \<Rightarrow> if s = t then cmp l r else cmp (Tag_Bytes s) (Tag_Bytes t)
   | (left, right) \<Rightarrow> cmp (key_param_tag left) (key_param_tag right))"

text \<open>The order that \<open>sort_by\<close> derives from the comparison.\<close>

definition param_le :: "key_param \<Rightarrow> key_param \<Rightarrow> bool" where
  "param_le l r \<longleftrightarrow> param_compare l r \<noteq> Ordering_Greater"

lemma cmp_simps [simp]:
  "cmp l r = Ordering_Greater \<longleftrightarrow> r < l"
  "cmp l r = Ordering_Equal \<longleftrightarrow> l = r"
  "cmp l r = Ordering_Less \<longleftrightarrow> l < r"
  by (auto simp: cmp_def)

lemma param_compare_diff:
  "key_param_tag l \<noteq> key_param_tag r \<Longrightarrow>
     param_compare l r = cmp (key_param_tag l) (key_param_tag r)"
  by (cases l; cases r) (simp_all add: param_compare_def)

text \<open>Among parameters with one tag, the comparison is that of the payloads.\<close>

fun payload_le :: "key_param \<Rightarrow> key_param \<Rightarrow> bool" where
  "payload_le (KP_Purpose l) r = (case r of KP_Purpose v \<Rightarrow> l \<le> v | _ \<Rightarrow> False)"
| "payload_le (KP_Algorithm l) r = (case r of KP_Algorithm v \<Rightarrow> l \<le> v | _ \<Rightarrow> False)"
| "payload_le (KP_BlockMode l) r = (case r of KP_BlockMode v \<Rightarrow> l \<le> v | _ \<Rightarrow> False)"
| "payload_le (KP_Digest l) r = (case r of KP_Digest v \<Rightarrow> l \<le> v | _ \<Rightarrow> False)"
| "payload_le (KP_Padding l) r = (case r of KP_Padding v \<Rightarrow> l \<le> v | _ \<Rightarrow> False)"
| "payload_le (KP_EcCurve l) r = (case r of KP_EcCurve v \<Rightarrow> l \<le> v | _ \<Rightarrow> False)"
| "payload_le (KP_RsaOaepMgfDigest l) r = (case r of KP_RsaOaepMgfDigest v \<Rightarrow> l \<le> v | _ \<Rightarrow> False)"
| "payload_le (KP_Origin l) r = (case r of KP_Origin v \<Rightarrow> l \<le> v | _ \<Rightarrow> False)"
| "payload_le (KP_U32 _ l) r = (case r of KP_U32 _ v \<Rightarrow> l \<le> v | _ \<Rightarrow> False)"
| "payload_le (KP_U64 _ l) r = (case r of KP_U64 _ v \<Rightarrow> l \<le> v | _ \<Rightarrow> False)"
| "payload_le (KP_Bool _) r = True"
| "payload_le (KP_Date _ l) r = (case r of KP_Date _ v \<Rightarrow> sint l \<le> sint v | _ \<Rightarrow> False)"
| "payload_le (KP_Bytes _ l) r = (case r of KP_Bytes _ v \<Rightarrow> l \<le> v | _ \<Rightarrow> False)"

lemma sint_inject: "sint (a :: 64 word) = sint b \<longleftrightarrow> a = b"
  by (auto intro: signed_word_eqI)

lemma param_compare_same:
  assumes "key_param_tag l = key_param_tag r"
  shows "param_compare l r \<noteq> Ordering_Greater \<longleftrightarrow> payload_le l r"
    and "param_compare l r = Ordering_Equal \<longleftrightarrow> l = r"
    and "param_compare l r = Ordering_Less \<longleftrightarrow> param_compare r l = Ordering_Greater"
proof -
  show "param_compare l r \<noteq> Ordering_Greater \<longleftrightarrow> payload_le l r"
    using assms by (cases l; cases r) (simp_all add: param_compare_def not_less)
  show "param_compare l r = Ordering_Equal \<longleftrightarrow> l = r"
    using assms by (cases l; cases r) (simp_all add: param_compare_def sint_inject)
  show "param_compare l r = Ordering_Less \<longleftrightarrow> param_compare r l = Ordering_Greater"
    using assms by (cases l; cases r) (simp_all add: param_compare_def)
qed

lemma payload_le_linear:
  "key_param_tag l = key_param_tag r \<Longrightarrow> payload_le l r \<or> payload_le r l"
  by (cases l; cases r) auto

lemma payload_le_trans: "payload_le l m \<Longrightarrow> payload_le m r \<Longrightarrow> payload_le l r"
  by (cases m; cases l; simp; cases r; force)

lemma param_le_iff:
  "param_le l r \<longleftrightarrow> key_param_tag l < key_param_tag r
     \<or> (key_param_tag l = key_param_tag r \<and> payload_le l r)"
  using param_compare_same(1) [of l r] param_compare_diff [of l r]
  by (cases "key_param_tag l = key_param_tag r") (auto simp: param_le_def)

interpretation param_order: total_preorder param_le
proof
  show "param_le l r \<or> param_le r l" for l r
    using payload_le_linear [of l r] by (auto simp: param_le_iff)
  show "param_le l m \<Longrightarrow> param_le m r \<Longrightarrow> param_le l r" for l m r
    using payload_le_trans [of l m r] by (auto simp: param_le_iff)
qed

text \<open>
  C37: the comparison used to order key characteristics is a total order: it answers \<open>Equal\<close> only
  for equal parameters, swapping the arguments swaps the answer, and it is transitive and total;
  so sorting with it gives one sorted arrangement of the same parameters.
\<close>

theorem param_compare_total_order:
  "(param_compare l r = Ordering_Equal) = (l = r)
   \<and> (param_compare l r = Ordering_Less) = (param_compare r l = Ordering_Greater)
   \<and> sorted_wrt param_le (sort_by param_le ps)
   \<and> (\<forall>p. count_list (sort_by param_le ps) p = count_list ps p)"
proof (intro conjI)
  show "(param_compare l r = Ordering_Equal) = (l = r)"
    using param_compare_same(2) [of l r] param_compare_diff [of l r]
    by (cases "key_param_tag l = key_param_tag r") auto
  show "(param_compare l r = Ordering_Less) = (param_compare r l = Ordering_Greater)"
    using param_compare_same(3) [of l r] param_compare_diff [of l r] param_compare_diff [of r l]
    by (cases "key_param_tag l = key_param_tag r") auto
  show "sorted_wrt param_le (sort_by param_le ps)"
    by (rule param_order.sorted_sort_by)
qed simp

end
