(* ===== verification/Hal_Types.thy ===== *)
theory Hal_Types
  imports Channel Tag_Legacy
begin

text \<open>
  Conversion between the generated HAL types and the wire types (\<open>hal/src/hal.rs\<close>).

  The HAL types are generated from AIDL and are not part of this repository.  What the code uses of
  them is modelled: an AIDL enum is an integer of 32 bits, a \<open>KeyParameter\<close> is a tag and a value
  of one of the listed shapes (\<open>Val_Other\<close> stands for every shape the code does not name).  The
  numbers of the AIDL constants are a parameter: \<open>aidl_tag\<close> for the tags and \<open>aidl_error\<close> for the
  error codes.  Parcelables whose fields are the same on both sides are the wire records.
\<close>

type_synonym i32 = "32 word"

datatype value_not_recognized =
    VNR_KeyPurpose | VNR_Algorithm | VNR_BlockMode | VNR_Digest | VNR_PaddingMode | VNR_EcCurve | VNR_ErrorCode
  | VNR_HardwareAuthenticatorType | VNR_KeyFormat | VNR_KeyOrigin | VNR_SecurityLevel | VNR_Tag | VNR_TagType
  | VNR_KmVersion | VNR_EekCurve | VNR_Origin
  | VNR_Bool | VNR_Blob | VNR_DateTime | VNR_Integer | VNR_LongInteger

type_synonym 'a conv = "('a, value_not_recognized) res"

definition failed_conversion :: "(error_code \<Rightarrow> int) \<Rightarrow> value_not_recognized \<Rightarrow> binder_status" where
  "failed_conversion aidl_error err = Status_ServiceSpecific (aidl_error (case err of
     VNR_KeyPurpose \<Rightarrow> UnsupportedPurpose
   | VNR_Algorithm \<Rightarrow> UnsupportedAlgorithm
   | VNR_BlockMode \<Rightarrow> UnsupportedBlockMode
   | VNR_PaddingMode \<Rightarrow> UnsupportedPaddingMode
   | VNR_Digest \<Rightarrow> UnsupportedDigest
   | VNR_KeyFormat \<Rightarrow> UnsupportedKeyFormat
   | VNR_EcCurve \<Rightarrow> UnsupportedEcCurve
   | _ \<Rightarrow> InvalidArgument))"

section \<open>Enums\<close>

definition enum_fromm :: "('a \<Rightarrow> int) \<Rightarrow> 'a \<Rightarrow> i32" where
  "enum_fromm as_i32 v = word_of_int (as_i32 v)"

definition enum_try_fromm :: "('a \<Rightarrow> int) \<Rightarrow> 'a list \<Rightarrow> value_not_recognized \<Rightarrow> i32 \<Rightarrow> 'a conv" where
  "enum_try_fromm as_i32 variants err v = ok_or (enum_n as_i32 variants (sint v)) err"

context rust_enum
begin

lemma try_fromm_eq_Ok: "enum_try_fromm as_i32 variants err v = Ok x \<longleftrightarrow> v = enum_fromm as_i32 x"
proof -
  have v: "word_of_int (sint v) = v"
    by simp
  have "sint v = as_i32 x \<longleftrightarrow> v = word_of_int (as_i32 x)"
    using sint_word_of_i32 [OF discriminants_i32 [of x]] v by metis
  then show ?thesis
    by (auto simp: enum_try_fromm_def enum_fromm_def ok_or_eq n_eq_Some)
qed

end

lemmas enum_conversions =
  key_purpose_enum.try_fromm_eq_Ok algorithm_enum.try_fromm_eq_Ok block_mode_enum.try_fromm_eq_Ok
  digest_enum.try_fromm_eq_Ok padding_mode_enum.try_fromm_eq_Ok ec_curve_enum.try_fromm_eq_Ok
  key_origin_enum.try_fromm_eq_Ok hw_auth_type_enum.try_fromm_eq_Ok key_format_enum.try_fromm_eq_Ok
  security_level_enum.try_fromm_eq_Ok

section \<open>Key parameters\<close>

datatype key_parameter_value =
    Val_Algorithm i32 | Val_BlockMode i32 | Val_PaddingMode i32 | Val_Digest i32 | Val_EcCurve i32 | Val_Origin i32
  | Val_KeyPurpose i32 | Val_HardwareAuthenticatorType i32 | Val_BoolValue bool | Val_Integer i32
  | Val_LongInteger i64 | Val_DateTime i64 | Val_Blob bytes | Val_Other

record key_parameter =
  par_tag :: int
  par_value :: key_parameter_value

text \<open>\<open>as i32\<close> and \<open>as u32\<close> keep the bits, so they are the identity on words.\<close>

fun fromm_value :: "key_param \<Rightarrow> key_parameter_value" where
  "fromm_value (KP_Purpose v) = Val_KeyPurpose (enum_fromm key_purpose_i32 v)"
| "fromm_value (KP_Algorithm v) = Val_Algorithm (enum_fromm algorithm_i32 v)"
| "fromm_value (KP_BlockMode v) = Val_BlockMode (enum_fromm block_mode_i32 v)"
| "fromm_value (KP_Digest v) = Val_Digest (enum_fromm digest_i32 v)"
| "fromm_value (KP_Padding v) = Val_PaddingMode (enum_fromm padding_mode_i32 v)"
| "fromm_value (KP_EcCurve v) = Val_EcCurve (enum_fromm ec_curve_i32 v)"
| "fromm_value (KP_RsaOaepMgfDigest v) = Val_Digest (enum_fromm digest_i32 v)"
| "fromm_value (KP_Origin v) = Val_Origin (enum_fromm key_origin_i32 v)"
| "fromm_value (KP_U32 t v) = (if t = U32_UserAuthType then Val_HardwareAuthenticatorType v else Val_Integer v)"
| "fromm_value (KP_U64 t v) = Val_LongInteger v"
| "fromm_value (KP_Bool t) = Val_BoolValue True"
| "fromm_value (KP_Date t v) = Val_DateTime v"
| "fromm_value (KP_Bytes t v) = Val_Blob v"

definition fromm_param :: "(tag \<Rightarrow> int) \<Rightarrow> key_param \<Rightarrow> key_parameter" where
  "fromm_param aidl_tag p = \<lparr>par_tag = aidl_tag (key_param_tag p), par_value = fromm_value p\<rparr>"

definition value_of_key_purpose :: "key_parameter_value \<Rightarrow> i32 conv" where
  "value_of_key_purpose v = (case v of Val_KeyPurpose x \<Rightarrow> Ok x | _ \<Rightarrow> Err VNR_KeyPurpose)"

definition value_of_algorithm :: "key_parameter_value \<Rightarrow> i32 conv" where
  "value_of_algorithm v = (case v of Val_Algorithm x \<Rightarrow> Ok x | _ \<Rightarrow> Err VNR_Algorithm)"

definition value_of_block_mode :: "key_parameter_value \<Rightarrow> i32 conv" where
  "value_of_block_mode v = (case v of Val_BlockMode x \<Rightarrow> Ok x | _ \<Rightarrow> Err VNR_BlockMode)"

definition value_of_digest :: "key_parameter_value \<Rightarrow> i32 conv" where
  "value_of_digest v = (case v of Val_Digest x \<Rightarrow> Ok x | _ \<Rightarrow> Err VNR_Digest)"

definition value_of_padding_mode :: "key_parameter_value \<Rightarrow> i32 conv" where
  "value_of_padding_mode v = (case v of Val_PaddingMode x \<Rightarrow> Ok x | _ \<Rightarrow> Err VNR_PaddingMode)"

definition value_of_ec_curve :: "key_parameter_value \<Rightarrow> i32 conv" where
  "value_of_ec_curve v = (case v of Val_EcCurve x \<Rightarrow> Ok x | _ \<Rightarrow> Err VNR_EcCurve)"

definition value_of_origin :: "key_parameter_value \<Rightarrow> i32 conv" where
  "value_of_origin v = (case v of Val_Origin x \<Rightarrow> Ok x | _ \<Rightarrow> Err VNR_Origin)"

definition value_of_hw_auth_type :: "key_parameter_value \<Rightarrow> i32 conv" where
  "value_of_hw_auth_type v =
     (case v of Val_HardwareAuthenticatorType x \<Rightarrow> Ok x | _ \<Rightarrow> Err VNR_HardwareAuthenticatorType)"

definition value_of_integer :: "key_parameter_value \<Rightarrow> i32 conv" where
  "value_of_integer v = (case v of Val_Integer x \<Rightarrow> Ok x | _ \<Rightarrow> Err VNR_Integer)"

definition value_of_long_integer :: "key_parameter_value \<Rightarrow> i64 conv" where
  "value_of_long_integer v = (case v of Val_LongInteger x \<Rightarrow> Ok x | _ \<Rightarrow> Err VNR_LongInteger)"

definition value_of_date_time :: "key_parameter_value \<Rightarrow> i64 conv" where
  "value_of_date_time v = (case v of Val_DateTime x \<Rightarrow> Ok x | _ \<Rightarrow> Err VNR_DateTime)"

definition hal_check_bool :: "key_parameter_value \<Rightarrow> unit conv" where
  "hal_check_bool v = (case v of Val_BoolValue True \<Rightarrow> Ok () | _ \<Rightarrow> Err VNR_Bool)"

definition clone_blob :: "key_parameter_value \<Rightarrow> bytes conv" where
  "clone_blob v = (case v of Val_Blob b \<Rightarrow> Ok b | _ \<Rightarrow> Err VNR_Blob)"

lemmas value_of_defs =
  value_of_key_purpose_def value_of_algorithm_def value_of_block_mode_def value_of_digest_def
  value_of_padding_mode_def value_of_ec_curve_def value_of_origin_def value_of_hw_auth_type_def
  value_of_integer_def value_of_long_integer_def value_of_date_time_def hal_check_bool_def clone_blob_def

fun try_fromm_enum_value :: "enum_tag \<Rightarrow> key_parameter_value \<Rightarrow> key_param conv" where
  "try_fromm_enum_value Enum_Purpose v = and_then (value_of_key_purpose v)
     (\<lambda>x. map_ok KP_Purpose (enum_try_fromm key_purpose_i32 key_purpose_variants VNR_KeyPurpose x))"
| "try_fromm_enum_value Enum_Algorithm v = and_then (value_of_algorithm v)
     (\<lambda>x. map_ok KP_Algorithm (enum_try_fromm algorithm_i32 algorithm_variants VNR_Algorithm x))"
| "try_fromm_enum_value Enum_BlockMode v = and_then (value_of_block_mode v)
     (\<lambda>x. map_ok KP_BlockMode (enum_try_fromm block_mode_i32 block_mode_variants VNR_BlockMode x))"
| "try_fromm_enum_value Enum_Digest v = and_then (value_of_digest v)
     (\<lambda>x. map_ok KP_Digest (enum_try_fromm digest_i32 digest_variants VNR_Digest x))"
| "try_fromm_enum_value Enum_Padding v = and_then (value_of_padding_mode v)
     (\<lambda>x. map_ok KP_Padding (enum_try_fromm padding_mode_i32 padding_mode_variants VNR_PaddingMode x))"
| "try_fromm_enum_value Enum_EcCurve v = and_then (value_of_ec_curve v)
     (\<lambda>x. map_ok KP_EcCurve (enum_try_fromm ec_curve_i32 ec_curve_variants VNR_EcCurve x))"
| "try_fromm_enum_value Enum_RsaOaepMgfDigest v = and_then (value_of_digest v)
     (\<lambda>x. map_ok KP_RsaOaepMgfDigest (enum_try_fromm digest_i32 digest_variants VNR_Digest x))"
| "try_fromm_enum_value Enum_Origin v = and_then (value_of_origin v)
     (\<lambda>x. map_ok KP_Origin (enum_try_fromm key_origin_i32 key_origin_variants VNR_KeyOrigin x))"

fun try_fromm_value :: "tag \<Rightarrow> key_parameter_value \<Rightarrow> key_param option conv" where
  "try_fromm_value (Tag_Enum t) v = map_ok Some (try_fromm_enum_value t v)"
| "try_fromm_value (Tag_U32 t) v = map_ok (\<lambda>n. Some (KP_U32 t n))
     (if t = U32_UserAuthType then value_of_hw_auth_type v else value_of_integer v)"
| "try_fromm_value (Tag_U64 t) v = map_ok (\<lambda>n. Some (KP_U64 t n)) (value_of_long_integer v)"
| "try_fromm_value (Tag_Bool t) v = map_ok (\<lambda>_. Some (KP_Bool t)) (hal_check_bool v)"
| "try_fromm_value (Tag_Date t) v = map_ok (\<lambda>n. Some (KP_Date t n)) (value_of_date_time v)"
| "try_fromm_value (Tag_Bytes t) v = map_ok (\<lambda>b. Some (KP_Bytes t b)) (clone_blob v)"
| "try_fromm_value (Tag_Other t) v = (if t = Other_Invalid then Ok None else Err VNR_Tag)"

definition try_fromm_param :: "(tag \<Rightarrow> int) \<Rightarrow> key_parameter \<Rightarrow> key_param option conv" where
  "try_fromm_param aidl_tag p = (case find (\<lambda>t. aidl_tag t = par_tag p) tag_variants of
     Some t \<Rightarrow> try_fromm_value t (par_value p)
   | None \<Rightarrow> Ok None)"

text \<open>\<open>iter().filter_map(|p| p.try_innto().transpose()).collect()\<close>\<close>

definition try_fromm_params :: "(tag \<Rightarrow> int) \<Rightarrow> key_parameter list \<Rightarrow> key_param list conv" where
  "try_fromm_params aidl_tag ps = map_ok (\<lambda>qs. [q. Some q \<leftarrow> qs]) (traverse (try_fromm_param aidl_tag) ps)"

lemma res_of_if: "(if b then Ok x else Err e) = Ok y \<longleftrightarrow> b \<and> x = y"
  by simp

lemma try_fromm_enum_value_eq_Ok:
  "try_fromm_enum_value t v = Ok p \<longleftrightarrow> key_param_tag p = Tag_Enum t \<and> v = fromm_value p"
  by (cases t; cases p) (auto simp: value_of_defs and_then_eq_Ok map_ok_eq enum_conversions split: key_parameter_value.splits)

lemma try_fromm_value_eq_Ok:
  "try_fromm_value t v = Ok (Some p) \<longleftrightarrow> key_param_tag p = t \<and> v = fromm_value p"
proof (cases t)
  case (Tag_Enum e)
  then show ?thesis by (auto simp: map_ok_eq try_fromm_enum_value_eq_Ok)
qed (auto simp: map_ok_eq value_of_defs key_param_tag_simps split: key_parameter_value.splits bool.splits if_splits)

text \<open>
  The constants of the generated code are distinct numbers.  This is all that the conversion needs
  of them.
\<close>

definition aidl_tags_distinct :: "(tag \<Rightarrow> int) \<Rightarrow> bool" where
  "aidl_tags_distinct aidl_tag \<longleftrightarrow> inj aidl_tag"

lemma find_aidl_tag: "aidl_tags_distinct a \<Longrightarrow> find (\<lambda>t. a t = n) tag_variants = Some t \<longleftrightarrow> a t = n"
proof -
  assume a: "aidl_tags_distinct a"
  have "t \<in> set tag_variants" for t
    using tag_enum.exhaustive by simp
  then show ?thesis
    using a by (cases "find (\<lambda>t. a t = n) tag_variants")
      (auto simp: find_None_iff find_Some_iff aidl_tags_distinct_def dest: injD)
qed

lemma try_fromm_param_eq_Ok:
  assumes "aidl_tags_distinct a"
  shows "try_fromm_param a q = Ok (Some p) \<longleftrightarrow> q = fromm_param a p"
proof -
  have "try_fromm_param a q = Ok (Some p) \<longleftrightarrow> a (key_param_tag p) = par_tag q \<and> par_value q = fromm_value p"
    using find_aidl_tag [OF assms, of "par_tag q"] assms
    by (auto simp: try_fromm_param_def try_fromm_value_eq_Ok aidl_tags_distinct_def inj_eq split: option.splits)
      (metis inj_eq)+
  then show ?thesis
    by (cases q) (auto simp: fromm_param_def)
qed

text \<open>
  C24: Key parameters cross the HAL boundary without loss or confusion.  A HAL parameter is accepted as
  a given wire parameter exactly when it is the HAL form of that parameter, so no two HAL values are
  taken for the same wire value and no value is altered; and it is silently dropped exactly when its
  tag is unknown or INVALID.
\<close>

theorem key_parameter_conversion:
  assumes "aidl_tags_distinct aidl_tag"
  shows "(\<forall>p. try_fromm_param aidl_tag q = Ok (Some p) \<longleftrightarrow> q = fromm_param aidl_tag p) \<and>
    (try_fromm_param aidl_tag q = Ok None \<longleftrightarrow> par_tag q \<notin> aidl_tag ` (UNIV - {Tag_Invalid}))"
proof -
  have "try_fromm_value t v = Ok None \<longleftrightarrow> t = Tag_Invalid" for t v
    by (cases t) (auto simp: map_ok_eq)
  moreover have "par_tag q \<notin> range aidl_tag" if "find (\<lambda>t. aidl_tag t = par_tag q) tag_variants = None"
    using that unfolding find_None_iff tag_enum.exhaustive by auto
  moreover have "par_tag q = aidl_tag t" if "find (\<lambda>t. aidl_tag t = par_tag q) tag_variants = Some t" for t
    using that find_aidl_tag [OF assms, of "par_tag q"] by simp
  ultimately have "try_fromm_param aidl_tag q = Ok None \<longleftrightarrow>
      par_tag q \<notin> range aidl_tag \<or> par_tag q = aidl_tag Tag_Invalid"
    using assms
    by (cases "find (\<lambda>t. aidl_tag t = par_tag q) tag_variants")
      (simp_all add: try_fromm_param_def aidl_tags_distinct_def inj_eq)
  also have "\<dots> \<longleftrightarrow> par_tag q \<notin> aidl_tag ` (UNIV - {Tag_Invalid})"
    using assms by (auto simp: aidl_tags_distinct_def inj_image_mem_iff dest: injD)
  finally show ?thesis
    using try_fromm_param_eq_Ok [OF assms] by blast
qed

lemma tag_i32_distinct: "aidl_tags_distinct tag_i32"
  by (auto simp: aidl_tags_distinct_def inj_def tag_enum.as_i32_inj)

theorem key_parameter_conversion_witness:
  "try_fromm_param tag_i32 \<lparr>par_tag = tag_i32 Tag_KeySize, par_value = Val_Integer 256\<rparr> = Ok (Some (KP_KeySize 256)) \<and>
   try_fromm_param tag_i32 \<lparr>par_tag = 0, par_value = Val_Integer 256\<rparr> = Ok None"
  using key_parameter_conversion [OF tag_i32_distinct, of "\<lparr>par_tag = tag_i32 Tag_KeySize, par_value = Val_Integer 256\<rparr>"]
    key_parameter_conversion [OF tag_i32_distinct, of "\<lparr>par_tag = 0, par_value = Val_Integer 256\<rparr>"]
    tag_enum.as_i32_inj [of _ Tag_Invalid]
  by (auto simp: fromm_param_def)

lemma try_fromm_params_fromm:
  assumes "aidl_tags_distinct a"
  shows "try_fromm_params a (map (fromm_param a) ps) = Ok ps"
proof -
  have "traverse (try_fromm_param a) (map (fromm_param a) ps) = Ok (map Some ps)"
    by (induction ps) (simp_all add: iffD2 [OF try_fromm_param_eq_Ok [OF assms]])
  moreover have "[q. Some q \<leftarrow> map Some ps] = ps"
    by (induction ps) simp_all
  ultimately show ?thesis
    by (simp add: try_fromm_params_def)
qed

section \<open>Parcelables\<close>

record aidl_auth_token =
  aat_challenge :: i64
  aat_userId :: i64
  aat_authenticatorId :: i64
  aat_authenticatorType :: i32
  aat_timestamp :: timestamp
  aat_mac :: bytes

definition fromm_auth_token :: "hardware_auth_token \<Rightarrow> aidl_auth_token" where
  "fromm_auth_token val = \<lparr>aat_challenge = hat_challenge val, aat_userId = hat_user_id val,
     aat_authenticatorId = hat_authenticator_id val,
     aat_authenticatorType = enum_fromm hw_auth_type_i32 (hat_authenticator_type val),
     aat_timestamp = hat_timestamp val, aat_mac = hat_mac val\<rparr>"

definition try_fromm_auth_token :: "aidl_auth_token \<Rightarrow> hardware_auth_token conv" where
  "try_fromm_auth_token val =
     and_then (enum_try_fromm hw_auth_type_i32 hw_auth_type_variants VNR_HardwareAuthenticatorType (aat_authenticatorType val)) (\<lambda>ty.
     Ok \<lparr>hat_challenge = aat_challenge val, hat_user_id = aat_userId val, hat_authenticator_id = aat_authenticatorId val,
       hat_authenticator_type = ty, hat_timestamp = aat_timestamp val, hat_mac = aat_mac val\<rparr>)"

lemma try_fromm_auth_token_eq_Ok: "try_fromm_auth_token t = Ok u \<longleftrightarrow> t = fromm_auth_token u"
  by (cases t; cases u) (auto simp: try_fromm_auth_token_def fromm_auth_token_def and_then_eq_Ok enum_conversions)

record aidl_attestation_key =
  aak_keyBlob :: bytes
  aak_attestKeyParams :: "key_parameter list"
  aak_issuerSubjectName :: bytes

definition try_fromm_attestation_key :: "(tag \<Rightarrow> int) \<Rightarrow> aidl_attestation_key \<Rightarrow> attestation_key conv" where
  "try_fromm_attestation_key aidl_tag val =
     and_then (try_fromm_params aidl_tag (aak_attestKeyParams val)) (\<lambda>ps.
     Ok \<lparr>ak_key_blob = aak_keyBlob val, ak_attest_key_params = ps, ak_issuer_subject_name = aak_issuerSubjectName val\<rparr>)"

record aidl_key_characteristics =
  akc_securityLevel :: i32
  akc_authorizations :: "key_parameter list"

definition fromm_key_characteristics :: "(tag \<Rightarrow> int) \<Rightarrow> key_characteristics \<Rightarrow> aidl_key_characteristics" where
  "fromm_key_characteristics aidl_tag val = \<lparr>akc_securityLevel = enum_fromm security_level_i32 (kc_security_level val),
     akc_authorizations = map (fromm_param aidl_tag) (kc_authorizations val)\<rparr>"

record aidl_key_creation_result =
  acr_keyBlob :: bytes
  acr_keyCharacteristics :: "aidl_key_characteristics list"
  acr_certificateChain :: "certificate list"

definition fromm_key_creation_result :: "(tag \<Rightarrow> int) \<Rightarrow> key_creation_result \<Rightarrow> aidl_key_creation_result" where
  "fromm_key_creation_result aidl_tag val = \<lparr>acr_keyBlob = kcr_key_blob val,
     acr_keyCharacteristics = map (fromm_key_characteristics aidl_tag) (kcr_key_characteristics val),
     acr_certificateChain = kcr_certificate_chain val\<rparr>"

record aidl_hardware_info =
  ahi_versionNumber :: int
  ahi_securityLevel :: i32
  ahi_keyMintName :: string
  ahi_keyMintAuthorName :: string
  ahi_timestampTokenRequired :: bool

definition fromm_hardware_info :: "keymint_hardware_info \<Rightarrow> aidl_hardware_info" where
  "fromm_hardware_info val = \<lparr>ahi_versionNumber = hwi_version_number val,
     ahi_securityLevel = enum_fromm security_level_i32 (hwi_security_level val),
     ahi_keyMintName = hwi_key_mint_name val, ahi_keyMintAuthorName = hwi_key_mint_author_name val,
     ahi_timestampTokenRequired = hwi_timestamp_token_required val\<rparr>"

record aidl_rpc_hardware_info =
  ari_versionNumber :: int
  ari_rpcAuthorName :: string
  ari_supportedEekCurve :: i32
  ari_uniqueId :: "string option"
  ari_supportedNumKeysInCsr :: int

definition fromm_rpc_hardware_info :: "rpc_hardware_info \<Rightarrow> aidl_rpc_hardware_info" where
  "fromm_rpc_hardware_info val = \<lparr>ari_versionNumber = rhi_version_number val, ari_rpcAuthorName = rhi_rpc_author_name val,
     ari_supportedEekCurve = enum_fromm eek_curve_i32 (rhi_supported_eek_curve val),
     ari_uniqueId = rhi_unique_id val, ari_supportedNumKeysInCsr = rhi_supported_num_keys_in_csr val\<rparr>"

end
