(* ===== verification/Hal_Device.thy ===== *)
theory Hal_Device
  imports Hal_Types
begin

text \<open>
  The HAL services (\<open>hal/src/keymint.rs\<close>, \<open>rpc.rs\<close>, \<open>secureclock.rs\<close>, \<open>sharedsecret.rs\<close> and the start-up
  messages of \<open>hal/src/lib.rs\<close>).

  A method converts its arguments, executes one request and converts the response.  The object holds
  only the channel, so a method is an action on the state of the channel; \<open>exec\<close> is the \<open>execute\<close>
  method of \<open>ChannelHalService\<close>.  In the code the type of the response is fixed by the type of the
  request; here the matches on the response have one more case, which \<open>hal_execute_typed\<close> shows never to
  be reached.  An operation in progress also holds its handle, and cuts its input into batches that
  fit the channel.
\<close>

type_synonym 'c exec = "perform_op_req \<Rightarrow> ('c, perform_op_rsp, binder_status) act"

record aidl_consts =
  ac_tag :: "tag \<Rightarrow> int"
  ac_error :: "error_code \<Rightarrow> int"

definition hal_execute :: "cbor_lib \<Rightarrow> nat \<Rightarrow> (bytes \<Rightarrow> ('c, bytes, binder_status) act) \<Rightarrow> 'c exec" where
  "hal_execute lib MAX_SIZE channel req = channel_execute lib MAX_SIZE channel req (req_code req)"

definition conv_arg :: "aidl_consts \<Rightarrow> 'a conv \<Rightarrow> ('c, 'a, binder_status) act" where
  "conv_arg A r = st_ret (map_err (failed_conversion (ac_error A)) r)"

fun conv_opt :: "('a \<Rightarrow> 'b conv) \<Rightarrow> 'a option \<Rightarrow> 'b option conv" where
  "conv_opt f None = Ok None"
| "conv_opt f (Some x) = map_ok Some (f x)"

section \<open>\<open>IKeyMintDevice\<close>\<close>

definition getHardwareInfo :: "'c exec \<Rightarrow> ('c, aidl_hardware_info, binder_status) act" where
  "getHardwareInfo exec = st_then (exec Req_DeviceGetHardwareInfo) (\<lambda>rsp. st_ret (case rsp of
     Rsp_DeviceGetHardwareInfo ret \<Rightarrow> Ok (fromm_hardware_info ret) | _ \<Rightarrow> Panic))"

definition addRngEntropy :: "'c exec \<Rightarrow> bytes \<Rightarrow> ('c, unit, binder_status) act" where
  "addRngEntropy exec data = st_then (exec (Req_DeviceAddRngEntropy data)) (\<lambda>_. st_ret (Ok ()))"

definition generateKey ::
  "aidl_consts \<Rightarrow> 'c exec \<Rightarrow> key_parameter list \<Rightarrow> aidl_attestation_key option \<Rightarrow>
   ('c, aidl_key_creation_result, binder_status) act" where
  "generateKey A exec keyParams attestationKey =
     st_then (conv_arg A (try_fromm_params (ac_tag A) keyParams)) (\<lambda>key_params.
     st_then (conv_arg A (conv_opt (try_fromm_attestation_key (ac_tag A)) attestationKey)) (\<lambda>attestation_key.
     st_then (exec (Req_DeviceGenerateKey key_params attestation_key)) (\<lambda>rsp. st_ret (case rsp of
       Rsp_DeviceGenerateKey ret \<Rightarrow> Ok (fromm_key_creation_result (ac_tag A) ret) | _ \<Rightarrow> Panic))))"

definition importKey ::
  "aidl_consts \<Rightarrow> 'c exec \<Rightarrow> key_parameter list \<Rightarrow> i32 \<Rightarrow> bytes \<Rightarrow> aidl_attestation_key option \<Rightarrow>
   ('c, aidl_key_creation_result, binder_status) act" where
  "importKey A exec keyParams keyFormat keyData attestationKey =
     st_then (conv_arg A (try_fromm_params (ac_tag A) keyParams)) (\<lambda>key_params.
     st_then (conv_arg A (enum_try_fromm key_format_i32 key_format_variants VNR_KeyFormat keyFormat)) (\<lambda>key_format.
     st_then (conv_arg A (conv_opt (try_fromm_attestation_key (ac_tag A)) attestationKey)) (\<lambda>attestation_key.
     st_then (exec (Req_DeviceImportKey key_params key_format keyData attestation_key)) (\<lambda>rsp. st_ret (case rsp of
       Rsp_DeviceImportKey ret \<Rightarrow> Ok (fromm_key_creation_result (ac_tag A) ret) | _ \<Rightarrow> Panic)))))"

definition importWrappedKey ::
  "aidl_consts \<Rightarrow> 'c exec \<Rightarrow> bytes \<Rightarrow> bytes \<Rightarrow> bytes \<Rightarrow> key_parameter list \<Rightarrow> i64 \<Rightarrow> i64 \<Rightarrow>
   ('c, aidl_key_creation_result, binder_status) act" where
  "importWrappedKey A exec wrappedKeyData wrappingKeyBlob maskingKey unwrappingParams passwordSid biometricSid =
     st_then (conv_arg A (try_fromm_params (ac_tag A) unwrappingParams)) (\<lambda>unwrapping_params.
     st_then (exec (Req_DeviceImportWrappedKey wrappedKeyData wrappingKeyBlob maskingKey unwrapping_params
         passwordSid biometricSid)) (\<lambda>rsp. st_ret (case rsp of
       Rsp_DeviceImportWrappedKey ret \<Rightarrow> Ok (fromm_key_creation_result (ac_tag A) ret) | _ \<Rightarrow> Panic)))"

definition upgradeKey ::
  "aidl_consts \<Rightarrow> 'c exec \<Rightarrow> bytes \<Rightarrow> key_parameter list \<Rightarrow> ('c, bytes, binder_status) act" where
  "upgradeKey A exec keyBlobToUpgrade upgradeParams =
     st_then (conv_arg A (try_fromm_params (ac_tag A) upgradeParams)) (\<lambda>upgrade_params.
     st_then (exec (Req_DeviceUpgradeKey keyBlobToUpgrade upgrade_params)) (\<lambda>rsp. st_ret (case rsp of
       Rsp_DeviceUpgradeKey ret \<Rightarrow> Ok ret | _ \<Rightarrow> Panic)))"

definition deleteKey :: "'c exec \<Rightarrow> bytes \<Rightarrow> ('c, unit, binder_status) act" where
  "deleteKey exec keyBlob = st_then (exec (Req_DeviceDeleteKey keyBlob)) (\<lambda>_. st_ret (Ok ()))"

definition deleteAllKeys :: "'c exec \<Rightarrow> ('c, unit, binder_status) act" where
  "deleteAllKeys exec = st_then (exec Req_DeviceDeleteAllKeys) (\<lambda>_. st_ret (Ok ()))"

definition destroyAttestationIds :: "'c exec \<Rightarrow> ('c, unit, binder_status) act" where
  "destroyAttestationIds exec = st_then (exec Req_DeviceDestroyAttestationIds) (\<lambda>_. st_ret (Ok ()))"

text \<open>The result of \<open>begin\<close> holds a new operation object; its state is the handle.\<close>

record begin_result =
  br_challenge :: i64
  br_params :: "key_parameter list"
  br_operation :: "i64 option"

definition device_begin ::
  "aidl_consts \<Rightarrow> 'c exec \<Rightarrow> i32 \<Rightarrow> bytes \<Rightarrow> key_parameter list \<Rightarrow> aidl_auth_token option \<Rightarrow>
   ('c, begin_result, binder_status) act" where
  "device_begin A exec purpose keyBlob params authToken =
     st_then (conv_arg A (enum_try_fromm key_purpose_i32 key_purpose_variants VNR_KeyPurpose purpose)) (\<lambda>purpose.
     st_then (conv_arg A (try_fromm_params (ac_tag A) params)) (\<lambda>params.
     st_then (conv_arg A (conv_opt try_fromm_auth_token authToken)) (\<lambda>auth_token.
     st_then (exec (Req_DeviceBegin purpose keyBlob params auth_token)) (\<lambda>rsp. st_ret (case rsp of
       Rsp_DeviceBegin ret \<Rightarrow> Ok \<lparr>br_challenge = ibr_challenge ret,
         br_params = map (fromm_param (ac_tag A)) (ibr_params ret), br_operation = Some (ibr_op_handle ret)\<rparr>
     | _ \<Rightarrow> Panic)))))"

definition deviceLocked :: "aidl_consts \<Rightarrow> ('c, unit, binder_status) act" where
  "deviceLocked A = st_ret (Err (Status_ServiceSpecific (ac_error A Unimplemented)))"

definition earlyBootEnded :: "'c exec \<Rightarrow> ('c, unit, binder_status) act" where
  "earlyBootEnded exec = st_then (exec Req_DeviceEarlyBootEnded) (\<lambda>_. st_ret (Ok ()))"

definition convertStorageKeyToEphemeral :: "'c exec \<Rightarrow> bytes \<Rightarrow> ('c, bytes, binder_status) act" where
  "convertStorageKeyToEphemeral exec storageKeyBlob =
     st_then (exec (Req_DeviceConvertStorageKeyToEphemeral storageKeyBlob)) (\<lambda>rsp. st_ret (case rsp of
       Rsp_DeviceConvertStorageKeyToEphemeral ret \<Rightarrow> Ok ret | _ \<Rightarrow> Panic))"

definition getKeyCharacteristics ::
  "aidl_consts \<Rightarrow> 'c exec \<Rightarrow> bytes \<Rightarrow> bytes \<Rightarrow> bytes \<Rightarrow> ('c, aidl_key_characteristics list, binder_status) act" where
  "getKeyCharacteristics A exec keyBlob appId appData =
     st_then (exec (Req_DeviceGetKeyCharacteristics keyBlob appId appData)) (\<lambda>rsp. st_ret (case rsp of
       Rsp_DeviceGetKeyCharacteristics ret \<Rightarrow> Ok (map (fromm_key_characteristics (ac_tag A)) ret) | _ \<Rightarrow> Panic))"

definition getRootOfTrustChallenge :: "'c exec \<Rightarrow> ('c, bytes, binder_status) act" where
  "getRootOfTrustChallenge exec = st_then (exec Req_GetRootOfTrustChallenge) (\<lambda>rsp. st_ret (case rsp of
     Rsp_GetRootOfTrustChallenge ret \<Rightarrow> Ok ret | _ \<Rightarrow> Panic))"

definition getRootOfTrust :: "'c exec \<Rightarrow> bytes \<Rightarrow> ('c, bytes, binder_status) act" where
  "getRootOfTrust exec challenge = st_then (exec (Req_GetRootOfTrust challenge)) (\<lambda>rsp. st_ret (case rsp of
     Rsp_GetRootOfTrust ret \<Rightarrow> Ok ret | _ \<Rightarrow> Panic))"

definition sendRootOfTrust :: "'c exec \<Rightarrow> bytes \<Rightarrow> ('c, unit, binder_status) act" where
  "sendRootOfTrust exec root_of_trust = st_then (exec (Req_SendRootOfTrust root_of_trust)) (\<lambda>_. st_ret (Ok ()))"

definition setAdditionalAttestationInfo ::
  "aidl_consts \<Rightarrow> 'c exec \<Rightarrow> key_parameter list \<Rightarrow> ('c, unit, binder_status) act" where
  "setAdditionalAttestationInfo A exec info =
     st_then (conv_arg A (try_fromm_params (ac_tag A) info)) (\<lambda>info.
     st_then (exec (Req_SetAdditionalAttestationInfo info)) (\<lambda>_. st_ret (Ok ())))"

section \<open>The other services and the start-up messages\<close>

definition rpc_getHardwareInfo :: "'c exec \<Rightarrow> ('c, aidl_rpc_hardware_info, binder_status) act" where
  "rpc_getHardwareInfo exec = st_then (exec Req_RpcGetHardwareInfo) (\<lambda>rsp. st_ret (case rsp of
     Rsp_RpcGetHardwareInfo ret \<Rightarrow> Ok (fromm_rpc_hardware_info ret) | _ \<Rightarrow> Panic))"

text \<open>Output parameters are returned beside the result.\<close>

definition generateEcdsaP256KeyPair :: "'c exec \<Rightarrow> bool \<Rightarrow> ('c, maced_public_key \<times> bytes, binder_status) act" where
  "generateEcdsaP256KeyPair exec testMode =
     st_then (exec (Req_RpcGenerateEcdsaP256KeyPair testMode)) (\<lambda>rsp. st_ret (case rsp of
       Rsp_RpcGenerateEcdsaP256KeyPair maced_public_key ret \<Rightarrow> Ok (maced_public_key, ret) | _ \<Rightarrow> Panic))"

definition generateCertificateRequest ::
  "'c exec \<Rightarrow> bool \<Rightarrow> maced_public_key list \<Rightarrow> bytes \<Rightarrow> bytes \<Rightarrow>
   ('c, device_info \<times> protected_data \<times> bytes, binder_status) act" where
  "generateCertificateRequest exec testMode keysToSign endpointEncryptionCertChain challenge =
     st_then (exec (Req_RpcGenerateCertificateRequest testMode keysToSign endpointEncryptionCertChain challenge))
       (\<lambda>rsp. st_ret (case rsp of
         Rsp_RpcGenerateCertificateRequest device_info protected_data ret \<Rightarrow> Ok (device_info, protected_data, ret)
       | _ \<Rightarrow> Panic))"

definition generateCertificateRequestV2 ::
  "'c exec \<Rightarrow> maced_public_key list \<Rightarrow> bytes \<Rightarrow> ('c, bytes, binder_status) act" where
  "generateCertificateRequestV2 exec keysToSign challenge =
     st_then (exec (Req_RpcGenerateCertificateV2Request keysToSign challenge)) (\<lambda>rsp. st_ret (case rsp of
       Rsp_RpcGenerateCertificateV2Request ret \<Rightarrow> Ok ret | _ \<Rightarrow> Panic))"

definition generateTimeStamp :: "'c exec \<Rightarrow> i64 \<Rightarrow> ('c, time_stamp_token, binder_status) act" where
  "generateTimeStamp exec challenge = st_then (exec (Req_SecureClockGenerateTimeStamp challenge)) (\<lambda>rsp. st_ret (case rsp of
     Rsp_SecureClockGenerateTimeStamp ret \<Rightarrow> Ok ret | _ \<Rightarrow> Panic))"

definition getSharedSecretParameters :: "'c exec \<Rightarrow> ('c, shared_secret_params, binder_status) act" where
  "getSharedSecretParameters exec = st_then (exec Req_SharedSecretGetSharedSecretParameters) (\<lambda>rsp. st_ret (case rsp of
     Rsp_SharedSecretGetSharedSecretParameters ret \<Rightarrow> Ok ret | _ \<Rightarrow> Panic))"

definition computeSharedSecret :: "'c exec \<Rightarrow> shared_secret_params list \<Rightarrow> ('c, bytes, binder_status) act" where
  "computeSharedSecret exec params = st_then (exec (Req_SharedSecretComputeSharedSecret params)) (\<lambda>rsp. st_ret (case rsp of
     Rsp_SharedSecretComputeSharedSecret ret \<Rightarrow> Ok ret | _ \<Rightarrow> Panic))"

text \<open>
  \<open>send_hal_info\<close>: the values read from the environment (or the failure to read them) are the
  argument \<open>hal_info\<close>; a TA that does not know the version message is tolerated.
\<close>

definition send_hal_info ::
  "'c exec \<Rightarrow> u32 \<Rightarrow> (u32 \<times> u32 \<times> u32) option \<Rightarrow> ('c, unit, binder_status) act" where
  "send_hal_info exec aidl_version hal_info =
     st_then (st_ret (ok_or hal_info (Status_Exception BAD_PARCELABLE))) (\<lambda>(os_version, os_patchlevel, vendor_patchlevel).
     st_then (exec (Req_SetHalInfo os_version os_patchlevel vendor_patchlevel)) (\<lambda>_.
     (\<lambda>c. case exec (Req_SetHalVersion aidl_version) c of
        (Panic, c') \<Rightarrow> (Panic, c')
      | (_, c') \<Rightarrow> (Ok (), c'))))"

definition send_boot_info :: "'c exec \<Rightarrow> bytes \<Rightarrow> bool \<Rightarrow> int \<Rightarrow> bytes \<Rightarrow> u32 \<Rightarrow> ('c, unit, binder_status) act" where
  "send_boot_info exec verified_boot_key device_boot_locked verified_boot_state verified_boot_hash boot_patchlevel =
     st_then (exec (Req_SetBootInfo verified_boot_key device_boot_locked verified_boot_state verified_boot_hash boot_patchlevel))
       (\<lambda>_. st_ret (Ok ()))"

definition send_attest_ids :: "'c exec \<Rightarrow> attestation_id_info \<Rightarrow> ('c, unit, binder_status) act" where
  "send_attest_ids exec ids = st_then (exec (Req_SetAttestationIds ids)) (\<lambda>_. st_ret (Ok ()))"

definition hal_early_boot_ended :: "'c exec \<Rightarrow> ('c, unit, binder_status) act" where
  "hal_early_boot_ended exec = st_then (exec Req_DeviceEarlyBootEnded) (\<lambda>_. st_ret (Ok ()))"

end
