(* ===== verification/Hal_Operation.thy ===== *)
theory Hal_Operation
  imports Hal_Device
begin

text \<open>
  An operation in progress on the HAL side (\<open>Operation\<close> in \<open>hal/src/keymint.rs\<close>): its handle, valid
  until a request fails or the operation ends, and the cutting of the input into batches that fit the
  channel.  The state is the channel's and the handle.  A loop that need not end is a
  \<open>partial_function (option)\<close>; \<open>None\<close> is not returning.
\<close>

definition MAX_CBOR_OVERHEAD :: nat where "MAX_CBOR_OVERHEAD = 350"

definition max_data_size :: "nat \<Rightarrow> nat" where
  "max_data_size MAX_SIZE = MAX_SIZE - MAX_CBOR_OVERHEAD"

type_synonym 'c op_state = "'c \<times> i64 option"

definition op_invalidate :: "'c op_state \<Rightarrow> 'c op_state" where
  "op_invalidate s = (fst s, None)"

definition validate_handle :: "aidl_consts \<Rightarrow> ('c op_state, i64, binder_status) act" where
  "validate_handle A = st_check (\<lambda>s. ok_or (snd s) (Status_ServiceSpecific (ac_error A InvalidOperationHandle)))"

definition op_execute :: "'c exec \<Rightarrow> perform_op_req \<Rightarrow> ('c op_state, perform_op_rsp, binder_status) act" where
  "op_execute exec req s = (case exec req (fst s) of
     (Ok rsp, c) \<Rightarrow> (Ok rsp, (c, snd s))
   | (Err e, c) \<Rightarrow> (Err e, op_invalidate (c, snd s))
   | (Panic, c) \<Rightarrow> (Panic, (c, snd s)))"

definition rsp_output :: "perform_op_rsp \<Rightarrow> bytes" where
  "rsp_output rsp = (case rsp of Rsp_OperationUpdate ret \<Rightarrow> ret | Rsp_OperationFinish ret \<Rightarrow> ret | _ \<Rightarrow> [])"

text \<open>
  The loops of \<open>updateAad\<close> and \<open>update\<close>: \<open>req\<close> makes the request of a batch.  The loop of \<open>finish\<close>
  leaves the last batch to the final request.
\<close>

partial_function (option) batch_loop ::
  "nat \<Rightarrow> 'c exec \<Rightarrow> (bytes \<Rightarrow> perform_op_req) \<Rightarrow> bytes \<Rightarrow> bytes \<Rightarrow> 'c op_state \<Rightarrow>
   ((bytes, binder_status) res \<times> 'c op_state) option" where
  "batch_loop n exec req input out s =
     (if input = [] then Some (Ok out, s)
      else let batch_len = min n (length input) in
        (case op_execute exec (req (take batch_len input)) s of
           (Ok rsp, s') \<Rightarrow> batch_loop n exec req (drop batch_len input) (out @ rsp_output rsp) s'
         | (Err e, s') \<Rightarrow> Some (Err e, op_invalidate s')
         | (Panic, s') \<Rightarrow> Some (Panic, s')))"

partial_function (option) finish_loop ::
  "nat \<Rightarrow> 'c exec \<Rightarrow> (bytes \<Rightarrow> perform_op_req) \<Rightarrow> bytes \<Rightarrow> bytes \<Rightarrow> 'c op_state \<Rightarrow>
   ((bytes \<times> bytes, binder_status) res \<times> 'c op_state) option" where
  "finish_loop n exec req input out s =
     (if n < length input
      then (case op_execute exec (req (take n input)) s of
           (Ok rsp, s') \<Rightarrow> finish_loop n exec req (drop n input) (out @ rsp_output rsp) s'
         | (Err e, s') \<Rightarrow> Some (Err e, op_invalidate s')
         | (Panic, s') \<Rightarrow> Some (Panic, s'))
      else Some (Ok (out, input), s))"

definition op_updateAad ::
  "aidl_consts \<Rightarrow> nat \<Rightarrow> 'c exec \<Rightarrow> bytes \<Rightarrow> aidl_auth_token option \<Rightarrow> time_stamp_token option \<Rightarrow> 'c op_state \<Rightarrow>
   ((unit, binder_status) res \<times> 'c op_state) option" where
  "op_updateAad A MAX_SIZE exec input authToken timestamp_token =
     opt_then (validate_handle A) (\<lambda>op_handle.
     opt_then (conv_arg A (conv_opt try_fromm_auth_token authToken)) (\<lambda>auth_token s.
     map_option (\<lambda>(r, s'). (map_ok (\<lambda>_. ()) r, s'))
       (batch_loop (max_data_size MAX_SIZE) exec (\<lambda>b. Req_OperationUpdateAad op_handle b auth_token timestamp_token) input [] s)))"

definition op_update_hal ::
  "aidl_consts \<Rightarrow> nat \<Rightarrow> 'c exec \<Rightarrow> bytes \<Rightarrow> aidl_auth_token option \<Rightarrow> time_stamp_token option \<Rightarrow> 'c op_state \<Rightarrow>
   ((bytes, binder_status) res \<times> 'c op_state) option" where
  "op_update_hal A MAX_SIZE exec input authToken timestamp_token =
     opt_then (validate_handle A) (\<lambda>op_handle.
     opt_then (conv_arg A (conv_opt try_fromm_auth_token authToken)) (\<lambda>auth_token s.
       batch_loop (max_data_size MAX_SIZE) exec (\<lambda>b. Req_OperationUpdate op_handle b auth_token timestamp_token) input [] s))"

definition op_finish_hal ::
  "aidl_consts \<Rightarrow> nat \<Rightarrow> 'c exec \<Rightarrow> bytes option \<Rightarrow> bytes option \<Rightarrow> aidl_auth_token option \<Rightarrow> time_stamp_token option \<Rightarrow>
   bytes option \<Rightarrow> 'c op_state \<Rightarrow> ((bytes, binder_status) res \<times> 'c op_state) option" where
  "op_finish_hal A MAX_SIZE exec input signature authToken timestamp_token confirmation_token =
     opt_then (validate_handle A) (\<lambda>op_handle.
     opt_then (conv_arg A (conv_opt try_fromm_auth_token authToken)) (\<lambda>auth_token s.
       let last_request = (\<lambda>out input s. case op_execute exec
             (Req_OperationFinish op_handle input signature auth_token timestamp_token confirmation_token) s of
               (r, s') \<Rightarrow> Some (map_ok (\<lambda>rsp. out @ rsp_output rsp) r, op_invalidate s'))
       in case input of
         None \<Rightarrow> last_request [] None s
       | Some input \<Rightarrow> (case finish_loop (max_data_size MAX_SIZE) exec
             (\<lambda>b. Req_OperationUpdate op_handle b auth_token timestamp_token) input [] s of
           Some (Ok (out, input), s') \<Rightarrow> last_request out (Some input) s'
         | Some (Err e, s') \<Rightarrow> Some (Err e, s')
         | Some (Panic, s') \<Rightarrow> Some (Panic, s')
         | None \<Rightarrow> None)))"

definition op_abort_hal :: "aidl_consts \<Rightarrow> 'c exec \<Rightarrow> ('c op_state, unit, binder_status) act" where
  "op_abort_hal A exec =
     st_then (validate_handle A) (\<lambda>op_handle s. case op_execute exec (Req_OperationAbort op_handle) s of
       (r, s') \<Rightarrow> (map_ok (\<lambda>_. ()) r, op_invalidate s'))"

text \<open>Dropping the object aborts the operation and ignores the result.\<close>

definition op_drop :: "aidl_consts \<Rightarrow> 'c exec \<Rightarrow> 'c op_state \<Rightarrow> 'c op_state" where
  "op_drop A exec s = snd (op_abort_hal A exec s)"

section \<open>The response has the type of the request\<close>

lemma rsp_payload_code: "rsp_payload_from_cbor code v = Ok rsp \<Longrightarrow> rsp_code rsp = code"
  by (cases code) (auto simp: map_ok_eq and_then_eq_Ok struct_from_cbor_def field_def field_end_def split: if_splits)

lemma hal_execute_typed:
  "hal_execute lib mx ch req c = (Ok rsp, c') \<Longrightarrow> rsp_code rsp = req_code req"
  by (auto simp: hal_execute_def channel_execute_def decode_response_def st_then_eq_Ok and_then_eq_Ok map_err_eq
      split: prod.splits intro: rsp_payload_code)

section \<open>Batches\<close>

fun send_batches :: "'c exec \<Rightarrow> (bytes \<Rightarrow> perform_op_req) \<Rightarrow> bytes list \<Rightarrow> bytes \<Rightarrow> ('c op_state, bytes, binder_status) act" where
  "send_batches exec req [] out = st_ret (Ok out)"
| "send_batches exec req (b # bs) out =
     st_then (op_execute exec (req b)) (\<lambda>rsp. send_batches exec req bs (out @ rsp_output rsp))"

definition batches :: "nat \<Rightarrow> bytes \<Rightarrow> bytes list" where
  "batches n input = (if input = [] then [] else chunks n input)"

lemma op_execute_Err: "op_execute exec req s = (Err e, s') \<Longrightarrow> op_invalidate s' = s'"
  by (auto simp: op_execute_def op_invalidate_def split: prod.splits res.splits)

lemma batch_loop_Nil: "batch_loop n exec req [] out s = Some (Ok out, s)"
  by (subst batch_loop.simps) simp

lemma batch_loop_step:
  "input \<noteq> [] \<Longrightarrow> batch_loop n exec req input out s = (case op_execute exec (req (take n input)) s of
     (Ok rsp, s') \<Rightarrow> batch_loop n exec req (drop n input) (out @ rsp_output rsp) s'
   | (Err e, s') \<Rightarrow> Some (Err e, s')
   | (Panic, s') \<Rightarrow> Some (Panic, s'))"
  by (subst batch_loop.simps)
    (simp add: Let_def min_def op_execute_Err split: prod.split res.split)

lemma batches_more:
  assumes "0 < n" "n < length d"
  shows "batches n d = take n d # batches n (drop n d)"
proof -
  have "d \<noteq> []" "drop n d \<noteq> []"
    using assms by auto
  then show ?thesis
    by (simp only: batches_def chunks_more [OF assms] if_False)
qed

lemma batch_loop_eq:
  assumes "0 < n"
  shows "batch_loop n exec req input out s = Some (send_batches exec req (batches n input) out s)"
  using assms
proof (induction input arbitrary: out s rule: chunks_induct)
  case (last d)
  then show ?case
    by (cases "d = []")
      (simp_all add: batch_loop_step batch_loop_Nil batches_def chunks_last st_then_def split: prod.split res.split)
next
  case (more d)
  then have "d \<noteq> []"
    by auto
  then show ?case
    using batches_more [OF assms more.hyps]
    by (simp add: batch_loop_step [of d] more.IH st_then_def split: prod.split res.split)
qed

lemma finish_loop_step:
  "finish_loop n exec req input out s =
     (if n < length input then (case op_execute exec (req (take n input)) s of
        (Ok rsp, s') \<Rightarrow> finish_loop n exec req (drop n input) (out @ rsp_output rsp) s'
      | (Err e, s') \<Rightarrow> Some (Err e, s')
      | (Panic, s') \<Rightarrow> Some (Panic, s'))
      else Some (Ok (out, input), s))"
  by (subst finish_loop.simps) (simp add: op_execute_Err split: prod.split res.split)

lemma finish_loop_eq:
  assumes "0 < n"
  shows "finish_loop n exec req input out s =
    Some (st_then (send_batches exec req (butlast (chunks n input)) out) (\<lambda>out. st_ret (Ok (out, last (chunks n input)))) s)"
  using assms
proof (induction input arbitrary: out s rule: chunks_induct)
  case (last d)
  then show ?case
    by (subst finish_loop_step) (simp add: chunks_last)
next
  case (more d)
  then show ?case
    using assms
    by (subst finish_loop_step) (simp add: chunks_more st_then_def split: prod.split res.split)
qed

lemma batches_content:
  "concat (batches n input) = input"
  "0 < n \<Longrightarrow> list_all (\<lambda>b. b \<noteq> [] \<and> length b \<le> n) (batches n input)"
  using chunks_length [of n input] by (auto simp: batches_def chunks_concat list_all_iff)

lemma opt_then_valid:
  assumes "conv_opt try_fromm_auth_token authToken = Ok auth_token"
  shows "opt_then (validate_handle A) (\<lambda>op_handle.
     opt_then (conv_arg A (conv_opt try_fromm_auth_token authToken)) (f op_handle)) (c, Some h) = f h auth_token (c, Some h)"
  using assms by (simp add: opt_then_def validate_handle_def conv_arg_def)

text \<open>
  C21: On a channel that is bigger than the reserved overhead, \<open>updateAad\<close>, \<open>update\<close> and \<open>finish\<close> of a
  valid operation return, whatever the TA answers.  They send the input as consecutive non-empty
  batches of at most the maximum data size, in order, each with the same tokens, up to the first
  failure, and give the outputs of the TA concatenated; \<open>finish\<close> sends the last batch in its final
  request, and leaves the operation invalid.
\<close>

theorem hal_operation_batches:
  assumes "MAX_CBOR_OVERHEAD < MAX_SIZE" "conv_opt try_fromm_auth_token authToken = Ok auth_token"
  shows "op_update_hal A MAX_SIZE exec input authToken ts (c, Some h) =
      Some (send_batches exec (\<lambda>b. Req_OperationUpdate h b auth_token ts) (batches (max_data_size MAX_SIZE) input) [] (c, Some h))
    \<and> op_updateAad A MAX_SIZE exec input authToken ts (c, Some h) =
      Some (st_then (send_batches exec (\<lambda>b. Req_OperationUpdateAad h b auth_token ts) (batches (max_data_size MAX_SIZE) input) [])
        (\<lambda>_. st_ret (Ok ())) (c, Some h))
    \<and> op_finish_hal A MAX_SIZE exec (Some input) sig authToken ts conf (c, Some h) =
      Some (st_then (send_batches exec (\<lambda>b. Req_OperationUpdate h b auth_token ts) (butlast (chunks (max_data_size MAX_SIZE) input)) [])
        (\<lambda>out s. case op_execute exec (Req_OperationFinish h (Some (last (chunks (max_data_size MAX_SIZE) input))) sig auth_token ts conf) s of
          (r, s') \<Rightarrow> (map_ok (\<lambda>rsp. out @ rsp_output rsp) r, op_invalidate s')) (c, Some h))
    \<and> concat (batches (max_data_size MAX_SIZE) input) = input
    \<and> list_all (\<lambda>b. b \<noteq> [] \<and> length b \<le> max_data_size MAX_SIZE) (batches (max_data_size MAX_SIZE) input)
    \<and> concat (chunks (max_data_size MAX_SIZE) input) = input"
proof -
  have n: "0 < max_data_size MAX_SIZE"
    using assms(1) by (simp add: max_data_size_def)
  note loops = batch_loop_eq [OF n] finish_loop_eq [OF n] opt_then_valid [OF assms(2)]
  show ?thesis
    using batches_content [of "max_data_size MAX_SIZE" input] n
    by (intro conjI; simp add: op_update_hal_def op_updateAad_def op_finish_hal_def loops chunks_concat st_then_def Let_def
        split: prod.splits res.splits)
qed

text \<open>A TA that accepts everything and echoes the input.\<close>

definition ex_consts :: aidl_consts where
  "ex_consts = \<lparr>ac_tag = tag_i32, ac_error = error_code_i32\<rparr>"

definition echo_exec :: "nat exec" where
  "echo_exec req n = (Ok (case req of
     Req_OperationUpdate _ b _ _ \<Rightarrow> Rsp_OperationUpdate b
   | Req_OperationFinish _ b _ _ _ _ \<Rightarrow> Rsp_OperationFinish (case b of Some b \<Rightarrow> b | None \<Rightarrow> [])
   | _ \<Rightarrow> Rsp_OperationUpdateAad), Suc n)"

theorem hal_operation_batches_witness:
  "op_update_hal ex_consts 352 echo_exec [1, 2, 3] None None (0, Some 7) = Some (Ok [1, 2, 3], (2, Some 7)) \<and>
   op_finish_hal ex_consts 352 echo_exec (Some [1, 2, 3]) None None None None (0, Some 7) = Some (Ok [1, 2, 3], (2, None))"
proof -
  have n: "max_data_size 352 = 2" "MAX_CBOR_OVERHEAD < 352"
    by (simp_all add: max_data_size_def MAX_CBOR_OVERHEAD_def)
  have "chunks 2 [1, 2, 3 :: u8] = [[1, 2], [3]]"
    by (simp add: chunks_more chunks_last)
  then show ?thesis
    using hal_operation_batches [OF n(2), of None None ex_consts echo_exec "[1, 2, 3]" None 0 7 None None]
    by (simp add: n(1) batches_def echo_exec_def op_execute_def rsp_output_def st_then_def op_invalidate_def)
qed

text \<open>
  When the channel is no bigger than the reserved overhead, a batch is empty and a non-empty input
  is never used up.
\<close>

lemma batch_loop_endless:
  assumes "\<And>req c. \<exists>rsp c'. exec req c = (Ok rsp, c')" "input \<noteq> []"
  shows "batch_loop 0 exec req input out s = None"
proof -
  have "\<not> (n = 0 \<and> input \<noteq> [] \<and> (\<forall>req c. \<exists>rsp c'. exec req c = (Ok rsp, c')))"
    if "batch_loop n exec req input out s = Some y"
    for n and exec :: "'a exec" and req input out s y
  proof (rule batch_loop.raw_induct [OF _ that, of "\<lambda>n exec req input out s y.
      \<not> (n = 0 \<and> input \<noteq> [] \<and> (\<forall>req c. \<exists>rsp c'. exec req c = (Ok rsp, c')))"], intro notI, elim conjE)
    fix loop n req input out s y and exec :: "'a exec"
    assume IH: "\<And>n exec req input out s y. loop n exec req input out s = Some y \<Longrightarrow>
        \<not> (n = 0 \<and> input \<noteq> [] \<and> (\<forall>req c. \<exists>rsp c'. exec req c = (Ok rsp, c')))"
      and step: "(if input = [] then Some (Ok out, s)
        else let batch_len = min n (length input) in
          case op_execute exec (req (take batch_len input)) s of
            (Ok rsp, s') \<Rightarrow> loop n exec req (drop batch_len input) (out @ rsp_output rsp) s'
          | (Err e, s') \<Rightarrow> Some (Err e, op_invalidate s') | (Panic, s') \<Rightarrow> Some (Panic, s')) = Some y"
      and n: "n = 0" "input \<noteq> []" and ok: "\<forall>req c. \<exists>rsp c'. exec req c = (Ok rsp, c')"
    obtain rsp c' where "exec (req (take 0 input)) (fst s) = (Ok rsp, c')"
      using ok by blast
    then have "loop n exec req input (out @ rsp_output rsp) (c', snd s) = Some y"
      using step n by (simp add: op_execute_def)
    then show False
      using IH n ok by blast
  qed
  then show ?thesis
    using assms by (cases "batch_loop 0 exec req input out s") blast+
qed

section \<open>Every request of an operation fits the channel\<close>

lemma length_cbor_head: "length (cbor_head mt n) \<le> 9" "n < 24 \<Longrightarrow> length (cbor_head mt n) = 1"
  "n < 256 \<Longrightarrow> length (cbor_head mt n) \<le> 2"
  by (simp_all add: cbor_head_def)

lemma length_enc_i64: "length (cbor_enc (i64_to_cbor v)) \<le> 9"
  using length_cbor_head(1) by (simp add: i64_to_cbor_def)

lemma length_enc_bytes:
  "length (cbor_enc (bytes_to_cbor b)) \<le> 9 + length b"
  "length b < 256 \<Longrightarrow> length (cbor_enc (bytes_to_cbor b)) \<le> 2 + length b"
  using length_cbor_head(1) [of 2 "length b"] length_cbor_head(3) [of "length b" 2] by (simp_all add: bytes_to_cbor_def)

lemma length_enc_option:
  "length (cbor_enc (option_to_cbor f x)) = (case x of None \<Rightarrow> 1 | Some y \<Rightarrow> 1 + length (cbor_enc (f y)))"
  by (simp add: option_to_cbor_def length_cbor_head(2) split: option.split)

lemma length_enc_array:
  "length vs < 24 \<Longrightarrow> length (cbor_enc (Cbor_Array vs)) = 1 + sum_list (map (\<lambda>v. length (cbor_enc v)) vs)"
  by (simp add: length_cbor_head(2) length_concat o_def)

lemma length_enc_timestamp: "length (cbor_enc (timestamp_to_cbor x)) \<le> 10"
  using length_enc_i64 by (simp add: timestamp_to_cbor_def length_enc_array del: cbor_enc.simps)

lemma length_enc_auth_token:
  assumes "length (hat_mac t) \<le> 32"
  shows "length (cbor_enc (hardware_auth_token_to_cbor t)) \<le> 81"
proof -
  have "length (cbor_enc (enum_to_cbor hw_auth_type_i32 x)) \<le> 9" for x
    using length_cbor_head(1) by (simp add: enum_to_cbor_def)
  moreover have "length (cbor_enc (bytes_to_cbor (hat_mac t))) \<le> 34"
    using length_enc_bytes(2) [of "hat_mac t"] assms by simp
  ultimately have "length (cbor_enc (enum_to_cbor hw_auth_type_i32 (hat_authenticator_type t))) +
      length (cbor_enc (timestamp_to_cbor (hat_timestamp t))) + length (cbor_enc (bytes_to_cbor (hat_mac t))) \<le> 9 + 10 + 34"
    using length_enc_timestamp by (intro add_mono) simp_all
  moreover note length_enc_i64 [of "hat_challenge t"] length_enc_i64 [of "hat_user_id t"] length_enc_i64 [of "hat_authenticator_id t"]
  ultimately show ?thesis
    by (simp add: hardware_auth_token_to_cbor_def length_enc_array del: cbor_enc.simps)
qed

lemma length_enc_time_stamp_token:
  assumes "length (tst_mac t) \<le> 32"
  shows "length (cbor_enc (time_stamp_token_to_cbor t)) \<le> 54"
  using assms length_enc_bytes(2) [of "tst_mac t"] length_enc_timestamp [of "tst_timestamp t"] length_enc_i64 [of "tst_challenge t"]
  by (simp add: time_stamp_token_to_cbor_def length_enc_array del: cbor_enc.simps)

lemma length_enc_code: "length (cbor_enc (keymint_operation_to_cbor op)) \<le> 2"
proof -
  have "0 \<le> keymint_operation_i32 op" "nat (keymint_operation_i32 op) < 256"
    by (cases op; simp)+
  then show ?thesis
    using length_cbor_head(3) [of "nat (keymint_operation_i32 op)" 0] by (simp add: keymint_operation_to_cbor_def)
qed

lemma length_enc_auth_opt:
  "pred_option (\<lambda>t. length (hat_mac t) \<le> 32) auth \<Longrightarrow>
   length (cbor_enc (option_to_cbor hardware_auth_token_to_cbor auth)) \<le> 82"
  using length_enc_auth_token by (auto simp: length_enc_option split: option.split)

lemma length_enc_ts_opt:
  "pred_option (\<lambda>t. length (tst_mac t) \<le> 32) ts \<Longrightarrow>
   length (cbor_enc (option_to_cbor time_stamp_token_to_cbor ts)) \<le> 55"
  using length_enc_time_stamp_token by (auto simp: length_enc_option split: option.split)

lemma length_enc_bytes_opt:
  assumes "pred_option (\<lambda>x. length x \<le> n) x" "n < 256"
  shows "length (cbor_enc (option_to_cbor bytes_to_cbor x)) \<le> 3 + n"
proof (cases x)
  case (Some y)
  then show ?thesis
    using assms length_enc_bytes(2) [of y] by (simp add: length_enc_option del: cbor_enc.simps)
qed (simp add: length_enc_option del: cbor_enc.simps)

lemma length_enc_req:
  "length (req_fields r) < 24 \<Longrightarrow> length (cbor_enc (perform_op_req_to_cbor r)) \<le>
     4 + sum_list (map (\<lambda>v. length (cbor_enc v)) (req_fields r))"
  using length_enc_code [of "req_code r"] by (simp add: perform_op_req_to_cbor_def length_enc_array del: cbor_enc.simps)

text \<open>
  The size of a CBOR item with the shortest heads and definite lengths (RFC 8949, section 4.1), which
  the \<open>ciborium\<close> crate documents for its serializer.
\<close>

definition head_size :: "nat \<Rightarrow> nat" where
  "head_size n = (if n < 24 then 1 else if n < 2 ^ 8 then 2 else if n < 2 ^ 16 then 3 else if n < 2 ^ 32 then 5 else 9)"

fun cbor_size :: "cbor \<Rightarrow> nat" where
  "cbor_size (Cbor_Integer i) = head_size (nat (if 0 \<le> i then i else - 1 - i))"
| "cbor_size (Cbor_Bytes b) = head_size (length b) + length b"
| "cbor_size (Cbor_Text s) = head_size (length s) + length s"
| "cbor_size (Cbor_Array vs) = head_size (length vs) + sum_list (map cbor_size vs)"
| "cbor_size (Cbor_Map kvs) = head_size (length kvs) + sum_list (map (\<lambda>(k, v). cbor_size k + cbor_size v) kvs)"
| "cbor_size (Cbor_Tag t v) = head_size (unat t) + cbor_size v"
| "cbor_size (Cbor_Bool b) = 1"
| "cbor_size Cbor_Null = 1"
| "cbor_size (Cbor_Float f) = 9"

definition cbor_compact :: "cbor_lib \<Rightarrow> bool" where
  "cbor_compact lib \<longleftrightarrow> (\<forall>v b. cl_write lib v = Some b \<longrightarrow> length b \<le> cbor_size v)"

lemma length_head_size: "length (cbor_head m n) = head_size n"
  by (simp add: cbor_head_def head_size_def)

lemma length_cbor_enc: "length (cbor_enc v) = cbor_size v"
proof (induction v rule: cbor_size.induct)
  case (4 vs)
  then have "sum_list (map (length \<circ> cbor_enc) vs) = sum_list (map cbor_size vs)"
    by (intro arg_cong [of _ _ sum_list] map_cong) auto
  then show ?case
    by (simp add: length_head_size length_concat comp_def)
next
  case (5 kvs)
  then have "sum_list (map (\<lambda>x. length (cbor_enc (fst x)) + length (cbor_enc (snd x))) kvs) = sum_list (map (\<lambda>(k, v). cbor_size k + cbor_size v) kvs)"
    by (intro arg_cong [of _ _ sum_list] map_cong) auto
  then show ?case
    by (simp add: length_head_size length_concat comp_def case_prod_beta)
qed (simp_all add: length_head_size)

text \<open>
  C22: The reserve for the encoding is enough: a request for a batch of data that the HAL service cut to
  \<open>max_data_size\<close> is encoded in at most \<open>MAX_SIZE\<close> bytes, whatever the operation handle and the tokens, as
  long as the MACs and the confirmation token have at most 32 bytes and the signature at most 132.
  So the channel never refuses such a request as too large.
\<close>

theorem hal_requests_fit:
  assumes "cbor_compact lib" "MAX_CBOR_OVERHEAD \<le> MAX_SIZE" "length b \<le> max_data_size MAX_SIZE"
    and "pred_option (\<lambda>t. length (hat_mac t) \<le> 32) auth" "pred_option (\<lambda>t. length (tst_mac t) \<le> 32) ts"
    and "pred_option (\<lambda>s. length s \<le> 132) sig" "pred_option (\<lambda>x. length x \<le> 32) conf"
    and "req \<in> {Req_OperationUpdateAad h b auth ts, Req_OperationUpdate h b auth ts, Req_OperationFinish h (Some b) sig auth ts conf}"
    and "into_vec lib perform_op_req_to_cbor req = Ok bytes"
  shows "length bytes \<le> MAX_SIZE"
proof -
  note len = length_enc_i64 [of h] length_enc_bytes(1) [of b] length_enc_auth_opt [OF assms(4)] length_enc_ts_opt [OF assms(5)]
    length_enc_bytes_opt [OF assms(6)] length_enc_bytes_opt [OF assms(7)]
  have "length (cbor_enc (option_to_cbor bytes_to_cbor (Some b))) \<le> 10 + length b"
    using length_enc_bytes(1) [of b] by (simp add: length_enc_option del: cbor_enc.simps)
  moreover have "length b + 350 \<le> MAX_SIZE"
    using assms(2,3) by (simp add: max_data_size_def MAX_CBOR_OVERHEAD_def)
  ultimately have "length (cbor_enc (perform_op_req_to_cbor req)) \<le> MAX_SIZE"
    using len length_enc_req [of "Req_OperationUpdateAad h b auth ts"] length_enc_req [of "Req_OperationUpdate h b auth ts"]
      length_enc_req [of "Req_OperationFinish h (Some b) sig auth ts conf"] assms(8)
    by auto
  moreover have "length bytes \<le> cbor_size (perform_op_req_to_cbor req)"
    using assms(1,9) by (auto simp: cbor_compact_def into_vec_def res_simps)
  ultimately show ?thesis
    by (simp add: length_cbor_enc)
qed

lemma rfc8949_compact: "cbor_compact rfc8949"
  by (simp add: cbor_compact_def rfc8949_def length_cbor_enc)

theorem hal_requests_fit_witness:
  "\<exists>bytes. into_vec rfc8949 perform_op_req_to_cbor (Req_OperationFinish 7 (Some [1, 2]) (Some []) None None (Some [3])) = Ok bytes
     \<and> length bytes \<le> 352"
proof -
  let ?req = "Req_OperationFinish 7 (Some [1, 2]) (Some []) None None (Some [3])"
  have "into_vec rfc8949 perform_op_req_to_cbor ?req = Ok (cbor_enc (perform_op_req_to_cbor ?req))"
    by (simp add: into_vec_def rfc8949_def)
  then show ?thesis
    using hal_requests_fit [OF rfc8949_compact, of 352 "[1, 2]" None None "Some []" "Some [3]" ?req 7]
    by (simp add: max_data_size_def MAX_CBOR_OVERHEAD_def del: cbor_enc.simps)
qed

end
