(* ===== verification/Tokens.thy ===== *)
theory Tokens
  imports Messages
begin

text \<open>
  What is authenticated with the HMAC key that the secure environments of a device share: the inputs
  of the MACs of authentication tokens (\<open>ta/src/lib.rs\<close>), of time stamps (\<open>ta/src/clock.rs\<close>) and of
  confirmed messages (\<open>ta/src/operation.rs\<close>), the check value of the key agreement and the context from
  which the key is derived (\<open>ta/src/secret.rs\<close>).

  One key serves all these kinds of message, so the inputs have to be unambiguous: an input determines the
  content of its token, and no input of one kind is an input of another.  The fifth kind, the root of trust,
  is added in the theory \<open>Ta_Macs\<close>.
\<close>

definition str_bytes :: "string \<Rightarrow> bytes" where
  "str_bytes s = map (\<lambda>c. word_of_nat (of_char c)) s"

definition TIME_STAMP_MAC_LABEL :: bytes where
  "TIME_STAMP_MAC_LABEL = str_bytes ''Auth Verification''"

definition KEY_AGREEMENT_LABEL :: bytes where
  "KEY_AGREEMENT_LABEL = str_bytes ''KeymasterSharedMac''"

definition KEY_CHECK_LABEL :: bytes where
  "KEY_CHECK_LABEL = str_bytes ''Keymaster HMAC Verification''"

definition CONFIRMATION_DATA_PREFIX :: bytes where
  "CONFIRMATION_DATA_PREFIX = str_bytes ''confirmation token''"

definition i64_to_be :: "i64 \<Rightarrow> bytes" where
  "i64_to_be v = be_bytes 8 (unat v)"

definition hardware_auth_token_mac_input :: "hardware_auth_token \<Rightarrow> bytes" where
  "hardware_auth_token_mac_input token =
     [0] @ u64_to_ne (hat_challenge token) @ u64_to_ne (hat_user_id token) @ u64_to_ne (hat_authenticator_id token)
     @ be_bytes 4 (unat (word_of_int (hw_auth_type_i32 (hat_authenticator_type token)) :: u32))
     @ i64_to_be (ts_milliseconds (hat_timestamp token))"

definition timestamp_token_mac_input :: "time_stamp_token \<Rightarrow> bytes" where
  "timestamp_token_mac_input token =
     TIME_STAMP_MAC_LABEL @ i64_to_be (tst_challenge token) @ i64_to_be (ts_milliseconds (tst_timestamp token))
     @ be_bytes 4 1"

section \<open>Unambiguous inputs\<close>

lemma unat_eq_iff: "unat v = unat w \<longleftrightarrow> v = w"
  by (simp add: word_eq_iff_unsigned [where 'a = nat])

lemma length_i64_to_be [simp]: "length (i64_to_be v) = 8"
  by (simp add: i64_to_be_def)

lemma i64_to_be_inj [simp]: "i64_to_be v = i64_to_be w \<longleftrightarrow> v = w"
  by (simp add: i64_to_be_def be_bytes_inj [OF unat64_bound unat64_bound] unat_eq_iff)

lemma u64_to_ne_inj [simp]: "u64_to_ne v = u64_to_ne w \<longleftrightarrow> v = w"
  by (metis u64_from_to_ne)

lemma hw_auth_type_be_inj [simp]:
  "be_bytes 4 (unat (word_of_int (hw_auth_type_i32 x) :: u32)) = be_bytes 4 (unat (word_of_int (hw_auth_type_i32 y) :: u32))
    \<longleftrightarrow> x = y"
proof -
  have "be_bytes 4 (unat (v :: u32)) = be_bytes 4 (unat w) \<longleftrightarrow> v = w" for v w
    by (simp add: be_bytes_inj [OF unat32_bound unat32_bound] unat_eq_iff)
  moreover have "(word_of_int (hw_auth_type_i32 x) :: u32) = word_of_int (hw_auth_type_i32 y) \<longleftrightarrow> x = y"
    by (cases x; cases y) simp_all
  ultimately show ?thesis
    by simp
qed

text \<open>The content of a token is everything but its MAC.\<close>

definition auth_token_content :: "hardware_auth_token \<Rightarrow> hardware_auth_token" where
  "auth_token_content t = t\<lparr>hat_mac := []\<rparr>"

definition timestamp_token_content :: "time_stamp_token \<Rightarrow> time_stamp_token" where
  "timestamp_token_content t = t\<lparr>tst_mac := []\<rparr>"

lemma auth_token_input_inj:
  "hardware_auth_token_mac_input t = hardware_auth_token_mac_input u \<longleftrightarrow> auth_token_content t = auth_token_content u"
  by (cases t; cases u; cases "hat_timestamp t"; cases "hat_timestamp u")
    (auto simp: hardware_auth_token_mac_input_def auth_token_content_def)

lemma timestamp_token_input_inj:
  "timestamp_token_mac_input t = timestamp_token_mac_input u \<longleftrightarrow> timestamp_token_content t = timestamp_token_content u"
  by (cases t; cases u; cases "tst_timestamp t"; cases "tst_timestamp u")
    (auto simp: timestamp_token_mac_input_def timestamp_token_content_def)

text \<open>
  The kinds of message that are MACed as plain bytes start with different bytes.
\<close>

datatype mac_use = Mac_Auth hardware_auth_token | Mac_Timestamp time_stamp_token | Mac_Confirmation bytes | Mac_Key_Check

fun mac_use_input :: "mac_use \<Rightarrow> bytes" where
  "mac_use_input (Mac_Auth t) = hardware_auth_token_mac_input t"
| "mac_use_input (Mac_Timestamp t) = timestamp_token_mac_input t"
| "mac_use_input (Mac_Confirmation message) = CONFIRMATION_DATA_PREFIX @ message"
| "mac_use_input Mac_Key_Check = KEY_CHECK_LABEL"

fun mac_use_content :: "mac_use \<Rightarrow> mac_use" where
  "mac_use_content (Mac_Auth t) = Mac_Auth (auth_token_content t)"
| "mac_use_content (Mac_Timestamp t) = Mac_Timestamp (timestamp_token_content t)"
| "mac_use_content m = m"

lemma mac_use_first:
  "hd (mac_use_input m) = (case m of Mac_Auth _ \<Rightarrow> 0 | Mac_Timestamp _ \<Rightarrow> 0x41 | Mac_Confirmation _ \<Rightarrow> 0x63 | Mac_Key_Check \<Rightarrow> 0x4b)"
  by (cases m) (simp_all add: hardware_auth_token_mac_input_def timestamp_token_mac_input_def TIME_STAMP_MAC_LABEL_def
      CONFIRMATION_DATA_PREFIX_def KEY_CHECK_LABEL_def str_bytes_def)

lemma mac_use_input_iff:
  "mac_use_input m = mac_use_input m' \<longleftrightarrow> mac_use_content m = mac_use_content m'"
proof -
  have "hd (mac_use_input m) = hd (mac_use_input m')" if "mac_use_input m = mac_use_input m'"
    using that by simp
  then show ?thesis
    unfolding mac_use_first
    by (cases m; cases m') (force simp: auth_token_input_inj timestamp_token_input_inj)+
qed

section \<open>The context of the key agreement\<close>

fun shared_secret_loop :: "shared_secret_params list \<Rightarrow> shared_secret_params \<Rightarrow> bytes \<times> bool \<Rightarrow> (bytes \<times> bool) km" where
  "shared_secret_loop [] must_include acc = Ok acc"
| "shared_secret_loop (param # params) must_include (result, seen) =
     (if length (ssp_nonce param) \<noteq> 32 then Err (Hal InvalidArgument)
      else shared_secret_loop params must_include
        (result @ ssp_seed param @ ssp_nonce param, seen \<or> param = must_include))"

definition shared_secret_context :: "shared_secret_params list \<Rightarrow> shared_secret_params \<Rightarrow> bytes km" where
  "shared_secret_context params must_include =
     and_then (shared_secret_loop params must_include ([], False)) (\<lambda>(result, seen).
     if \<not> seen then Err (Hal InvalidArgument) else Ok result)"

lemma shared_secret_loop_eq:
  "shared_secret_loop params must (result, seen) =
    (if list_all (\<lambda>p. length (ssp_nonce p) = 32) params
     then Ok (result @ concat (map (\<lambda>p. ssp_seed p @ ssp_nonce p) params), seen \<or> must \<in> set params)
     else Err (Hal InvalidArgument))"
  by (induction params arbitrary: result seen) auto

lemma shared_secret_context_eq:
  "shared_secret_context params must =
    (if list_all (\<lambda>p. length (ssp_nonce p) = 32) params \<and> must \<in> set params
     then Ok (concat (map (\<lambda>p. ssp_seed p @ ssp_nonce p) params)) else Err (Hal InvalidArgument))"
  by (simp add: shared_secret_context_def shared_secret_loop_eq)

end
