(* ===== verification/Sdd.thy ===== *)
theory Sdd
  imports Cbor_Types
begin

text \<open>
  Secure deletion secrets (\<open>common/src/keyblob.rs\<close>, lines 177-268, and the in-memory manager of
  \<open>common/src/keyblob/sdd_mem.rs\<close>).  The trait \<open>SecureDeletionSecretManager\<close> is a record of functions
  over a manager state \<open>'s\<close> and a random number generator state \<open>'r\<close>; locale \<open>sdd_manager\<close> is its
  contract, and the in-memory manager is shown to meet it.
\<close>

datatype slot_purpose = Slot_KeyGeneration | Slot_KeyImport | Slot_KeyUpgrade

record ('s, 'r) sdd_ops =
  sm_get_or_create :: "('s \<times> 'r, secure_deletion_data, error) act"
  sm_get_factory :: "'s \<Rightarrow> secure_deletion_data km"
  sm_new_secret :: "slot_purpose \<Rightarrow> ('s \<times> 'r, u32 \<times> secure_deletion_data, error) act"
  sm_get_secret :: "u32 \<Rightarrow> 's \<Rightarrow> secure_deletion_data km"
  sm_delete_secret :: "u32 \<Rightarrow> ('s, unit, error) act"
  sm_delete_all :: "'s \<Rightarrow> 's"

section \<open>The contract\<close>

text \<open>
  A new secret goes to a slot that was empty and is found there afterwards; the other slots and an
  existing factory reset secret stay as they are; a failed call leaves every slot as it was; a
  deleted slot is empty; after \<open>delete_all\<close> nothing is left.
\<close>

locale sdd_manager =
  fixes ops :: "('s, 'r) sdd_ops" and inv :: "'s \<Rightarrow> bool"
  assumes inv_get_or_create: "inv s \<Longrightarrow> inv (fst (snd (sm_get_or_create ops (s, r))))"
    and inv_new_secret: "inv s \<Longrightarrow> inv (fst (snd (sm_new_secret ops p (s, r))))"
    and inv_delete_secret: "inv s \<Longrightarrow> inv (snd (sm_delete_secret ops slot s))"
    and inv_delete_all: "inv s \<Longrightarrow> inv (sm_delete_all ops s)"
    and get_or_create_Ok: "inv s \<Longrightarrow> sm_get_or_create ops (s, r) = (Ok d, (s', r')) \<Longrightarrow>
      sm_get_factory ops s' = Ok d \<and> sdd_wf d"
    and get_or_create_slots: "inv s \<Longrightarrow>
      sm_get_secret ops t (fst (snd (sm_get_or_create ops (s, r)))) = sm_get_secret ops t s"
    and new_secret_Ok: "inv s \<Longrightarrow> sm_new_secret ops p (s, r) = (Ok (slot, d), (s', r')) \<Longrightarrow>
      \<not> is_ok (sm_get_secret ops slot s) \<and> sm_get_secret ops slot s' = Ok d \<and> sdd_wf d"
    and new_secret_others: "inv s \<Longrightarrow> sm_new_secret ops p (s, r) = (Ok (slot, d), (s', r')) \<Longrightarrow>
      t \<noteq> slot \<Longrightarrow> sm_get_secret ops t s' = sm_get_secret ops t s"
    and new_secret_failed: "inv s \<Longrightarrow> sm_new_secret ops p (s, r) = (res, (s', r')) \<Longrightarrow> \<not> is_ok res \<Longrightarrow>
      sm_get_secret ops t s' = sm_get_secret ops t s"
    and factory_kept: "inv s \<Longrightarrow> sm_get_factory ops s = Ok d \<Longrightarrow>
      sm_get_factory ops (fst (snd (sm_new_secret ops p (s, r)))) = Ok d
      \<and> sm_get_factory ops (fst (snd (sm_get_or_create ops (s, r)))) = Ok d
      \<and> sm_get_factory ops (snd (sm_delete_secret ops slot s)) = Ok d"
    and delete_secret_gone: "inv s \<Longrightarrow> is_ok (sm_get_secret ops slot s) \<Longrightarrow>
      fst (sm_delete_secret ops slot s) = Ok () \<and> \<not> is_ok (sm_get_secret ops slot (snd (sm_delete_secret ops slot s)))"
    and delete_secret_others: "inv s \<Longrightarrow> t \<noteq> slot \<Longrightarrow>
      sm_get_secret ops t (snd (sm_delete_secret ops slot s)) = sm_get_secret ops t s"
    and delete_all_gone: "inv s \<Longrightarrow> \<not> is_ok (sm_get_secret ops t (sm_delete_all ops s))
      \<and> \<not> is_ok (sm_get_factory ops (sm_delete_all ops s))"
begin

text \<open>The slots that hold a secret, and what they hold.\<close>

definition content :: "'s \<Rightarrow> u32 \<rightharpoonup> secure_deletion_data" where
  "content s t = (case sm_get_secret ops t s of Ok d \<Rightarrow> Some d | _ \<Rightarrow> None)"

lemma content_new:
  "inv s \<Longrightarrow> sm_new_secret ops p (s, r) = (Ok (slot, d), (s', r')) \<Longrightarrow>
     content s slot = None \<and> content s' = (content s)(slot \<mapsto> d)"
  using new_secret_Ok [of s p r slot d s' r'] new_secret_others [of s p r slot d s' r']
  by (auto simp: content_def fun_eq_iff split: res.splits)

lemma content_delete:
  assumes "inv s"
  shows "content (snd (sm_delete_secret ops slot s)) = (content s)(slot := content (snd (sm_delete_secret ops slot s)) slot)"
  using delete_secret_others [OF assms] by (auto simp: content_def fun_eq_iff)

lemma content_delete_held:
  assumes "inv s" "content s slot = Some d"
  shows "content (snd (sm_delete_secret ops slot s)) = (content s)(slot := None)"
proof -
  have "is_ok (sm_get_secret ops slot s)"
    using assms(2) by (auto simp: content_def is_ok_iff split: res.splits)
  then have "content (snd (sm_delete_secret ops slot s)) slot = None"
    using delete_secret_gone [OF assms(1), of slot] by (auto simp: content_def split: res.splits)
  then show ?thesis
    using content_delete [OF assms(1), of slot] by simp
qed

text \<open>A slot acquired and released at once leaves the slots as they were.\<close>

lemma acquire_release:
  assumes "inv s" "sm_new_secret ops p (s, r) = (Ok (slot, d), (s', r'))"
  shows "content (snd (sm_delete_secret ops slot s')) = content s"
proof -
  have "inv s'"
    using inv_new_secret [OF assms(1), of p r] assms(2) by simp
  moreover have "content s' slot = Some d"
    using content_new [OF assms] by simp
  ultimately show ?thesis
    using content_delete_held content_new [OF assms] by (auto simp: fun_upd_idem)
qed

end

section \<open>The in-memory manager\<close>

record mem_slots =
  ms_factory :: "bytes option"
  ms_slots :: "secure_deletion_data option list"

definition mem_default :: "nat \<Rightarrow> mem_slots" where
  "mem_default n = \<lparr>ms_factory = None, ms_slots = replicate n None\<rparr>"

definition mem_get_factory :: "mem_slots \<Rightarrow> secure_deletion_data km" where
  "mem_get_factory s = (case ms_factory s of
     Some secret \<Rightarrow> Ok \<lparr>sdd_factory_reset_secret = secret, sdd_secure_deletion_secret = replicate 16 0\<rparr>
   | None \<Rightarrow> Err (Hal UnknownError))"

definition mem_get_or_create :: "'r fill \<Rightarrow> (mem_slots \<times> 'r, secure_deletion_data, error) act" where
  "mem_get_or_create fill = (\<lambda>(s, r).
     let (s, r) = (if ms_factory s = None
                   then case fill r 32 of (secret, r) \<Rightarrow> (s\<lparr>ms_factory := Some secret\<rparr>, r)
                   else (s, r)) in
     (mem_get_factory s, (s, r)))"

text \<open>The loop over the slots finds the first empty one.\<close>

fun find_free :: "nat \<Rightarrow> 'a option list \<Rightarrow> nat option" where
  "find_free i [] = None"
| "find_free i (x # xs) = (if x = None then Some i else find_free (Suc i) xs)"

definition mem_new_secret ::
  "'r fill \<Rightarrow> slot_purpose \<Rightarrow> (mem_slots \<times> 'r, u32 \<times> secure_deletion_data, error) act" where
  "mem_new_secret fill purpose = (\<lambda>(s, r).
     case find_free 0 (ms_slots s) of
       Some idx \<Rightarrow> (case mem_get_or_create fill (s, r) of
           (Ok sdd, (s, r)) \<Rightarrow> (case fill r 16 of (secret, r) \<Rightarrow>
             let sdd = sdd\<lparr>sdd_secure_deletion_secret := secret\<rparr> in
             (Ok (word_of_nat idx, sdd), (s\<lparr>ms_slots := (ms_slots s)[idx := Some sdd]\<rparr>, r)))
         | (Err e, sr) \<Rightarrow> (Err e, sr)
         | (Panic, sr) \<Rightarrow> (Panic, sr))
     | None \<Rightarrow> (Err (Hal RollbackResistanceUnavailable), (s, r)))"

definition mem_get_secret :: "u32 \<Rightarrow> mem_slots \<Rightarrow> secure_deletion_data km" where
  "mem_get_secret slot s = (let idx = unat slot in
     if \<not> idx < length (ms_slots s) then Err (Hal InvalidKeyBlob)
     else case ms_slots s ! idx of Some d \<Rightarrow> Ok d | None \<Rightarrow> Err (Hal InvalidKeyBlob))"

definition mem_delete_secret :: "u32 \<Rightarrow> (mem_slots, unit, error) act" where
  "mem_delete_secret slot s = (let idx = unat slot in
     if \<not> idx < length (ms_slots s) then (Panic, s)
     else (case ms_slots s ! idx of Some _ \<Rightarrow> Ok () | None \<Rightarrow> Err (Hal InvalidKeyBlob),
           s\<lparr>ms_slots := (ms_slots s)[idx := None]\<rparr>))"

definition mem_delete_all :: "mem_slots \<Rightarrow> mem_slots" where
  "mem_delete_all s = s\<lparr>ms_factory := None, ms_slots := map (\<lambda>_. None) (ms_slots s)\<rparr>"

definition mem_sdd :: "'r fill \<Rightarrow> (mem_slots, 'r) sdd_ops" where
  "mem_sdd fill = \<lparr>sm_get_or_create = mem_get_or_create fill, sm_get_factory = mem_get_factory,
     sm_new_secret = mem_new_secret fill, sm_get_secret = mem_get_secret,
     sm_delete_secret = mem_delete_secret, sm_delete_all = mem_delete_all\<rparr>"

text \<open>Slot numbers fit in 32 bits, and the factory secret has its fixed length.\<close>

definition mem_inv :: "mem_slots \<Rightarrow> bool" where
  "mem_inv s \<longleftrightarrow> length (ms_slots s) \<le> 2 ^ 32 \<and> pred_option (\<lambda>f. length f = 32) (ms_factory s)"

lemma find_free_Some:
  "find_free i xs = Some j \<Longrightarrow> \<exists>k. j = i + k \<and> k < length xs \<and> xs ! k = None"
proof (induction i xs rule: find_free.induct)
  case (2 i x xs)
  show ?case
  proof (cases "x = None")
    case False
    then obtain k where "j = Suc i + k" "k < length xs" "xs ! k = None"
      using 2 by auto
    then show ?thesis
      by (intro exI [of _ "Suc k"]) simp
  qed (use 2 in auto)
qed simp

lemma find_free_None: "find_free i xs = None \<longleftrightarrow> None \<notin> set xs"
  by (induction i xs rule: find_free.induct) auto

text \<open>What \<open>new_secret\<close> does when a slot is free.\<close>

context rng
begin

lemma mem_get_or_create_eq:
  assumes "mem_inv s" "mem_get_or_create fill (s, r) = (res, (s', r'))"
  obtains f where "length f = 32" "ms_factory s' = Some f" "ms_slots s' = ms_slots s"
    "res = Ok \<lparr>sdd_factory_reset_secret = f, sdd_secure_deletion_secret = replicate 16 0\<rparr>"
    "ms_factory s = None \<or> ms_factory s = Some f"
proof (cases "ms_factory s")
  case None
  obtain f r1 where f: "fill r 32 = (f, r1)"
    by (cases "fill r 32")
  then have "length f = 32"
    using length_fill [of r 32] by simp
  then show ?thesis
    using assms None f that by (auto simp: mem_get_or_create_def mem_get_factory_def)
next
  case (Some f)
  then show ?thesis
    using assms that by (auto simp: mem_get_or_create_def mem_get_factory_def mem_inv_def)
qed

lemma mem_new_secret_eq:
  assumes "mem_inv s" "mem_new_secret fill p (s, r) = (Ok (slot, d), (s', r'))"
  obtains f where "unat slot < length (ms_slots s)" "ms_slots s ! unat slot = None"
    "ms_slots s' = (ms_slots s)[unat slot := Some d]" "ms_factory s' = Some f" "sdd_wf d"
    "ms_factory s = None \<or> ms_factory s = Some f" "length f = 32"
proof -
  obtain j where j: "find_free 0 (ms_slots s) = Some j"
    using assms(2) by (auto simp: mem_new_secret_def split: option.splits)
  then have len: "j < length (ms_slots s)" "ms_slots s ! j = None"
    using find_free_Some by fastforce+
  then have "j < 2 ^ 32"
    using assms(1) by (simp add: mem_inv_def)
  then have u: "unat (word_of_nat j :: u32) = j"
    by (simp add: unat_of_nat)
  obtain res s1 r1 where g: "mem_get_or_create fill (s, r) = (res, (s1, r1))"
    by (rule prod_cases3)
  obtain c r2 where c: "fill r1 16 = (c, r2)"
    by (cases "fill r1 16")
  then have "length c = 16"
    using length_fill [of r1 16] by simp
  obtain f where f: "length f = 32" "ms_factory s1 = Some f" "ms_slots s1 = ms_slots s"
    "res = Ok \<lparr>sdd_factory_reset_secret = f, sdd_secure_deletion_secret = replicate 16 0\<rparr>"
    "ms_factory s = None \<or> ms_factory s = Some f"
    by (rule mem_get_or_create_eq [OF assms(1) g])
  have sl: "slot = word_of_nat j" and s': "s' = s1\<lparr>ms_slots := (ms_slots s)[j := Some d]\<rparr>"
    and d: "d = \<lparr>sdd_factory_reset_secret = f, sdd_secure_deletion_secret = c\<rparr>"
    using assms(2) j g c f(3,4) by (auto simp: mem_new_secret_def Let_def)
  have "unat slot = j"
    unfolding sl by (rule u)
  moreover have "sdd_wf d"
    using d f(1) \<open>length c = 16\<close> by (simp add: sdd_wf_def)
  moreover have "ms_slots s' = (ms_slots s)[j := Some d]" "ms_factory s' = Some f"
    using s' f(2) by simp_all
  ultimately show ?thesis
    using f(1,5) len by (intro that [of f]) simp_all
qed

lemma mem_new_secret_failed:
  assumes "mem_inv s" "mem_new_secret fill p (s, r) = (res, (s', r'))" "\<not> is_ok res"
  shows "s' = s"
proof (cases "find_free 0 (ms_slots s)")
  case None
  then show ?thesis
    using assms(2) by (simp add: mem_new_secret_def)
next
  case (Some j)
  obtain res1 s1 r1 where g: "mem_get_or_create fill (s, r) = (res1, (s1, r1))"
    by (rule prod_cases3)
  obtain f where d: "res1 = Ok \<lparr>sdd_factory_reset_secret = f, sdd_secure_deletion_secret = replicate 16 0\<rparr>"
    by (rule mem_get_or_create_eq [OF assms(1) g])
  obtain c r2 where c: "fill r1 16 = (c, r2)"
    by (rule prod.exhaust)
  have "is_ok (fst (mem_new_secret fill p (s, r)))"
    by (simp add: mem_new_secret_def Some g d c Let_def)
  then show ?thesis
    using assms(2,3) by simp
qed

end

lemma mem_get_secret_ok:
  "is_ok (mem_get_secret slot s) \<longleftrightarrow> unat slot < length (ms_slots s) \<and> ms_slots s ! unat slot \<noteq> None"
  by (auto simp: mem_get_secret_def Let_def split: option.splits)

lemma mem_get_secret_upd:
  "ms_slots s' = (ms_slots s)[unat slot := x] \<Longrightarrow> t \<noteq> slot \<Longrightarrow> mem_get_secret t s' = mem_get_secret t s"
  by (simp add: mem_get_secret_def Let_def nth_list_update word_unat_eq_iff)

lemma mem_get_secret_same: "ms_slots s' = ms_slots s \<Longrightarrow> mem_get_secret t s' = mem_get_secret t s"
  by (simp add: mem_get_secret_def Let_def)

lemma mem_get_factory_ok: "is_ok (mem_get_factory s) \<longleftrightarrow> ms_factory s \<noteq> None"
  by (auto simp: mem_get_factory_def split: option.splits)

lemma mem_delete_secret_slots:
  "ms_slots (snd (mem_delete_secret slot s)) = (ms_slots s)[unat slot := None]"
  "ms_factory (snd (mem_delete_secret slot s)) = ms_factory s"
  by (simp_all add: mem_delete_secret_def Let_def list_update_beyond)

context rng
begin

lemma mem_new_secret_props:
  assumes "mem_inv s"
  shows "mem_inv (fst (snd (mem_new_secret fill p (s, r))))
    \<and> (ms_factory s \<noteq> None \<longrightarrow> ms_factory (fst (snd (mem_new_secret fill p (s, r)))) = ms_factory s)"
proof -
  obtain res s' r' where m: "mem_new_secret fill p (s, r) = (res, (s', r'))"
    by (rule prod_cases3)
  show ?thesis
  proof (cases "is_ok res")
    case True
    then obtain slot d where "mem_new_secret fill p (s, r) = (Ok (slot, d), (s', r'))"
      using m by (auto simp: is_ok_iff)
    then obtain f where "ms_slots s' = (ms_slots s)[unat slot := Some d]" "ms_factory s' = Some f"
      "ms_factory s = None \<or> ms_factory s = Some f" "length f = 32"
      by (rule mem_new_secret_eq [OF assms])
    then show ?thesis
      using m assms by (auto simp: mem_inv_def)
  next
    case False
    then have "s' = s"
      by (rule mem_new_secret_failed [OF assms m])
    then show ?thesis
      using m assms by simp
  qed
qed

lemma mem_get_or_create_props:
  assumes "mem_inv s"
  shows "mem_inv (fst (snd (mem_get_or_create fill (s, r))))
    \<and> ms_slots (fst (snd (mem_get_or_create fill (s, r)))) = ms_slots s
    \<and> (ms_factory s \<noteq> None \<longrightarrow> ms_factory (fst (snd (mem_get_or_create fill (s, r)))) = ms_factory s)"
proof -
  obtain res s' r' where m: "mem_get_or_create fill (s, r) = (res, (s', r'))"
    by (rule prod_cases3)
  obtain f where "length f = 32" "ms_factory s' = Some f" "ms_slots s' = ms_slots s"
    "ms_factory s = None \<or> ms_factory s = Some f"
    by (rule mem_get_or_create_eq [OF assms m])
  then show ?thesis
    using m assms by (auto simp: mem_inv_def)
qed

lemma mem_sdd_manager: "sdd_manager (mem_sdd fill) mem_inv"
proof (unfold_locales, unfold mem_sdd_def sdd_ops.simps)
  fix s :: mem_slots and r :: 'r and s' r' and p and slot t :: u32 and d and res :: "(u32 \<times> secure_deletion_data) km"
  assume inv: "mem_inv s"
  show "mem_inv (fst (snd (mem_get_or_create fill (s, r))))"
    "mem_inv (fst (snd (mem_new_secret fill p (s, r))))"
    using mem_get_or_create_props [OF inv, of r] mem_new_secret_props [OF inv, of p r] by simp_all
  show "mem_get_secret t (fst (snd (mem_get_or_create fill (s, r)))) = mem_get_secret t s"
    using mem_get_or_create_props [OF inv, of r] by (intro mem_get_secret_same) simp
  show "mem_inv (snd (mem_delete_secret slot s))" "mem_inv (mem_delete_all s)"
    using inv by (simp_all add: mem_inv_def mem_delete_secret_slots mem_delete_all_def)
  show "mem_get_factory s' = Ok d \<and> sdd_wf d" if "mem_get_or_create fill (s, r) = (Ok d, s', r')"
    by (rule mem_get_or_create_eq [OF inv that]) (auto simp: mem_get_factory_def sdd_wf_def)
  show "\<not> is_ok (mem_get_secret slot s) \<and> mem_get_secret slot s' = Ok d \<and> sdd_wf d"
    if "mem_new_secret fill p (s, r) = (Ok (slot, d), s', r')"
    by (rule mem_new_secret_eq [OF inv that]) (simp add: mem_get_secret_ok, simp add: mem_get_secret_def)
  show "mem_get_secret t s' = mem_get_secret t s"
    if "mem_new_secret fill p (s, r) = (Ok (slot, d), s', r')" "t \<noteq> slot"
    by (rule mem_new_secret_eq [OF inv that(1)]) (rule mem_get_secret_upd [OF _ that(2)])
  show "mem_get_secret t s' = mem_get_secret t s"
    if "mem_new_secret fill p (s, r) = (res, s', r')" "\<not> is_ok res"
    using mem_new_secret_failed [OF inv that] by simp
  show "mem_get_factory (fst (snd (mem_new_secret fill p (s, r)))) = Ok d
      \<and> mem_get_factory (fst (snd (mem_get_or_create fill (s, r)))) = Ok d
      \<and> mem_get_factory (snd (mem_delete_secret slot s)) = Ok d" if "mem_get_factory s = Ok d"
  proof -
    have "ms_factory s \<noteq> None"
      using that mem_get_factory_ok [of s] by simp
    then show ?thesis
      using that mem_get_or_create_props [OF inv, of r] mem_new_secret_props [OF inv, of p r]
      by (simp add: mem_get_factory_def mem_delete_secret_slots)
  qed
  show "fst (mem_delete_secret slot s) = Ok () \<and> \<not> is_ok (mem_get_secret slot (snd (mem_delete_secret slot s)))"
    if "is_ok (mem_get_secret slot s)"
    using that by (auto simp: mem_get_secret_ok mem_delete_secret_slots) (simp add: mem_delete_secret_def)
  show "mem_get_secret t (snd (mem_delete_secret slot s)) = mem_get_secret t s" if "t \<noteq> slot"
    by (rule mem_get_secret_upd [OF mem_delete_secret_slots(1) that])
  show "\<not> is_ok (mem_get_secret t (mem_delete_all s)) \<and> \<not> is_ok (mem_get_factory (mem_delete_all s))"
    by (simp add: mem_get_secret_ok mem_get_factory_ok mem_delete_all_def)
qed

end

sublocale rng \<subseteq> mem: sdd_manager "mem_sdd fill" mem_inv
  by (rule mem_sdd_manager)

lemma mem_default_inv: "n \<le> 2 ^ 32 \<Longrightarrow> mem_inv (mem_default n)"
  by (simp add: mem_inv_def mem_default_def)

section \<open>Properties\<close>

text \<open>
  C28: With any random number generator, the in-memory slot manager keeps the contract of
  \<open>SecureDeletionSecretManager\<close>: a new secret goes to a slot that was empty and can be read back
  from it, no operation disturbs another slot or an existing factory reset secret, a deleted slot
  is empty and \<open>delete_all\<close> leaves nothing.
\<close>

theorem mem_sdd_meets_contract:
  assumes "rng fill"
  shows "sdd_manager (mem_sdd fill) mem_inv"
  using assms by (rule rng.mem_sdd_manager)

theorem mem_sdd_meets_contract_witness: "sdd_manager (mem_sdd noop_fill) mem_inv"
  by (rule mem_sdd_meets_contract [OF noop_rng.rng_axioms])

text \<open>
  \<open>get_secret\<close> on a slot number beyond the last slot is an error, but \<open>delete_secret\<close> on the
  same number panics; this is the only way in which the manager panics.
\<close>

lemma mem_delete_secret_panics_iff:
  "fst (mem_delete_secret slot s) = Panic \<longleftrightarrow>
     length (ms_slots s) \<le> unat slot \<and> mem_get_secret slot s = Err (Hal InvalidKeyBlob)"
  by (auto simp: mem_delete_secret_def mem_get_secret_def Let_def not_less split: option.splits)

end
