(* ===== verification/Kdf.thy ===== *)
theory Kdf
  imports Crypto_Types
begin

text \<open>
  Key derivation (\<open>common/src/crypto.rs\<close>): HKDF over HMAC-SHA256 and the counter-mode KDF over
  AES-CMAC.  The MAC implementations belong to the crypto library: they are records of functions,
  one per method of the traits \<open>Hmac\<close>, \<open>AesCmac\<close> and \<open>AccumulatingOperation\<close>, over an abstract
  operation state.
\<close>

section \<open>MAC operations\<close>

record 'h accumulating =
  acc_update :: "'h \<Rightarrow> bytes \<Rightarrow> 'h km"
  acc_finish :: "'h \<Rightarrow> bytes km"

record 'h hmac_impl = "'h accumulating" +
  hmac_begin :: "hmac_key opaque_or \<Rightarrow> digest \<Rightarrow> 'h km"

record 'h cmac_impl = "'h accumulating" +
  cmac_begin :: "aes_key opaque_or \<Rightarrow> 'h km"

definition SHA256_DIGEST_LEN :: nat where "SHA256_DIGEST_LEN = 32"

definition HKDF_EMPTY_SALT :: bytes where
  "HKDF_EMPTY_SALT = replicate SHA256_DIGEST_LEN 0"

definition hmac_sha256 :: "'h hmac_impl \<Rightarrow> bytes \<Rightarrow> bytes \<Rightarrow> bytes km" where
  "hmac_sha256 hmac key data =
     and_then (hmac_begin hmac (Explicit (HmacKey key)) Digest_Sha256) (\<lambda>op.
     and_then (acc_update hmac op data) (acc_finish hmac))"

section \<open>HKDF\<close>

definition hkdf_extract :: "'h hmac_impl \<Rightarrow> bytes \<Rightarrow> bytes \<Rightarrow> hmac_key opaque_or km" where
  "hkdf_extract hmac salt ikm = (let salt = (if salt = [] then HKDF_EMPTY_SALT else salt) in
     and_then (hmac_sha256 hmac salt ikm) (\<lambda>prk. Ok (Explicit (HmacKey prk))))"

definition div_ceil :: "nat \<Rightarrow> nat \<Rightarrow> nat" where
  "div_ceil a b = (if a mod b = 0 then a div b else a div b + 1)"

text \<open>One round of the loop; the counter \<open>idx + 1\<close> is an addition of \<open>u8\<close>.\<close>

definition hkdf_round ::
  "'h hmac_impl \<Rightarrow> bytes \<Rightarrow> bytes \<Rightarrow> nat \<Rightarrow> bytes \<times> bytes \<Rightarrow> (bytes \<times> bytes) km" where
  "hkdf_round hmac prk info idx = (\<lambda>(t, okm).
     if 256 \<le> idx + 1 then Panic
     else and_then (hmac_sha256 hmac prk (t @ info @ [word_of_nat (idx + 1)])) (\<lambda>t'.
       Ok (t', okm @ t')))"

definition hkdf_expand ::
  "'h hmac_impl \<Rightarrow> hmac_key opaque_or \<Rightarrow> bytes \<Rightarrow> nat \<Rightarrow> bytes km" where
  "hkdf_expand hmac prk info out_len =
     and_then (explicit prk) (\<lambda>key. case key of HmacKey prk \<Rightarrow>
     let n = div_ceil out_len SHA256_DIGEST_LEN in
     if 256 < n then Err (Hal InvalidArgument)
     else let n = unat (word_of_nat n :: u8) in
       and_then (fold_res (hkdf_round hmac prk info) [0..<n] ([], [])) (\<lambda>(t, okm).
       Ok (take out_len okm)))"

definition hkdf :: "'h hmac_impl \<Rightarrow> bytes \<Rightarrow> bytes \<Rightarrow> bytes \<Rightarrow> nat \<Rightarrow> bytes km" where
  "hkdf hmac salt ikm info out_len =
     and_then (hkdf_extract hmac salt ikm) (\<lambda>prk. hkdf_expand hmac prk info out_len)"

definition hkdf_aes ::
  "'h hmac_impl \<Rightarrow> bytes \<Rightarrow> bytes \<Rightarrow> bytes \<Rightarrow> aes_variant \<Rightarrow> aes_key opaque_or km" where
  "hkdf_aes hmac salt ikm info variant =
     and_then (hkdf hmac salt ikm info (variant_key_size variant)) (\<lambda>data.
     and_then (aes_key_new data) (\<lambda>key. Ok (Explicit key)))"

definition expand_aes ::
  "'h hmac_impl \<Rightarrow> hmac_key opaque_or \<Rightarrow> bytes \<Rightarrow> aes_variant \<Rightarrow> aes_key opaque_or km" where
  "expand_aes hmac prk info variant =
     and_then (hkdf_expand hmac prk info (variant_key_size variant)) (\<lambda>data.
     and_then (aes_key_new data) (\<lambda>key. Ok (Explicit key)))"

text \<open>The output of HKDF as RFC 5869 defines it, over a MAC function \<open>h\<close>.\<close>

fun rfc_T :: "(bytes \<Rightarrow> bytes) \<Rightarrow> bytes \<Rightarrow> nat \<Rightarrow> bytes" where
  "rfc_T h info 0 = []"
| "rfc_T h info (Suc i) = h (rfc_T h info i @ info @ [word_of_nat (Suc i)])"

fun rfc_okm :: "(bytes \<Rightarrow> bytes) \<Rightarrow> bytes \<Rightarrow> nat \<Rightarrow> bytes" where
  "rfc_okm h info 0 = []"
| "rfc_okm h info (Suc i) = rfc_okm h info i @ rfc_T h info (Suc i)"

text \<open>
  A working HMAC-SHA256: every call succeeds with a digest of 32 bytes, for the keys of 8 to 64 bytes that the
  documentation of the trait \<open>Hmac\<close> names.
\<close>

definition hmac_works_at :: "'h hmac_impl \<Rightarrow> (bytes \<Rightarrow> bytes \<Rightarrow> bytes) \<Rightarrow> bytes \<Rightarrow> bool" where
  "hmac_works_at hmac h k \<longleftrightarrow> (\<forall>d. hmac_sha256 hmac k d = Ok (h k d) \<and> length (h k d) = SHA256_DIGEST_LEN)"

definition hmac_works :: "'h hmac_impl \<Rightarrow> (bytes \<Rightarrow> bytes \<Rightarrow> bytes) \<Rightarrow> bool" where
  "hmac_works hmac h \<longleftrightarrow> (\<forall>k. 8 \<le> length k \<and> length k \<le> 64 \<longrightarrow> hmac_works_at hmac h k)"

lemma div_ceil_le_iff:
  assumes "0 < b"
  shows "div_ceil a b \<le> n \<longleftrightarrow> a \<le> n * b"
proof (cases "a mod b = 0")
  case True
  then obtain q where "a = q * b"
    by (metis dvd_div_mult_self mod_0_imp_dvd)
  then show ?thesis
    using assms by (simp add: div_ceil_def)
next
  case False
  then have "a \<noteq> n * b"
    by auto
  then show ?thesis
    using False assms by (auto simp: div_ceil_def Suc_le_eq div_less_iff_less_mult)
qed

lemma hkdf_rounds:
  assumes "hmac_works_at hmac h prk"
  shows "n < 256 \<Longrightarrow> fold_res (hkdf_round hmac prk info) [0..<n] ([], []) =
     Ok (rfc_T (h prk) info n, rfc_okm (h prk) info n)"
proof (induction n)
  case (Suc n)
  have "hkdf_round hmac prk info n (t, okm) =
      Ok (h prk (t @ info @ [word_of_nat (Suc n)]), okm @ h prk (t @ info @ [word_of_nat (Suc n)]))" for t okm
    using assms Suc.prems by (simp add: hkdf_round_def hmac_works_at_def)
  then show ?case
    using Suc by (simp add: fold_res_append)
qed simp

lemma length_rfc_okm:
  "hmac_works_at hmac h prk \<Longrightarrow> length (rfc_okm (h prk) info n) = n * SHA256_DIGEST_LEN"
  by (induction n) (simp_all add: hmac_works_at_def)

lemma hkdf_output:
  assumes "hmac_works hmac h" "hmac_works_at hmac h (if salt = [] then HKDF_EMPTY_SALT else salt)"
    and "out_len \<le> 255 * SHA256_DIGEST_LEN"
  shows "let prk = h (if salt = [] then HKDF_EMPTY_SALT else salt) ikm in
     hkdf hmac salt ikm info out_len =
       Ok (take out_len (rfc_okm (h prk) info (div_ceil out_len SHA256_DIGEST_LEN)))
     \<and> length (take out_len (rfc_okm (h prk) info (div_ceil out_len SHA256_DIGEST_LEN))) = out_len"
proof -
  let ?n = "div_ceil out_len SHA256_DIGEST_LEN"
  have n: "?n \<le> 255" "out_len \<le> ?n * SHA256_DIGEST_LEN"
    using assms(3) div_ceil_le_iff [of SHA256_DIGEST_LEN out_len 255]
      div_ceil_le_iff [of SHA256_DIGEST_LEN out_len ?n]
    by (simp_all add: SHA256_DIGEST_LEN_def)
  let ?key = "if salt = [] then HKDF_EMPTY_SALT else salt"
  have mac: "hmac_sha256 hmac ?key ikm = Ok (h ?key ikm)" "length (h ?key ikm) = SHA256_DIGEST_LEN"
    using assms(2) by (simp_all only: hmac_works_at_def)
  then have prk: "hmac_works_at hmac h (h ?key ikm)"
    using assms(1) by (simp only: hmac_works_def SHA256_DIGEST_LEN_def) simp
  have "unat (word_of_nat ?n :: u8) = ?n"
    using n by (simp add: unat_of_nat)
  then show ?thesis
    using n hkdf_rounds [OF prk, of ?n] length_rfc_okm [OF prk, of info ?n]
    by (simp only: hkdf_def hkdf_extract_def hkdf_expand_def Let_def mac) simp
qed

text \<open>Derived AES keys have the size that was asked for.\<close>

lemma hkdf_aes_ok:
  assumes "hmac_works hmac h"
  shows "\<exists>k. hkdf_aes hmac [] ikm info v = Ok (Explicit k) \<and> aes_key_wf k"
proof -
  have salt: "hmac_works_at hmac h (if [] = [] then HKDF_EMPTY_SALT else [])"
    using assms by (simp add: hmac_works_def HKDF_EMPTY_SALT_def SHA256_DIGEST_LEN_def)
  have v: "variant_key_size v \<in> {16, 24, 32}"
    by (cases v) simp_all
  then have "variant_key_size v \<le> 255 * SHA256_DIGEST_LEN"
    by (auto simp: SHA256_DIGEST_LEN_def)
  then obtain okm where "hkdf hmac [] ikm info (variant_key_size v) = Ok okm" "length okm = variant_key_size v"
    using hkdf_output [OF assms salt, of "variant_key_size v" ikm info] unfolding Let_def by blast
  then show ?thesis
    using v by (auto simp: hkdf_aes_def aes_key_new_def)
qed

text \<open>
  C32: for every output length that RFC 5869 allows (at most 255 blocks), HKDF with a working
  HMAC-SHA256, which also takes the salt as a key, returns exactly the output that the RFC defines, of the
  requested length.
\<close>

theorem hkdf_meets_rfc:
  assumes "hmac_works hmac h" "hmac_works_at hmac h (if salt = [] then HKDF_EMPTY_SALT else salt)"
    and "out_len \<le> 255 * SHA256_DIGEST_LEN"
  shows "let prk = h (if salt = [] then HKDF_EMPTY_SALT else salt) ikm in
     hkdf hmac salt ikm info out_len =
       Ok (take out_len (rfc_okm (h prk) info (div_ceil out_len SHA256_DIGEST_LEN)))
     \<and> length (take out_len (rfc_okm (h prk) info (div_ceil out_len SHA256_DIGEST_LEN))) = out_len"
  using assms by (rule hkdf_output)

text \<open>
  With an output length in the 256th block, beyond the limit of the RFC but within the limit
  the code checks, the block count is truncated to zero and HKDF returns an empty key without any
  error, whatever the MAC and the secret.
\<close>

lemma hkdf_expand_empty:
  assumes "255 * SHA256_DIGEST_LEN < out_len" "out_len \<le> 256 * SHA256_DIGEST_LEN"
  shows "hkdf_expand hmac (Explicit (HmacKey prk)) info out_len = Ok []"
proof -
  have "div_ceil out_len SHA256_DIGEST_LEN = 256"
    using assms div_ceil_le_iff [of SHA256_DIGEST_LEN out_len 255]
      div_ceil_le_iff [of SHA256_DIGEST_LEN out_len 256]
    by (simp add: SHA256_DIGEST_LEN_def)
  then show ?thesis
    by (simp add: hkdf_expand_def)
qed

text \<open>A toy MAC for concrete instances: it keeps what it was fed and pads it to 32 bytes.\<close>

definition pad_hmac :: "bytes hmac_impl" where
  "pad_hmac = \<lparr>acc_update = (\<lambda>s d. Ok (s @ d)), acc_finish = (\<lambda>s. Ok (take 32 (s @ replicate 32 0))),
     hmac_begin = (\<lambda>k _. case k of Explicit (HmacKey b) \<Rightarrow> Ok b | _ \<Rightarrow> Err (Hal InvalidArgument))\<rparr>"

lemma pad_hmac_works_at: "hmac_works_at pad_hmac (\<lambda>k d. take 32 (k @ d @ replicate 32 0)) k"
  by (auto simp: hmac_works_at_def hmac_sha256_def pad_hmac_def SHA256_DIGEST_LEN_def)

lemma pad_hmac_works: "hmac_works pad_hmac (\<lambda>k d. take 32 (k @ d @ replicate 32 0))"
  unfolding hmac_works_def using pad_hmac_works_at by blast

theorem hkdf_meets_rfc_witness:
  "\<exists>okm. hkdf pad_hmac [] [5] [6] 40 = Ok okm \<and> length okm = 40"
  using hkdf_meets_rfc [OF pad_hmac_works pad_hmac_works_at, of 40 "[]" "[5]" "[6]"]
  by (auto simp: Let_def SHA256_DIGEST_LEN_def)

section \<open>Counter-mode KDF over AES-CMAC\<close>

text \<open>One block of the loop: the MAC input is fed piece by piece, the output copied in place.\<close>

definition ckdf_input :: "nat \<Rightarrow> bytes \<Rightarrow> bytes list \<Rightarrow> u32 \<Rightarrow> bytes list" where
  "ckdf_input i label chunks l = [be_bytes 4 i, label, [0]] @ chunks @ [be_bytes 4 (unat l)]"

definition cmac_run :: "'h cmac_impl \<Rightarrow> aes_key \<Rightarrow> bytes list \<Rightarrow> bytes km" where
  "cmac_run cmac key parts =
     and_then (cmac_begin cmac (Explicit key)) (\<lambda>op.
     and_then (fold_res (\<lambda>d op. acc_update cmac op d) parts op) (acc_finish cmac))"

definition ckdf_block ::
  "'h cmac_impl \<Rightarrow> aes_key \<Rightarrow> bytes \<Rightarrow> bytes list \<Rightarrow> u32 \<Rightarrow> nat \<Rightarrow> bytes \<times> nat \<Rightarrow> (bytes \<times> nat) km" where
  "ckdf_block cmac key label chunks l i = (\<lambda>(output, output_pos).
     and_then (cmac_run cmac key (ckdf_input i label chunks l)) (\<lambda>data.
     let copy_len = min (length data) (length output - output_pos) in
     Ok (take output_pos output @ take copy_len data @ drop (output_pos + copy_len) output,
         output_pos + copy_len)))"

definition ckdf ::
  "'h cmac_impl \<Rightarrow> aes_key opaque_or \<Rightarrow> bytes \<Rightarrow> bytes list \<Rightarrow> nat \<Rightarrow> bytes km" where
  "ckdf cmac key label chunks out_len =
     and_then (explicit key) (\<lambda>key.
     let blocks = unat (word_of_nat (div_ceil out_len aes_BLOCK_SIZE) :: u32);
         l = (word_of_nat (out_len * 8) :: u32) in
     and_then (fold_res (ckdf_block cmac key label chunks l) [1..<Suc blocks] (replicate out_len 0, 0))
       (\<lambda>(output, output_pos).
     if output_pos \<noteq> length output then Err (Hal InvalidArgument) else Ok output))"

text \<open>A working CMAC: feeding the parts of a message gives the 16-byte MAC of their concatenation.\<close>

definition cmac_works :: "'h cmac_impl \<Rightarrow> (aes_key \<Rightarrow> bytes \<Rightarrow> bytes) \<Rightarrow> bool" where
  "cmac_works cmac h \<longleftrightarrow>
     (\<forall>k parts. cmac_run cmac k parts = Ok (h k (concat parts)) \<and> length (h k (concat parts)) = aes_BLOCK_SIZE)"

text \<open>The key stream of NIST SP 800-108 in counter mode, the first \<open>n\<close> blocks.\<close>

fun sp800_108 :: "(bytes \<Rightarrow> bytes) \<Rightarrow> bytes \<Rightarrow> bytes \<Rightarrow> u32 \<Rightarrow> nat \<Rightarrow> bytes" where
  "sp800_108 h label context l 0 = []"
| "sp800_108 h label context l (Suc i) = sp800_108 h label context l i @
     h (be_bytes 4 (Suc i) @ label @ [0] @ context @ be_bytes 4 (unat l))"

lemma length_sp800_108:
  assumes "cmac_works cmac h"
  shows "length (sp800_108 (h k) label context l n) = n * 16"
proof -
  have "length (h k m) = 16" for m
    using assms [unfolded cmac_works_def, rule_format, of k "[m]"] by (simp add: aes_BLOCK_SIZE_def)
  then show ?thesis
    by (induction n) simp_all
qed

text \<open>After \<open>n\<close> blocks the output holds a prefix of the key stream, as much as fits.\<close>

lemma ckdf_blocks:
  assumes "cmac_works cmac h"
  shows "fold_res (ckdf_block cmac k label chunks l) [1..<Suc n] (replicate out_len 0, 0) =
     Ok (take out_len (sp800_108 (h k) label (concat chunks) l n) @ replicate (out_len - n * 16) 0,
         min out_len (n * 16))"
proof (induction n)
  case (Suc n)
  let ?s = "sp800_108 (h k) label (concat chunks) l"
  let ?d = "h k (be_bytes 4 (Suc n) @ label @ [0] @ concat chunks @ be_bytes 4 (unat l))"
  have run: "cmac_run cmac k (ckdf_input (Suc n) label chunks l) = Ok ?d" and d: "length ?d = 16"
    using assms [unfolded cmac_works_def, rule_format, of k "ckdf_input (Suc n) label chunks l"]
    by (simp_all add: ckdf_input_def aes_BLOCK_SIZE_def)
  have s: "length (?s n) = n * 16"
    using length_sp800_108 [OF assms] .
  have "ckdf_block cmac k label chunks l (Suc n)
      (take out_len (?s n) @ replicate (out_len - n * 16) 0, min out_len (n * 16)) =
    Ok (take out_len (?s (Suc n)) @ replicate (out_len - Suc n * 16) 0, min out_len (Suc n * 16))"
    unfolding ckdf_block_def using run d s by (cases "out_len \<le> n * 16") (auto simp: min_def)
  then show ?case
    using Suc.IH by (simp add: fold_res_append del: sp800_108.simps)
qed simp

text \<open>
  C33: with a working AES-CMAC, and an output of fewer than \<open>2^29\<close> bytes so that the 32-bit length
  field holds the number of bits, the KDF returns exactly the first \<open>out_len\<close> bytes of the
  SP 800-108 counter-mode key stream; with opaque key material it fails.
\<close>

theorem ckdf_meets_sp800_108:
  assumes "cmac_works cmac h" "out_len < 2 ^ 29"
  shows "ckdf cmac (Explicit k) label chunks out_len =
     Ok (take out_len (sp800_108 (h k) label (concat chunks) (word_of_nat (out_len * 8))
           (div_ceil out_len aes_BLOCK_SIZE)))
     \<and> unat (word_of_nat (out_len * 8) :: u32) = 8 * out_len
     \<and> ckdf cmac (Opaque b) label chunks out_len = Err (Hal IncompatibleKeyFormat)"
proof -
  let ?n = "div_ceil out_len aes_BLOCK_SIZE"
  have n: "out_len \<le> ?n * 16" "?n < 2 ^ 32"
    using assms(2) div_ceil_le_iff [of aes_BLOCK_SIZE out_len ?n]
      div_ceil_le_iff [of aes_BLOCK_SIZE out_len "2 ^ 29"]
    by (simp_all add: aes_BLOCK_SIZE_def)
  then have u: "unat (word_of_nat ?n :: u32) = ?n"
    by (simp add: unat_of_nat)
  have "unat (word_of_nat (out_len * 8) :: u32) = 8 * out_len"
    using assms(2) by (simp only: unat_of_nat) simp
  moreover have "ckdf cmac (Explicit k) label chunks out_len =
     Ok (take out_len (sp800_108 (h k) label (concat chunks) (word_of_nat (out_len * 8)) ?n))"
    unfolding ckdf_def Let_def explicit.simps and_then.simps u ckdf_blocks [OF assms(1)]
    using n(1) length_sp800_108 [OF assms(1)] by simp
  ultimately show ?thesis
    by (simp add: ckdf_def)
qed

definition pad_cmac :: "bytes cmac_impl" where
  "pad_cmac = \<lparr>acc_update = (\<lambda>s d. Ok (s @ d)), acc_finish = (\<lambda>s. Ok (take 16 (s @ replicate 16 0))),
     cmac_begin = (\<lambda>_. Ok [])\<rparr>"

lemma pad_cmac_works: "cmac_works pad_cmac (\<lambda>k d. take 16 (d @ replicate 16 0))"
proof -
  have "fold_res (\<lambda>d op. acc_update pad_cmac op d) parts s = Ok (s @ concat parts)" for parts s
    by (induction parts arbitrary: s) (simp_all add: pad_cmac_def)
  then have "cmac_run pad_cmac k parts = Ok (take 16 (concat parts @ replicate 16 0))" for k parts
    by (simp add: cmac_run_def) (simp add: pad_cmac_def)
  then show ?thesis
    by (auto simp: cmac_works_def aes_BLOCK_SIZE_def)
qed

theorem ckdf_meets_sp800_108_witness:
  "\<exists>out. ckdf pad_cmac (Explicit (Aes128 (replicate 16 1))) [65] [[1], [2, 3]] 20 = Ok out"
  using ckdf_meets_sp800_108 [OF pad_cmac_works, of 20 "Aes128 (replicate 16 1)" "[65]" "[[1], [2, 3]]"]
  by auto

end
