(* ===== verification/Keyblob.thy ===== *)
theory Keyblob
  imports Sdd Kdf
begin

text \<open>
  Encryption and decryption of key blobs (\<open>common/src/keyblob.rs\<close>): the derivation of the key
  encryption key, the secure deletion slot held during encryption, and the CBOR form of a blob.

  AES-GCM is a record of functions (the traits \<open>Aes\<close> and \<open>AadOperation\<close>), and so are the key
  derivation (trait \<open>Hkdf\<close>) and the parts of the crate \<open>coset\<close> that the code uses.
\<close>

section \<open>What the code calls\<close>

record 'a aead_impl =
  aead_begin :: "aes_key opaque_or \<Rightarrow> gcm_mode \<Rightarrow> symmetric_operation \<Rightarrow> 'a km"
  aead_update_aad :: "'a \<Rightarrow> bytes \<Rightarrow> 'a km"
  aead_update :: "'a \<Rightarrow> bytes \<Rightarrow> (bytes \<times> 'a) km"
  aead_finish :: "'a \<Rightarrow> bytes km"

record kdf_impl =
  kdf_hkdf_aes :: "bytes \<Rightarrow> bytes \<Rightarrow> bytes \<Rightarrow> aes_variant \<Rightarrow> aes_key opaque_or km"
  kdf_expand_aes :: "hmac_key opaque_or \<Rightarrow> bytes \<Rightarrow> aes_variant \<Rightarrow> aes_key opaque_or km"

text \<open>Every HMAC implementation gives a key derivation (\<open>impl<T: Hmac> Hkdf for T\<close>).\<close>

definition kdf_of_hmac :: "'h hmac_impl \<Rightarrow> kdf_impl" where
  "kdf_of_hmac hmac = \<lparr>kdf_hkdf_aes = hkdf_aes hmac, kdf_expand_aes = expand_aes hmac\<rparr>"

text \<open>
  \<open>CoseEncrypt0\<close> is a type parameter \<open>'c\<close>.  The builder with the header for A256GCM gives the
  encryption closure the additional data \<open>cose_aad\<close> and keeps the ciphertext that it returns.
\<close>

record 'c cose_lib =
  cose_new :: "bytes \<Rightarrow> 'c"
  cose_aad :: bytes
  cose_aad_of :: "'c \<Rightarrow> bytes"
  cose_ciphertext :: "'c \<Rightarrow> bytes option"
  cose_to_cbor :: "'c \<Rightarrow> cbor"
  cose_from_cbor :: "cbor \<Rightarrow> 'c cb"

section \<open>Key blobs\<close>

record plaintext_key_blob =
  pkb_characteristics :: "key_characteristics list"
  pkb_key_material :: key_material

record 'c encrypted_key_blob_v1 =
  ekb_characteristics :: "key_characteristics list"
  ekb_key_derivation_input :: bytes
  ekb_kek_context :: bytes
  ekb_encrypted_key_material :: 'c
  ekb_secure_deletion_slot :: "u32 option"

datatype 'c encrypted_key_blob = EncryptedKeyBlob_V1 "'c encrypted_key_blob_v1"

fun secure_deletion_slot :: "'c encrypted_key_blob \<Rightarrow> u32 option" where
  "secure_deletion_slot (EncryptedKeyBlob_V1 blob) = ekb_secure_deletion_slot blob"

fun kek_context :: "'c encrypted_key_blob \<Rightarrow> bytes" where
  "kek_context (EncryptedKeyBlob_V1 blob) = ekb_kek_context blob"

datatype blob_version = Version_V1

primrec blob_version_i32 :: "blob_version \<Rightarrow> int" where
  "blob_version_i32 Version_V1 = 0"

definition blob_version_variants :: "blob_version list" where
  "blob_version_variants = [Version_V1]"

definition ekb_v1_to_cbor :: "'c cose_lib \<Rightarrow> 'c encrypted_key_blob_v1 \<Rightarrow> cbor" where
  "ekb_v1_to_cbor cose b = Cbor_Array
     [vec_to_cbor key_characteristics_to_cbor (ekb_characteristics b),
      bytes_to_cbor (ekb_key_derivation_input b), bytes_to_cbor (ekb_kek_context b),
      cose_to_cbor cose (ekb_encrypted_key_material b),
      option_to_cbor u32_to_cbor (ekb_secure_deletion_slot b)]"

definition ekb_v1_from_cbor :: "'c cose_lib \<Rightarrow> cbor \<Rightarrow> 'c encrypted_key_blob_v1 cb" where
  "ekb_v1_from_cbor cose v =
     map_ok (\<lambda>(ch, kdi, ctx, m, slot). \<lparr>ekb_characteristics = ch, ekb_key_derivation_input = kdi,
         ekb_kek_context = ctx, ekb_encrypted_key_material = m, ekb_secure_deletion_slot = slot\<rparr>)
       (struct5_from_cbor (vec_from_cbor key_characteristics_from_cbor) (array_from_cbor 32) bytes_from_cbor
          (cose_from_cbor cose) (option_from_cbor u32_from_cbor) v)"

fun ekb_to_cbor :: "'c cose_lib \<Rightarrow> 'c encrypted_key_blob \<Rightarrow> cbor" where
  "ekb_to_cbor cose (EncryptedKeyBlob_V1 inner) =
     Cbor_Array [enum_to_cbor blob_version_i32 Version_V1, ekb_v1_to_cbor cose inner]"

definition ekb_from_cbor :: "'c cose_lib \<Rightarrow> cbor \<Rightarrow> 'c encrypted_key_blob cb" where
  "ekb_from_cbor cose v =
     (case v of
        Cbor_Array [version, inner] \<Rightarrow>
          and_then (enum_from_cbor blob_version_i32 blob_version_variants version) (\<lambda>version.
          case version of Version_V1 \<Rightarrow> map_ok EncryptedKeyBlob_V1 (ekb_v1_from_cbor cose inner))
      | _ \<Rightarrow> cbor_type_error v ''arr len 2'')"

definition encrypted_key_blob_new :: "cbor_lib \<Rightarrow> 'c cose_lib \<Rightarrow> bytes \<Rightarrow> 'c encrypted_key_blob km" where
  "encrypted_key_blob_new lib cose data =
     map_err (\<lambda>_. Hal InvalidKeyBlob) (from_slice lib (ekb_from_cbor cose) data)"

definition pkb_characteristics_at :: "plaintext_key_blob \<Rightarrow> security_level \<Rightarrow> key_param list km" where
  "pkb_characteristics_at b sec_level = characteristics_at (pkb_characteristics b) sec_level"

definition suitable_for :: "plaintext_key_blob \<Rightarrow> key_purpose \<Rightarrow> security_level \<Rightarrow> unit km" where
  "suitable_for b purpose sec_level = and_then (pkb_characteristics_at b sec_level) (\<lambda>chars.
     require (contains_tag_value sel_Purpose purpose chars) (Hal IncompatiblePurpose))"

section \<open>The key encryption key\<close>

definition kek_info ::
  "cbor_lib \<Rightarrow> bytes \<Rightarrow> key_characteristics list \<Rightarrow> key_param list \<Rightarrow> secure_deletion_data option \<Rightarrow> bytes cb" where
  "kek_info lib key_derivation_input characteristics hidden_params sdd =
     and_then (into_vec lib (vec_to_cbor key_characteristics_to_cbor) characteristics) (\<lambda>c.
     and_then (into_vec lib (vec_to_cbor key_param_to_cbor) hidden_params) (\<lambda>h.
     and_then (case sdd of Some sdd \<Rightarrow> into_vec lib sdd_to_cbor sdd | None \<Rightarrow> Ok []) (\<lambda>s.
     Ok (key_derivation_input @ c @ h @ s))))"

definition derive_kek ::
  "cbor_lib \<Rightarrow> kdf_impl \<Rightarrow> hmac_key opaque_or \<Rightarrow> bytes \<Rightarrow> key_characteristics list \<Rightarrow> key_param list \<Rightarrow>
   secure_deletion_data option \<Rightarrow> aes_key opaque_or km" where
  "derive_kek lib kdf root_key key_derivation_input characteristics hidden_params sdd =
     and_then (map_err Cbor (kek_info lib key_derivation_input characteristics hidden_params sdd)) (\<lambda>info.
     case root_key of
       Explicit (HmacKey key_material) \<Rightarrow> kdf_hkdf_aes kdf [] key_material info Variant_Aes256
     | Opaque _ \<Rightarrow> kdf_expand_aes kdf root_key info Variant_Aes256)"

section \<open>Encryption\<close>

definition ZERO_NONCE :: bytes where "ZERO_NONCE = replicate 12 0"

definition seal :: "'a aead_impl \<Rightarrow> aes_key opaque_or \<Rightarrow> bytes \<Rightarrow> bytes \<Rightarrow> bytes km" where
  "seal aes kek pt aad =
     and_then (aead_begin aes kek (GcmTag16 ZERO_NONCE) Op_Encrypt) (\<lambda>op.
     and_then (aead_update_aad aes op aad) (\<lambda>op.
     and_then (aead_update aes op pt) (\<lambda>(ct, op).
     and_then (aead_finish aes op) (\<lambda>rest. Ok (ct @ rest)))))"

text \<open>
  \<open>SlotHolder\<close>: while a stage runs under a slot, the slot is given back when the stage fails (the
  holder is dropped); when it succeeds the slot is consumed.  A panic does not unwind.
\<close>

definition hold_slot ::
  "('s, 'r) sdd_ops \<Rightarrow> u32 \<Rightarrow> ('s \<times> 'r, 'a, error) act \<Rightarrow> ('s \<times> 'r, 'a, error) act" where
  "hold_slot ops slot m = (\<lambda>sr. case m sr of
     (Err e, (s, r)) \<Rightarrow> (case sm_delete_secret ops slot s of
         (Panic, s) \<Rightarrow> (Panic, (s, r))
       | (_, s) \<Rightarrow> (Err e, (s, r)))
   | out \<Rightarrow> out)"

definition requires_sdd :: "key_param list \<Rightarrow> bool" where
  "requires_sdd chars \<longleftrightarrow> list_ex (\<lambda>p. p = KP_RollbackResistance \<or> p = KP_UsageCountLimit 1) chars"

text \<open>What follows the choice of the secret: nonce, key encryption key, ciphertext.\<close>

definition encrypt_with ::
  "cbor_lib \<Rightarrow> 'c cose_lib \<Rightarrow> 'a aead_impl \<Rightarrow> kdf_impl \<Rightarrow> 'r fill \<Rightarrow> hmac_key opaque_or \<Rightarrow> bytes \<Rightarrow>
   plaintext_key_blob \<Rightarrow> key_param list \<Rightarrow> u32 option \<Rightarrow> secure_deletion_data option \<Rightarrow>
   ('s \<times> 'r, 'c encrypted_key_blob, error) act" where
  "encrypt_with lib cose aes kdf fill root_key kek_ctx blob hidden_params slot sdd = (\<lambda>(s, r).
     case fill r 32 of (key_derivation_input, r) \<Rightarrow>
     (and_then (derive_kek lib kdf root_key key_derivation_input (pkb_characteristics blob) hidden_params sdd) (\<lambda>kek.
      and_then (map_err Cbor (into_vec lib key_material_to_cbor (pkb_key_material blob))) (\<lambda>pt.
      and_then (seal aes kek pt (cose_aad cose)) (\<lambda>ct.
      Ok (EncryptedKeyBlob_V1 \<lparr>ekb_characteristics = pkb_characteristics blob,
        ekb_key_derivation_input = key_derivation_input, ekb_kek_context = kek_ctx,
        ekb_encrypted_key_material = cose_new cose ct, ekb_secure_deletion_slot = slot\<rparr>)))),
      (s, r)))"

definition encrypt ::
  "cbor_lib \<Rightarrow> 'c cose_lib \<Rightarrow> security_level \<Rightarrow> ('s, 'r) sdd_ops option \<Rightarrow> 'a aead_impl \<Rightarrow> kdf_impl \<Rightarrow>
   'r fill \<Rightarrow> hmac_key opaque_or \<Rightarrow> bytes \<Rightarrow> plaintext_key_blob \<Rightarrow> key_param list \<Rightarrow> slot_purpose \<Rightarrow>
   ('s \<times> 'r, 'c encrypted_key_blob, error) act" where
  "encrypt lib cose sec_level sdd_mgr aes kdf fill root_key kek_ctx blob hidden_params purpose =
     st_then (st_ret (pkb_characteristics_at blob sec_level)) (\<lambda>chars.
     let run = encrypt_with lib cose aes kdf fill root_key kek_ctx blob hidden_params in
     case (requires_sdd chars, sdd_mgr) of
       (True, Some mgr) \<Rightarrow> st_then (sm_new_secret mgr purpose) (\<lambda>(slot, sdd).
         hold_slot mgr slot (run (Some slot) (Some sdd)))
     | (True, None) \<Rightarrow> st_ret (Err (Hal RollbackResistanceUnavailable))
     | (False, Some mgr) \<Rightarrow> st_then (sm_get_or_create mgr) (\<lambda>sdd. run None (Some sdd))
     | (False, None) \<Rightarrow> run None None)"

section \<open>Decryption\<close>

definition blob_secret ::
  "('s, 'r) sdd_ops option \<Rightarrow> 's \<Rightarrow> u32 option \<Rightarrow> secure_deletion_data option km" where
  "blob_secret sdd_mgr s slot =
     (case (slot, sdd_mgr) of
        (Some slot, Some mgr) \<Rightarrow> map_ok Some (sm_get_secret mgr slot s)
      | (Some _, None) \<Rightarrow> Err (Hal InvalidKeyBlob)
      | (None, Some mgr) \<Rightarrow> map_ok Some (sm_get_factory mgr s)
      | (None, None) \<Rightarrow> Ok None)"

definition unseal :: "'a aead_impl \<Rightarrow> aes_key opaque_or \<Rightarrow> bytes \<Rightarrow> bytes \<Rightarrow> bytes km" where
  "unseal aes kek ct aad =
     and_then (aead_begin aes kek (GcmTag16 ZERO_NONCE) Op_Decrypt) (\<lambda>op.
     and_then (aead_update_aad aes op aad) (\<lambda>op.
     and_then (aead_update aes op ct) (\<lambda>(pt, op).
     and_then (map_err (\<lambda>_. Hal InvalidKeyBlob) (aead_finish aes op)) (\<lambda>rest. Ok (pt @ rest)))))"

fun decrypt ::
  "cbor_lib \<Rightarrow> 'c cose_lib \<Rightarrow> ('s, 'r) sdd_ops option \<Rightarrow> 's \<Rightarrow> 'a aead_impl \<Rightarrow> kdf_impl \<Rightarrow>
   hmac_key opaque_or \<Rightarrow> 'c encrypted_key_blob \<Rightarrow> key_param list \<Rightarrow> plaintext_key_blob km" where
  "decrypt lib cose sdd_mgr s aes kdf root_key (EncryptedKeyBlob_V1 blob) hidden_params =
     and_then (blob_secret sdd_mgr s (ekb_secure_deletion_slot blob)) (\<lambda>sdd.
     and_then (derive_kek lib kdf root_key (ekb_key_derivation_input blob) (ekb_characteristics blob) hidden_params sdd) (\<lambda>kek.
     let cose_encrypt = ekb_encrypted_key_material blob in
     and_then (unseal aes kek (case cose_ciphertext cose cose_encrypt of Some ct \<Rightarrow> ct | None \<Rightarrow> [])
                 (cose_aad_of cose cose_encrypt)) (\<lambda>pt_data.
     and_then (map_err Cbor (from_slice lib key_material_from_cbor pt_data)) (\<lambda>key_material.
     Ok \<lparr>pkb_characteristics = ekb_characteristics blob, pkb_key_material = key_material\<rparr>))))"

section \<open>What is relied on\<close>

text \<open>
  Authenticated encryption: what was sealed under a key is opened with that key and data, and sealing
  succeeds under an explicit key (an implementation may reject opaque keys).
\<close>

definition aead_works :: "'a aead_impl \<Rightarrow> bool" where
  "aead_works aes \<longleftrightarrow> (\<forall>kek pt aad ct. seal aes kek pt aad = Ok ct \<longrightarrow> unseal aes kek ct aad = Ok pt)
     \<and> (\<forall>k pt aad. \<exists>ct. seal aes (Explicit k) pt aad = Ok ct)"

text \<open>
  A parsed \<open>CoseEncrypt0\<close> has the header and the ciphertext of the one that was written (it need
  not be equal to it: a parsed header also remembers its original bytes).
\<close>

definition cose_lib_works :: "'c cose_lib \<Rightarrow> bool" where
  "cose_lib_works cose \<longleftrightarrow> (\<forall>ct. cose_aad_of cose (cose_new cose ct) = cose_aad cose
     \<and> cose_ciphertext cose (cose_new cose ct) = Some ct
     \<and> (\<exists>c. cose_from_cbor cose (cose_to_cbor cose (cose_new cose ct)) = Ok c
          \<and> cose_aad_of cose c = cose_aad cose \<and> cose_ciphertext cose c = Some ct))"

definition mgr_ok :: "('s, 'r) sdd_ops option \<Rightarrow> ('s \<Rightarrow> bool) \<Rightarrow> 's \<Rightarrow> bool" where
  "mgr_ok sdd_mgr minv s \<longleftrightarrow> pred_option (\<lambda>mgr. sdd_manager mgr minv \<and> minv s) sdd_mgr"

definition pkb_wf :: "plaintext_key_blob \<Rightarrow> bool" where
  "pkb_wf b \<longleftrightarrow> characteristics_wf (pkb_characteristics b) \<and> key_material_wf (pkb_key_material b)
     \<and> length (key_material_bytes (pkb_key_material b)) < 2 ^ 64"

section \<open>Injectivity of the derivation context\<close>

lemma into_vec_nonempty:
  assumes "cbor_lib_works lib" "cbor_fits 12 (to x)" "into_vec lib to x = Ok b"
  shows "b \<noteq> []"
proof
  assume "b = []"
  then have r: "cl_read lib rest = Some (to x, rest)" for rest
    using assms unfolding cbor_lib_works_def into_vec_def by (force simp: res_simps)
  have "to x = v" if "cbor_fits 12 v" for v
    using assms(1) that r unfolding cbor_lib_works_def by (metis append_Nil2 option.inject prod.inject)
  then have "Cbor_Bool True = Cbor_Bool False"
    by (metis cbor_fits.simps(5))
  then show False
    by simp
qed

definition kek_input_wf :: "bytes \<Rightarrow> key_characteristics list \<Rightarrow> key_param list \<Rightarrow> secure_deletion_data option \<Rightarrow> bool" where
  "kek_input_wf kdi cs hs sdd \<longleftrightarrow> length kdi = 32 \<and> characteristics_wf cs \<and> key_params_wf hs \<and> pred_option sdd_wf sdd"

lemma kek_info_Ok:
  assumes "kek_info lib kdi cs hs sdd = Ok i"
  obtains c h where "into_vec lib (vec_to_cbor key_characteristics_to_cbor) cs = Ok c"
    "into_vec lib (vec_to_cbor key_param_to_cbor) hs = Ok h"
    "sdd = None \<and> i = kdi @ c @ h \<or> (\<exists>d b. sdd = Some d \<and> into_vec lib sdd_to_cbor d = Ok b \<and> i = kdi @ c @ h @ b)"
  using assms by (auto simp: kek_info_def and_then_eq_Ok split: option.splits)

lemma kek_info_inj:
  assumes lib: "cbor_lib_works lib"
    and wf: "kek_input_wf kdi cs hs sdd" "kek_input_wf kdi' cs' hs' sdd'"
    and i: "kek_info lib kdi cs hs sdd = Ok i" and i': "kek_info lib kdi' cs' hs' sdd' = Ok i"
  shows "kdi = kdi' \<and> cs = cs' \<and> hs = hs' \<and> sdd = sdd'"
proof -
  obtain c h where 1: "into_vec lib (vec_to_cbor key_characteristics_to_cbor) cs = Ok c"
    "into_vec lib (vec_to_cbor key_param_to_cbor) hs = Ok h" and
    s: "sdd = None \<and> i = kdi @ c @ h \<or> (\<exists>d b. sdd = Some d \<and> into_vec lib sdd_to_cbor d = Ok b \<and> i = kdi @ c @ h @ b)"
    using kek_info_Ok [OF i] by blast
  obtain c' h' where 2: "into_vec lib (vec_to_cbor key_characteristics_to_cbor) cs' = Ok c'"
    "into_vec lib (vec_to_cbor key_param_to_cbor) hs' = Ok h'" and
    s': "sdd' = None \<and> i = kdi' @ c' @ h' \<or> (\<exists>d b. sdd' = Some d \<and> into_vec lib sdd_to_cbor d = Ok b \<and> i = kdi' @ c' @ h' @ b)"
    using kek_info_Ok [OF i'] by blast
  obtain t t' where t: "i = kdi @ c @ h @ t" "i = kdi' @ c' @ h' @ t'"
    using s s' by (metis append_Nil2)
  then have kdi: "kdi = kdi'" and "c @ h @ t = c' @ h' @ t'"
    using wf by (auto simp: kek_input_wf_def)
  moreover have "cs = cs' \<and> h @ t = h' @ t'"
    using characteristics_codec.prefix_free [OF lib _ _ _ 1(1) 2(1) \<open>c @ h @ t = c' @ h' @ t'\<close>] wf
    by (simp add: kek_input_wf_def)
  moreover from this have "hs = hs' \<and> t = t'"
    using key_params_codec.prefix_free [OF lib _ _ _ 1(2) 2(2), of t t'] wf by (simp add: kek_input_wf_def)
  ultimately have eq: "cs = cs'" "hs = hs'" "c = c'" "h = h'"
    using 1 2 by auto
  have ne: "into_vec lib sdd_to_cbor d \<noteq> Ok []" if "sdd_wf d" for d
    using into_vec_nonempty [OF lib, of sdd_to_cbor d] sdd_codec.fits_in [OF that] by auto
  have "sdd = sdd'"
    using s s' kdi eq wf ne sdd_codec.prefix_free [OF lib, where s = "[]" and t = "[]"]
    by (auto simp: kek_input_wf_def)
  then show ?thesis
    using kdi eq by simp
qed

section \<open>Round trip\<close>

interpretation blob_version_enum: rust_enum blob_version_i32 blob_version_variants
proof
  show "set blob_version_variants = UNIV"
    using blob_version.exhaust by (auto simp: blob_version_variants_def)
  show "i32_range (blob_version_i32 v)" for v
    by (cases v) (simp add: i32_range_def)
qed (simp add: blob_version_variants_def)

lemma hold_slot_Ok: "hold_slot ops slot m sr = (Ok x, out) \<longleftrightarrow> m sr = (Ok x, out)"
  by (auto simp: hold_slot_def split: prod.splits res.splits)

lemma encrypt_with_Ok:
  assumes "encrypt_with lib cose aes kdf fill root_key ctx blob hs slot sdd (s, r) = (Ok eb, (s', r'))"
  obtains kdi kek pt ct where "s' = s" "fill r 32 = (kdi, r')"
    "derive_kek lib kdf root_key kdi (pkb_characteristics blob) hs sdd = Ok kek"
    "into_vec lib key_material_to_cbor (pkb_key_material blob) = Ok pt"
    "seal aes kek pt (cose_aad cose) = Ok ct"
    "eb = EncryptedKeyBlob_V1 \<lparr>ekb_characteristics = pkb_characteristics blob,
        ekb_key_derivation_input = kdi, ekb_kek_context = ctx,
        ekb_encrypted_key_material = cose_new cose ct, ekb_secure_deletion_slot = slot\<rparr>"
  using assms unfolding encrypt_with_def by (auto simp: res_simps split: prod.splits)

lemma encrypt_Ok:
  assumes mgr: "mgr_ok sdd_mgr minv s"
    and enc: "encrypt lib cose sec_level sdd_mgr aes kdf fill root_key ctx blob hs purpose (s, r) = (Ok eb, (s', r'))"
  obtains slot sdd r1 where "blob_secret sdd_mgr s' slot = Ok sdd"
    "encrypt_with lib cose aes kdf fill root_key ctx blob hs slot sdd (s', r1) = (Ok eb, (s', r'))"
    "mgr_ok sdd_mgr minv s'" "pred_option sdd_wf sdd"
proof -
  let ?run = "encrypt_with lib cose aes kdf fill root_key ctx blob hs"
  obtain chars where chars: "pkb_characteristics_at blob sec_level = Ok chars"
    using enc by (auto simp: encrypt_def res_simps)
  have same: "t' = t" if "?run slot sdd (t, r1) = (Ok eb, (t', r'))" for slot sdd t t' r1
    by (rule encrypt_with_Ok [OF that])
  show thesis
  proof (cases sdd_mgr)
    case None
    then have run: "?run None None (s, r) = (Ok eb, (s', r'))"
      using enc chars by (cases "requires_sdd chars") (simp_all add: encrypt_def)
    show thesis
      using run same [OF run] None by (intro that [of None None r]) (simp_all add: blob_secret_def mgr_ok_def)
  next
    case (Some mgr)
    then have m: "sdd_manager mgr minv" "minv s"
      using mgr by (simp_all add: mgr_ok_def)
    show thesis
    proof (cases "requires_sdd chars")
      case True
      then obtain slot sdd t r1 where new: "sm_new_secret mgr purpose (s, r) = (Ok (slot, sdd), (t, r1))"
        and run: "?run (Some slot) (Some sdd) (t, r1) = (Ok eb, (s', r'))"
        using enc chars Some by (auto simp: encrypt_def res_simps hold_slot_Ok)
      have "minv t"
        using sdd_manager.inv_new_secret [OF m, of purpose r] new by simp
      then show thesis
        using run same [OF run] Some m sdd_manager.new_secret_Ok [OF m new]
        by (intro that [of "Some slot" "Some sdd" r1]) (simp_all add: blob_secret_def mgr_ok_def)
    next
      case False
      then obtain sdd t r1 where new: "sm_get_or_create mgr (s, r) = (Ok sdd, (t, r1))"
        and run: "?run None (Some sdd) (t, r1) = (Ok eb, (s', r'))"
        using enc chars Some by (auto simp: encrypt_def res_simps)
      have "minv t"
        using sdd_manager.inv_get_or_create [OF m, of r] new by simp
      then show thesis
        using run same [OF run] Some m sdd_manager.get_or_create_Ok [OF m new]
        by (intro that [of None "Some sdd" r1]) (simp_all add: blob_secret_def mgr_ok_def)
    qed
  qed
qed

lemma decrypt_sealed:
  assumes "cbor_lib_works lib" "aead_works aes" "pkb_wf blob"
    and "blob_secret sdd_mgr s (ekb_secure_deletion_slot b) = Ok sdd"
    and "derive_kek lib kdf root_key (ekb_key_derivation_input b) (ekb_characteristics b) hs sdd = Ok kek"
    and "into_vec lib key_material_to_cbor (pkb_key_material blob) = Ok pt"
    and "seal aes kek pt (cose_aad cose) = Ok ct"
    and "cose_ciphertext cose (ekb_encrypted_key_material b) = Some ct"
    and "cose_aad_of cose (ekb_encrypted_key_material b) = cose_aad cose"
    and "ekb_characteristics b = pkb_characteristics blob"
  shows "decrypt lib cose sdd_mgr s aes kdf root_key (EncryptedKeyBlob_V1 b) hs = Ok blob"
proof -
  have "unseal aes kek ct (cose_aad cose) = Ok pt"
    using assms(2,7) by (simp add: aead_works_def)
  moreover have "from_slice lib key_material_from_cbor pt = Ok (pkb_key_material blob)"
    using key_material_codec.bytes_round_trip [OF assms(1), of "pkb_key_material blob"] assms(3,6)
    by (auto simp: pkb_wf_def)
  ultimately show ?thesis
    using assms by simp
qed

lemma ekb_round_trip:
  assumes "cbor_lib_works lib" "cbor_fits 12 (ekb_to_cbor cose (EncryptedKeyBlob_V1 b))"
    and "characteristics_wf (ekb_characteristics b)" "length (ekb_key_derivation_input b) = 32"
    and "cose_from_cbor cose (cose_to_cbor cose (ekb_encrypted_key_material b)) = Ok c"
  obtains bs where "into_vec lib (ekb_to_cbor cose) (EncryptedKeyBlob_V1 b) = Ok bs"
    "encrypted_key_blob_new lib cose bs = Ok (EncryptedKeyBlob_V1 (b\<lparr>ekb_encrypted_key_material := c\<rparr>))"
proof -
  obtain bs where bs: "cl_write lib (ekb_to_cbor cose (EncryptedKeyBlob_V1 b)) = Some bs"
    "cl_read lib bs = Some (ekb_to_cbor cose (EncryptedKeyBlob_V1 b), [])"
    using assms(1,2) unfolding cbor_lib_works_def by (metis append_Nil2)
  have "enum_from_cbor blob_version_i32 blob_version_variants (enum_to_cbor blob_version_i32 Version_V1) = Ok Version_V1"
    using cbor_codec_enum [OF blob_version_enum.rust_enum_axioms] by (simp add: cbor_codec_def)
  moreover have "option_from_cbor u32_from_cbor (option_to_cbor u32_to_cbor (ekb_secure_deletion_slot b)) =
      Ok (ekb_secure_deletion_slot b)"
    by (cases "ekb_secure_deletion_slot b")
      (simp_all add: option_to_cbor_def option_from_cbor_def u32_codec.round_trip [unfolded u32_to_cbor_def [abs_def]]
        u32_to_cbor_def [abs_def])
  ultimately have "ekb_from_cbor cose (ekb_to_cbor cose (EncryptedKeyBlob_V1 b)) =
      Ok (EncryptedKeyBlob_V1 (b\<lparr>ekb_encrypted_key_material := c\<rparr>))"
    using assms(3-5)
    by (cases b) (simp add: ekb_from_cbor_def ekb_v1_to_cbor_def ekb_v1_from_cbor_def struct5_from_cbor_def
        struct_fields_def characteristics_codec.round_trip array_from_cbor_def bytes_to_cbor_def bytes_from_cbor_def)
  then show thesis
    using that bs
    by (simp add: into_vec_def encrypted_key_blob_new_def from_slice_def read_to_value_def del: ekb_to_cbor.simps)
qed

text \<open>
  Failed encryptions leave the slots as they were; deletion and factory reset.
\<close>

context sdd_manager
begin

lemma encrypt_failed_content:
  assumes inv: "inv s"
    and enc: "encrypt lib cose sec_level (Some ops) aes kdf fill root_key ctx blob hs purpose (s, r) = (Err e, (s', r'))"
  shows "content s' = content s"
proof -
  let ?run = "encrypt_with lib cose aes kdf fill root_key ctx blob hs"
  have run: "t' = t" if "?run slot sdd (t, r1) = (res, (t', r2))" for slot sdd t r1 res t' r2
    using that by (auto simp: encrypt_with_def split: prod.splits)
  show ?thesis
  proof (cases "pkb_characteristics_at blob sec_level")
    case (Ok chars)
    show ?thesis
    proof (cases "requires_sdd chars")
      case False
      obtain res t r1 where g: "sm_get_or_create ops (s, r) = (res, (t, r1))"
        by (rule prod_cases3)
      then have "s' = t"
        using enc Ok False run by (cases res) (auto simp: encrypt_def)
      then show ?thesis
        using get_or_create_slots [OF inv, of _ r] g by (simp add: content_def fun_eq_iff)
    next
      case True
      obtain res t r1 where g: "sm_new_secret ops purpose (s, r) = (res, (t, r1))"
        by (rule prod_cases3)
      show ?thesis
      proof (cases "is_ok res")
        case False
        then have "s' = t"
          using enc Ok True g by (cases res) (auto simp: encrypt_def)
        then show ?thesis
          using new_secret_failed [OF inv g False] by (simp add: content_def fun_eq_iff)
      next
        case okr: True
        then obtain slot d where res: "res = Ok (slot, d)"
          by (auto simp: is_ok_iff)
        then have "hold_slot ops slot (?run (Some slot) (Some d)) (t, r1) = (Err e, (s', r'))"
          using enc Ok True g by (simp add: encrypt_def)
        then have "s' = snd (sm_delete_secret ops slot t)"
          by (auto simp: hold_slot_def dest: run split: prod.splits res.splits)
        then show ?thesis
          using acquire_release [OF inv g [unfolded res]] by simp
      qed
    qed
  qed (use enc in \<open>auto simp: encrypt_def\<close>)
qed

end

lemma kek_info_total:
  assumes "cbor_lib_works lib" "characteristics_wf cs" "key_params_wf hs" "pred_option sdd_wf sdd"
  shows "\<exists>i. kek_info lib kdi cs hs sdd = Ok i"
proof -
  obtain c where "into_vec lib (vec_to_cbor key_characteristics_to_cbor) cs = Ok c"
    by (rule characteristics_codec.bytes_round_trip [OF assms(1,2)]) auto
  moreover obtain h where "into_vec lib (vec_to_cbor key_param_to_cbor) hs = Ok h"
    by (rule key_params_codec.bytes_round_trip [OF assms(1,3)]) auto
  moreover have "\<exists>b. into_vec lib sdd_to_cbor d = Ok b" if "sdd = Some d" for d
    using sdd_codec.bytes_round_trip [OF assms(1), of d] assms(4) that by auto
  ultimately show ?thesis
    by (auto simp: kek_info_def split: option.splits)
qed

lemma encrypt_with_total:
  assumes "cbor_lib_works lib" "aead_works aes" "hmac_works hmac h" "pkb_wf blob" "key_params_wf hs" "pred_option sdd_wf sdd"
  shows "\<exists>eb. encrypt_with lib cose aes (kdf_of_hmac hmac) fill (Explicit k) ctx blob hs slot sdd (s, r) =
    (Ok eb, (s, snd (fill r 32)))"
proof -
  obtain kdi r' where r: "fill r 32 = (kdi, r')"
    by (rule prod.exhaust)
  obtain key where k: "k = HmacKey key"
    by (cases k)
  obtain i where "kek_info lib kdi (pkb_characteristics blob) hs sdd = Ok i"
    using kek_info_total [OF assms(1) _ assms(5,6)] assms(4) by (auto simp: pkb_wf_def)
  then obtain kek where "derive_kek lib (kdf_of_hmac hmac) (Explicit k) kdi (pkb_characteristics blob) hs sdd = Ok (Explicit kek)"
    using hkdf_aes_ok [OF assms(3), of key i Variant_Aes256] by (auto simp: derive_kek_def k kdf_of_hmac_def)
  moreover obtain pt where "into_vec lib key_material_to_cbor (pkb_key_material blob) = Ok pt"
    using key_material_codec.bytes_round_trip [OF assms(1), of "pkb_key_material blob"] assms(4)
    by (auto simp: pkb_wf_def)
  moreover obtain ct where "seal aes (Explicit kek) pt (cose_aad cose) = Ok ct"
    using assms(2) unfolding aead_works_def by blast
  ultimately show ?thesis
    using r by (simp add: encrypt_with_def)
qed

text \<open>Whether a secret for the blob can be had.\<close>

definition secret_available ::
  "('s, 'r) sdd_ops option \<Rightarrow> bool \<Rightarrow> slot_purpose \<Rightarrow> 's \<times> 'r \<Rightarrow> bool" where
  "secret_available sdd_mgr needed purpose sr \<longleftrightarrow>
     (case sdd_mgr of
        None \<Rightarrow> \<not> needed
      | Some mgr \<Rightarrow> if needed then is_ok (fst (sm_new_secret mgr purpose sr)) else is_ok (fst (sm_get_or_create mgr sr)))"

lemma encrypt_ok_iff:
  assumes works: "cbor_lib_works lib" "aead_works aes" "hmac_works hmac h"
    and wf: "pkb_wf blob" "key_params_wf hs"
    and mgr: "mgr_ok sdd_mgr minv s" and chars: "pkb_characteristics_at blob sec_level = Ok chars"
  shows "is_ok (fst (encrypt lib cose sec_level sdd_mgr aes (kdf_of_hmac hmac) fill (Explicit k) ctx blob hs purpose (s, r)))
    \<longleftrightarrow> secret_available sdd_mgr (requires_sdd chars) purpose (s, r)"
proof -
  note run = encrypt_with_total [OF works wf]
  show ?thesis
  proof (cases sdd_mgr)
    case None
    then show ?thesis
      using chars run [of None cose fill k ctx None s r]
      by (cases "requires_sdd chars") (auto simp: encrypt_def secret_available_def)
  next
    case (Some mgr)
    then have m: "sdd_manager mgr minv" "minv s"
      using mgr by (simp_all add: mgr_ok_def)
    show ?thesis
    proof (cases "requires_sdd chars")
      case True
      obtain res t r1 where g: "sm_new_secret mgr purpose (s, r) = (res, (t, r1))"
        by (rule prod_cases3)
      show ?thesis
      proof (cases res)
        case (Ok x)
        then obtain slot d where x: "sm_new_secret mgr purpose (s, r) = (Ok (slot, d), (t, r1))"
          using g by (cases x) simp
        then have "sdd_wf d"
          using sdd_manager.new_secret_Ok [OF m x] by simp
        then show ?thesis
          using run [of "Some d" cose fill k ctx "Some slot" t r1] x Some True chars
          by (auto simp: encrypt_def secret_available_def hold_slot_def)
      qed (use g Some True chars in \<open>simp_all add: encrypt_def secret_available_def\<close>)
    next
      case False
      obtain res t r1 where g: "sm_get_or_create mgr (s, r) = (res, (t, r1))"
        by (rule prod_cases3)
      show ?thesis
      proof (cases res)
        case (Ok d)
        then have "sdd_wf d"
          using sdd_manager.get_or_create_Ok [OF m, of r] g by blast
        then show ?thesis
          using run [of "Some d" cose fill k ctx None t r1] g Ok Some False chars
          by (auto simp: encrypt_def secret_available_def)
      qed (use g Some False chars in \<open>simp_all add: encrypt_def secret_available_def\<close>)
    qed
  qed
qed

text \<open>Decryption depends on the manager only through the secret of the blob.\<close>

lemma decrypt_no_secret:
  "\<not> is_ok (blob_secret mgr s (secure_deletion_slot eb)) \<Longrightarrow> \<not> is_ok (decrypt lib cose mgr s aes kdf root_key eb hs)"
  by (cases eb; cases "blob_secret mgr s (secure_deletion_slot eb)") simp_all

lemma decrypt_same_secret:
  "blob_secret mgr s (secure_deletion_slot eb) = blob_secret mgr t (secure_deletion_slot eb) \<Longrightarrow>
     decrypt lib cose mgr s aes kdf root_key eb hs = decrypt lib cose mgr t aes kdf root_key eb hs"
  by (cases eb) simp

lemma is_ok_map_ok [simp]: "is_ok (map_ok f m) \<longleftrightarrow> is_ok m"
  by (cases m) simp_all

context sdd_manager
begin

lemma blob_secret_deleted:
  "inv s \<Longrightarrow> is_ok (sm_get_secret ops slot s) \<Longrightarrow>
     \<not> is_ok (blob_secret (Some ops) (snd (sm_delete_secret ops slot s)) (Some slot))"
  using delete_secret_gone by (simp add: blob_secret_def)

lemma blob_secret_reset: "inv s \<Longrightarrow> \<not> is_ok (blob_secret (Some ops) (sm_delete_all ops s) sl)"
  using delete_all_gone by (simp add: blob_secret_def split: option.splits)

lemma blob_secret_others:
  assumes "inv s" "is_ok (sm_get_factory ops s)" "sl \<noteq> Some slot"
  shows "blob_secret (Some ops) (snd (sm_delete_secret ops slot s)) sl = blob_secret (Some ops) s sl"
proof (cases sl)
  case None
  then show ?thesis
    using factory_kept [OF assms(1)] assms(2) by (auto simp: blob_secret_def is_ok_iff)
next
  case (Some t)
  then show ?thesis
    using delete_secret_others [OF assms(1), of t slot] assms(3) by (simp add: blob_secret_def)
qed

end

section \<open>Concrete instances\<close>

text \<open>A cipher that does not encrypt, and the COSE structures of RFC 9052 for A256GCM.\<close>

definition plain_aead :: "unit aead_impl" where
  "plain_aead = \<lparr>aead_begin = (\<lambda>_ _ _. Ok ()), aead_update_aad = (\<lambda>_ _. Ok ()),
     aead_update = (\<lambda>_ d. Ok (d, ())), aead_finish = (\<lambda>_. Ok [])\<rparr>"

lemma plain_aead_works: "aead_works plain_aead"
  by (simp add: aead_works_def seal_def unseal_def plain_aead_def)

definition rfc9052 :: "cbor cose_lib" where
  "rfc9052 = (let prot = [0xa1, 0x01, 0x03] in
     \<lparr>cose_new = (\<lambda>ct. Cbor_Array [Cbor_Bytes prot, Cbor_Map [], Cbor_Bytes ct]),
      cose_aad = cbor_enc (Cbor_Array [Cbor_Text ''Encrypt0'', Cbor_Bytes prot, Cbor_Bytes []]),
      cose_aad_of = (\<lambda>c. case c of Cbor_Array (Cbor_Bytes p # _) \<Rightarrow>
          cbor_enc (Cbor_Array [Cbor_Text ''Encrypt0'', Cbor_Bytes p, Cbor_Bytes []]) | _ \<Rightarrow> []),
      cose_ciphertext = (\<lambda>c. case c of Cbor_Array [_, _, Cbor_Bytes ct] \<Rightarrow> Some ct | _ \<Rightarrow> None),
      cose_to_cbor = id, cose_from_cbor = Ok\<rparr>)"

lemma rfc9052_works: "cose_lib_works rfc9052"
  by (simp add: cose_lib_works_def rfc9052_def)

definition ex_key_blob :: plaintext_key_blob where
  "ex_key_blob = \<lparr>pkb_characteristics =
       [\<lparr>kc_security_level = SecurityLevel_TrustedEnvironment, kc_authorizations = [KP_RollbackResistance]\<rparr>],
     pkb_key_material = Material_Hmac (Explicit (HmacKey [1, 2, 3, 4, 5, 6, 7, 8]))\<rparr>"

abbreviation "ex_mgr \<equiv> mem_sdd noop_fill"

abbreviation "ex_encrypt mgr \<equiv> encrypt rfc8949 rfc9052 SecurityLevel_TrustedEnvironment mgr plain_aead
  (kdf_of_hmac pad_hmac) noop_fill (Explicit (HmacKey [9])) [] ex_key_blob [KP_ApplicationId [7]] Slot_KeyGeneration"

lemma ex_key_blob_wf: "pkb_wf ex_key_blob"
  by (simp add: pkb_wf_def ex_key_blob_def characteristics_wf_def key_characteristics_wf_def key_params_wf_def)

lemma ex_characteristics:
  "pkb_characteristics_at ex_key_blob SecurityLevel_TrustedEnvironment = Ok [KP_RollbackResistance]"
  by (simp add: pkb_characteristics_at_def ex_key_blob_def characteristics_at_def)

lemma ex_material_short:
  "into_vec rfc8949 key_material_to_cbor (pkb_key_material ex_key_blob) = Ok pt \<Longrightarrow> length pt < 100"
  by (auto simp: ex_key_blob_def rfc8949_def into_vec_def material_to_cbor_def bytes_to_cbor_def
    enum_to_cbor_def bool_to_cbor_def cbor_head_def)

lemma ex_mgr_ok: "mgr_ok (Some ex_mgr) mem_inv (mem_default 2)"
  by (simp add: mgr_ok_def noop_rng.mem_sdd_manager mem_default_inv)

lemma ex_new_secret:
  "sm_new_secret ex_mgr p (mem_default 2, ()) =
     (Ok (0, \<lparr>sdd_factory_reset_secret = replicate 32 0, sdd_secure_deletion_secret = replicate 16 0\<rparr>),
      (\<lparr>ms_factory = Some (replicate 32 0), ms_slots =
          [Some \<lparr>sdd_factory_reset_secret = replicate 32 0, sdd_secure_deletion_secret = replicate 16 0\<rparr>, None]\<rparr>, ()))"
  by (simp add: mem_sdd_def mem_new_secret_def mem_default_def mem_get_or_create_def mem_get_factory_def
    noop_fill_def numeral_2_eq_2 Let_def)

lemma ex_encrypts: "\<exists>eb s'. ex_encrypt (Some ex_mgr) (mem_default 2, ()) = (Ok eb, (s', ()))"
proof -
  have "is_ok (fst (ex_encrypt (Some ex_mgr) (mem_default 2, ())))"
    using encrypt_ok_iff [OF rfc8949_works plain_aead_works pad_hmac_works ex_key_blob_wf _ ex_mgr_ok ex_characteristics,
      of "[KP_ApplicationId [7]]"]
    by (simp add: requires_sdd_def secret_available_def ex_new_secret key_params_wf_def)
  then show ?thesis
    by (cases "ex_encrypt (Some ex_mgr) (mem_default 2, ())") (auto simp: is_ok_iff)
qed

lemma ex_encrypt_fits:
  assumes "ex_encrypt (Some ex_mgr) (mem_default 2, ()) = (Ok eb, (s', r'))"
  shows "cbor_fits 12 (ekb_to_cbor rfc9052 eb)"
proof -
  obtain slot sdd r1 where run: "encrypt_with rfc8949 rfc9052 plain_aead (kdf_of_hmac pad_hmac) noop_fill (Explicit (HmacKey [9]))
      [] ex_key_blob [KP_ApplicationId [7]] slot sdd (s', r1) = (Ok eb, (s', r'))"
    by (rule encrypt_Ok [OF ex_mgr_ok assms])
  obtain kdi kek pt ct where f: "noop_fill r1 32 = (kdi, r')"
    and pt: "into_vec rfc8949 key_material_to_cbor (pkb_key_material ex_key_blob) = Ok pt"
    and ct: "seal plain_aead kek pt (cose_aad rfc9052) = Ok ct"
    and eb: "eb = EncryptedKeyBlob_V1 \<lparr>ekb_characteristics = pkb_characteristics ex_key_blob,
        ekb_key_derivation_input = kdi, ekb_kek_context = [],
        ekb_encrypted_key_material = cose_new rfc9052 ct, ekb_secure_deletion_slot = slot\<rparr>"
    by (rule encrypt_with_Ok [OF run])
  have "ct = pt" "length kdi = 32"
    using ct f by (auto simp: seal_def plain_aead_def noop_fill_def)
  moreover have "cbor_fits 10 (vec_to_cbor key_characteristics_to_cbor (pkb_characteristics ex_key_blob))"
    using ex_key_blob_wf by (intro characteristics_codec.fits_in) (simp_all add: pkb_wf_def)
  ultimately show ?thesis
    using ex_material_short [OF pt]
    by (cases slot) (simp_all add: eb ekb_v1_to_cbor_def rfc9052_def enum_to_cbor_def bytes_to_cbor_def
      option_to_cbor_def u32_codec.fits_in)
qed

section \<open>Properties\<close>

lemma encrypt_decrypts:
  assumes "cbor_lib_works lib" "cose_lib_works cose" "aead_works aes" "rng fill"
    and "mgr_ok sdd_mgr minv s" "pkb_wf blob"
    and "encrypt lib cose sec_level sdd_mgr aes kdf fill root_key ctx blob hs purpose (s, r) = (Ok eb, (s', r'))"
    and "cbor_fits 12 (ekb_to_cbor cose eb)"
  shows "\<exists>bs eb'. into_vec lib (ekb_to_cbor cose) eb = Ok bs \<and> encrypted_key_blob_new lib cose bs = Ok eb'
     \<and> decrypt lib cose sdd_mgr s' aes kdf root_key eb' hs = Ok blob \<and> kek_context eb' = ctx"
proof -
  obtain slot sdd r1 where secret: "blob_secret sdd_mgr s' slot = Ok sdd"
    and run: "encrypt_with lib cose aes kdf fill root_key ctx blob hs slot sdd (s', r1) = (Ok eb, (s', r'))"
    by (rule encrypt_Ok [OF assms(5,7)])
  obtain kdi kek pt ct where f: "fill r1 32 = (kdi, r')"
    and k: "derive_kek lib kdf root_key kdi (pkb_characteristics blob) hs sdd = Ok kek"
      "into_vec lib key_material_to_cbor (pkb_key_material blob) = Ok pt"
      "seal aes kek pt (cose_aad cose) = Ok ct"
    and eb: "eb = EncryptedKeyBlob_V1 \<lparr>ekb_characteristics = pkb_characteristics blob,
        ekb_key_derivation_input = kdi, ekb_kek_context = ctx,
        ekb_encrypted_key_material = cose_new cose ct, ekb_secure_deletion_slot = slot\<rparr>"
    by (rule encrypt_with_Ok [OF run])
  let ?b = "\<lparr>ekb_characteristics = pkb_characteristics blob, ekb_key_derivation_input = kdi, ekb_kek_context = ctx,
        ekb_encrypted_key_material = cose_new cose ct, ekb_secure_deletion_slot = slot\<rparr>"
  have kdi: "length kdi = 32"
    using rng.length_fill [OF assms(4), of r1 32] f by simp
  obtain c where c: "cose_from_cbor cose (cose_to_cbor cose (cose_new cose ct)) = Ok c"
    "cose_aad_of cose c = cose_aad cose" "cose_ciphertext cose c = Some ct"
    using assms(2) unfolding cose_lib_works_def by blast
  obtain bs where "into_vec lib (ekb_to_cbor cose) eb = Ok bs"
    "encrypted_key_blob_new lib cose bs = Ok (EncryptedKeyBlob_V1 (?b\<lparr>ekb_encrypted_key_material := c\<rparr>))"
    using ekb_round_trip [OF assms(1), of cose ?b c] assms(6,8) kdi c(1) eb by (auto simp: pkb_wf_def)
  moreover have "decrypt lib cose sdd_mgr s' aes kdf root_key
      (EncryptedKeyBlob_V1 (?b\<lparr>ekb_encrypted_key_material := c\<rparr>)) hs = Ok blob"
    by (rule decrypt_sealed [OF assms(1,3,6)]) (use secret k c in simp_all)
  moreover have "kek_context (EncryptedKeyBlob_V1 (?b\<lparr>ekb_encrypted_key_material := c\<rparr>)) = ctx"
    by simp
  ultimately show ?thesis
    by blast
qed

text \<open>
  C6: A key blob that was encrypted and serialized is parsed and decrypted to the same key
  material and characteristics, in the state of the secret manager that encryption leaves behind,
  for every key, with and without a manager, and whether or not the key needs a deletion slot.
\<close>

theorem keyblob_round_trip:
  assumes "cbor_lib_works lib" "cose_lib_works cose" "aead_works aes" "rng fill"
    and "mgr_ok sdd_mgr minv s" "pkb_wf blob"
    and "encrypt lib cose sec_level sdd_mgr aes kdf fill root_key ctx blob hs purpose (s, r) = (Ok eb, (s', r'))"
    and "cbor_fits 12 (ekb_to_cbor cose eb)"
  shows "\<exists>bs eb'. into_vec lib (ekb_to_cbor cose) eb = Ok bs \<and> encrypted_key_blob_new lib cose bs = Ok eb'
     \<and> decrypt lib cose sdd_mgr s' aes kdf root_key eb' hs = Ok blob"
  using encrypt_decrypts [OF assms] by blast

theorem keyblob_round_trip_witness:
  "\<exists>eb s' bs eb'. ex_encrypt (Some ex_mgr) (mem_default 2, ()) = (Ok eb, (s', ()))
     \<and> into_vec rfc8949 (ekb_to_cbor rfc9052) eb = Ok bs \<and> encrypted_key_blob_new rfc8949 rfc9052 bs = Ok eb'
     \<and> decrypt rfc8949 rfc9052 (Some ex_mgr) s' plain_aead (kdf_of_hmac pad_hmac) (Explicit (HmacKey [9])) eb'
         [KP_ApplicationId [7]] = Ok ex_key_blob"
proof -
  obtain eb s' where enc: "ex_encrypt (Some ex_mgr) (mem_default 2, ()) = (Ok eb, (s', ()))"
    using ex_encrypts by blast
  show ?thesis
    using keyblob_round_trip [OF rfc8949_works rfc9052_works plain_aead_works noop_rng.rng_axioms ex_mgr_ok
        ex_key_blob_wf enc ex_encrypt_fits [OF enc]] enc
    by blast
qed

text \<open>
  C15: When the key derivation and the cipher work, encryption fails only for want of a secret: it
  succeeds if and only if the key needs no deletion slot and there is no manager, or the manager
  that there is gives the secret (a new slot, or the factory reset secret).
\<close>

theorem encrypt_succeeds_iff:
  assumes "cbor_lib_works lib" "aead_works aes" "hmac_works hmac h" "pkb_wf blob" "key_params_wf hs"
    and "mgr_ok sdd_mgr minv s" "pkb_characteristics_at blob sec_level = Ok chars"
  shows "is_ok (fst (encrypt lib cose sec_level sdd_mgr aes (kdf_of_hmac hmac) fill (Explicit k) ctx blob hs purpose (s, r)))
    \<longleftrightarrow> secret_available sdd_mgr (requires_sdd chars) purpose (s, r)"
  using assms by (rule encrypt_ok_iff)

theorem encrypt_succeeds_iff_witness:
  "\<not> is_ok (fst (ex_encrypt None (mem_default 2, ())))"
  using encrypt_succeeds_iff [OF rfc8949_works plain_aead_works pad_hmac_works ex_key_blob_wf _ _ ex_characteristics,
      of "[KP_ApplicationId [7]]" None mem_inv "mem_default 2"]
  by (simp add: requires_sdd_def secret_available_def key_params_wf_def mgr_ok_def)

text \<open>
  C13: An encryption that fails leaves every deletion slot as it was before: the slot that it took
  is given back on every error path.
\<close>

theorem encrypt_failure_releases_slot:
  assumes "sdd_manager mgr minv" "minv s"
    and "encrypt lib cose sec_level (Some mgr) aes kdf fill root_key ctx blob hs purpose (s, r) = (Err e, (s', r'))"
  shows "sm_get_secret mgr t s' = Ok d \<longleftrightarrow> sm_get_secret mgr t s = Ok d"
  using fun_cong [OF sdd_manager.encrypt_failed_content [OF assms], of t]
  by (auto simp: sdd_manager.content_def [OF assms(1)] split: res.splits)

text \<open>A root key that the derivation refuses makes encryption fail after the slot is taken.\<close>

lemma ex_encrypt_opaque_fails:
  "\<exists>s'. encrypt rfc8949 rfc9052 SecurityLevel_TrustedEnvironment (Some ex_mgr) plain_aead (kdf_of_hmac pad_hmac)
     noop_fill (Opaque []) [] ex_key_blob [] Slot_KeyGeneration (mem_default 2, ()) =
     (Err (Hal IncompatibleKeyFormat), (s', ()))"
proof -
  obtain i where "kek_info rfc8949 (replicate 32 0) (pkb_characteristics ex_key_blob) []
      (Some \<lparr>sdd_factory_reset_secret = replicate 32 0, sdd_secure_deletion_secret = replicate 16 0\<rparr>) = Ok i"
    using kek_info_total [OF rfc8949_works] ex_key_blob_wf by (force simp: pkb_wf_def key_params_wf_def sdd_wf_def)
  then have "derive_kek rfc8949 (kdf_of_hmac pad_hmac) (Opaque []) (replicate 32 0) (pkb_characteristics ex_key_blob) []
      (Some \<lparr>sdd_factory_reset_secret = replicate 32 0, sdd_secure_deletion_secret = replicate 16 0\<rparr>) =
      Err (Hal IncompatibleKeyFormat)"
    by (simp add: derive_kek_def kdf_of_hmac_def expand_aes_def hkdf_expand_def pad_hmac_def)
  moreover have "sm_delete_secret ex_mgr = mem_delete_secret"
    by (simp add: mem_sdd_def)
  ultimately show ?thesis
    by (simp add: encrypt_def ex_characteristics requires_sdd_def ex_new_secret hold_slot_def encrypt_with_def noop_fill_def
        mem_delete_secret_def)
qed

theorem encrypt_failure_releases_slot_witness:
  "\<exists>s'. encrypt rfc8949 rfc9052 SecurityLevel_TrustedEnvironment (Some ex_mgr) plain_aead (kdf_of_hmac pad_hmac)
     noop_fill (Opaque []) [] ex_key_blob [] Slot_KeyGeneration (mem_default 2, ()) =
     (Err (Hal IncompatibleKeyFormat), (s', ())) \<and> (\<forall>t d. sm_get_secret ex_mgr t s' = Ok d \<longleftrightarrow>
       sm_get_secret ex_mgr t (mem_default 2) = Ok d)"
proof -
  obtain s' where e: "encrypt rfc8949 rfc9052 SecurityLevel_TrustedEnvironment (Some ex_mgr) plain_aead (kdf_of_hmac pad_hmac)
     noop_fill (Opaque []) [] ex_key_blob [] Slot_KeyGeneration (mem_default 2, ()) = (Err (Hal IncompatibleKeyFormat), (s', ()))"
    using ex_encrypt_opaque_fails by blast
  have "mem_inv (mem_default 2)"
    by (simp add: mem_default_inv)
  from encrypt_failure_releases_slot [OF noop_rng.mem_sdd_manager this e] e show ?thesis
    by blast
qed

text \<open>
  C12: Deletion is precise.  In the state right after the slot of a blob is deleted the blob no longer
  decrypts, whatever the key and the parameters offered, while every blob bound to another slot or to the
  factory reset secret decrypts as before; right after a factory reset no blob decrypts at all.
\<close>

theorem secure_deletion_effective:
  assumes "sdd_manager mgr minv" "minv s" "is_ok (sm_get_secret mgr slot s)" "is_ok (sm_get_factory mgr s)"
  shows "(secure_deletion_slot eb = Some slot \<longrightarrow>
      \<not> is_ok (decrypt lib cose (Some mgr) (snd (sm_delete_secret mgr slot s)) aes kdf root_key eb hs))
    \<and> (secure_deletion_slot eb \<noteq> Some slot \<longrightarrow>
      decrypt lib cose (Some mgr) (snd (sm_delete_secret mgr slot s)) aes kdf root_key eb hs =
      decrypt lib cose (Some mgr) s aes kdf root_key eb hs)
    \<and> \<not> is_ok (decrypt lib cose (Some mgr) (sm_delete_all mgr s) aes kdf root_key eb hs)"
  using decrypt_no_secret sdd_manager.blob_secret_deleted [OF assms(1-3)] sdd_manager.blob_secret_reset [OF assms(1,2)]
    decrypt_same_secret [OF sdd_manager.blob_secret_others [OF assms(1,2,4)]]
  by metis

abbreviation "ex_slots \<equiv> \<lparr>ms_factory = Some (replicate 32 0), ms_slots =
  [Some \<lparr>sdd_factory_reset_secret = replicate 32 0, sdd_secure_deletion_secret = replicate 16 0\<rparr>, None]\<rparr>"

theorem secure_deletion_effective_witness:
  "\<not> is_ok (decrypt rfc8949 rfc9052 (Some ex_mgr) (snd (sm_delete_secret ex_mgr 0 ex_slots)) plain_aead
      (kdf_of_hmac pad_hmac) (Explicit (HmacKey [9]))
      (EncryptedKeyBlob_V1 \<lparr>ekb_characteristics = [], ekb_key_derivation_input = replicate 32 0, ekb_kek_context = [],
        ekb_encrypted_key_material = Cbor_Null, ekb_secure_deletion_slot = Some 0\<rparr>) [])"
proof -
  have "mem_inv ex_slots" "is_ok (sm_get_secret ex_mgr 0 ex_slots)" "is_ok (sm_get_factory ex_mgr ex_slots)"
    by (simp_all add: mem_inv_def mem_sdd_def mem_get_secret_def mem_get_factory_def)
  from secure_deletion_effective [OF noop_rng.mem_sdd_manager this] show ?thesis
    by (metis encrypted_key_blob_v1.select_convs(5) secure_deletion_slot.simps)
qed

text \<open>
  C14: The context from which the key encryption key is derived determines all that the blob is bound
  to: two blobs with different nonces, characteristics, hidden parameters (application id and data,
  root of trust) or deletion secrets have different derivation contexts.
\<close>

theorem kek_info_injective:
  assumes "cbor_lib_works lib" "kek_input_wf kdi cs hs sdd" "kek_input_wf kdi' cs' hs' sdd'"
    and "kek_info lib kdi cs hs sdd = Ok i" "kek_info lib kdi' cs' hs' sdd' = Ok i"
  shows "kdi = kdi' \<and> cs = cs' \<and> hs = hs' \<and> sdd = sdd'"
  using assms by (rule kek_info_inj)

theorem kek_info_injective_witness:
  "\<exists>i j. kek_info rfc8949 (replicate 32 0) [] [] None = Ok i
     \<and> kek_info rfc8949 (replicate 32 0) [] [KP_ApplicationId [7]] None = Ok j \<and> i \<noteq> j"
proof -
  have wf: "kek_input_wf (replicate 32 0) [] [] None" "kek_input_wf (replicate 32 0) [] [KP_ApplicationId [7]] None"
    by (simp_all add: kek_input_wf_def characteristics_wf_def key_params_wf_def)
  then obtain i j where "kek_info rfc8949 (replicate 32 0) [] [] None = Ok i"
    "kek_info rfc8949 (replicate 32 0) [] [KP_ApplicationId [7]] None = Ok j"
    using kek_info_total [OF rfc8949_works] unfolding kek_input_wf_def by metis
  then show ?thesis
    using kek_info_injective [OF rfc8949_works wf] by blast
qed

end
