(* ===== verification/Tag_Keygen.thy ===== *)
theory Tag_Keygen
  imports Tag_Legacy Crypto_Types "HOL-Library.Multiset"
begin

text \<open>
  Checks at key generation and import (\<open>common/src/tag.rs\<close>, lines 267-933): the parameters that
  each algorithm requires, the parameters deduced from imported key material, and the split of the
  parameters into characteristics that KeyMint enforces and those that Keystore enforces.

  The import functions of the crypto traits are a record of functions; the parsers behind them
  belong to other libraries.
\<close>

datatype secure_storage = Storage_Available | Storage_Unavailable

record import_impl =
  imp_rsa_pkcs8 :: "bytes \<Rightarrow> key_param list \<Rightarrow> (key_material \<times> u32 \<times> u64) km"
  imp_ec_pkcs8 :: "bytes \<Rightarrow> key_param list \<Rightarrow> key_material km"
  imp_raw_ed25519 :: "bytes \<Rightarrow> key_param list \<Rightarrow> key_material km"
  imp_raw_x25519 :: "bytes \<Rightarrow> key_param list \<Rightarrow> key_material km"
  imp_aes :: "bytes \<Rightarrow> key_param list \<Rightarrow> (key_material \<times> u32) km"
  imp_des :: "bytes \<Rightarrow> key_param list \<Rightarrow> key_material km"
  imp_hmac :: "bytes \<Rightarrow> key_param list \<Rightarrow> (key_material \<times> u32) km"

section \<open>Helpers\<close>

definition require_raw :: "key_format \<Rightarrow> unit km" where
  "require_raw key_format = require (key_format = KeyFormat_Raw) (Hal UnsupportedKeyFormat)"

text \<open>
  A value that the caller may give, and that must then match the actual one; otherwise it is
  deduced.  This is the match on \<open>get_opt_tag_value!\<close> of the import checks.
\<close>

definition check_or_deduce ::
  "(key_param \<Rightarrow> 'v option) \<Rightarrow> ('v \<Rightarrow> key_param) \<Rightarrow> key_param list \<Rightarrow> 'v \<Rightarrow> key_param list km" where
  "check_or_deduce sel mk params actual =
     and_then (get_opt_tag_value sel InvalidTag params) (\<lambda>v. case v of
       Some specified \<Rightarrow> if specified \<noteq> actual then Err (Hal ImportParameterMismatch) else Ok []
     | None \<Rightarrow> Ok [mk actual])"

definition require_matching_key_size :: "key_param list \<Rightarrow> u32 \<Rightarrow> key_param list km" where
  "require_matching_key_size = check_or_deduce (sel_u32 U32_KeySize) KP_KeySize"

definition reject_tags :: "key_param list \<Rightarrow> tag list \<Rightarrow> unit km" where
  "reject_tags params exclude =
     for_each (\<lambda>p. if key_param_tag p \<in> set exclude then Err (Hal InvalidTag) else Ok ()) params"

definition reject_some_padding :: "key_param list \<Rightarrow> unit km" where
  "reject_some_padding params =
     and_then (get_opt_tag_value sel_Padding InvalidTag params) (\<lambda>v. case v of
       Some p \<Rightarrow> if p \<noteq> PaddingMode_None then Err (Hal InvalidTag) else Ok ()
     | None \<Rightarrow> Ok ())"

definition reject_some_digest :: "key_param list \<Rightarrow> unit km" where
  "reject_some_digest params =
     and_then (get_opt_tag_value sel_Digest InvalidTag params) (\<lambda>v. case v of
       Some d \<Rightarrow> if d \<noteq> Digest_None then Err (Hal InvalidTag) else Ok ()
     | None \<Rightarrow> Ok ())"

text \<open>The loop sets a flag per tag; a flag is whether some parameter has the tag.\<close>

definition seen :: "tag \<Rightarrow> key_param list \<Rightarrow> bool" where
  "seen t params = list_ex (\<lambda>p. key_param_tag p = t) params"

definition seen_purpose :: "key_purpose list \<Rightarrow> key_param list \<Rightarrow> bool" where
  "seen_purpose purposes params = list_ex (\<lambda>p. case sel_Purpose p of
     Some v \<Rightarrow> v \<in> set purposes | None \<Rightarrow> False) params"

definition reject_incompatible_auth :: "key_param list \<Rightarrow> unit km" where
  "reject_incompatible_auth params =
    (let seen_user_secure_id = seen Tag_UserSecureId params;
         seen_auth_type = seen Tag_UserAuthType params;
         seen_no_auth = seen Tag_NoAuthRequired params in
     if seen_no_auth \<and> seen_user_secure_id then Err (Hal InvalidTag)
     else if seen_no_auth \<and> seen_auth_type then Err (Hal InvalidTag)
     else if seen_user_secure_id \<and> \<not> seen_auth_type then Err (Hal InvalidTag)
     else Ok ())"

section \<open>RSA\<close>

definition check_rsa_key_size :: "u32 \<Rightarrow> security_level \<Rightarrow> unit km" where
  "check_rsa_key_size key_size sec_level =
    (if key_size = 512 \<and> sec_level \<noteq> SecurityLevel_Strongbox then Ok ()
     else if key_size = 768 \<and> sec_level \<noteq> SecurityLevel_Strongbox then Ok ()
     else if key_size = 1024 \<and> sec_level \<noteq> SecurityLevel_Strongbox then Ok ()
     else if key_size = 2048 then Ok ()
     else if key_size = 3072 \<and> sec_level \<noteq> SecurityLevel_Strongbox then Ok ()
     else if key_size = 4096 \<and> sec_level \<noteq> SecurityLevel_Strongbox then Ok ()
     else Err (Hal UnsupportedKeySize))"

definition check_rsa_params :: "key_param list \<Rightarrow> unit km" where
  "check_rsa_params params =
    (let seen_attest = seen_purpose [KeyPurpose_AttestKey] params;
         seen_non_attest = seen_purpose [KeyPurpose_Sign, KeyPurpose_Decrypt, KeyPurpose_WrapKey] params in
     if seen_attest \<and> seen_non_attest then Err (Hal IncompatiblePurpose) else Ok ())"

definition check_rsa_gen_params :: "key_param list \<Rightarrow> security_level \<Rightarrow> key_gen_info km" where
  "check_rsa_gen_params params sec_level =
     and_then (get_tag_value (sel_u32 U32_KeySize) UnsupportedKeySize params) (\<lambda>key_size.
     and_then (check_rsa_key_size key_size sec_level) (\<lambda>_.
     and_then (get_tag_value (sel_u64 U64_RsaPublicExponent) InvalidArgument params) (\<lambda>public_exponent.
     and_then (check_rsa_params params) (\<lambda>_.
     Ok (KeyGenInfo_Rsa key_size public_exponent)))))"

definition check_rsa_import_params ::
  "import_impl \<Rightarrow> key_param list \<Rightarrow> security_level \<Rightarrow> key_format \<Rightarrow> bytes \<Rightarrow>
    (key_param list \<times> key_material) km" where
  "check_rsa_import_params imp params sec_level key_format key_data =
    (if key_format \<noteq> KeyFormat_Pkcs8 then Err (Hal UnsupportedKeyFormat)
     else
       and_then (imp_rsa_pkcs8 imp key_data params) (\<lambda>(key, key_size, public_exponent).
       and_then (require_matching_key_size params key_size) (\<lambda>deduced_size.
       and_then (check_or_deduce (sel_u64 U64_RsaPublicExponent) KP_RsaPublicExponent params public_exponent)
         (\<lambda>deduced_exponent.
       and_then (check_rsa_key_size key_size sec_level) (\<lambda>_.
       and_then (check_rsa_params params) (\<lambda>_.
       Ok (deduced_size @ deduced_exponent, key)))))))"

section \<open>Elliptic curves\<close>

fun primary_purpose :: "key_param list \<Rightarrow> key_purpose km" where
  "primary_purpose [] = Err (Hal IncompatiblePurpose)"
| "primary_purpose (p # ps) = (case sel_Purpose p of Some v \<Rightarrow> Ok v | None \<Rightarrow> primary_purpose ps)"

definition check_ec_params ::
  "ec_curve \<Rightarrow> key_param list \<Rightarrow> security_level \<Rightarrow> key_purpose option km" where
  "check_ec_params curve params sec_level =
    (if sec_level = SecurityLevel_Strongbox \<and> curve \<noteq> EcCurve_P256 then Err (Hal UnsupportedEcCurve)
     else
       and_then (get_opt_tag_value (sel_u32 U32_KeySize) InvalidTag params) (\<lambda>v.
       and_then (case v of
           Some key_size \<Rightarrow> require (case curve of
               EcCurve_P224 \<Rightarrow> key_size = 224 | EcCurve_P256 \<Rightarrow> key_size = 256
             | EcCurve_P384 \<Rightarrow> key_size = 384 | EcCurve_P521 \<Rightarrow> key_size = 521
             | EcCurve_Curve25519 \<Rightarrow> key_size = 256) (Hal InvalidArgument)
         | None \<Rightarrow> Ok ()) (\<lambda>_.
       let seen_sign = seen_purpose [KeyPurpose_Sign] params;
           seen_agree = seen_purpose [KeyPurpose_AgreeKey] params;
           seen_attest = seen_purpose [KeyPurpose_AttestKey] params;
           primary = (case primary_purpose params of Ok p \<Rightarrow> Some p | _ \<Rightarrow> None) in
       if seen_attest \<and> (seen_sign \<or> seen_agree) then Err (Hal IncompatiblePurpose)
       else if curve = EcCurve_Curve25519 \<and> seen_agree \<and> (seen_sign \<or> seen_attest)
         then Err (Hal IncompatiblePurpose)
       else Ok primary)))"

definition check_ec_gen_params :: "key_param list \<Rightarrow> security_level \<Rightarrow> key_gen_info km" where
  "check_ec_gen_params params sec_level =
     and_then (get_ec_curve params) (\<lambda>ec_curve.
     and_then (check_ec_params ec_curve params sec_level) (\<lambda>purpose.
     case ec_curve of
       EcCurve_Curve25519 \<Rightarrow>
        (case purpose of
           Some KeyPurpose_Sign \<Rightarrow> Ok KeyGenInfo_Ed25519
         | Some KeyPurpose_AttestKey \<Rightarrow> Ok KeyGenInfo_Ed25519
         | Some KeyPurpose_AgreeKey \<Rightarrow> Ok KeyGenInfo_X25519
         | _ \<Rightarrow> Err (Hal IncompatiblePurpose))
     | EcCurve_P224 \<Rightarrow> Ok (KeyGenInfo_NistEc NistCurve_P224)
     | EcCurve_P256 \<Rightarrow> Ok (KeyGenInfo_NistEc NistCurve_P256)
     | EcCurve_P384 \<Rightarrow> Ok (KeyGenInfo_NistEc NistCurve_P384)
     | EcCurve_P521 \<Rightarrow> Ok (KeyGenInfo_NistEc NistCurve_P521)))"

text \<open>The key and curve found in the data, by import format.\<close>

definition ec_import_key ::
  "import_impl \<Rightarrow> key_param list \<Rightarrow> key_format \<Rightarrow> bytes \<Rightarrow> (key_material \<times> ec_curve) km" where
  "ec_import_key imp params key_format key_data = (case key_format of
     KeyFormat_Raw \<Rightarrow>
       and_then (get_ec_curve params) (\<lambda>c.
       if c = EcCurve_Curve25519 then
         and_then (primary_purpose params) (\<lambda>purpose.
         and_then (if purpose = KeyPurpose_AgreeKey then imp_raw_x25519 imp key_data params
                   else imp_raw_ed25519 imp key_data params) (\<lambda>key.
         Ok (key, EcCurve_Curve25519)))
       else Err (Hal UnsupportedKeyFormat))
   | KeyFormat_Pkcs8 \<Rightarrow>
       and_then (imp_ec_pkcs8 imp key_data params) (\<lambda>key.
       case key of
         Material_Ec curve curve_type _ \<Rightarrow>
           if curve_type = CurveType_Nist then Ok (key, curve)
           else if curve = EcCurve_Curve25519 \<and> curve_type = CurveType_EdDsa then
             and_then (primary_purpose params) (\<lambda>purpose.
             if purpose = KeyPurpose_AgreeKey then Err (Hal IncompatiblePurpose)
             else Ok (key, EcCurve_Curve25519))
           else if curve = EcCurve_Curve25519 \<and> curve_type = CurveType_Xdh then
             and_then (primary_purpose params) (\<lambda>purpose.
             if purpose \<noteq> KeyPurpose_AgreeKey then Err (Hal IncompatiblePurpose)
             else Ok (key, EcCurve_Curve25519))
           else Err (Hal ImportParameterMismatch)
       | _ \<Rightarrow> Err (Hal ImportParameterMismatch))
   | _ \<Rightarrow> Err (Hal UnsupportedKeyFormat))"

definition check_ec_import_params ::
  "import_impl \<Rightarrow> key_param list \<Rightarrow> security_level \<Rightarrow> key_format \<Rightarrow> bytes \<Rightarrow>
    (key_param list \<times> key_material) km" where
  "check_ec_import_params imp params sec_level key_format key_data =
     and_then (ec_import_key imp params key_format key_data) (\<lambda>(key, curve).
     and_then (check_or_deduce sel_EcCurve KP_EcCurve params curve) (\<lambda>deduced_curve.
     and_then (require_matching_key_size params (curve_to_key_size curve)) (\<lambda>deduced_size.
     and_then (check_ec_params curve params sec_level) (\<lambda>_.
     Ok (deduced_curve @ deduced_size, key)))))"

section \<open>AES, 3-DES and HMAC\<close>

definition check_aes_params :: "key_param list \<Rightarrow> unit km" where
  "check_aes_params params =
    (if KP_BlockMode BlockMode_Gcm \<in> set params then
       and_then (get_tag_value (sel_u32 U32_MinMacLength) MissingMinMacLength params) (\<lambda>min_mac_len.
       if min_mac_len mod 8 \<noteq> 0 \<or> \<not> (96 \<le> min_mac_len \<and> min_mac_len \<le> 128)
       then Err (Hal UnsupportedMinMacLength) else Ok ())
     else Ok ())"

definition check_aes_gen_params :: "key_param list \<Rightarrow> security_level \<Rightarrow> key_gen_info km" where
  "check_aes_gen_params params sec_level =
     and_then (get_tag_value (sel_u32 U32_KeySize) UnsupportedKeySize params) (\<lambda>key_size.
     and_then (if key_size = 128 then Ok (KeyGenInfo_Aes Variant_Aes128)
       else if key_size = 256 then Ok (KeyGenInfo_Aes Variant_Aes256)
       else if key_size = 192 \<and> sec_level \<noteq> SecurityLevel_Strongbox then Ok (KeyGenInfo_Aes Variant_Aes192)
       else Err (Hal UnsupportedKeySize)) (\<lambda>keygen_info.
     and_then (check_aes_params params) (\<lambda>_.
     Ok keygen_info)))"

definition check_aes_import_params ::
  "import_impl \<Rightarrow> key_param list \<Rightarrow> security_level \<Rightarrow> key_format \<Rightarrow> bytes \<Rightarrow>
    (key_param list \<times> key_material) km" where
  "check_aes_import_params imp params sec_level key_format key_data =
     and_then (require_raw key_format) (\<lambda>_.
     and_then (imp_aes imp key_data params) (\<lambda>(key, key_size).
     if key_size = 192 \<and> sec_level = SecurityLevel_Strongbox then Err (Hal UnsupportedKeySize)
     else
       and_then (require_matching_key_size params key_size) (\<lambda>deduced_chars.
       and_then (check_aes_params params) (\<lambda>_.
       Ok (deduced_chars, key)))))"

definition check_3des_gen_params :: "key_param list \<Rightarrow> key_gen_info km" where
  "check_3des_gen_params params =
     and_then (get_tag_value (sel_u32 U32_KeySize) UnsupportedKeySize params) (\<lambda>key_size.
     if key_size \<noteq> 168 then Err (Hal UnsupportedKeySize) else Ok KeyGenInfo_TripleDes)"

definition check_3des_import_params ::
  "import_impl \<Rightarrow> key_param list \<Rightarrow> key_format \<Rightarrow> bytes \<Rightarrow> (key_param list \<times> key_material) km" where
  "check_3des_import_params imp params key_format key_data =
     and_then (require_raw key_format) (\<lambda>_.
     and_then (imp_des imp key_data params) (\<lambda>key.
     and_then (require_matching_key_size params des_KEY_SIZE_BITS) (\<lambda>deduced_chars.
     Ok (deduced_chars, key))))"

definition check_hmac_params :: "key_param list \<Rightarrow> security_level \<Rightarrow> u32 \<Rightarrow> unit km" where
  "check_hmac_params params sec_level key_size =
     and_then (if sec_level = SecurityLevel_Strongbox then valid_strongbox_hal_size key_size
               else valid_hal_size key_size) (\<lambda>_.
     and_then (get_tag_value sel_Digest UnsupportedDigest params) (\<lambda>digest.
     if digest = Digest_None then Err (Hal UnsupportedDigest)
     else
       and_then (get_tag_value (sel_u32 U32_MinMacLength) MissingMinMacLength params) (\<lambda>min_mac_len.
       if min_mac_len mod 8 \<noteq> 0 \<or> \<not> (64 \<le> min_mac_len \<and> min_mac_len \<le> 512)
       then Err (Hal UnsupportedMinMacLength) else Ok ())))"

definition check_hmac_gen_params :: "key_param list \<Rightarrow> security_level \<Rightarrow> key_gen_info km" where
  "check_hmac_gen_params params sec_level =
     and_then (get_tag_value (sel_u32 U32_KeySize) UnsupportedKeySize params) (\<lambda>key_size.
     and_then (check_hmac_params params sec_level key_size) (\<lambda>_.
     Ok (KeyGenInfo_Hmac key_size)))"

definition check_hmac_import_params ::
  "import_impl \<Rightarrow> key_param list \<Rightarrow> security_level \<Rightarrow> key_format \<Rightarrow> bytes \<Rightarrow>
    (key_param list \<times> key_material) km" where
  "check_hmac_import_params imp params sec_level key_format key_data =
     and_then (require_raw key_format) (\<lambda>_.
     and_then (imp_hmac imp key_data params) (\<lambda>(key, key_size).
     and_then (require_matching_key_size params key_size) (\<lambda>deduced_chars.
     and_then (check_hmac_params params sec_level key_size) (\<lambda>_.
     Ok (deduced_chars, key)))))"

section \<open>Characteristics of a new key\<close>

text \<open>One step of the loop that distributes the parameters.\<close>

definition distribute_param ::
  "secure_storage \<Rightarrow> security_level \<Rightarrow> key_param \<Rightarrow> key_param list \<times> key_param list \<Rightarrow>
    (key_param list \<times> key_param list) km" where
  "distribute_param secure_storage sec_level param = (\<lambda>(chars, keystore_chars).
     let tag = key_param_tag param in
     if tag \<in> set AUTO_ADDED_CHARACTERISTICS then Err (Hal InvalidTag)
     else if sec_level = SecurityLevel_Strongbox \<and> tag \<in> set [Tag_MaxUsesPerBoot, Tag_RollbackResistance]
       then Err (Hal InvalidTag)
     else let (chars, keystore_chars) = (case param of
           KP_U32 U32_UsageCountLimit use_limit \<Rightarrow>
             if use_limit = 1 \<and> secure_storage = Storage_Available
             then (chars @ [KP_UsageCountLimit use_limit], keystore_chars)
             else (chars, keystore_chars @ [KP_UsageCountLimit use_limit])
         | _ \<Rightarrow> (chars, keystore_chars)) in
       if tag \<in> set KEYMINT_ENFORCED_CHARACTERISTICS then Ok (chars @ [param], keystore_chars)
       else if tag \<in> set KEYSTORE_ENFORCED_CHARACTERISTICS then Ok (chars, keystore_chars @ [param])
       else Ok (chars, keystore_chars))"

definition extract_key_characteristics ::
  "secure_storage \<Rightarrow> key_param list \<Rightarrow> key_param list \<Rightarrow> security_level \<Rightarrow> key_characteristics list km" where
  "extract_key_characteristics secure_storage params extra_params sec_level =
     and_then (fold_res (distribute_param secure_storage sec_level) (params @ extra_params) ([], []))
       (\<lambda>(chars, keystore_chars).
     and_then (reject_incompatible_auth chars) (\<lambda>_.
     let chars = sort_by param_le chars; keystore_chars = sort_by param_le keystore_chars in
     Ok (\<lparr>kc_security_level = sec_level, kc_authorizations = chars\<rparr> #
         (if keystore_chars = [] then []
          else [\<lparr>kc_security_level = SecurityLevel_Keystore, kc_authorizations = keystore_chars\<rparr>]))))"

definition extract_key_gen_characteristics ::
  "secure_storage \<Rightarrow> key_param list \<Rightarrow> security_level \<Rightarrow> (key_characteristics list \<times> key_gen_info) km" where
  "extract_key_gen_characteristics secure_storage params sec_level =
     and_then (get_algorithm params) (\<lambda>algo.
     and_then (case algo of
         Algorithm_Rsa \<Rightarrow> check_rsa_gen_params params sec_level
       | Algorithm_Ec \<Rightarrow> check_ec_gen_params params sec_level
       | Algorithm_Aes \<Rightarrow> check_aes_gen_params params sec_level
       | Algorithm_TripleDes \<Rightarrow> check_3des_gen_params params
       | Algorithm_Hmac \<Rightarrow> check_hmac_gen_params params sec_level) (\<lambda>keygen_info.
     and_then (extract_key_characteristics secure_storage params [] sec_level) (\<lambda>chars.
     Ok (chars, keygen_info))))"

definition check_import_params ::
  "import_impl \<Rightarrow> key_param list \<Rightarrow> security_level \<Rightarrow> key_format \<Rightarrow> bytes \<Rightarrow>
    (key_param list \<times> key_material) km" where
  "check_import_params imp params sec_level key_format key_data =
     and_then (get_algorithm params) (\<lambda>algo. case algo of
       Algorithm_Rsa \<Rightarrow> check_rsa_import_params imp params sec_level key_format key_data
     | Algorithm_Ec \<Rightarrow> check_ec_import_params imp params sec_level key_format key_data
     | Algorithm_Aes \<Rightarrow> check_aes_import_params imp params sec_level key_format key_data
     | Algorithm_TripleDes \<Rightarrow> check_3des_import_params imp params key_format key_data
     | Algorithm_Hmac \<Rightarrow> check_hmac_import_params imp params sec_level key_format key_data)"

definition extract_key_import_characteristics ::
  "import_impl \<Rightarrow> secure_storage \<Rightarrow> key_param list \<Rightarrow> security_level \<Rightarrow> key_format \<Rightarrow> bytes \<Rightarrow>
    (key_characteristics list \<times> key_material) km" where
  "extract_key_import_characteristics imp secure_storage params sec_level key_format key_data =
     and_then (check_import_params imp params sec_level key_format key_data) (\<lambda>(deduced_params, key_material).
     and_then (extract_key_characteristics secure_storage params deduced_params sec_level) (\<lambda>chars.
     Ok (chars, key_material)))"

section \<open>What the characteristics hold\<close>

definition forbidden_param :: "security_level \<Rightarrow> key_param \<Rightarrow> bool" where
  "forbidden_param sec_level p \<longleftrightarrow> key_param_tag p \<in> set AUTO_ADDED_CHARACTERISTICS \<or>
     (sec_level = SecurityLevel_Strongbox \<and> key_param_tag p \<in> {Tag_MaxUsesPerBoot, Tag_RollbackResistance})"

definition keymint_enforced :: "secure_storage \<Rightarrow> key_param \<Rightarrow> bool" where
  "keymint_enforced ss p \<longleftrightarrow> key_param_tag p \<in> set KEYMINT_ENFORCED_CHARACTERISTICS \<or>
     (p = KP_UsageCountLimit 1 \<and> ss = Storage_Available)"

definition keystore_enforced :: "secure_storage \<Rightarrow> key_param \<Rightarrow> bool" where
  "keystore_enforced ss p \<longleftrightarrow> key_param_tag p \<in> set KEYSTORE_ENFORCED_CHARACTERISTICS \<or>
     (key_param_tag p = Tag_UsageCountLimit \<and> \<not> (p = KP_UsageCountLimit 1 \<and> ss = Storage_Available))"

definition auth_conflict :: "key_param list \<Rightarrow> bool" where
  "auth_conflict ps \<longleftrightarrow>
     (seen Tag_NoAuthRequired ps \<and> (seen Tag_UserSecureId ps \<or> seen Tag_UserAuthType ps)) \<or>
     (seen Tag_UserSecureId ps \<and> \<not> seen Tag_UserAuthType ps)"

lemma reject_incompatible_auth_eq:
  "reject_incompatible_auth ps = (if auth_conflict ps then Err (Hal InvalidTag) else Ok ())"
  by (auto simp: reject_incompatible_auth_def auth_conflict_def Let_def)

lemma usage_count_limit_unlisted:
  "Tag_UsageCountLimit \<notin> set KEYMINT_ENFORCED_CHARACTERISTICS"
  "Tag_UsageCountLimit \<notin> set KEYSTORE_ENFORCED_CHARACTERISTICS"
  by (simp_all add: KEYMINT_ENFORCED_CHARACTERISTICS_def KEYSTORE_ENFORCED_CHARACTERISTICS_def)

lemma enforced_disjoint:
  "set KEYMINT_ENFORCED_CHARACTERISTICS \<inter> set KEYSTORE_ENFORCED_CHARACTERISTICS = {}"
  by (simp add: KEYMINT_ENFORCED_CHARACTERISTICS_def KEYSTORE_ENFORCED_CHARACTERISTICS_def)

lemma distribute_param_eq:
  "distribute_param ss sl p (c, k) =
    (if forbidden_param sl p then Err (Hal InvalidTag)
     else Ok (c @ (if keymint_enforced ss p then [p] else []),
              k @ (if keystore_enforced ss p then [p] else [])))"
proof (cases "key_param_tag p = Tag_UsageCountLimit")
  case True
  then obtain v where "p = KP_UsageCountLimit v"
    by (auto simp: key_param_tag_simps)
  then show ?thesis
    using usage_count_limit_unlisted
    by (simp add: distribute_param_def forbidden_param_def keymint_enforced_def keystore_enforced_def)
next
  case False
  then have "(case p of KP_U32 U32_UsageCountLimit n \<Rightarrow> f n | _ \<Rightarrow> x) = x" 
      for f :: "u32 \<Rightarrow> key_param list \<times> key_param list" and x
    by (cases p) (auto split: u32_tag.splits)
  then show ?thesis
    using False enforced_disjoint
    by (auto simp: distribute_param_def forbidden_param_def keymint_enforced_def keystore_enforced_def Let_def)
qed

lemma distribute_params:
  "fold_res (distribute_param ss sl) ps (c, k) =
    (if list_ex (forbidden_param sl) ps then Err (Hal InvalidTag)
     else Ok (c @ filter (keymint_enforced ss) ps, k @ filter (keystore_enforced ss) ps))"
  by (induction ps arbitrary: c k) (simp_all add: distribute_param_eq)

lemma seen_filter:
  "(\<And>p. key_param_tag p = t \<Longrightarrow> Q p) \<Longrightarrow> seen t (filter Q ps) = seen t ps"
  by (auto simp: seen_def list_ex_iff)

lemma auth_conflict_filter: "auth_conflict (filter (keymint_enforced ss) ps) = auth_conflict ps"
proof -
  have "seen t (filter (keymint_enforced ss) ps) = seen t ps"
    if "t \<in> {Tag_NoAuthRequired, Tag_UserSecureId, Tag_UserAuthType}" for t
    using that by (intro seen_filter) (auto simp: keymint_enforced_def KEYMINT_ENFORCED_CHARACTERISTICS_def)
  then show ?thesis
    by (simp add: auth_conflict_def)
qed

lemma extract_key_characteristics_eq:
  "extract_key_characteristics ss ps es sl =
    (if list_ex (forbidden_param sl) (ps @ es) \<or> auth_conflict (ps @ es) then Err (Hal InvalidTag)
     else Ok (\<lparr>kc_security_level = sl,
              kc_authorizations = sort_by param_le (filter (keymint_enforced ss) (ps @ es))\<rparr> #
       (case filter (keystore_enforced ss) (ps @ es) of
          [] \<Rightarrow> []
        | ks \<Rightarrow> [\<lparr>kc_security_level = SecurityLevel_Keystore, kc_authorizations = sort_by param_le ks\<rparr>])))"
proof -
  have "sort_by le xs = [] \<longleftrightarrow> xs = []" for le and xs :: "key_param list"
    by (metis length_0_conv length_sort_by)
  then show ?thesis
    unfolding extract_key_characteristics_def distribute_params
    by (auto simp: reject_incompatible_auth_eq auth_conflict_filter Let_def
      simp del: filter_append split: list.splits)
qed

text \<open>
  C16: the characteristics of a new key are, in order, one entry at the key's security level with
  exactly the KeyMint-enforced parameters (sorted), and, unless it would be empty, one entry for
  Keystore with exactly the Keystore-enforced ones; a usage limit is enforced by KeyMint only when
  it is one and secure storage is available.  The only failures are \<open>InvalidTag\<close>: for a parameter
  that KeyMint adds itself, one that StrongBox cannot store, or contradictory authentication tags.
\<close>

theorem extract_key_characteristics_correct:
  "extract_key_characteristics ss ps es sl =
    (if list_ex (forbidden_param sl) (ps @ es) \<or> auth_conflict (ps @ es) then Err (Hal InvalidTag)
     else Ok (\<lparr>kc_security_level = sl,
              kc_authorizations = sort_by param_le (filter (keymint_enforced ss) (ps @ es))\<rparr> #
       (case filter (keystore_enforced ss) (ps @ es) of
          [] \<Rightarrow> []
        | ks \<Rightarrow> [\<lparr>kc_security_level = SecurityLevel_Keystore, kc_authorizations = sort_by param_le ks\<rparr>])))"
  by (rule extract_key_characteristics_eq)

section \<open>The characteristics describe the key\<close>

lemma mset_insert_by [simp]: "mset (insert_by le x xs) = add_mset x (mset xs)"
  by (induction xs) auto

lemma mset_sort_by [simp]: "mset (sort_by le xs) = mset xs"
  by (induction xs) auto

lemma mset_tag_values: "mset (tag_values sel xs) = image_mset the (filter_mset (\<lambda>v. v \<noteq> None) (image_mset sel (mset xs)))"
  by (induction xs) (auto split: option.splits)

lemma mset_tag_values_sort: "mset (tag_values sel (sort_by le xs)) = mset (tag_values sel xs)"
  by (simp add: mset_tag_values)

text \<open>Selectors whose parameters always end up among the KeyMint-enforced characteristics.\<close>

definition kept :: "(key_param \<Rightarrow> 'v option) \<Rightarrow> bool" where
  "kept sel \<longleftrightarrow> (\<forall>p. sel p \<noteq> None \<longrightarrow> key_param_tag p \<in> set KEYMINT_ENFORCED_CHARACTERISTICS)"

lemma kept_selectors [simp]:
  "kept sel_Purpose" "kept sel_Algorithm" "kept sel_BlockMode" "kept sel_Digest" "kept sel_Padding"
  "kept sel_EcCurve" "kept (sel_u32 U32_KeySize)" "kept (sel_u32 U32_MinMacLength)"
  "kept (sel_u64 U64_RsaPublicExponent)"
proof -
  note defs = kept_def KEYMINT_ENFORCED_CHARACTERISTICS_def
  show "kept sel_Purpose"
    by (simp add: defs, intro allI impI, erule exE, erule sel_Purpose.elims) simp_all
  show "kept sel_Algorithm"
    by (simp add: defs, intro allI impI, erule exE, erule sel_Algorithm.elims) simp_all
  show "kept sel_BlockMode"
    by (simp add: defs, intro allI impI, erule exE, erule sel_BlockMode.elims) simp_all
  show "kept sel_Digest"
    by (simp add: defs, intro allI impI, erule exE, erule sel_Digest.elims) simp_all
  show "kept sel_Padding"
    by (simp add: defs, intro allI impI, erule exE, erule sel_Padding.elims) simp_all
  show "kept sel_EcCurve"
    by (simp add: defs, intro allI impI, erule exE, erule sel_EcCurve.elims) simp_all
  show "kept (sel_u32 U32_KeySize)" "kept (sel_u32 U32_MinMacLength)"
    by (simp_all add: defs, (intro allI impI, erule exE, erule sel_u32.elims, simp_all split: if_splits)+)
  show "kept (sel_u64 U64_RsaPublicExponent)"
    by (simp add: defs, intro allI impI, erule exE, erule sel_u64.elims) (simp_all split: if_splits)
qed

definition key_auths :: "secure_storage \<Rightarrow> key_param list \<Rightarrow> key_param list" where
  "key_auths ss ps = sort_by param_le (filter (keymint_enforced ss) ps)"

lemma mset_key_auths: "kept sel \<Longrightarrow> mset (tag_values sel (key_auths ss ps)) = mset (tag_values sel ps)"
proof -
  assume "kept sel"
  then have "tag_values sel (filter (keymint_enforced ss) ps) = tag_values sel ps"
    by (induction ps) (auto simp: kept_def keymint_enforced_def split: option.splits)
  then show ?thesis
    by (simp add: key_auths_def mset_tag_values_sort)
qed

lemma key_auths_values:
  assumes "kept sel"
  shows "tag_values sel (key_auths ss ps) = [v] \<longleftrightarrow> tag_values sel ps = [v]"
    and "set (tag_values sel (key_auths ss ps)) = set (tag_values sel ps)"
proof -
  have m: "mset (tag_values sel (key_auths ss ps)) = mset (tag_values sel ps)"
    by (rule mset_key_auths [OF assms])
  show "set (tag_values sel (key_auths ss ps)) = set (tag_values sel ps)"
    using m by (rule mset_eq_setD)
  have "tag_values sel (key_auths ss ps) = [v] \<longleftrightarrow> mset (tag_values sel (key_auths ss ps)) = {#v#}"
    by simp
  also have "\<dots> \<longleftrightarrow> tag_values sel ps = [v]"
    by (simp add: m)
  finally show "tag_values sel (key_auths ss ps) = [v] \<longleftrightarrow> tag_values sel ps = [v]" .
qed

lemma characteristics_at_extract:
  "extract_key_characteristics ss ps es sl = Ok chars \<Longrightarrow> sl \<noteq> SecurityLevel_Keystore \<Longrightarrow>
     characteristics_at chars sl = Ok (key_auths ss (ps @ es))"
  by (auto simp: extract_key_characteristics_eq characteristics_at_def key_auths_def
    split: if_splits list.splits)

text \<open>What the characteristics of a generated key say, given the information it is generated from.\<close>

fun describes :: "key_param list \<Rightarrow> security_level \<Rightarrow> key_gen_info \<Rightarrow> bool" where
  "describes auths sl (KeyGenInfo_Aes v) \<longleftrightarrow> tag_values sel_Algorithm auths = [Algorithm_Aes] \<and>
     tag_values (sel_u32 U32_KeySize) auths = [word_of_nat (8 * variant_key_size v)] \<and>
     (sl = SecurityLevel_Strongbox \<longrightarrow> v \<noteq> Variant_Aes192) \<and>
     (BlockMode_Gcm \<in> set (tag_values sel_BlockMode auths) \<longrightarrow>
       (\<exists>m. tag_values (sel_u32 U32_MinMacLength) auths = [m] \<and> 8 dvd m \<and> 96 \<le> m \<and> m \<le> 128))"
| "describes auths sl KeyGenInfo_TripleDes \<longleftrightarrow> tag_values sel_Algorithm auths = [Algorithm_TripleDes] \<and>
     tag_values (sel_u32 U32_KeySize) auths = [des_KEY_SIZE_BITS]"
| "describes auths sl (KeyGenInfo_Hmac n) \<longleftrightarrow> tag_values sel_Algorithm auths = [Algorithm_Hmac] \<and>
     tag_values (sel_u32 U32_KeySize) auths = [n] \<and> 8 dvd n \<and> 64 \<le> unat n \<and>
     unat n \<le> (if sl = SecurityLevel_Strongbox then 512 else 1024) \<and>
     (\<exists>d. tag_values sel_Digest auths = [d] \<and> d \<noteq> Digest_None) \<and>
     (\<exists>m. tag_values (sel_u32 U32_MinMacLength) auths = [m] \<and> 8 dvd m \<and> 64 \<le> m \<and> m \<le> 512)"
| "describes auths sl (KeyGenInfo_Rsa n e) \<longleftrightarrow> tag_values sel_Algorithm auths = [Algorithm_Rsa] \<and>
     tag_values (sel_u32 U32_KeySize) auths = [n] \<and> tag_values (sel_u64 U64_RsaPublicExponent) auths = [e] \<and>
     n \<in> (if sl = SecurityLevel_Strongbox then {2048} else {512, 768, 1024, 2048, 3072, 4096})"
| "describes auths sl (KeyGenInfo_NistEc c) \<longleftrightarrow> tag_values sel_Algorithm auths = [Algorithm_Ec] \<and>
     tag_values sel_EcCurve auths = [ec_curve_of_nist c] \<and>
     (sl = SecurityLevel_Strongbox \<longrightarrow> c = NistCurve_P256)"
| "describes auths sl KeyGenInfo_Ed25519 \<longleftrightarrow> tag_values sel_Algorithm auths = [Algorithm_Ec] \<and>
     tag_values sel_EcCurve auths = [EcCurve_Curve25519] \<and> sl \<noteq> SecurityLevel_Strongbox \<and>
     KeyPurpose_AgreeKey \<notin> set (tag_values sel_Purpose auths)"
| "describes auths sl KeyGenInfo_X25519 \<longleftrightarrow> tag_values sel_Algorithm auths = [Algorithm_Ec] \<and>
     tag_values sel_EcCurve auths = [EcCurve_Curve25519] \<and> sl \<noteq> SecurityLevel_Strongbox \<and>
     KeyPurpose_Sign \<notin> set (tag_values sel_Purpose auths) \<and>
     KeyPurpose_AttestKey \<notin> set (tag_values sel_Purpose auths)"

lemma describes_key_auths: "describes (key_auths ss ps) sl info = describes ps sl info"
  by (cases info) (simp_all add: key_auths_values)

lemma seen_purpose_iff:
  "seen_purpose vs ps \<longleftrightarrow> (\<exists>v \<in> set vs. v \<in> set (tag_values sel_Purpose ps))"
  by (auto simp: seen_purpose_def list_ex_iff set_tag_values split: option.splits)

lemma primary_purpose_in: "primary_purpose ps = Ok v \<Longrightarrow> v \<in> set (tag_values sel_Purpose ps)"
  by (induction ps) (auto split: option.splits)

lemma gcm_param: "KP_BlockMode m \<in> set ps \<longleftrightarrow> m \<in> set (tag_values sel_BlockMode ps)"
proof -
  have "sel_BlockMode p = Some m \<longleftrightarrow> p = KP_BlockMode m" for p
    by (cases p rule: sel_BlockMode.cases) auto
  then show ?thesis
    by (auto simp: set_tag_values)
qed

lemma check_rsa_gen_describes:
  "check_rsa_gen_params ps sl = Ok info \<Longrightarrow> tag_values sel_Algorithm ps = [Algorithm_Rsa] \<Longrightarrow>
     describes ps sl info"
  by (auto simp: check_rsa_gen_params_def check_rsa_key_size_def res_simps split: if_splits)

lemma check_aes_gen_describes:
  "check_aes_gen_params ps sl = Ok info \<Longrightarrow> tag_values sel_Algorithm ps = [Algorithm_Aes] \<Longrightarrow>
     describes ps sl info"
  by (auto simp: check_aes_gen_params_def check_aes_params_def gcm_param res_simps split: if_splits)

lemma check_3des_gen_describes:
  "check_3des_gen_params ps = Ok info \<Longrightarrow> tag_values sel_Algorithm ps = [Algorithm_TripleDes] \<Longrightarrow>
     describes ps sl info"
  by (auto simp: check_3des_gen_params_def des_KEY_SIZE_BITS_def res_simps split: if_splits)

lemma check_hmac_gen_describes:
  "check_hmac_gen_params ps sl = Ok info \<Longrightarrow> tag_values sel_Algorithm ps = [Algorithm_Hmac] \<Longrightarrow>
     describes ps sl info"
  by (auto simp: check_hmac_gen_params_def check_hmac_params_def valid_hal_size_def
    valid_strongbox_hal_size_def hmac_valid_size_def hmac_MIN_KEY_SIZE_BITS_def hmac_MAX_KEY_SIZE_BITS_def
    hmac_MAX_STRONGBOX_KEY_SIZE_BITS_def res_simps split: if_splits)

lemma check_ec_gen_describes:
  assumes "check_ec_gen_params ps sl = Ok info" "tag_values sel_Algorithm ps = [Algorithm_Ec]"
  shows "describes ps sl info"
proof -
  obtain c purpose where c: "tag_values sel_EcCurve ps = [c]"
    and purpose: "check_ec_params c ps sl = Ok purpose"
    and info: "(case c of
       EcCurve_Curve25519 \<Rightarrow>
        (case purpose of
           Some KeyPurpose_Sign \<Rightarrow> Ok KeyGenInfo_Ed25519
         | Some KeyPurpose_AttestKey \<Rightarrow> Ok KeyGenInfo_Ed25519
         | Some KeyPurpose_AgreeKey \<Rightarrow> Ok KeyGenInfo_X25519
         | _ \<Rightarrow> Err (Hal IncompatiblePurpose))
     | EcCurve_P224 \<Rightarrow> Ok (KeyGenInfo_NistEc NistCurve_P224)
     | EcCurve_P256 \<Rightarrow> Ok (KeyGenInfo_NistEc NistCurve_P256)
     | EcCurve_P384 \<Rightarrow> Ok (KeyGenInfo_NistEc NistCurve_P384)
     | EcCurve_P521 \<Rightarrow> Ok (KeyGenInfo_NistEc NistCurve_P521)) = Ok info"
    using assms(1) by (auto simp: check_ec_gen_params_def getter_defs res_simps)
  have strongbox: "sl = SecurityLevel_Strongbox \<Longrightarrow> c = EcCurve_P256"
    and primary: "purpose = Some p \<Longrightarrow> p \<in> set (tag_values sel_Purpose ps)"
    and exclusive: "c = EcCurve_Curve25519 \<Longrightarrow> KeyPurpose_AgreeKey \<in> set (tag_values sel_Purpose ps) \<Longrightarrow>
      KeyPurpose_Sign \<notin> set (tag_values sel_Purpose ps) \<and>
      KeyPurpose_AttestKey \<notin> set (tag_values sel_Purpose ps)" for p
    using purpose
    by (auto simp: check_ec_params_def seen_purpose_iff Let_def and_then_eq_Ok
      split: if_splits res.splits dest: primary_purpose_in)
  show ?thesis
    using info c strongbox primary exclusive assms(2)
    by (cases c) (auto split: option.splits key_purpose.splits)
qed

lemma gen_describes:
  assumes "extract_key_gen_characteristics ss ps sl = Ok (chars, info)" "sl \<noteq> SecurityLevel_Keystore"
  shows "\<exists>auths. characteristics_at chars sl = Ok auths \<and> describes auths sl info"
proof -
  obtain algo where algo: "tag_values sel_Algorithm ps = [algo]"
    and check: "(case algo of
         Algorithm_Rsa \<Rightarrow> check_rsa_gen_params ps sl
       | Algorithm_Ec \<Rightarrow> check_ec_gen_params ps sl
       | Algorithm_Aes \<Rightarrow> check_aes_gen_params ps sl
       | Algorithm_TripleDes \<Rightarrow> check_3des_gen_params ps
       | Algorithm_Hmac \<Rightarrow> check_hmac_gen_params ps sl) = Ok info"
    and chars: "extract_key_characteristics ss ps [] sl = Ok chars"
    using assms(1) by (auto simp: extract_key_gen_characteristics_def getter_defs res_simps)
  have "describes ps sl info"
    using algo check
    by (cases algo) (auto intro: check_rsa_gen_describes check_ec_gen_describes check_aes_gen_describes
      check_3des_gen_describes check_hmac_gen_describes)
  then show ?thesis
    using characteristics_at_extract [OF chars assms(2)] by (simp add: describes_key_auths)
qed

text \<open>
  C17: when the checks for key generation succeed, the characteristics recorded at the key's
  security level describe the key that will be generated: its algorithm, and its size, exponent or
  curve exactly once, within the sizes of the algorithm and of StrongBox; AES keys usable in GCM mode
  and HMAC keys carry a usable minimum MAC length; Curve25519 keys are for either signing or agreement.
\<close>

theorem gen_characteristics_describe_key:
  assumes "extract_key_gen_characteristics ss ps sl = Ok (chars, info)" "sl \<noteq> SecurityLevel_Keystore"
  shows "\<exists>auths. characteristics_at chars sl = Ok auths \<and> describes auths sl info"
  using assms by (rule gen_describes)

theorem gen_characteristics_describe_key_witness:
  "\<exists>chars auths.
     extract_key_gen_characteristics Storage_Available
       [KP_Algorithm Algorithm_Aes, KP_KeySize 128, KP_BlockMode BlockMode_Gcm, KP_MinMacLength 96, KP_NoAuthRequired]
       SecurityLevel_Strongbox = Ok (chars, KeyGenInfo_Aes Variant_Aes128)
     \<and> characteristics_at chars SecurityLevel_Strongbox = Ok auths
     \<and> describes auths SecurityLevel_Strongbox (KeyGenInfo_Aes Variant_Aes128)"
proof -
  let ?ps = "[KP_Algorithm Algorithm_Aes, KP_KeySize 128, KP_BlockMode BlockMode_Gcm, KP_MinMacLength 96,
    KP_NoAuthRequired]"
  have "\<exists>chars. extract_key_gen_characteristics Storage_Available ?ps SecurityLevel_Strongbox =
      Ok (chars, KeyGenInfo_Aes Variant_Aes128)"
    by (simp add: extract_key_gen_characteristics_def get_algorithm_def get_tag_value_values
      check_aes_gen_params_def check_aes_params_def extract_key_characteristics_eq forbidden_param_def
      AUTO_ADDED_CHARACTERISTICS_def auth_conflict_def seen_def)
  then show ?thesis
    using gen_characteristics_describe_key by blast
qed

text \<open>
  What the characteristics of an imported key say, given what the import functions found in the
  key data.
\<close>

fun describes_import ::
  "import_impl \<Rightarrow> key_param list \<Rightarrow> key_format \<Rightarrow> bytes \<Rightarrow> key_material \<Rightarrow> key_param list \<Rightarrow> algorithm \<Rightarrow> bool" where
  "describes_import imp ps fmt d key auths Algorithm_Rsa \<longleftrightarrow>
     (\<exists>n e. imp_rsa_pkcs8 imp d ps = Ok (key, n, e) \<and> tag_values (sel_u32 U32_KeySize) auths = [n] \<and>
       tag_values (sel_u64 U64_RsaPublicExponent) auths = [e])"
| "describes_import imp ps fmt d key auths Algorithm_Ec \<longleftrightarrow>
     (\<exists>c. ec_import_key imp ps fmt d = Ok (key, c) \<and> tag_values sel_EcCurve auths = [c] \<and>
       tag_values (sel_u32 U32_KeySize) auths = [curve_to_key_size c])"
| "describes_import imp ps fmt d key auths Algorithm_Aes \<longleftrightarrow>
     (\<exists>n. imp_aes imp d ps = Ok (key, n) \<and> tag_values (sel_u32 U32_KeySize) auths = [n])"
| "describes_import imp ps fmt d key auths Algorithm_TripleDes \<longleftrightarrow>
     imp_des imp d ps = Ok key \<and> tag_values (sel_u32 U32_KeySize) auths = [des_KEY_SIZE_BITS]"
| "describes_import imp ps fmt d key auths Algorithm_Hmac \<longleftrightarrow>
     (\<exists>n. imp_hmac imp d ps = Ok (key, n) \<and> tag_values (sel_u32 U32_KeySize) auths = [n])"

lemma describes_import_key_auths:
  "describes_import imp ps fmt d key (key_auths ss qs) algo = describes_import imp ps fmt d key qs algo"
  by (cases algo) (simp_all add: key_auths_values)

lemma check_or_deduce_eq_Ok [res_simps]:
  "check_or_deduce sel mk ps v = Ok ded \<longleftrightarrow>
     (tag_values sel ps = [v] \<and> ded = []) \<or> (tag_values sel ps = [] \<and> ded = [mk v])"
  by (auto simp: check_or_deduce_def get_opt_tag_value_values split: list.splits)

lemma check_rsa_import_describes:
  "check_rsa_import_params imp ps sl fmt d = Ok (ded, key) \<Longrightarrow>
     describes_import imp ps fmt d key (ps @ ded) Algorithm_Rsa"
  by (auto simp: check_rsa_import_params_def require_matching_key_size_def res_simps split: if_splits)

lemma check_ec_import_describes:
  "check_ec_import_params imp ps sl fmt d = Ok (ded, key) \<Longrightarrow>
     describes_import imp ps fmt d key (ps @ ded) Algorithm_Ec"
  by (auto simp: check_ec_import_params_def require_matching_key_size_def res_simps)

lemma check_symmetric_import_describes:
  "check_aes_import_params imp ps sl fmt d = Ok (ded, key) \<Longrightarrow>
     describes_import imp ps fmt d key (ps @ ded) Algorithm_Aes"
  "check_3des_import_params imp ps fmt d = Ok (ded, key) \<Longrightarrow>
     describes_import imp ps fmt d key (ps @ ded) Algorithm_TripleDes"
  "check_hmac_import_params imp ps sl fmt d = Ok (ded, key) \<Longrightarrow>
     describes_import imp ps fmt d key (ps @ ded) Algorithm_Hmac"
  by (auto simp: check_aes_import_params_def check_3des_import_params_def check_hmac_import_params_def
    require_matching_key_size_def res_simps split: if_splits)

text \<open>
  C18: when the checks for key import succeed, the characteristics recorded at the key's security
  level hold exactly one key size, and for RSA exactly one public exponent, for EC exactly one
  curve, and these are the values found in the imported key data, whether the caller gave them (then
  they match) or not (then they were deduced).
\<close>

theorem import_characteristics_describe_key:
  assumes "extract_key_import_characteristics imp ss ps sl fmt d = Ok (chars, key)"
    "sl \<noteq> SecurityLevel_Keystore"
  shows "\<exists>auths algo. characteristics_at chars sl = Ok auths \<and> tag_values sel_Algorithm ps = [algo]
     \<and> describes_import imp ps fmt d key auths algo"
proof -
  obtain ded where check: "check_import_params imp ps sl fmt d = Ok (ded, key)"
    and chars: "extract_key_characteristics ss ps ded sl = Ok chars"
    using assms(1) by (auto simp: extract_key_import_characteristics_def res_simps)
  obtain algo where algo: "tag_values sel_Algorithm ps = [algo]"
    using check by (auto simp: check_import_params_def getter_defs res_simps)
  have "describes_import imp ps fmt d key (ps @ ded) algo"
    using check algo
    by (cases algo) (auto simp: check_import_params_def getter_defs get_tag_value_values
      intro: check_rsa_import_describes check_ec_import_describes check_symmetric_import_describes
      simp del: describes_import.simps)
  then show ?thesis
    using characteristics_at_extract [OF chars assms(2)] algo by (metis describes_import_key_auths)
qed

text \<open>The default import functions of the traits; RSA and EC keys need a DER parser.\<close>

definition default_import :: import_impl where
  "default_import = \<lparr>imp_rsa_pkcs8 = \<lambda>_ _. Err (Hal InvalidArgument), imp_ec_pkcs8 = \<lambda>_ _. Err (Hal InvalidArgument),
     imp_raw_ed25519 = \<lambda>d _. import_raw_ed25519_key d, imp_raw_x25519 = \<lambda>d _. import_raw_x25519_key d,
     imp_aes = \<lambda>d _. aes_import_key d, imp_des = \<lambda>d _. des_import_key d, imp_hmac = \<lambda>d _. hmac_import_key d\<rparr>"

theorem import_characteristics_describe_key_witness:
  "\<exists>chars auths. characteristics_at chars SecurityLevel_TrustedEnvironment = Ok auths
     \<and> describes_import default_import [KP_Algorithm Algorithm_Aes] KeyFormat_Raw (replicate 16 7)
         (Material_Aes (Explicit (Aes128 (replicate 16 7)))) auths Algorithm_Aes"
proof -
  have "\<exists>chars. extract_key_import_characteristics default_import Storage_Unavailable
      [KP_Algorithm Algorithm_Aes] SecurityLevel_TrustedEnvironment KeyFormat_Raw (replicate 16 7) =
      Ok (chars, Material_Aes (Explicit (Aes128 (replicate 16 7))))"
    by (simp add: extract_key_import_characteristics_def check_import_params_def get_algorithm_def
      get_tag_value_values get_opt_tag_value_values check_aes_import_params_def require_raw_def
      default_import_def aes_import_key_def aes_key_new_def require_matching_key_size_def check_or_deduce_def
      check_aes_params_def extract_key_characteristics_eq forbidden_param_def
      AUTO_ADDED_CHARACTERISTICS_def auth_conflict_def seen_def)
  then show ?thesis
    using import_characteristics_describe_key by fastforce
qed

end
