(* ===== verification/Tag_Begin.thy ===== *)
theory Tag_Begin
  imports Tag_Keygen
begin

text \<open>
  Checks at the start of an operation (\<open>common/src/tag.rs\<close>, lines 935-1383): whether the purpose
  and parameters of \<open>begin\<close> agree with the key's characteristics, per algorithm, and the check of
  an RSA wrapping key.
\<close>

record begin_params_to_check =
  bc_block_mode :: bool
  bc_padding :: bool
  bc_digest :: bool
  bc_mgf_digest :: bool

definition for_encryption :: "key_purpose \<Rightarrow> bool" where
  "for_encryption purpose \<longleftrightarrow> purpose = KeyPurpose_Encrypt \<or> purpose = KeyPurpose_Decrypt
     \<or> purpose = KeyPurpose_WrapKey"

definition for_signing :: "key_purpose \<Rightarrow> bool" where
  "for_signing purpose \<longleftrightarrow> purpose = KeyPurpose_Sign"

text \<open>Length in bits.\<close>

primrec digest_len :: "digest \<Rightarrow> u32 km" where
  "digest_len Digest_Md5 = Ok 128"
| "digest_len Digest_Sha1 = Ok 160"
| "digest_len Digest_Sha224 = Ok 224"
| "digest_len Digest_Sha256 = Ok 256"
| "digest_len Digest_Sha384 = Ok 384"
| "digest_len Digest_Sha512 = Ok 512"
| "digest_len Digest_None = Err (Hal IncompatibleDigest)"

section \<open>Per algorithm\<close>

definition check_begin_rsa_padding ::
  "key_param list \<Rightarrow> key_purpose \<Rightarrow> key_param list \<Rightarrow> padding_mode \<Rightarrow> digest option \<Rightarrow> unit km" where
  "check_begin_rsa_padding chars purpose params padding digest =
    (if padding = PaddingMode_None then Ok ()
     else if padding = PaddingMode_RsaOaep \<and> for_encryption purpose then
       if digest = None \<or> digest = Some Digest_None then Err (Hal IncompatibleDigest)
       else and_then (get_mgf_digest params) (\<lambda>mgf_digest.
         if mgf_digest = Digest_None then Err (Hal UnsupportedMgfDigest) else Ok ())
     else if padding = PaddingMode_RsaPss \<and> for_signing purpose then
       (case digest of
          Some digest \<Rightarrow>
            and_then (get_tag_value (sel_u32 U32_KeySize) InvalidArgument chars) (\<lambda>key_size_bits.
            and_then (digest_len digest) (\<lambda>d.
            if key_size_bits < 2 * d + 9 then Err (Hal IncompatibleDigest) else Ok ()))
        | None \<Rightarrow> Err (Hal IncompatibleDigest))
     else if padding = PaddingMode_RsaPkcs115Encrypt \<and> for_encryption purpose then Ok ()
     else if padding = PaddingMode_RsaPkcs115Sign \<and> for_signing purpose then
       (if digest = None then Err (Hal IncompatibleDigest) else Ok ())
     else Err (Hal UnsupportedPaddingMode))"

definition check_begin_rsa_params ::
  "key_param list \<Rightarrow> key_purpose \<Rightarrow> key_param list \<Rightarrow> begin_params_to_check km" where
  "check_begin_rsa_params chars purpose params =
     and_then (get_padding_mode params) (\<lambda>padding.
     and_then (if for_signing purpose \<or> (for_encryption purpose \<and> padding = PaddingMode_RsaOaep)
               then map_ok Some (get_digest params) else Ok None) (\<lambda>digest.
     if for_signing purpose \<and> padding = PaddingMode_None \<and> digest \<noteq> Some Digest_None
     then Err (Hal IncompatibleDigest)
     else and_then (check_begin_rsa_padding chars purpose params padding digest) (\<lambda>_.
       Ok \<lparr>bc_block_mode = False, bc_padding = True, bc_digest = True, bc_mgf_digest = True\<rparr>)))"

definition check_begin_ec_params ::
  "key_param list \<Rightarrow> key_purpose \<Rightarrow> key_param list \<Rightarrow> begin_params_to_check km" where
  "check_begin_ec_params chars purpose params =
     and_then (get_ec_curve chars) (\<lambda>curve.
     and_then (if purpose = KeyPurpose_Sign then
         and_then (get_digest params) (\<lambda>digest.
         if digest = Digest_Md5 then Err (Hal UnsupportedDigest)
         else if curve = EcCurve_Curve25519 \<and> digest \<noteq> Digest_None then Err (Hal UnsupportedDigest)
         else Ok ())
       else Ok ()) (\<lambda>_.
     Ok \<lparr>bc_block_mode = False, bc_padding = False, bc_digest = True, bc_mgf_digest = False\<rparr>))"

definition check_mac_len ::
  "key_param list \<Rightarrow> key_param list \<Rightarrow> u32 km \<Rightarrow> unit km" where
  "check_mac_len chars params max_len =
     and_then (get_tag_value (sel_u32 U32_MacLength) MissingMacLength params) (\<lambda>mac_len.
     and_then (if mac_len mod 8 \<noteq> 0 then Ok True else and_then max_len (\<lambda>m. Ok (m < mac_len))) (\<lambda>bad.
     if bad then Err (Hal UnsupportedMacLength)
     else and_then (get_tag_value (sel_u32 U32_MinMacLength) MissingMinMacLength chars) (\<lambda>min_mac_len.
       if mac_len < min_mac_len then Err (Hal InvalidMacLength) else Ok ())))"

definition check_begin_aes_params ::
  "key_param list \<Rightarrow> key_param list \<Rightarrow> bytes option \<Rightarrow> begin_params_to_check km" where
  "check_begin_aes_params chars params caller_nonce =
     and_then (reject_tags params [Tag_RsaOaepMgfDigest]) (\<lambda>_.
     and_then (reject_some_digest params) (\<lambda>_.
     and_then (get_block_mode params) (\<lambda>bmode.
     and_then (get_padding_mode params) (\<lambda>padding.
     and_then (if bmode = BlockMode_Gcm then check_mac_len chars params (Ok 128) else Ok ()) (\<lambda>_.
     and_then (if bmode = BlockMode_Gcm \<or> bmode = BlockMode_Ctr
         then require (padding = PaddingMode_None) (Hal IncompatiblePaddingMode)
         else require (padding = PaddingMode_None \<or> padding = PaddingMode_Pkcs7) (Hal IncompatiblePaddingMode)) (\<lambda>_.
     and_then (case caller_nonce of
         Some n \<Rightarrow> require (case bmode of
             BlockMode_Cbc \<Rightarrow> length n = 16 | BlockMode_Ctr \<Rightarrow> length n = 16
           | BlockMode_Gcm \<Rightarrow> length n = 12 | _ \<Rightarrow> False) (Hal InvalidNonce)
       | None \<Rightarrow> Ok ()) (\<lambda>_.
     Ok \<lparr>bc_block_mode = True, bc_padding = True, bc_digest = False, bc_mgf_digest = False\<rparr>)))))))"

definition check_begin_3des_params ::
  "key_param list \<Rightarrow> bytes option \<Rightarrow> begin_params_to_check km" where
  "check_begin_3des_params params caller_nonce =
     and_then (reject_tags params [Tag_RsaOaepMgfDigest]) (\<lambda>_.
     and_then (reject_some_digest params) (\<lambda>_.
     and_then (get_block_mode params) (\<lambda>bmode.
     and_then (get_padding_mode params) (\<lambda>_.
     and_then (require (bmode = BlockMode_Cbc \<or> bmode = BlockMode_Ecb) (Hal UnsupportedBlockMode)) (\<lambda>_.
     and_then (case caller_nonce of
         Some n \<Rightarrow> require (bmode = BlockMode_Cbc \<and> length n = 8) (Hal InvalidNonce)
       | None \<Rightarrow> Ok ()) (\<lambda>_.
     Ok \<lparr>bc_block_mode = True, bc_padding = True, bc_digest = False, bc_mgf_digest = False\<rparr>))))))"

definition check_begin_hmac_params ::
  "key_param list \<Rightarrow> key_purpose \<Rightarrow> key_param list \<Rightarrow> begin_params_to_check km" where
  "check_begin_hmac_params chars purpose params =
     and_then (reject_tags params [Tag_BlockMode, Tag_RsaOaepMgfDigest]) (\<lambda>_.
     and_then (reject_some_padding params) (\<lambda>_.
     and_then (get_digest params) (\<lambda>digest.
     and_then (if purpose = KeyPurpose_Sign then check_mac_len chars params (digest_len digest) else Ok ()) (\<lambda>_.
     Ok \<lparr>bc_block_mode = False, bc_padding = False, bc_digest = True, bc_mgf_digest = False\<rparr>))))"

section \<open>All algorithms\<close>

definition valid_purpose :: "algorithm \<Rightarrow> key_purpose \<Rightarrow> bool" where
  "valid_purpose algo purpose = ((algo, purpose) \<in> set
     [(Algorithm_Aes, KeyPurpose_Encrypt), (Algorithm_Aes, KeyPurpose_Decrypt),
      (Algorithm_TripleDes, KeyPurpose_Encrypt), (Algorithm_TripleDes, KeyPurpose_Decrypt),
      (Algorithm_Hmac, KeyPurpose_Sign), (Algorithm_Hmac, KeyPurpose_Verify),
      (Algorithm_Ec, KeyPurpose_Sign), (Algorithm_Ec, KeyPurpose_AttestKey), (Algorithm_Ec, KeyPurpose_AgreeKey),
      (Algorithm_Rsa, KeyPurpose_Sign), (Algorithm_Rsa, KeyPurpose_Decrypt), (Algorithm_Rsa, KeyPurpose_AttestKey)])"

text \<open>A value given in the begin parameters must be among those of the key.\<close>

definition check_in_chars ::
  "(key_param \<Rightarrow> 'v option) \<Rightarrow> error_code \<Rightarrow> error_code \<Rightarrow> key_param list \<Rightarrow> key_param list \<Rightarrow> unit km" where
  "check_in_chars sel dup_error err chars params =
     and_then (get_opt_tag_value sel dup_error params) (\<lambda>v. case v of
       Some v \<Rightarrow> require (contains_tag_value sel v chars) (Hal err)
     | None \<Rightarrow> Ok ())"

definition check_mgf_digest :: "key_param list \<Rightarrow> key_param list \<Rightarrow> unit km" where
  "check_mgf_digest chars params =
     and_then (get_opt_tag_value sel_RsaOaepMgfDigest UnsupportedMgfDigest params) (\<lambda>v.
     let chars_have_mgf_digest = list_ex (\<lambda>p. sel_RsaOaepMgfDigest p \<noteq> None) chars;
         v = (if chars_have_mgf_digest \<and> v = None then Some Digest_Sha1 else v) in
     case v of
       Some mgf_digest \<Rightarrow> require (contains_tag_value sel_RsaOaepMgfDigest mgf_digest chars) (Hal IncompatibleMgfDigest)
     | None \<Rightarrow> Ok ())"

definition check_begin_params :: "key_param list \<Rightarrow> key_purpose \<Rightarrow> key_param list \<Rightarrow> unit km" where
  "check_begin_params chars purpose params =
     and_then (get_algorithm chars) (\<lambda>algo.
     and_then (require (valid_purpose algo purpose) (Hal UnsupportedPurpose)) (\<lambda>_.
     and_then (require (contains_tag_value sel_Purpose purpose chars) (Hal IncompatiblePurpose)) (\<lambda>_.
     and_then (get_bool_tag_value Bool_StorageKey chars) (\<lambda>storage_key.
     if storage_key then Err (Hal StorageKeyUnsupported)
     else
       and_then (get_opt_tag_value (sel_bytes Bytes_Nonce) InvalidTag params) (\<lambda>n.
       and_then (get_bool_tag_value Bool_CallerNonce chars) (\<lambda>caller_nonce.
       if \<not> caller_nonce \<and> n \<noteq> None \<and> purpose = KeyPurpose_Encrypt then Err (Hal CallerNonceProhibited)
       else
         and_then (case algo of
             Algorithm_Rsa \<Rightarrow> check_begin_rsa_params chars purpose params
           | Algorithm_Ec \<Rightarrow> check_begin_ec_params chars purpose params
           | Algorithm_Aes \<Rightarrow> check_begin_aes_params chars params n
           | Algorithm_TripleDes \<Rightarrow> check_begin_3des_params params n
           | Algorithm_Hmac \<Rightarrow> check_begin_hmac_params chars purpose params) (\<lambda>check.
         and_then (if bc_block_mode check
           then check_in_chars sel_BlockMode UnsupportedBlockMode IncompatibleBlockMode chars params else Ok ()) (\<lambda>_.
         and_then (if bc_padding check
           then check_in_chars sel_Padding UnsupportedPaddingMode IncompatiblePaddingMode chars params else Ok ()) (\<lambda>_.
         and_then (if bc_digest check
           then check_in_chars sel_Digest UnsupportedDigest IncompatibleDigest chars params else Ok ()) (\<lambda>_.
         if bc_mgf_digest check then check_mgf_digest chars params else Ok ()))))))))))"

definition check_rsa_wrapping_key_params ::
  "key_param list \<Rightarrow> key_param list \<Rightarrow> rsa_decryption_mode km" where
  "check_rsa_wrapping_key_params chars params =
     and_then (require (contains_tag_value sel_Purpose KeyPurpose_WrapKey chars) (Hal IncompatiblePurpose)) (\<lambda>_.
     and_then (get_tag_value sel_Padding IncompatiblePaddingMode params) (\<lambda>padding_mode.
     and_then (require (padding_mode = PaddingMode_RsaOaep) (Hal IncompatiblePaddingMode)) (\<lambda>_.
     and_then (get_tag_value sel_Digest IncompatibleDigest params) (\<lambda>msg_digest.
     and_then (require (msg_digest = Digest_Sha256) (Hal IncompatibleDigest)) (\<lambda>_.
     and_then (get_opt_tag_value sel_RsaOaepMgfDigest InvalidTag params) (\<lambda>opt_mgf_digest.
     and_then (require (opt_mgf_digest \<noteq> Some Digest_None) (Hal UnsupportedMgfDigest)) (\<lambda>_.
     and_then (require (contains_tag_value sel_Padding padding_mode chars) (Hal IncompatiblePaddingMode)) (\<lambda>_.
     and_then (require (contains_tag_value sel_Digest msg_digest chars) (Hal IncompatibleDigest)) (\<lambda>_.
     and_then (case opt_mgf_digest of
         Some mgf_digest \<Rightarrow>
           require (contains_tag_value sel_RsaOaepMgfDigest mgf_digest chars) (Hal IncompatibleDigest)
       | None \<Rightarrow> Ok ()) (\<lambda>_.
     Ok (Decrypt_OaepPadding msg_digest
       (case opt_mgf_digest of Some d \<Rightarrow> d | None \<Rightarrow> Digest_Sha1))))))))))))"

section \<open>An accepted operation respects the key's characteristics\<close>

text \<open>The MGF digest an RSA-OAEP operation will use, if it or the key names one.\<close>

definition mgf_allowed :: "key_param list \<Rightarrow> key_param list \<Rightarrow> bool" where
  "mgf_allowed chars params \<longleftrightarrow> (case tag_values sel_RsaOaepMgfDigest params of
     [] \<Rightarrow> tag_values sel_RsaOaepMgfDigest chars = [] \<or> Digest_Sha1 \<in> set (tag_values sel_RsaOaepMgfDigest chars)
   | [d] \<Rightarrow> d \<in> set (tag_values sel_RsaOaepMgfDigest chars)
   | _ \<Rightarrow> False)"

text \<open>At most one value, and an authorized one.\<close>

definition authorized :: "(key_param \<Rightarrow> 'v option) \<Rightarrow> key_param list \<Rightarrow> key_param list \<Rightarrow> bool" where
  "authorized sel chars params \<longleftrightarrow> length (tag_values sel params) \<le> 1
     \<and> set (tag_values sel params) \<subseteq> set (tag_values sel chars)"

fun values_authorized :: "algorithm \<Rightarrow> key_param list \<Rightarrow> key_param list \<Rightarrow> bool" where
  "values_authorized Algorithm_Rsa chars params \<longleftrightarrow>
     authorized sel_Padding chars params \<and> authorized sel_Digest chars params \<and> mgf_allowed chars params"
| "values_authorized Algorithm_Ec chars params \<longleftrightarrow> authorized sel_Digest chars params"
| "values_authorized Algorithm_Aes chars params \<longleftrightarrow>
     authorized sel_BlockMode chars params \<and> authorized sel_Padding chars params"
| "values_authorized Algorithm_TripleDes chars params \<longleftrightarrow>
     authorized sel_BlockMode chars params \<and> authorized sel_Padding chars params"
| "values_authorized Algorithm_Hmac chars params \<longleftrightarrow> authorized sel_Digest chars params"

lemma check_in_chars_eq_Ok [res_simps]:
  "check_in_chars sel dup err chars params = Ok u \<longleftrightarrow> authorized sel chars params"
  by (auto simp: check_in_chars_def authorized_def get_opt_tag_value_values contains_tag_value_iff
    require_eq split: list.splits)

lemma check_mgf_digest_eq_Ok [res_simps]:
  "check_mgf_digest chars params = Ok () \<longleftrightarrow> mgf_allowed chars params"
proof -
  have "list_ex (\<lambda>p. sel_RsaOaepMgfDigest p \<noteq> None) chars \<longleftrightarrow> tag_values sel_RsaOaepMgfDigest chars \<noteq> []"
    by (induction chars) (auto split: option.splits)
  then show ?thesis
    by (auto simp: check_mgf_digest_def mgf_allowed_def get_opt_tag_value_values contains_tag_value_iff
      Let_def require_eq split: list.splits)
qed

lemma guard_eq_Ok:
  "(if b then Err e else m) = Ok x \<longleftrightarrow> \<not> b \<and> m = Ok x"
  "(if b then (n :: unit km) else Ok ()) = Ok u \<longleftrightarrow> (b \<longrightarrow> n = Ok ())"
  by simp_all

lemma begin_checks:
  "check_begin_rsa_params chars purpose params = Ok c \<Longrightarrow>
     \<not> bc_block_mode c \<and> bc_padding c \<and> bc_digest c \<and> bc_mgf_digest c"
  "check_begin_ec_params chars purpose params = Ok c \<Longrightarrow> bc_digest c"
  "check_begin_aes_params chars params n = Ok c \<Longrightarrow> bc_block_mode c \<and> bc_padding c"
  "check_begin_3des_params params n = Ok c \<Longrightarrow> bc_block_mode c \<and> bc_padding c"
  "check_begin_hmac_params chars purpose params = Ok c \<Longrightarrow> bc_digest c"
  by (auto simp: check_begin_rsa_params_def check_begin_ec_params_def check_begin_aes_params_def
    check_begin_3des_params_def check_begin_hmac_params_def and_then_eq_Ok guard_eq_Ok)

lemma check_begin_params_Ok:
  assumes "check_begin_params chars purpose params = Ok ()"
  obtains algo n where "tag_values sel_Algorithm chars = [algo]" "valid_purpose algo purpose"
    "purpose \<in> set (tag_values sel_Purpose chars)" "KP_StorageKey \<notin> set chars"
    "get_opt_tag_value (sel_bytes Bytes_Nonce) InvalidTag params = Ok n"
    "n = None \<or> KP_CallerNonce \<in> set chars \<or> purpose \<noteq> KeyPurpose_Encrypt"
    "values_authorized algo chars params"
    "algo = Algorithm_Aes \<longrightarrow> is_ok (check_begin_aes_params chars params n)"
proof -
  obtain algo st n b c where *: "get_algorithm chars = Ok algo" "valid_purpose algo purpose"
    "contains_tag_value sel_Purpose purpose chars" "get_bool_tag_value Bool_StorageKey chars = Ok st" "\<not> st"
    "get_opt_tag_value (sel_bytes Bytes_Nonce) InvalidTag params = Ok n"
    "get_bool_tag_value Bool_CallerNonce chars = Ok b" "\<not> (\<not> b \<and> n \<noteq> None \<and> purpose = KeyPurpose_Encrypt)"
    and check: "(case algo of
             Algorithm_Rsa \<Rightarrow> check_begin_rsa_params chars purpose params
           | Algorithm_Ec \<Rightarrow> check_begin_ec_params chars purpose params
           | Algorithm_Aes \<Rightarrow> check_begin_aes_params chars params n
           | Algorithm_TripleDes \<Rightarrow> check_begin_3des_params params n
           | Algorithm_Hmac \<Rightarrow> check_begin_hmac_params chars purpose params) = Ok c"
    and vals: "bc_block_mode c \<longrightarrow> authorized sel_BlockMode chars params"
      "bc_padding c \<longrightarrow> authorized sel_Padding chars params" "bc_digest c \<longrightarrow> authorized sel_Digest chars params"
      "bc_mgf_digest c \<longrightarrow> mgf_allowed chars params"
    using assms
    unfolding check_begin_params_def and_then_eq_Ok require_eq guard_eq_Ok check_in_chars_eq_Ok
      check_mgf_digest_eq_Ok
    by blast
  have "b \<longrightarrow> KP_CallerNonce \<in> set chars"
    using *(7) by (metis count_notin get_bool_tag_value_eq(1) zero_neq_one)
  moreover have "values_authorized algo chars params"
    using check vals by (cases algo) (auto dest: begin_checks)
  moreover have "algo = Algorithm_Aes \<longrightarrow> is_ok (check_begin_aes_params chars params n)"
    using check by auto
  ultimately show thesis
    using that [of algo n] * by (simp add: getter_defs get_tag_value_eq contains_tag_value_iff get_bool_tag_value_eq) blast
qed

text \<open>
  C4: an operation that passes the begin checks uses the key only as its characteristics allow:
  the purpose suits the algorithm and is authorized, the key is not a storage key, a caller's nonce is
  used for encryption only with authorization, and the block mode, padding, digest and MGF digest that
  matter for the algorithm are unambiguous and authorized (the default MGF digest included).
\<close>

theorem check_begin_params_enforces_characteristics:
  assumes "check_begin_params chars purpose params = Ok ()"
  shows "\<exists>algo n. tag_values sel_Algorithm chars = [algo] \<and> valid_purpose algo purpose
     \<and> purpose \<in> set (tag_values sel_Purpose chars) \<and> KP_StorageKey \<notin> set chars
     \<and> get_opt_tag_value (sel_bytes Bytes_Nonce) InvalidTag params = Ok n
     \<and> (n = None \<or> KP_CallerNonce \<in> set chars \<or> purpose \<noteq> KeyPurpose_Encrypt)
     \<and> values_authorized algo chars params"
  using assms by (rule check_begin_params_Ok) blast

theorem check_begin_params_enforces_characteristics_witness:
  "\<exists>algo. tag_values sel_Algorithm [KP_Algorithm Algorithm_Ec, KP_EcCurve EcCurve_P256,
       KP_Purpose KeyPurpose_Sign, KP_Digest Digest_Sha256] = [algo]
     \<and> values_authorized algo [KP_Algorithm Algorithm_Ec, KP_EcCurve EcCurve_P256,
       KP_Purpose KeyPurpose_Sign, KP_Digest Digest_Sha256] [KP_Digest Digest_Sha256]"
proof -
  have "check_begin_params [KP_Algorithm Algorithm_Ec, KP_EcCurve EcCurve_P256, KP_Purpose KeyPurpose_Sign,
      KP_Digest Digest_Sha256] KeyPurpose_Sign [KP_Digest Digest_Sha256] = Ok ()"
    by (simp add: check_begin_params_def getter_defs get_tag_value_values get_opt_tag_value_values
      get_bool_tag_value_def valid_purpose_def contains_tag_value_def check_begin_ec_params_def
      check_in_chars_def)
  then show ?thesis
    using check_begin_params_enforces_characteristics by blast
qed

section \<open>From key generation to the cipher mode\<close>

lemma gcm_tag_lengths:
  assumes "8 dvd (w :: u32)" "96 \<le> w" "w \<le> 128"
  shows "\<exists>g. gcm_mode_nonce g = n \<and> w = word_of_nat (8 * gcm_tag_len g)"
proof -
  obtain k where "w = 8 * k"
    using assms(1) by (elim dvdE)
  then have "unat w mod 8 = (8 * unat k) mod 2 ^ 32 mod 8"
    by (simp add: unat_word_ariths)
  also have "\<dots> = 0"
    by (subst mod_mod_cancel) simp_all
  finally have "unat w mod 8 = 0" .
  moreover have "96 \<le> unat w" "unat w \<le> 128"
    using assms(2,3) by (simp_all add: word_le_nat_alt)
  ultimately have "unat w = 96 \<or> unat w = 104 \<or> unat w = 112 \<or> unat w = 120 \<or> unat w = 128"
    by presburger
  then have "w = 96 \<or> w = 104 \<or> w = 112 \<or> w = 120 \<or> w = 128"
    by (simp add: word_unat_eq_iff)
  moreover have "gcm_mode_nonce (GcmTag12 n) = n \<and> 96 = (word_of_nat (8 * gcm_tag_len (GcmTag12 n)) :: u32)"
    "gcm_mode_nonce (GcmTag13 n) = n \<and> 104 = (word_of_nat (8 * gcm_tag_len (GcmTag13 n)) :: u32)"
    "gcm_mode_nonce (GcmTag14 n) = n \<and> 112 = (word_of_nat (8 * gcm_tag_len (GcmTag14 n)) :: u32)"
    "gcm_mode_nonce (GcmTag15 n) = n \<and> 120 = (word_of_nat (8 * gcm_tag_len (GcmTag15 n)) :: u32)"
    "gcm_mode_nonce (GcmTag16 n) = n \<and> 128 = (word_of_nat (8 * gcm_tag_len (GcmTag16 n)) :: u32)"
    by simp_all
  ultimately show ?thesis
    by blast
qed

text \<open>What the AES checks at \<open>begin\<close> establish about the parameters.\<close>

definition aes_begin_ok :: "key_param list \<Rightarrow> key_param list \<Rightarrow> bytes option \<Rightarrow> bool" where
  "aes_begin_ok chars params n \<longleftrightarrow> (\<exists>b p. tag_values sel_BlockMode params = [b] \<and> tag_values sel_Padding params = [p]
     \<and> (b = BlockMode_Gcm \<longrightarrow> (\<exists>w l. tag_values (sel_u32 U32_MacLength) params = [w]
          \<and> tag_values (sel_u32 U32_MinMacLength) chars = [l] \<and> 8 dvd w \<and> w \<le> 128 \<and> l \<le> w))
     \<and> (p = PaddingMode_None \<or> (p = PaddingMode_Pkcs7 \<and> (b = BlockMode_Ecb \<or> b = BlockMode_Cbc)))
     \<and> (n = None \<or> map_option length n = block_nonce_len b))"

lemma check_mac_len_Ok:
  "check_mac_len chars params (Ok m) = Ok u \<Longrightarrow> \<exists>w l. tag_values (sel_u32 U32_MacLength) params = [w]
     \<and> tag_values (sel_u32 U32_MinMacLength) chars = [l] \<and> 8 dvd w \<and> w \<le> m \<and> l \<le> w"
  by (auto simp: check_mac_len_def and_then_eq_Ok get_tag_value_eq mod_eq_0_iff_dvd split: if_splits)

lemma check_begin_aes_Ok:
  assumes "is_ok (check_begin_aes_params chars params n)"
  shows "aes_begin_ok chars params n"
proof -
  obtain b p where b: "tag_values sel_BlockMode params = [b]" and p: "tag_values sel_Padding params = [p]"
    and mac: "b = BlockMode_Gcm \<longrightarrow> check_mac_len chars params (Ok 128) = Ok ()"
    and pad: "p = PaddingMode_None \<or> (p = PaddingMode_Pkcs7 \<and> (b = BlockMode_Ecb \<or> b = BlockMode_Cbc))"
    and n: "(case n of
         Some n \<Rightarrow> require (case b of
             BlockMode_Cbc \<Rightarrow> length n = 16 | BlockMode_Ctr \<Rightarrow> length n = 16
           | BlockMode_Gcm \<Rightarrow> length n = 12 | _ \<Rightarrow> False) (Hal InvalidNonce)
       | None \<Rightarrow> Ok ()) = Ok ()"
    using assms
    by (auto simp: is_ok_iff check_begin_aes_params_def getter_defs and_then_eq_Ok get_tag_value_eq
      guard_eq_Ok require_eq split: if_splits; metis block_mode.exhaust)
  have "n = None \<or> map_option length n = block_nonce_len b"
    using n by (cases n; cases b) (auto simp: require_eq)
  then show ?thesis
    using b p mac pad check_mac_len_Ok [of chars params 128] by (auto simp: aes_begin_ok_def)
qed

lemma aes_begin_mode_exists:
  assumes "rng fill" and ok: "aes_begin_ok chars params n"
    and gcm: "tag_values sel_BlockMode params = [BlockMode_Gcm] \<Longrightarrow>
      \<exists>l. tag_values (sel_u32 U32_MinMacLength) chars = [l] \<and> 96 \<le> l"
  shows "\<exists>m. fst (aes_mode_new fill params n r) = Ok m"
proof -
  obtain b p where b: "tag_values sel_BlockMode params = [b]" and p: "tag_values sel_Padding params = [p]"
    and pad: "p = PaddingMode_None \<or> (p = PaddingMode_Pkcs7 \<and> (b = BlockMode_Ecb \<or> b = BlockMode_Cbc))"
    and n: "n = None \<or> map_option length n = block_nonce_len b"
    using ok by (auto simp: aes_begin_ok_def)
  obtain v where v: "chosen_nonce fill r (block_nonce_len b) n v"
    and v_Some: "b \<noteq> BlockMode_Ecb \<Longrightarrow> v \<noteq> None"
    using n by (cases b; cases n) auto
  have "\<exists>m. aes_mode_block m = b \<and> aes_mode_padding m = p \<and> aes_mode_nonce m = v \<and> mac_length_ok params m"
  proof (cases b)
    case BlockMode_Gcm
    then obtain w l where w: "tag_values (sel_u32 U32_MacLength) params = [w]" "8 dvd w" "w \<le> 128" "l \<le> w" "96 \<le> l"
      using ok b gcm by (auto simp: aes_begin_ok_def)
    then obtain g where "gcm_mode_nonce g = the v" "w = word_of_nat (8 * gcm_tag_len g)"
      using gcm_tag_lengths [of w "the v"] order_trans by blast
    then show ?thesis
      using BlockMode_Gcm pad v_Some w(1) by (intro exI [of _ "Mode_Aead g"]) (auto simp: mac_length_ok_def)
  next
    case BlockMode_Ctr
    then show ?thesis
      using pad v_Some
      by (intro exI [of _ "Mode_Cipher (Ctr (the v))"]) (auto simp: mac_length_ok_def)
  next
    case BlockMode_Cbc
    then show ?thesis
      using pad v_Some
      by (intro exI [of _ "Mode_Cipher (if p = PaddingMode_None then CbcNoPadding (the v) else CbcPkcs7Padding (the v))"])
        (auto simp: mac_length_ok_def)
  next
    case BlockMode_Ecb
    then show ?thesis
      using pad v by (intro exI [of _ "Mode_Cipher (if p = PaddingMode_None then EcbNoPadding else EcbPkcs7Padding)"])
        (cases n; auto simp: mac_length_ok_def)
  qed
  then show ?thesis
    using b p v by (auto simp: aes_mode_new_eq_Ok [OF assms(1)])
qed

text \<open>
  C5: a generated AES key and an accepted \<open>begin\<close> always lead to a cipher mode: if the key was
  generated with the checked parameters and the begin parameters pass against its characteristics, then
  \<open>aes::Mode::new\<close> succeeds, the mode and padding are authorized for the key, and a GCM tag is at
  least as long as the key's minimum.
\<close>

theorem aes_begin_gives_mode:
  assumes "rng fill"
    and gen: "extract_key_gen_characteristics ss ps sl = Ok (chars, KeyGenInfo_Aes variant)"
    and level: "sl \<noteq> SecurityLevel_Keystore" "characteristics_at chars sl = Ok auths"
    and begins: "check_begin_params auths purpose params = Ok ()"
    and n: "get_opt_tag_value (sel_bytes Bytes_Nonce) InvalidTag params = Ok n"
  shows "\<exists>m. fst (aes_mode_new fill params n r) = Ok m
     \<and> aes_mode_block m \<in> set (tag_values sel_BlockMode auths)
     \<and> aes_mode_padding m \<in> set (tag_values sel_Padding auths)
     \<and> (case m of Mode_Cipher _ \<Rightarrow> True
        | Mode_Aead g \<Rightarrow> \<exists>l. tag_values (sel_u32 U32_MinMacLength) auths = [l] \<and> unat l \<le> 8 * gcm_tag_len g)"
proof -
  have d: "describes auths sl (KeyGenInfo_Aes variant)"
    using gen_describes [OF gen level(1)] level(2) by auto
  obtain ok: "aes_begin_ok auths params n" and auth: "values_authorized Algorithm_Aes auths params"
    using begins by (rule check_begin_params_Ok) (use d n check_begin_aes_Ok in auto)
  have "\<exists>l. tag_values (sel_u32 U32_MinMacLength) auths = [l] \<and> 96 \<le> l"
    if "tag_values sel_BlockMode params = [BlockMode_Gcm]"
    using that d auth by (auto simp: authorized_def)
  then obtain m where m: "fst (aes_mode_new fill params n r) = Ok m"
    using aes_begin_mode_exists [OF assms(1) ok] by blast
  then have block: "tag_values sel_BlockMode params = [aes_mode_block m]"
    and padding: "tag_values sel_Padding params = [aes_mode_padding m]" and mac: "mac_length_ok params m"
    by (simp_all add: aes_mode_new_eq_Ok [OF assms(1)])
  have "unat l \<le> 8 * gcm_tag_len g" if "m = Mode_Aead g" "l \<le> word_of_nat (8 * gcm_tag_len g)" for g and l :: u32
    using that by (cases g) (simp_all add: word_le_nat_alt)
  then show ?thesis
    using m block padding mac auth ok
    by (cases m) (auto simp: authorized_def aes_begin_ok_def mac_length_ok_def)
qed

theorem aes_begin_gives_mode_witness:
  "\<exists>m. fst (aes_mode_new noop_fill [KP_BlockMode BlockMode_Gcm, KP_Padding PaddingMode_None, KP_MacLength 128] None ())
     = Ok m"
proof -
  let ?ps = "[KP_Algorithm Algorithm_Aes, KP_KeySize 128, KP_BlockMode BlockMode_Gcm, KP_MinMacLength 96,
    KP_Padding PaddingMode_None, KP_Purpose KeyPurpose_Encrypt]"
  let ?bp = "[KP_BlockMode BlockMode_Gcm, KP_Padding PaddingMode_None, KP_MacLength 128]"
  obtain chars where chars: "extract_key_gen_characteristics Storage_Available ?ps SecurityLevel_Strongbox =
      Ok (chars, KeyGenInfo_Aes Variant_Aes128)"
    by (simp add: extract_key_gen_characteristics_def get_algorithm_def get_tag_value_values
      check_aes_gen_params_def check_aes_params_def extract_key_characteristics_eq forbidden_param_def
      AUTO_ADDED_CHARACTERISTICS_def auth_conflict_def seen_def)
  then have "extract_key_characteristics Storage_Available ?ps [] SecurityLevel_Strongbox = Ok chars"
    by (auto simp: extract_key_gen_characteristics_def and_then_eq_Ok)
  then have at: "characteristics_at chars SecurityLevel_Strongbox = Ok (key_auths Storage_Available ?ps)"
    using characteristics_at_extract by fastforce
  have "key_auths Storage_Available ?ps = sort_by param_le ?ps"
    by (simp add: key_auths_def keymint_enforced_def KEYMINT_ENFORCED_CHARACTERISTICS_def)
  then have auths: "key_auths Storage_Available ?ps = [KP_Algorithm Algorithm_Aes, KP_Purpose KeyPurpose_Encrypt,
      KP_BlockMode BlockMode_Gcm, KP_Padding PaddingMode_None, KP_KeySize 128, KP_MinMacLength 96]"
    by (simp add: param_le_def param_compare_def cmp_def less_tag_def)
  have "check_begin_params (key_auths Storage_Available ?ps) KeyPurpose_Encrypt ?bp = Ok ()"
    unfolding auths
    by (simp add: check_begin_params_def getter_defs get_tag_value_values get_opt_tag_value_values
      get_bool_tag_value_def valid_purpose_def contains_tag_value_def check_begin_aes_params_def
      check_in_chars_def reject_tags_def reject_some_digest_def check_mac_len_def)
  then show ?thesis
    using aes_begin_gives_mode [OF noop_rng.rng_axioms chars _ at, of KeyPurpose_Encrypt ?bp None "()"]
    by (simp add: get_opt_tag_value_values) blast
qed

end
