(* ===== verification/Cert.thy ===== *)
theory Cert
  imports Messages Tag_Keygen
begin

text \<open>
  Certificates and the attestation extension (\<open>ta/src/cert.rs\<close>, and what \<open>common/src/crypto\<close> puts into a
  \<open>SubjectPublicKeyInfo\<close>).

  The structures are built by this code and encoded to DER by the crates \<open>der\<close>, \<open>spki\<close> and \<open>x509_cert\<close> and
  by what the derive macro \<open>Sequence\<close> generates; the field of type \<open>AuthorizationList\<close> is encoded by
  hand-written code, which is modelled in the theory \<open>Cert_Der\<close>.  Here the structures are records, and the
  encoders of whole structures are fields of \<open>cert_lib\<close>, with \<open>None\<close> for a \<open>der::Error\<close>.  A
  distinguished name is kept as the bytes it was parsed from.
\<close>

type_synonym oid = "nat list"

fun sel_date :: "date_tag \<Rightarrow> key_param \<Rightarrow> i64 option" where
  "sel_date t (KP_Date t' v) = (if t' = t then Some v else None)"
| "sel_date t _ = None"

section \<open>Public keys\<close>

definition X509_RSA_OID :: oid where "X509_RSA_OID = [1, 2, 840, 113549, 1, 1, 1]"
definition SHA256_PKCS1_SIGNATURE_OID :: oid where "SHA256_PKCS1_SIGNATURE_OID = [1, 2, 840, 113549, 1, 1, 11]"
definition X509_NIST_OID :: oid where "X509_NIST_OID = [1, 2, 840, 10045, 2, 1]"
definition X509_ED25519_OID :: oid where "X509_ED25519_OID = [1, 3, 101, 112]"
definition X509_X25519_OID :: oid where "X509_X25519_OID = [1, 3, 101, 110]"
definition ECDSA_SHA256_SIGNATURE_OID :: oid where "ECDSA_SHA256_SIGNATURE_OID = [1, 2, 840, 10045, 4, 3, 2]"

primrec algo_param_oid :: "nist_curve \<Rightarrow> oid" where
  "algo_param_oid NistCurve_P224 = [1, 3, 132, 0, 33]"
| "algo_param_oid NistCurve_P256 = [1, 2, 840, 10045, 3, 1, 7]"
| "algo_param_oid NistCurve_P384 = [1, 3, 132, 0, 34]"
| "algo_param_oid NistCurve_P521 = [1, 3, 132, 0, 35]"

definition curve_to_signing_oid :: "ec_curve \<Rightarrow> oid" where
  "curve_to_signing_oid curve = (if curve = EcCurve_Curve25519 then X509_ED25519_OID else ECDSA_SHA256_SIGNATURE_OID)"

datatype alg_params = Params_Oid oid | Params_Null

record subject_public_key_info =
  spki_oid :: oid
  spki_parameters :: "alg_params option"
  spki_subject_public_key :: bytes

text \<open>The functions \<open>Ec::subject_public_key\<close> and \<open>Rsa::subject_public_key\<close> of the device, and
  \<open>BitStringRef::from_bytes\<close>.\<close>

definition ec_subject_public_key_info ::
  "(bytes \<Rightarrow> bool) \<Rightarrow> (ec_key opaque_or \<Rightarrow> bytes km) \<Rightarrow> ec_curve \<Rightarrow> curve_type \<Rightarrow> ec_key opaque_or \<Rightarrow> subject_public_key_info km" where
  "ec_subject_public_key_info bit_string_ok ec curve curve_type key =
     and_then (ec key) (\<lambda>buf.
     and_then (case curve_type of
         CurveType_Nist \<Rightarrow> map_ok (\<lambda>nist_curve. (X509_NIST_OID, Some (Params_Oid (algo_param_oid nist_curve)))) (nist_curve_try_from curve)
       | CurveType_EdDsa \<Rightarrow> Ok (X509_ED25519_OID, None)
       | CurveType_Xdh \<Rightarrow> Ok (X509_X25519_OID, None)) (\<lambda>(oid, parameters).
     if bit_string_ok buf
     then Ok \<lparr>spki_oid = oid, spki_parameters = parameters, spki_subject_public_key = buf\<rparr> else Panic))"

definition rsa_subject_public_key_info ::
  "(bytes \<Rightarrow> bool) \<Rightarrow> (rsa_key opaque_or \<Rightarrow> bytes km) \<Rightarrow> rsa_key opaque_or \<Rightarrow> subject_public_key_info km" where
  "rsa_subject_public_key_info bit_string_ok rsa key =
     and_then (rsa key) (\<lambda>buf.
     if bit_string_ok buf
     then Ok \<lparr>spki_oid = X509_RSA_OID, spki_parameters = Some Params_Null, spki_subject_public_key = buf\<rparr>
     else Err (Hal UnknownError))"

definition key_subject_public_key_info ::
  "(bytes \<Rightarrow> bool) \<Rightarrow> (ec_key opaque_or \<Rightarrow> bytes km) \<Rightarrow> (rsa_key opaque_or \<Rightarrow> bytes km) \<Rightarrow> key_material \<Rightarrow>
   subject_public_key_info option km" where
  "key_subject_public_key_info bit_string_ok ec rsa key = (case key of
     Material_Rsa k \<Rightarrow> map_ok Some (rsa_subject_public_key_info bit_string_ok rsa k)
   | Material_Ec curve curve_type k \<Rightarrow> map_ok Some (ec_subject_public_key_info bit_string_ok ec curve curve_type k)
   | _ \<Rightarrow> Ok None)"

section \<open>Certificates\<close>

definition ATTESTATION_EXTENSION_OID :: oid where "ATTESTATION_EXTENSION_OID = [1, 3, 6, 1, 4, 1, 11129, 2, 1, 17]"
definition EMPTY_BOOT_KEY :: bytes where "EMPTY_BOOT_KEY = replicate 32 0"
definition KeyUsage_OID :: oid where "KeyUsage_OID = [2, 5, 29, 15]"
definition BasicConstraints_OID :: oid where "BasicConstraints_OID = [2, 5, 29, 19]"

datatype key_usages =
    Usage_DigitalSignature | Usage_DataEncipherment | Usage_KeyEncipherment | Usage_KeyAgreement | Usage_KeyCertSign

primrec purpose_usages :: "key_purpose \<Rightarrow> key_usages set" where
  "purpose_usages KeyPurpose_Sign = {Usage_DigitalSignature}"
| "purpose_usages KeyPurpose_Verify = {Usage_DigitalSignature}"
| "purpose_usages KeyPurpose_Decrypt = {Usage_DataEncipherment, Usage_KeyEncipherment}"
| "purpose_usages KeyPurpose_Encrypt = {Usage_DataEncipherment, Usage_KeyEncipherment}"
| "purpose_usages KeyPurpose_WrapKey = {Usage_KeyEncipherment}"
| "purpose_usages KeyPurpose_AgreeKey = {Usage_KeyAgreement}"
| "purpose_usages KeyPurpose_AttestKey = {Usage_KeyCertSign}"

fun key_usage_extension_bits :: "key_param list \<Rightarrow> key_usages set" where
  "key_usage_extension_bits [] = {}"
| "key_usage_extension_bits (param # params) = (case sel_Purpose param of
     Some purpose \<Rightarrow> purpose_usages purpose \<union> key_usage_extension_bits params
   | None \<Rightarrow> key_usage_extension_bits params)"

datatype x509_time = UtcTime nat | GeneralTime nat

record extension =
  ext_extn_id :: oid
  ext_critical :: bool
  ext_extn_value :: bytes

record tbs_certificate =
  tbs_serial_number :: bytes
  tbs_signature :: oid
  tbs_issuer :: bytes
  tbs_not_before :: x509_time
  tbs_not_after :: x509_time
  tbs_subject :: bytes
  tbs_subject_public_key_info :: subject_public_key_info
  tbs_extensions :: "extension list"

record x509_certificate =
  x509_signature_algorithm :: oid
  x509_tbs_certificate :: tbs_certificate
  x509_signature :: bytes

section \<open>The attestation extension\<close>

datatype asn1_security_level = Asn1_Software | Asn1_TrustedEnvironment | Asn1_Strongbox

record asn1_root_of_trust =
  art_verified_boot_key :: bytes
  art_device_locked :: bool
  art_verified_boot_state :: verified_boot_state
  art_verified_boot_hash :: bytes

record authorization_list =
  al_auths :: "key_param list"
  al_keygen_params :: "key_param list"
  al_rot_info :: "key_param option"
  al_app_id :: "key_param option"
  al_additional_attestation_info :: "key_param list"

record attestation_extension =
  ae_attestation_version :: int
  ae_attestation_security_level :: asn1_security_level
  ae_keymint_version :: int
  ae_keymint_security_level :: asn1_security_level
  ae_attestation_challenge :: bytes
  ae_unique_id :: bytes
  ae_sw_enforced :: authorization_list
  ae_hw_enforced :: authorization_list

text \<open>\<open>SecureKeyWrapper\<close> and \<open>KeyDescription\<close> of \<open>ta/src/keys.rs\<close>.\<close>

record key_description =
  kd_key_format :: int
  kd_key_params :: authorization_list

record secure_key_wrapper =
  skw_version :: int
  skw_encrypted_transport_key :: bytes
  skw_initialization_vector :: bytes
  skw_key_description :: key_description
  skw_encrypted_key :: bytes
  skw_tag :: bytes

record cert_lib =
  cl_bit_string_ok :: "bytes \<Rightarrow> bool"
  cl_octet_string_ok :: "bytes \<Rightarrow> bool"
  cl_serial_number :: "bytes \<Rightarrow> bytes option"
  cl_rdn_from_der :: "bytes \<Rightarrow> bytes option"
  cl_utc_time :: "nat \<Rightarrow> x509_time option"
  cl_generalized_time :: "nat \<Rightarrow> x509_time option"
  cl_key_usage :: "key_usages set \<Rightarrow> bytes option"
  cl_basic_constraints :: "bool \<Rightarrow> bytes option"
  cl_root_of_trust :: "asn1_root_of_trust \<Rightarrow> bytes option"
  cl_attestation_extension :: "attestation_extension \<Rightarrow> bytes option"
  cl_tbs_certificate :: "tbs_certificate \<Rightarrow> bytes option"
  cl_certificate :: "x509_certificate \<Rightarrow> bytes option"
  cl_certificate_subject :: "bytes \<Rightarrow> bytes option"
  cl_secure_key_wrapper :: "bytes \<Rightarrow> secure_key_wrapper option"
  cl_key_description :: "key_description \<Rightarrow> bytes option"

definition extract_subject :: "cert_lib \<Rightarrow> certificate \<Rightarrow> bytes km" where
  "extract_subject lib cert = ok_or (cl_certificate_subject lib (cert_encoded_certificate cert)) (Hal EncodingError)"

definition MAX_UTC_TIME :: nat where "MAX_UTC_TIME = 2524608000"

definition validity_time_from_datetime :: "cert_lib \<Rightarrow> i64 \<Rightarrow> x509_time km" where
  "validity_time_from_datetime lib ms =
     (if 0 \<le> sint ms
      then let duration = nat (sint ms div 1000) in
        (if MAX_UTC_TIME \<le> duration then ok_or (cl_generalized_time lib duration) Der
         else ok_or (cl_utc_time lib duration) Der)
      else ok_or (cl_generalized_time lib 0) Der)"

definition x509_certificate_new :: "cert_lib \<Rightarrow> tbs_certificate \<Rightarrow> bytes \<Rightarrow> x509_certificate km" where
  "x509_certificate_new lib tbs_cert sig_val =
     (if cl_bit_string_ok lib sig_val
      then Ok \<lparr>x509_signature_algorithm = tbs_signature tbs_cert, x509_tbs_certificate = tbs_cert, x509_signature = sig_val\<rparr>
      else Err Der)"

record signing_info =
  sig_attestation_info :: "(bytes \<times> bytes) option"
  sig_signing_key :: key_material
  sig_issuer_subject :: bytes
  sig_chain :: "certificate list"

definition sig_alg_oid :: "signing_info option \<Rightarrow> key_param list \<Rightarrow> key_param list \<Rightarrow> oid km" where
  "sig_alg_oid info chars params = (case info of
     Some info \<Rightarrow> (case sig_signing_key info of
         Material_Rsa _ \<Rightarrow> Ok SHA256_PKCS1_SIGNATURE_OID
       | Material_Ec curve _ _ \<Rightarrow> Ok (curve_to_signing_oid curve)
       | _ \<Rightarrow> Err (Hal UnsupportedAlgorithm))
   | None \<Rightarrow> and_then (get_algorithm params) (\<lambda>alg. case alg of
         Algorithm_Rsa \<Rightarrow> Ok SHA256_PKCS1_SIGNATURE_OID
       | Algorithm_Ec \<Rightarrow> map_ok curve_to_signing_oid (get_ec_curve chars)
       | _ \<Rightarrow> Err (Hal UnsupportedAlgorithm)))"

definition extension_new :: "cert_lib \<Rightarrow> oid \<Rightarrow> bool \<Rightarrow> bytes \<Rightarrow> extension km" where
  "extension_new lib oid critical val =
     (if cl_octet_string_ok lib val then Ok \<lparr>ext_extn_id = oid, ext_critical = critical, ext_extn_value = val\<rparr> else Err Der)"

definition opt_extension :: "cert_lib \<Rightarrow> oid \<Rightarrow> bool \<Rightarrow> bytes option \<Rightarrow> extension list km" where
  "opt_extension lib oid critical val = (case val of
     Some val \<Rightarrow> map_ok (\<lambda>e. [e]) (extension_new lib oid critical val)
   | None \<Rightarrow> Ok [])"

definition tbs_certificate_new ::
  "cert_lib \<Rightarrow> signing_info option \<Rightarrow> subject_public_key_info \<Rightarrow> bytes \<Rightarrow> bytes option \<Rightarrow> bytes option \<Rightarrow> key_param list \<Rightarrow>
   key_param list \<Rightarrow> tbs_certificate km" where
  "tbs_certificate_new lib info spki key_usage_ext_bits basic_constraint_ext_val attestation_ext chars params =
     and_then (get_cert_serial params) (\<lambda>cert_serial.
     and_then (get_cert_subject params) (\<lambda>cert_subject.
     and_then (get_tag_value (sel_date Date_CertificateNotBefore) MissingNotBefore params) (\<lambda>not_before.
     and_then (get_tag_value (sel_date Date_CertificateNotAfter) MissingNotAfter params) (\<lambda>not_after.
     and_then (sig_alg_oid info chars params) (\<lambda>oid.
     let cert_issuer = (case info of Some info \<Rightarrow> sig_issuer_subject info | None \<Rightarrow> cert_subject) in
     and_then (extension_new lib KeyUsage_OID True key_usage_ext_bits) (\<lambda>key_usage_extension.
     and_then (opt_extension lib BasicConstraints_OID True basic_constraint_ext_val) (\<lambda>basic_constraints.
     and_then (opt_extension lib ATTESTATION_EXTENSION_OID False attestation_ext) (\<lambda>attest_ext.
     and_then (ok_or (cl_serial_number lib cert_serial) Der) (\<lambda>serial_number.
     and_then (ok_or (cl_rdn_from_der lib cert_issuer) Der) (\<lambda>issuer.
     and_then (validity_time_from_datetime lib not_before) (\<lambda>not_before.
     and_then (validity_time_from_datetime lib not_after) (\<lambda>not_after.
     and_then (ok_or (cl_rdn_from_der lib cert_subject) Der) (\<lambda>subject.
     Ok \<lparr>tbs_serial_number = serial_number, tbs_signature = oid, tbs_issuer = issuer, tbs_not_before = not_before,
       tbs_not_after = not_after, tbs_subject = subject, tbs_subject_public_key_info = spki,
       tbs_extensions = key_usage_extension # basic_constraints @ attest_ext\<rparr>)))))))))))))"

section \<open>Building the attestation extension\<close>

definition asn1_security_level_of :: "security_level \<Rightarrow> asn1_security_level km" where
  "asn1_security_level_of level = (case level of
     SecurityLevel_Software \<Rightarrow> Ok Asn1_Software
   | SecurityLevel_TrustedEnvironment \<Rightarrow> Ok Asn1_TrustedEnvironment
   | SecurityLevel_Strongbox \<Rightarrow> Ok Asn1_Strongbox
   | SecurityLevel_Keystore \<Rightarrow> Err (Hal InvalidArgument))"

definition asn1_root_of_trust_of :: "boot_info \<Rightarrow> asn1_root_of_trust" where
  "asn1_root_of_trust_of info = \<lparr>
     art_verified_boot_key = (if bi_verified_boot_key info = [] then EMPTY_BOOT_KEY else bi_verified_boot_key info),
     art_device_locked = bi_device_boot_locked info,
     art_verified_boot_state = bi_verified_boot_state info,
     art_verified_boot_hash = bi_verified_boot_hash info\<rparr>"

definition check_attestation_id :: "key_param list \<Rightarrow> bytes_tag \<Rightarrow> bytes option \<Rightarrow> unit km" where
  "check_attestation_id params variant mustmatch =
     and_then (get_opt_tag_value (sel_bytes variant) InvalidTag params) (\<lambda>val. case val of
       Some val \<Rightarrow> (case mustmatch of
           None \<Rightarrow> Err (Hal CannotAttestIds)
         | Some want \<Rightarrow> require (val = want) (Hal CannotAttestIds))
     | None \<Rightarrow> Ok ())"

text \<open>The identifiers in the order in which they are checked.\<close>

definition attestation_id_fields :: "(bytes_tag \<times> (attestation_id_info \<Rightarrow> bytes)) list" where
  "attestation_id_fields = [(Bytes_AttestationIdBrand, aid_brand), (Bytes_AttestationIdDevice, aid_device),
     (Bytes_AttestationIdProduct, aid_product), (Bytes_AttestationIdSerial, aid_serial),
     (Bytes_AttestationIdImei, aid_imei), (Bytes_AttestationIdSecondImei, aid_imei2),
     (Bytes_AttestationIdMeid, aid_meid), (Bytes_AttestationIdManufacturer, aid_manufacturer),
     (Bytes_AttestationIdModel, aid_model)]"

definition authorization_list_new ::
  "cert_lib \<Rightarrow> key_param list \<Rightarrow> key_param list \<Rightarrow> attestation_id_info option \<Rightarrow> asn1_root_of_trust option \<Rightarrow> bytes option \<Rightarrow>
   key_param list \<Rightarrow> authorization_list km" where
  "authorization_list_new lib auths keygen_params attestation_ids rot_info app_id additional_attestation_info =
     and_then (for_each (\<lambda>(variant, field). check_attestation_id keygen_params variant (map_option field attestation_ids))
       attestation_id_fields) (\<lambda>_.
     and_then (case rot_info of
         Some rot \<Rightarrow> map_ok Some (ok_or (cl_root_of_trust lib rot) Der)
       | None \<Rightarrow> Ok None) (\<lambda>encoded_rot.
     Ok \<lparr>al_auths = auths, al_keygen_params = keygen_params,
       al_rot_info = map_option (KP_Bytes Bytes_RootOfTrust) encoded_rot,
       al_app_id = map_option (KP_Bytes Bytes_AttestationApplicationId) app_id,
       al_additional_attestation_info = additional_attestation_info\<rparr>))"

fun split_chars ::
  "security_level \<Rightarrow> key_characteristics list \<Rightarrow> key_param list \<times> key_param list \<Rightarrow> (key_param list \<times> key_param list) km" where
  "split_chars level [] acc = Ok acc"
| "split_chars level (c # chars) (sw_chars, hw_chars) =
     (if kc_security_level c = SecurityLevel_Keystore \<or> kc_security_level c = SecurityLevel_Software
      then split_chars level chars (kc_authorizations c, hw_chars)
      else if kc_security_level c = level then split_chars level chars (sw_chars, kc_authorizations c)
      else Err (Hal InvalidTag))"

definition attestation_extension_new ::
  "cert_lib \<Rightarrow> int \<Rightarrow> bytes \<Rightarrow> bytes \<Rightarrow> security_level \<Rightarrow> attestation_id_info option \<Rightarrow> key_param list \<Rightarrow>
   key_characteristics list \<Rightarrow> bytes \<Rightarrow> boot_info \<Rightarrow> key_param list \<Rightarrow> attestation_extension km" where
  "attestation_extension_new lib keymint_version challenge app_id security_level attestation_ids params chars unique_id
       boot_info additional_attestation_info =
     and_then (split_chars security_level chars ([], [])) (\<lambda>(sw_chars, hw_chars).
     let (sw_params, hw_params) = (if security_level = SecurityLevel_Software then (params, []) else ([], params)) in
     and_then (authorization_list_new lib sw_chars sw_params attestation_ids None (Some app_id) additional_attestation_info) (\<lambda>sw_enforced.
     and_then (authorization_list_new lib hw_chars hw_params attestation_ids (Some (asn1_root_of_trust_of boot_info)) None []) (\<lambda>hw_enforced.
     and_then (asn1_security_level_of security_level) (\<lambda>sec_level.
     Ok \<lparr>ae_attestation_version = keymint_version, ae_attestation_security_level = sec_level,
       ae_keymint_version = keymint_version, ae_keymint_security_level = sec_level,
       ae_attestation_challenge = challenge, ae_unique_id = unique_id,
       ae_sw_enforced = sw_enforced, ae_hw_enforced = hw_enforced\<rparr>))))"

definition auth_list_route :: "key_param \<Rightarrow> authorization_list \<Rightarrow> authorization_list" where
  "auth_list_route param al = (case param of
     KP_Bytes t _ \<Rightarrow>
       (if t = Bytes_RootOfTrust then al\<lparr>al_rot_info := Some param\<rparr>
        else if t = Bytes_AttestationApplicationId then al\<lparr>al_app_id := Some param\<rparr>
        else if t \<in> fst ` set attestation_id_fields then al\<lparr>al_keygen_params := al_keygen_params al @ [param]\<rparr>
        else if t = Bytes_ModuleHash
        then al\<lparr>al_additional_attestation_info := al_additional_attestation_info al @ [param]\<rparr>
        else al\<lparr>al_auths := al_auths al @ [param]\<rparr>)
   | _ \<Rightarrow> al\<lparr>al_auths := al_auths al @ [param]\<rparr>)"

definition empty_auth_list :: authorization_list where
  "empty_auth_list = \<lparr>al_auths = [], al_keygen_params = [], al_rot_info = None, al_app_id = None,
     al_additional_attestation_info = []\<rparr>"

definition new_from_key_params :: "key_param list \<Rightarrow> authorization_list" where
  "new_from_key_params key_params = fold auth_list_route key_params empty_auth_list"

section \<open>What is attested\<close>

lemma check_attestation_id_Ok:
  assumes "check_attestation_id params t (map_option fld ids) = Ok u" "KP_Bytes t v \<in> set params"
  shows "\<exists>i. ids = Some i \<and> v = fld i"
proof -
  have v: "v \<in> set (tag_values (sel_bytes t) params)"
    using assms(2) by (auto simp: set_tag_values intro!: bexI [of _ "KP_Bytes t v"])
  then obtain w where w: "get_opt_tag_value (sel_bytes t) InvalidTag params = Ok (Some w)" "v = w"
    using assms(1) by (auto simp: check_attestation_id_def and_then_eq_Ok get_opt_tag_value_values
      split: if_splits list.splits option.splits)
  then show ?thesis
    using assms(1) by (cases ids) (auto simp: check_attestation_id_def require_eq)
qed

text \<open>The identifiers that an attestation may contain are those of the device.\<close>

definition ids_match :: "attestation_id_info option \<Rightarrow> key_param list \<Rightarrow> bool" where
  "ids_match ids params \<longleftrightarrow> (\<forall>(t, fld) \<in> set attestation_id_fields. \<forall>v. KP_Bytes t v \<in> set params \<longrightarrow>
     (\<exists>i. ids = Some i \<and> v = fld i))"

lemma authorization_list_new_Ok:
  assumes "authorization_list_new lib auths params ids rot app_id info = Ok al"
  shows "ids_match ids params" "al_auths al = auths" "al_keygen_params al = params"
    "al_app_id al = map_option (KP_Bytes Bytes_AttestationApplicationId) app_id"
    "al_additional_attestation_info al = info"
    "al_rot_info al = (case rot of None \<Rightarrow> None | Some r \<Rightarrow> map_option (KP_Bytes Bytes_RootOfTrust) (cl_root_of_trust lib r))"
  using assms check_attestation_id_Ok [of params _ _ ids]
  by (auto simp: authorization_list_new_def and_then_eq_Ok for_each_eq_Ok ids_match_def map_ok_eq ok_or_eq
    split: option.splits; blast)+

lemma split_chars_hw:
  assumes "split_chars level chars (sw, hw) = Ok (sw', hw')" "level \<noteq> SecurityLevel_Keystore" "level \<noteq> SecurityLevel_Software"
  shows "hw' = (if filter (\<lambda>c. kc_security_level c = level) chars = [] then hw
    else kc_authorizations (last (filter (\<lambda>c. kc_security_level c = level) chars)))"
  using assms
proof (induction chars arbitrary: sw hw)
  case (Cons c chars)
  then show ?case
    using Cons.IH by (cases "kc_security_level c = level") (fastforce split: if_splits)+
qed simp

text \<open>
  C19: The attestation extension of a hardware-backed key tells the truth: every device identifier it
  contains is the one provisioned in the device; the hardware-enforced list holds the authorizations
  of the key at the security level of the device and the root of trust of the boot that is
  attested; the application id, which the caller chooses, is in the software-enforced list only; and the
  challenge, the unique id and the version are those requested.
\<close>

theorem attestation_extension_correct:
  assumes "attestation_extension_new lib ver challenge app_id level ids params chars unique_id bi info = Ok ext"
    and "characteristics_at chars level = Ok auths"
    and "level = SecurityLevel_TrustedEnvironment \<or> level = SecurityLevel_Strongbox"
  shows "ids_match ids (al_keygen_params (ae_sw_enforced ext) @ al_keygen_params (ae_hw_enforced ext))
    \<and> al_auths (ae_hw_enforced ext) = auths
    \<and> (\<exists>rot. cl_root_of_trust lib (asn1_root_of_trust_of bi) = Some rot
         \<and> al_rot_info (ae_hw_enforced ext) = Some (KP_Bytes Bytes_RootOfTrust rot))
    \<and> al_rot_info (ae_sw_enforced ext) = None
    \<and> al_app_id (ae_hw_enforced ext) = None
    \<and> al_app_id (ae_sw_enforced ext) = Some (KP_Bytes Bytes_AttestationApplicationId app_id)
    \<and> ae_attestation_challenge ext = challenge \<and> ae_unique_id ext = unique_id
    \<and> ae_keymint_version ext = ver \<and> ae_keymint_security_level ext \<noteq> Asn1_Software"
proof -
  have level: "level \<noteq> SecurityLevel_Keystore" "level \<noteq> SecurityLevel_Software"
    using assms(3) by auto
  obtain sw hw sl where sp: "split_chars level chars ([], []) = Ok (sw, hw)"
    and s: "authorization_list_new lib sw [] ids None (Some app_id) info = Ok (ae_sw_enforced ext)"
    and h: "authorization_list_new lib hw params ids (Some (asn1_root_of_trust_of bi)) None [] = Ok (ae_hw_enforced ext)"
    and l: "asn1_security_level_of level = Ok sl"
    and e: "ae_attestation_challenge ext = challenge" "ae_unique_id ext = unique_id" "ae_keymint_version ext = ver"
      "ae_keymint_security_level ext = sl"
    using assms(1) level by (auto simp: attestation_extension_new_def and_then_eq_Ok Let_def)
  have hw: "hw = auths"
    using split_chars_hw [OF sp level] assms(2) by (auto simp: characteristics_at_eq split: list.splits)
  have rot: "\<exists>rot. cl_root_of_trust lib (asn1_root_of_trust_of bi) = Some rot"
    using h by (auto simp: authorization_list_new_def and_then_eq_Ok map_ok_eq ok_or_eq)
  have sl: "sl \<noteq> Asn1_Software"
    using l assms(3) by (auto simp: asn1_security_level_of_def)
  show ?thesis
    using authorization_list_new_Ok [OF s] authorization_list_new_Ok [OF h] hw rot e sl by auto
qed

definition ex_boot_info :: boot_info where
  "ex_boot_info = \<lparr>bi_verified_boot_key = [], bi_device_boot_locked = True,
     bi_verified_boot_state = VerifiedBootState_Verified, bi_verified_boot_hash = [4], bi_boot_patchlevel = 20240101\<rparr>"

definition no_cert_lib :: cert_lib where
  "no_cert_lib = \<lparr>cl_bit_string_ok = (\<lambda>_. True), cl_octet_string_ok = (\<lambda>_. True), cl_serial_number = (\<lambda>s. Some s),
     cl_rdn_from_der = (\<lambda>n. Some n), cl_utc_time = (\<lambda>t. Some (UtcTime t)), cl_generalized_time = (\<lambda>t. Some (GeneralTime t)),
     cl_key_usage = (\<lambda>_. Some []), cl_basic_constraints = (\<lambda>_. Some []), cl_root_of_trust = (\<lambda>r. Some (art_verified_boot_key r)),
     cl_attestation_extension = (\<lambda>_. Some []), cl_tbs_certificate = (\<lambda>_. Some []), cl_certificate = (\<lambda>_. Some []),
     cl_certificate_subject = (\<lambda>_. None), cl_secure_key_wrapper = (\<lambda>_. None), cl_key_description = (\<lambda>_. None)\<rparr>"

definition ex_ids :: attestation_id_info where
  "ex_ids = \<lparr>aid_brand = [1], aid_device = [2], aid_product = [3], aid_serial = [4], aid_imei = [5], aid_imei2 = [6],
     aid_meid = [7], aid_manufacturer = [8], aid_model = [9]\<rparr>"

theorem attestation_extension_correct_witness:
  "\<exists>ext. attestation_extension_new no_cert_lib 400 [1] [2] SecurityLevel_TrustedEnvironment (Some ex_ids)
      [KP_Bytes Bytes_AttestationIdBrand [1]]
      [\<lparr>kc_security_level = SecurityLevel_TrustedEnvironment, kc_authorizations = [KP_KeySize 256]\<rparr>] [] ex_boot_info [] = Ok ext
    \<and> ids_match (Some ex_ids) (al_keygen_params (ae_hw_enforced ext)) \<and> al_auths (ae_hw_enforced ext) = [KP_KeySize 256]
    \<and> al_rot_info (ae_hw_enforced ext) = Some (KP_Bytes Bytes_RootOfTrust EMPTY_BOOT_KEY)"
proof -
  have *: "\<exists>ext. attestation_extension_new no_cert_lib 400 [1] [2] SecurityLevel_TrustedEnvironment (Some ex_ids)
      [KP_Bytes Bytes_AttestationIdBrand [1]]
      [\<lparr>kc_security_level = SecurityLevel_TrustedEnvironment, kc_authorizations = [KP_KeySize 256]\<rparr>] [] ex_boot_info [] = Ok ext"
    by (simp add: attestation_extension_new_def authorization_list_new_def attestation_id_fields_def check_attestation_id_def
      get_opt_tag_value_values ex_ids_def no_cert_lib_def asn1_security_level_of_def Let_def)
  then obtain ext where e: "attestation_extension_new no_cert_lib 400 [1] [2] SecurityLevel_TrustedEnvironment (Some ex_ids)
      [KP_Bytes Bytes_AttestationIdBrand [1]]
      [\<lparr>kc_security_level = SecurityLevel_TrustedEnvironment, kc_authorizations = [KP_KeySize 256]\<rparr>] [] ex_boot_info [] = Ok ext"
    by blast
  show ?thesis
    using e attestation_extension_correct [OF e, of "[KP_KeySize 256]"]
    by (auto simp: characteristics_at_eq ids_match_def no_cert_lib_def asn1_root_of_trust_of_def ex_boot_info_def)
qed

end
