(* ===== verification/Ta_State.thy ===== *)
theory Ta_State
  imports Tokens Keyblob Tag_Begin Cert
begin

text \<open>
  The state of the trusted application and the handlers that do not run operations or create keys
  (\<open>KeyMintTa\<close> in \<open>ta/src/lib.rs\<close>, with \<open>ta/src/secret.rs\<close> and \<open>ta/src/clock.rs\<close>).

  What a vendor supplies as trait objects, and the COSE library, are arguments: \<open>crypto_imp\<close> for
  \<open>crypto::Implementation\<close>, \<open>device_imp\<close> for \<open>device::Implementation\<close>, \<open>mac0_lib\<close> for the part of
  \<open>coset\<close> that makes MACs.  The types are those of an operation in progress \<open>'k\<close> (one type for all the
  operation traits), of what the device stores \<open>'s\<close>, of the random generator \<open>'r\<close> and of
  \<open>CoseEncrypt0\<close> \<open>'c\<close>.  What the environment decides anew for each request (the time, whether a user
  is present, whether the boot loader is done) is the record \<open>ta_env\<close>; a handler reads each of them at
  most once.
\<close>

section \<open>What the device provides\<close>

record ('k, 'r) crypto_imp =
  ci_fill :: "'r fill"
  ci_add_entropy :: "bytes \<Rightarrow> 'r \<Rightarrow> 'r"
  ci_has_clock :: bool
  ci_compare :: "bytes \<Rightarrow> bytes \<Rightarrow> bool"
  ci_sha256 :: "bytes \<Rightarrow> bytes km"
  ci_emit_update :: "'k \<Rightarrow> bytes \<Rightarrow> (bytes \<times> 'k) km"
  ci_emit_finish :: "'k \<Rightarrow> bytes km"
  ci_aes_begin :: "aes_key opaque_or \<Rightarrow> aes_cipher_mode \<Rightarrow> symmetric_operation \<Rightarrow> 'k km"
  ci_aead :: "'k aead_impl"
  ci_des_begin :: "des_key opaque_or \<Rightarrow> des_mode \<Rightarrow> symmetric_operation \<Rightarrow> 'k km"
  ci_hmac :: "'k hmac_impl"
  ci_max_input_size :: "'k \<Rightarrow> nat option"
  ci_rsa_begin_decrypt :: "rsa_key opaque_or \<Rightarrow> rsa_decryption_mode \<Rightarrow> 'k km"
  ci_rsa_begin_sign :: "rsa_key opaque_or \<Rightarrow> rsa_sign_mode \<Rightarrow> 'k km"
  ci_ec_begin_agree :: "ec_key opaque_or \<Rightarrow> 'k km"
  ci_ec_begin_sign :: "ec_key opaque_or \<Rightarrow> digest \<Rightarrow> 'k km"
  ci_kdf :: kdf_impl
  ci_ckdf :: "aes_key opaque_or \<Rightarrow> bytes \<Rightarrow> bytes list \<Rightarrow> nat \<Rightarrow> bytes km"
  ci_generate :: "key_gen_info \<Rightarrow> key_param list \<Rightarrow> ('r, key_material, error) act"
  ci_import :: import_impl
  ci_ec_subject_public_key :: "ec_key opaque_or \<Rightarrow> bytes km"
  ci_rsa_subject_public_key :: "rsa_key opaque_or \<Rightarrow> bytes km"

record 's legacy_handler =
  lh_is_legacy_key :: "bytes \<Rightarrow> key_param list \<Rightarrow> boot_info \<Rightarrow> 's \<Rightarrow> bool"
  lh_convert_legacy_key :: "bytes \<Rightarrow> key_param list \<Rightarrow> boot_info \<Rightarrow> security_level \<Rightarrow> 's \<Rightarrow> plaintext_key_blob km"
  lh_delete_legacy_key :: "bytes \<Rightarrow> ('s, unit, error) act"

record 's attest_ids_impl =
  ai_get :: "'s \<Rightarrow> attestation_id_info km"
  ai_destroy_all :: "('s, unit, error) act"

datatype signing_key = SigningKey_Batch | SigningKey_DeviceUnique
datatype signing_algorithm = SigningAlgorithm_Ec | SigningAlgorithm_Rsa

record signing_key_type =
  skt_which :: signing_key
  skt_algo_hint :: signing_algorithm

record sign_info_impl =
  si_signing_key :: "signing_key_type \<Rightarrow> key_material km"
  si_cert_chain :: "signing_key_type \<Rightarrow> certificate list km"

datatype csr_signing_algorithm = CsrSigning_ES256 | CsrSigning_ES384 | CsrSigning_EdDSA

record dice_info =
  dice_uds_certs :: bytes
  dice_cert_chain :: bytes
  dice_signing_algorithm :: csr_signing_algorithm

record rpc_impl =
  ra_compute_hmac_sha256 :: "bytes \<Rightarrow> bytes km"
  ra_get_dice_info :: "bool \<Rightarrow> dice_info km"
  ra_sign_data_in_cose_sign1 :: "csr_signing_algorithm \<Rightarrow> bytes \<Rightarrow> bytes km"

record ('s, 'r) device_imp =
  di_root_kek :: "bytes \<Rightarrow> hmac_key opaque_or km"
  di_kek_context :: "bytes km"
  di_kak :: "aes_key opaque_or km"
  di_hmac_key_agreed :: "hmac_key \<Rightarrow> (bytes \<Rightarrow> bytes km) option"
  di_unique_id_hbk :: "(aes_key opaque_or \<Rightarrow> bytes \<Rightarrow> bytes list \<Rightarrow> nat \<Rightarrow> bytes km) \<Rightarrow> hmac_key km"
  di_timestamp_token_mac_input :: "time_stamp_token \<Rightarrow> bytes km"
  di_sdd_mgr :: "('s, 'r) sdd_ops option"
  di_attest_ids :: "'s attest_ids_impl option"
  di_legacy_key :: "'s legacy_handler option"
  di_sk_wrapper :: "(key_material \<Rightarrow> bytes km) option"
  di_sign_info :: "sign_info_impl option"
  di_rpc :: rpc_impl

record cose_mac0 =
  m0_protected :: bytes
  m0_payload :: "bytes option"
  m0_tag :: bytes

text \<open>
  Of \<open>coset\<close>: the encoded protected header for HMAC 256/256, the data to be MACed, and the tagged
  encodings.
\<close>

record mac0_lib =
  ml_protected :: bytes
  ml_structure :: "bytes \<Rightarrow> bytes \<Rightarrow> bytes \<Rightarrow> bytes"
  ml_to_tagged_vec :: "cose_mac0 \<Rightarrow> bytes cb"
  ml_from_tagged_slice :: "bytes \<Rightarrow> cose_mac0 cb"
  ml_value_to_tagged :: "u64 \<Rightarrow> cbor \<Rightarrow> bytes cb"
  ml_tagged_to_value :: "u64 \<Rightarrow> bytes \<Rightarrow> cbor cb"

record rpc_info_v2 =
  r2_author_name :: string
  r2_supported_eek_curve :: eek_curve
  r2_unique_id :: string
  r2_fused :: bool

record rpc_info_v3 =
  r3_author_name :: string
  r3_unique_id :: string
  r3_fused :: bool
  r3_supported_num_of_keys_in_csr :: int

datatype rpc_info = RpcInfo_V2 rpc_info_v2 | RpcInfo_V3 rpc_info_v3

definition IRPC_V2 :: int where "IRPC_V2 = 2"
definition IRPC_V3 :: int where "IRPC_V3 = 3"

fun rpc_version :: "rpc_info \<Rightarrow> int" where
  "rpc_version (RpcInfo_V2 _) = IRPC_V2"
| "rpc_version (RpcInfo_V3 _) = IRPC_V3"

record hardware_info =
  hw_security_level :: security_level
  hw_version_number :: int
  hw_impl_name :: string
  hw_author_name :: string
  hw_unique_id :: string

record ('k, 's, 'r, 'c) ta_conf =
  tc_imp :: "('k, 'r) crypto_imp"
  tc_dev :: "('s, 'r) device_imp"
  tc_cbor :: cbor_lib
  tc_cose :: "'c cose_lib"
  tc_mac0 :: mac0_lib
  tc_cert :: cert_lib
  tc_hw_info :: hardware_info
  tc_rpc_info :: rpc_info
  tc_downgrade :: bool

record ta_env =
  env_now :: i64
  env_user_present :: bool
  env_bootloader_done :: bool

section \<open>The state\<close>

datatype hal_version = HalVersion_V4 | HalVersion_V3 | HalVersion_V2 | HalVersion_V1

primrec hal_version_i32 :: "hal_version \<Rightarrow> int" where
  "hal_version_i32 HalVersion_V4 = 400"
| "hal_version_i32 HalVersion_V3 = 300"
| "hal_version_i32 HalVersion_V2 = 200"
| "hal_version_i32 HalVersion_V1 = 100"

definition KEYMINT_CURRENT_VERSION :: hal_version where "KEYMINT_CURRENT_VERSION = HalVersion_V4"
definition MAX_TEE_OPERATIONS :: nat where "MAX_TEE_OPERATIONS = 16"
definition MAX_STRONGBOX_OPERATIONS :: nat where "MAX_STRONGBOX_OPERATIONS = 4"
definition MAX_USE_COUNTED_KEYS :: nat where "MAX_USE_COUNTED_KEYS = 32"
definition ALLOWED_ADDITIONAL_ATTESTATION_TAGS :: "tag list" where
  "ALLOWED_ADDITIONAL_ATTESTATION_TAGS = [Tag_ModuleHash]"

record use_count =
  uc_key_id :: bytes
  uc_count :: u64

record hal_info =
  hi_os_version :: u32
  hi_os_patchlevel :: u32
  hi_vendor_patchlevel :: u32

datatype device_hmac_impl = SoftDeviceHmac hmac_key | HardwareHmac "bytes \<Rightarrow> bytes km"

text \<open>An operation in progress (\<open>ta/src/operation.rs\<close>).\<close>

datatype 'k crypto_operation =
    CO_Aes 'k
  | CO_AesGcm 'k
  | CO_Des 'k
  | CO_HmacSign 'k nat
  | CO_HmacVerify 'k nat nat
  | CO_RsaDecrypt 'k
  | CO_RsaSign 'k
  | CO_EcAgree 'k
  | CO_EcSign 'k

record auth_info =
  au_secure_ids :: "u64 list"
  au_auth_type :: u32
  au_timeout_secs :: "u32 option"

record 'k operation =
  op_handle :: i64
  op_aad_allowed :: bool
  op_slot_to_delete :: "u32 option"
  op_trusted_conf_data :: "bytes option"
  op_auth_info :: "auth_info option"
  op_crypto_op :: "'k crypto_operation"
  op_input_size :: nat

record ('k, 's, 'r) ta =
  ta_aidl_version :: hal_version
  ta_shared_secret_params :: "shared_secret_params option"
  ta_boot_info :: "boot_info option"
  ta_rot_data :: "bytes option"
  ta_hal_info :: "hal_info option"
  ta_additional_attestation_info :: "key_param list"
  ta_attestation_id_info :: "attestation_id_info option"
  ta_attestation_chain_info :: "signing_key_type \<rightharpoonup> certificate list \<times> bytes"
  ta_dice_info :: "dice_info option"
  ta_in_early_boot :: bool
  ta_device_hmac :: "device_hmac_impl option"
  ta_rot_challenge :: bytes
  ta_operations :: "'k operation option list"
  ta_use_count :: "use_count option list"
  ta_presence_required_op :: "i64 option"
  ta_store :: 's
  ta_rng :: 'r

definition ta_new :: "('k, 's, 'r, 'c) ta_conf \<Rightarrow> 's \<Rightarrow> 'r \<Rightarrow> ('k, 's, 'r) ta" where
  "ta_new C s r = \<lparr>
     ta_aidl_version = KEYMINT_CURRENT_VERSION, ta_shared_secret_params = None, ta_boot_info = None,
     ta_rot_data = None, ta_hal_info = None, ta_additional_attestation_info = [],
     ta_attestation_id_info = None, ta_attestation_chain_info = Map.empty, ta_dice_info = None,
     ta_in_early_boot = True, ta_device_hmac = None,
     ta_rot_challenge = replicate 16 0,
     ta_operations = replicate (if hw_security_level (tc_hw_info C) = SecurityLevel_Strongbox
       then MAX_STRONGBOX_OPERATIONS else MAX_TEE_OPERATIONS) None,
     ta_use_count = replicate MAX_USE_COUNTED_KEYS None, ta_presence_required_op = None,
     ta_store = s, ta_rng = r\<rparr>"

abbreviation sec_level :: "('k, 's, 'r, 'c) ta_conf \<Rightarrow> security_level" where
  "sec_level C \<equiv> hw_security_level (tc_hw_info C)"

definition is_strongbox :: "('k, 's, 'r, 'c) ta_conf \<Rightarrow> bool" where
  "is_strongbox C \<longleftrightarrow> sec_level C = SecurityLevel_Strongbox"

definition secure_storage_available :: "('k, 's, 'r, 'c) ta_conf \<Rightarrow> secure_storage" where
  "secure_storage_available C = (if di_sdd_mgr (tc_dev C) \<noteq> None then Storage_Available else Storage_Unavailable)"

definition ta_clock :: "('k, 's, 'r, 'c) ta_conf \<Rightarrow> ta_env \<Rightarrow> i64 option" where
  "ta_clock C V = (if ci_has_clock (tc_imp C) then Some (env_now V) else None)"

definition get_boot_info :: "('k, 's, 'r) ta \<Rightarrow> boot_info km" where
  "get_boot_info T = ok_or (ta_boot_info T) (Hal HardwareNotYetAvailable)"

definition boot_info_hashed_key :: "('k, 's, 'r, 'c) ta_conf \<Rightarrow> ('k, 's, 'r) ta \<Rightarrow> boot_info km" where
  "boot_info_hashed_key C T =
     and_then (get_boot_info T) (\<lambda>boot_info.
     if length (bi_verified_boot_key boot_info) > 32
     then and_then (ci_sha256 (tc_imp C) (bi_verified_boot_key boot_info)) (\<lambda>h.
       Ok (boot_info\<lparr>bi_verified_boot_key := h\<rparr>))
     else Ok boot_info)"

definition root_of_trust :: "('k, 's, 'r) ta \<Rightarrow> bytes km" where
  "root_of_trust T = ok_or (ta_rot_data T) (Hal HardwareNotYetAvailable)"

definition root_kek :: "('k, 's, 'r, 'c) ta_conf \<Rightarrow> bytes \<Rightarrow> hmac_key opaque_or km" where
  "root_kek C context = di_root_kek (tc_dev C) context"

section \<open>The device HMAC\<close>

fun hmac_with :: "('k, 'r) crypto_imp \<Rightarrow> device_hmac_impl \<Rightarrow> bytes \<Rightarrow> bytes km" where
  "hmac_with imp (SoftDeviceHmac key) data =
     and_then (hmac_begin (ci_hmac imp) (Explicit key) Digest_Sha256) (\<lambda>op.
     and_then (acc_update (ci_hmac imp) op data) (acc_finish (ci_hmac imp)))"
| "hmac_with imp (HardwareHmac f) data = f data"

definition device_hmac :: "('k, 's, 'r, 'c) ta_conf \<Rightarrow> ('k, 's, 'r) ta \<Rightarrow> bytes \<Rightarrow> bytes km" where
  "device_hmac C T data = (case ta_device_hmac T of
     Some traitobj \<Rightarrow> hmac_with (tc_imp C) traitobj data
   | None \<Rightarrow> Err (Hal HardwareNotYetAvailable))"

definition verify_device_hmac :: "('k, 's, 'r, 'c) ta_conf \<Rightarrow> ('k, 's, 'r) ta \<Rightarrow> bytes \<Rightarrow> bytes \<Rightarrow> bool km" where
  "verify_device_hmac C T data mac =
     and_then (device_hmac C T data) (\<lambda>remac. Ok (ci_compare (tc_imp C) mac remac))"

definition get_shared_secret_params ::
  "('k, 's, 'r, 'c) ta_conf \<Rightarrow> (('k, 's, 'r) ta, shared_secret_params, error) act" where
  "get_shared_secret_params C T = (case ta_shared_secret_params T of
     Some params \<Rightarrow> (Ok params, T)
   | None \<Rightarrow> (case ci_fill (tc_imp C) (ta_rng T) 32 of
       (nonce_bytes, r) \<Rightarrow>
         let params = \<lparr>ssp_seed = [], ssp_nonce = nonce_bytes\<rparr> in
         (Ok params, T\<lparr>ta_rng := r, ta_shared_secret_params := Some params\<rparr>)))"

definition compute_shared_secret ::
  "('k, 's, 'r, 'c) ta_conf \<Rightarrow> shared_secret_params list \<Rightarrow> (('k, 's, 'r) ta, bytes, error) act" where
  "compute_shared_secret C params =
     st_then (st_check (\<lambda>T. and_then (ok_or (ta_shared_secret_params T) (Hal HardwareNotYetAvailable)) (\<lambda>local_params.
       and_then (shared_secret_context params local_params) (\<lambda>context.
       and_then (di_kak (tc_dev C)) (\<lambda>kak.
       map_ok HmacKey (ci_ckdf (tc_imp C) kak KEY_AGREEMENT_LABEL [context] SHA256_DIGEST_LEN)))))) (\<lambda>key.
     st_then (st_put (ta_device_hmac_update (\<lambda>_. Some (case di_hmac_key_agreed (tc_dev C) key of
         Some f \<Rightarrow> HardwareHmac f | None \<Rightarrow> SoftDeviceHmac key)))) (\<lambda>_.
     st_check (\<lambda>T. device_hmac C T KEY_CHECK_LABEL)))"

definition generate_timestamp ::
  "('k, 's, 'r, 'c) ta_conf \<Rightarrow> ta_env \<Rightarrow> i64 \<Rightarrow> ('k, 's, 'r) ta \<Rightarrow> time_stamp_token km" where
  "generate_timestamp C V challenge T = (case ta_clock C V of
     Some now \<Rightarrow>
       let ret = \<lparr>tst_challenge = challenge, tst_timestamp = \<lparr>ts_milliseconds = now\<rparr>, tst_mac = []\<rparr> in
       and_then (di_timestamp_token_mac_input (tc_dev C) ret) (\<lambda>mac_input.
       and_then (device_hmac C T mac_input) (\<lambda>mac. Ok (ret\<lparr>tst_mac := mac\<rparr>)))
   | None \<Rightarrow> Err (Hal Unimplemented))"

section \<open>Boot and HAL information\<close>

definition rot_info_of :: "boot_info \<Rightarrow> root_of_trust_info" where
  "rot_info_of boot_info = \<lparr>rot_verified_boot_key = bi_verified_boot_key boot_info,
     rot_device_boot_locked = bi_device_boot_locked boot_info,
     rot_verified_boot_state = bi_verified_boot_state boot_info\<rparr>"

definition set_boot_info :: "('k, 's, 'r, 'c) ta_conf \<Rightarrow> boot_info \<Rightarrow> (('k, 's, 'r) ta, unit, error) act" where
  "set_boot_info C boot_info T =
     (if \<not> ta_in_early_boot T then (Err (Hal EarlyBootEnded), T)
      else case ta_boot_info T of
        Some existing_boot_info \<Rightarrow>
          (if existing_boot_info = boot_info then (Ok (), T) else (Err (Hal RootOfTrustAlreadySet), T))
      | None \<Rightarrow>
          let T = T\<lparr>ta_boot_info := Some boot_info\<rparr> in
          (case into_vec (tc_cbor C) root_of_trust_info_to_cbor (rot_info_of boot_info) of
             Ok data \<Rightarrow> (Ok (), T\<lparr>ta_rot_data := Some data\<rparr>)
           | Err _ \<Rightarrow> (Err (Hal EncodingError), T)
           | Panic \<Rightarrow> (Panic, T)))"

definition set_hal_info :: "hal_info \<Rightarrow> ('k, 's, 'r) ta \<Rightarrow> ('k, 's, 'r) ta" where
  "set_hal_info hal_info T = (if ta_hal_info T = None then T\<lparr>ta_hal_info := Some hal_info\<rparr> else T)"

definition hal_version_of :: "u32 \<Rightarrow> hal_version option" where
  "hal_version_of v =
     (if v = 100 then Some HalVersion_V1 else if v = 200 then Some HalVersion_V2
      else if v = 300 then Some HalVersion_V3 else if v = 400 then Some HalVersion_V4 else None)"

definition set_hal_version :: "('k, 's, 'r, 'c) ta_conf \<Rightarrow> u32 \<Rightarrow> (('k, 's, 'r) ta, unit, error) act" where
  "set_hal_version C aidl_version T = (case hal_version_of aidl_version of
     None \<Rightarrow> (Err (Hal InvalidArgument), T)
   | Some v \<Rightarrow>
       (if v = ta_aidl_version T then (Ok (), T)
        else if tc_downgrade C then (Ok (), T\<lparr>ta_aidl_version := v\<rparr>)
        else (Ok (), T)))"

definition early_boot_ended :: "(('k, 's, 'r) ta, unit, error) act" where
  "early_boot_ended T = (Ok (), T\<lparr>ta_in_early_boot := False\<rparr>)"

section \<open>Attestation information\<close>

definition set_attestation_ids ::
  "('k, 's, 'r, 'c) ta_conf \<Rightarrow> attestation_id_info \<Rightarrow> ('k, 's, 'r) ta \<Rightarrow> ('k, 's, 'r) ta" where
  "set_attestation_ids C ids T =
     (if di_attest_ids (tc_dev C) \<noteq> None then T
      else if ta_attestation_id_info T \<noteq> None then T
      else T\<lparr>ta_attestation_id_info := Some ids\<rparr>)"

definition get_attestation_ids ::
  "('k, 's, 'r, 'c) ta_conf \<Rightarrow> (('k, 's, 'r) ta, attestation_id_info option, error) act" where
  "get_attestation_ids C T = (case (ta_attestation_id_info T, di_attest_ids (tc_dev C)) of
      (None, Some get_ids_impl) \<Rightarrow> (case ai_get get_ids_impl (ta_store T) of
          Ok ids \<Rightarrow> (Ok (Some ids), T\<lparr>ta_attestation_id_info := Some ids\<rparr>)
        | Err _ \<Rightarrow> (Ok None, T)
        | Panic \<Rightarrow> (Panic, T))
    | _ \<Rightarrow> (Ok (ta_attestation_id_info T), T))"

definition get_dice_info :: "('k, 's, 'r, 'c) ta_conf \<Rightarrow> (('k, 's, 'r) ta, dice_info option, error) act" where
  "get_dice_info C T = (case ta_dice_info T of
      Some d \<Rightarrow> (Ok (Some d), T)
    | None \<Rightarrow> (case ra_get_dice_info (di_rpc (tc_dev C)) False of
          Ok d \<Rightarrow> (Ok (Some d), T\<lparr>ta_dice_info := Some d\<rparr>)
        | Err _ \<Rightarrow> (Ok None, T)
        | Panic \<Rightarrow> (Panic, T)))"

definition on_store :: "('s, 'a, 'e) act \<Rightarrow> (('k, 's, 'r) ta, 'a, 'e) act" where
  "on_store m T = (case m (ta_store T) of (r, s) \<Rightarrow> (r, T\<lparr>ta_store := s\<rparr>))"

definition on_rng :: "('r, 'a, 'e) act \<Rightarrow> (('k, 's, 'r) ta, 'a, 'e) act" where
  "on_rng m T = (case m (ta_rng T) of (res, r) \<Rightarrow> (res, T\<lparr>ta_rng := r\<rparr>))"

definition destroy_attestation_ids :: "('k, 's, 'r, 'c) ta_conf \<Rightarrow> (('k, 's, 'r) ta, unit, error) act" where
  "destroy_attestation_ids C T = (case di_attest_ids (tc_dev C) of
     Some attest_ids \<Rightarrow> on_store (ai_destroy_all attest_ids) (T\<lparr>ta_attestation_id_info := None\<rparr>)
   | None \<Rightarrow> (Err (Hal Unimplemented), T))"

definition set_additional_attestation_info_err :: "tag \<Rightarrow> error" where
  "set_additional_attestation_info_err tag =
     (if tag = Tag_ModuleHash then Hal ModuleHashAlreadySet else Hal InvalidTag)"

fun set_additional_attestation_info :: "key_param list \<Rightarrow> (('k, 's, 'r) ta, unit, error) act" where
  "set_additional_attestation_info [] T = (Ok (), T)"
| "set_additional_attestation_info (param # info) T =
     (let tag = key_param_tag param in
      if tag \<notin> set ALLOWED_ADDITIONAL_ATTESTATION_TAGS then set_additional_attestation_info info T
      else case find (\<lambda>x. key_param_tag x = tag) (ta_additional_attestation_info T) of
        Some v \<Rightarrow> (if v = param then set_additional_attestation_info info T
                   else (Err (set_additional_attestation_info_err tag), T))
      | None \<Rightarrow> set_additional_attestation_info info
          (T\<lparr>ta_additional_attestation_info := ta_additional_attestation_info T @ [param]\<rparr>))"

section \<open>Other device methods\<close>

definition add_rng_entropy :: "('k, 's, 'r, 'c) ta_conf \<Rightarrow> bytes \<Rightarrow> (('k, 's, 'r) ta, unit, error) act" where
  "add_rng_entropy C data T =
     (if length data > 2048 then (Err (Hal InvalidInputLength), T)
      else (Ok (), T\<lparr>ta_rng := ci_add_entropy (tc_imp C) data (ta_rng T)\<rparr>))"

definition get_hardware_info :: "('k, 's, 'r, 'c) ta_conf \<Rightarrow> keymint_hardware_info km" where
  "get_hardware_info C = Ok \<lparr>hwi_version_number = hw_version_number (tc_hw_info C), hwi_security_level = sec_level C,
     hwi_key_mint_name = hw_impl_name (tc_hw_info C), hwi_key_mint_author_name = hw_author_name (tc_hw_info C),
     hwi_timestamp_token_required = (\<not> ci_has_clock (tc_imp C))\<rparr>"

text \<open>The failure of a deletion is logged and ignored; a panic is not.\<close>

fun ignore_err :: "('a, 'e) res \<times> 's \<Rightarrow> (unit, 'e) res \<times> 's" where
  "ignore_err (Panic, s) = (Panic, s)"
| "ignore_err (_, s) = (Ok (), s)"

definition delete_key :: "('k, 's, 'r, 'c) ta_conf \<Rightarrow> bytes \<Rightarrow> (('k, 's, 'r) ta, unit, error) act" where
  "delete_key C keyblob T = (case encrypted_key_blob_new (tc_cbor C) (tc_cose C) keyblob of
     Ok (EncryptedKeyBlob_V1 encrypted_keyblob) \<Rightarrow>
       (case (di_sdd_mgr (tc_dev C), ekb_secure_deletion_slot encrypted_keyblob) of
          (Some sdd_mgr, Some slot) \<Rightarrow> ignore_err (on_store (sm_delete_secret sdd_mgr slot) T)
        | _ \<Rightarrow> (Ok (), T))
   | Panic \<Rightarrow> (Panic, T)
   | Err _ \<Rightarrow> (case di_legacy_key (tc_dev C) of
          Some old_key \<Rightarrow> ignore_err (on_store (lh_delete_legacy_key old_key keyblob) T)
        | None \<Rightarrow> (Ok (), T)))"

definition delete_all_keys :: "('k, 's, 'r, 'c) ta_conf \<Rightarrow> (('k, 's, 'r) ta, unit, error) act" where
  "delete_all_keys C T = (case di_sdd_mgr (tc_dev C) of
     Some sdd_mgr \<Rightarrow> (Ok (), T\<lparr>ta_store := sm_delete_all sdd_mgr (ta_store T)\<rparr>)
   | None \<Rightarrow> (Ok (), T))"

section \<open>Transfer of the root of trust\<close>

definition ROOT_OF_TRUST_TAG :: u64 where "ROOT_OF_TRUST_TAG = 40001"

definition get_root_of_trust_challenge :: "('k, 's, 'r, 'c) ta_conf \<Rightarrow> (('k, 's, 'r) ta, bytes, error) act" where
  "get_root_of_trust_challenge C T =
     (if \<not> is_strongbox C then (Err (Hal Unimplemented), T)
      else case ci_fill (tc_imp C) (ta_rng T) (length (ta_rot_challenge T)) of
        (c, r) \<Rightarrow> (Ok c, T\<lparr>ta_rot_challenge := c, ta_rng := r\<rparr>))"

definition get_root_of_trust :: "('k, 's, 'r, 'c) ta_conf \<Rightarrow> bytes \<Rightarrow> ('k, 's, 'r) ta \<Rightarrow> bytes km" where
  "get_root_of_trust C challenge T =
     (if is_strongbox C then Err (Hal Unimplemented)
      else
        and_then (boot_info_hashed_key C T) (\<lambda>boot_info.
        and_then (map_err (\<lambda>_. Hal EncodingError)
          (ml_value_to_tagged (tc_mac0 C) ROOT_OF_TRUST_TAG (boot_info_to_cbor boot_info))) (\<lambda>payload.
        and_then (device_hmac C T (ml_structure (tc_mac0 C) (ml_protected (tc_mac0 C)) challenge payload)) (\<lambda>tag.
        map_err (\<lambda>_. Hal EncodingError) (ml_to_tagged_vec (tc_mac0 C)
          \<lparr>m0_protected = ml_protected (tc_mac0 C), m0_payload = Some payload, m0_tag = tag\<rparr>)))))"

text \<open>\<open>CoseMac0::verify_tag\<close> is documented to panic when there is no payload.\<close>

definition mac0_verify_tag ::
  "mac0_lib \<Rightarrow> cose_mac0 \<Rightarrow> bytes \<Rightarrow> (bytes \<Rightarrow> bytes \<Rightarrow> unit km) \<Rightarrow> unit km" where
  "mac0_verify_tag lib mac0 aad verify = (case m0_payload mac0 of
     None \<Rightarrow> Panic
   | Some payload \<Rightarrow> verify (m0_tag mac0) (ml_structure lib (m0_protected mac0) aad payload))"

definition check_root_of_trust :: "('k, 's, 'r, 'c) ta_conf \<Rightarrow> bytes \<Rightarrow> ('k, 's, 'r) ta \<Rightarrow> boot_info km" where
  "check_root_of_trust C rot_msg T =
     (if \<not> is_strongbox C then Err (Hal Unimplemented)
      else
        and_then (map_err (\<lambda>_. Hal InvalidArgument) (ml_from_tagged_slice (tc_mac0 C) rot_msg)) (\<lambda>mac0.
        and_then (mac0_verify_tag (tc_mac0 C) mac0 (ta_rot_challenge T) (\<lambda>tag data.
          and_then (verify_device_hmac C T data tag) (\<lambda>ok. require ok (Hal VerificationFailed)))) (\<lambda>_.
        and_then (ok_or (m0_payload mac0) (Hal InvalidArgument)) (\<lambda>payload.
        map_err (\<lambda>_. Hal InvalidArgument)
          (and_then (ml_tagged_to_value (tc_mac0 C) ROOT_OF_TRUST_TAG payload) boot_info_from_cbor)))))"

definition send_root_of_trust :: "('k, 's, 'r, 'c) ta_conf \<Rightarrow> bytes \<Rightarrow> (('k, 's, 'r) ta, unit, error) act" where
  "send_root_of_trust C rot_msg =
     st_then (st_check (check_root_of_trust C rot_msg)) (\<lambda>boot_info.
     st_put (\<lambda>T. if ta_boot_info T = None then T\<lparr>ta_boot_info := Some boot_info\<rparr> else T))"

section \<open>Key blobs\<close>

definition keyblob_parse_decrypt_backlevel ::
  "('k, 's, 'r, 'c) ta_conf \<Rightarrow> bytes \<Rightarrow> key_param list \<Rightarrow> ('k, 's, 'r) ta \<Rightarrow> (plaintext_key_blob \<times> u32 option) km" where
  "keyblob_parse_decrypt_backlevel C key_blob params T =
     (case encrypted_key_blob_new (tc_cbor C) (tc_cose C) key_blob of
        Ok encrypted_keyblob \<Rightarrow>
          and_then (root_of_trust T) (\<lambda>rot.
          and_then (hidden params rot) (\<lambda>hidden_params.
          and_then (root_kek C (kek_context encrypted_keyblob)) (\<lambda>kek.
          and_then (decrypt (tc_cbor C) (tc_cose C) (di_sdd_mgr (tc_dev C)) (ta_store T) (ci_aead (tc_imp C))
            (ci_kdf (tc_imp C)) kek encrypted_keyblob hidden_params) (\<lambda>keyblob.
          Ok (keyblob, secure_deletion_slot encrypted_keyblob)))))
      | Err e \<Rightarrow> (case di_legacy_key (tc_dev C) of
            Some old_key \<Rightarrow>
              and_then (get_boot_info T) (\<lambda>boot_info.
              if lh_is_legacy_key old_key key_blob params boot_info (ta_store T)
              then Err (Hal KeyRequiresUpgrade) else Err e)
          | None \<Rightarrow> Err e)
      | Panic \<Rightarrow> Panic)"

definition check_level :: "u32 \<Rightarrow> u32 \<Rightarrow> unit km" where
  "check_level v cur =
     (if v < cur then Err (Hal KeyRequiresUpgrade) else if v = cur then Ok () else Err (Hal InvalidKeyBlob))"

definition check_version_param :: "('k, 's, 'r) ta \<Rightarrow> key_param \<Rightarrow> unit km" where
  "check_version_param T param = (case param of
     KP_U32 U32_OsVersion v \<Rightarrow> (case ta_hal_info T of
         Some hal_info \<Rightarrow>
           (if hi_os_version hal_info = 0 then (if v \<noteq> 0 then Err (Hal KeyRequiresUpgrade) else Ok ())
            else check_level v (hi_os_version hal_info))
       | None \<Rightarrow> Ok ())
   | KP_U32 U32_OsPatchlevel v \<Rightarrow> (case ta_hal_info T of
         Some hal_info \<Rightarrow> check_level v (hi_os_patchlevel hal_info) | None \<Rightarrow> Ok ())
   | KP_U32 U32_VendorPatchlevel v \<Rightarrow> (case ta_hal_info T of
         Some hal_info \<Rightarrow> check_level v (hi_vendor_patchlevel hal_info) | None \<Rightarrow> Ok ())
   | KP_U32 U32_BootPatchlevel v \<Rightarrow> (case ta_boot_info T of
         Some boot_info \<Rightarrow> check_level v (bi_boot_patchlevel boot_info) | None \<Rightarrow> Ok ())
   | _ \<Rightarrow> Ok ())"

definition keyblob_parse_decrypt ::
  "('k, 's, 'r, 'c) ta_conf \<Rightarrow> bytes \<Rightarrow> key_param list \<Rightarrow> ('k, 's, 'r) ta \<Rightarrow> (plaintext_key_blob \<times> u32 option) km" where
  "keyblob_parse_decrypt C key_blob params T =
     and_then (keyblob_parse_decrypt_backlevel C key_blob params T) (\<lambda>(keyblob, slot).
     and_then (pkb_characteristics_at keyblob (sec_level C)) (\<lambda>key_chars.
     and_then (for_each (check_version_param T) key_chars) (\<lambda>_.
     Ok (keyblob, slot))))"

definition key_id :: "('k, 's, 'r, 'c) ta_conf \<Rightarrow> bytes \<Rightarrow> bytes km" where
  "key_id C keyblob =
     and_then (hmac_begin (ci_hmac (tc_imp C)) (Explicit (HmacKey (replicate 16 0))) Digest_Sha256) (\<lambda>hmac_op.
     and_then (acc_update (ci_hmac (tc_imp C)) hmac_op keyblob) (\<lambda>hmac_op.
     and_then (acc_finish (ci_hmac (tc_imp C)) hmac_op) (\<lambda>tag.
     if length tag = 32 then Ok tag else Err (Hal SecureHwCommunicationFailed))))"

fun use_count_scan ::
  "bytes \<Rightarrow> nat \<Rightarrow> use_count option list \<Rightarrow> nat option \<Rightarrow> nat option \<times> nat option" where
  "use_count_scan key idx [] free_idx = (free_idx, None)"
| "use_count_scan key idx (slot # slots) free_idx = (case slot of
     None \<Rightarrow> use_count_scan key (Suc idx) slots (if free_idx = None then Some idx else free_idx)
   | Some uc \<Rightarrow> if uc_key_id uc = key then (free_idx, Some idx) else use_count_scan key (Suc idx) slots free_idx)"

definition count_use :: "u32 \<Rightarrow> nat \<Rightarrow> use_count \<Rightarrow> (('k, 's, 'r) ta, unit, error) act" where
  "count_use max_uses idx c T =
     (if unat max_uses \<le> unat (uc_count c) then (Err (Hal KeyMaxOpsExceeded), T)
      else (Ok (), T\<lparr>ta_use_count := (ta_use_count T)[idx := Some (c\<lparr>uc_count := uc_count c + 1\<rparr>)]\<rparr>))"

definition update_use_count :: "bytes \<Rightarrow> u32 \<Rightarrow> (('k, 's, 'r) ta, unit, error) act" where
  "update_use_count key max_uses T = (case use_count_scan key 0 (ta_use_count T) None of
     (_, Some idx) \<Rightarrow> (case ta_use_count T ! idx of
         Some c \<Rightarrow> count_use max_uses idx c T
       | None \<Rightarrow> (Panic, T))
   | (Some idx, None) \<Rightarrow>
       let c = \<lparr>uc_key_id = key, uc_count = 0\<rparr> in
       count_use max_uses idx c (T\<lparr>ta_use_count := (ta_use_count T)[idx := Some c]\<rparr>)
   | (None, None) \<Rightarrow> (Err (Hal TooManyOperations), T))"

definition convert_storage_key_to_ephemeral ::
  "('k, 's, 'r, 'c) ta_conf \<Rightarrow> bytes \<Rightarrow> ('k, 's, 'r) ta \<Rightarrow> bytes km" where
  "convert_storage_key_to_ephemeral C keyblob T = (case di_sk_wrapper (tc_dev C) of
     Some ephemeral_wrap \<Rightarrow>
       and_then (keyblob_parse_decrypt C keyblob [] T) (\<lambda>(keyblob, _).
       and_then (pkb_characteristics_at keyblob (sec_level C)) (\<lambda>chars.
       and_then (get_bool_tag_value Bool_StorageKey chars) (\<lambda>storage_key.
       if \<not> storage_key then Err (Hal InvalidArgument) else ephemeral_wrap (pkb_key_material keyblob))))
   | None \<Rightarrow> Err (Hal Unimplemented))"

definition get_key_characteristics ::
  "('k, 's, 'r, 'c) ta_conf \<Rightarrow> bytes \<Rightarrow> bytes \<Rightarrow> bytes \<Rightarrow> ('k, 's, 'r) ta \<Rightarrow> key_characteristics list km" where
  "get_key_characteristics C key_blob app_id app_data T =
     (let params = (if app_id \<noteq> [] then [KP_ApplicationId app_id] else []) @
                   (if app_data \<noteq> [] then [KP_ApplicationData app_data] else []) in
      map_ok (\<lambda>(keyblob, _). pkb_characteristics keyblob) (keyblob_parse_decrypt C key_blob params T))"

definition keymint_tags :: "('k, 's, 'r) ta \<Rightarrow> key_origin \<Rightarrow> key_param list" where
  "keymint_tags T origin = KP_Origin origin #
     (case ta_hal_info T of
        Some hal_info \<Rightarrow> [KP_U32 U32_OsVersion (hi_os_version hal_info), KP_U32 U32_OsPatchlevel (hi_os_patchlevel hal_info),
          KP_U32 U32_VendorPatchlevel (hi_vendor_patchlevel hal_info)]
      | None \<Rightarrow> []) @
     (case ta_boot_info T of Some boot_info \<Rightarrow> [KP_U32 U32_BootPatchlevel (bi_boot_patchlevel boot_info)] | None \<Rightarrow> [])"

fun add_keymint_tags ::
  "('k, 's, 'r, 'c) ta_conf \<Rightarrow> ('k, 's, 'r) ta \<Rightarrow> key_origin \<Rightarrow> key_characteristics list \<Rightarrow> key_characteristics list km" where
  "add_keymint_tags C T origin [] = Err (Hal InvalidArgument)"
| "add_keymint_tags C T origin (kc # chars) =
     (if kc_security_level kc = sec_level C
      then Ok (kc\<lparr>kc_authorizations := kc_authorizations kc @ keymint_tags T origin\<rparr> # chars)
      else map_ok (\<lambda>chars. kc # chars) (add_keymint_tags C T origin chars))"

lemma on_store_eq: "on_store m T = (res, T') \<longleftrightarrow> (\<exists>s. m (ta_store T) = (res, s) \<and> T' = T\<lparr>ta_store := s\<rparr>)"
  by (auto simp: on_store_def split: prod.splits)

lemma on_rng_eq: "on_rng m T = (res, T') \<longleftrightarrow> (\<exists>r. m (ta_rng T) = (res, r) \<and> T' = T\<lparr>ta_rng := r\<rparr>)"
  by (auto simp: on_rng_def split: prod.splits)

end
