(* ===== verification/Ta_Instance.thy ===== *)
theory Ta_Instance
  imports Ta_State
begin

text \<open>
  A concrete device, used to show that the hypotheses of theorems about the trusted application can
  hold: the default methods of the traits in \<open>ta/src/device.rs\<close>, the in-memory manager of secrets, and
  ciphers that do not encrypt.  The COSE structures are those of RFC 9052 for HMAC 256/256.
\<close>

section \<open>Default methods\<close>

definition default_unique_id_hbk ::
  "aes_key opaque_or km \<Rightarrow> (aes_key opaque_or \<Rightarrow> bytes \<Rightarrow> bytes list \<Rightarrow> nat \<Rightarrow> bytes km) \<Rightarrow> hmac_key km" where
  "default_unique_id_hbk kak derive =
     and_then kak (\<lambda>kak. map_ok HmacKey (derive kak (str_bytes ''UniqueID HBK 32B'') [] 32))"

section \<open>COSE\<close>

definition mac0_to_value :: "cose_mac0 \<Rightarrow> cbor" where
  "mac0_to_value m = Cbor_Array [Cbor_Bytes (m0_protected m), Cbor_Map [],
     (case m0_payload m of Some p \<Rightarrow> Cbor_Bytes p | None \<Rightarrow> Cbor_Null), Cbor_Bytes (m0_tag m)]"

definition mac0_of_value :: "cbor \<Rightarrow> cose_mac0 cb" where
  "mac0_of_value v = (case v of
     Cbor_Array [Cbor_Bytes prot, Cbor_Map [], Cbor_Bytes p, Cbor_Bytes tag] \<Rightarrow>
       Ok \<lparr>m0_protected = prot, m0_payload = Some p, m0_tag = tag\<rparr>
   | Cbor_Array [Cbor_Bytes prot, Cbor_Map [], Cbor_Null, Cbor_Bytes tag] \<Rightarrow>
       Ok \<lparr>m0_protected = prot, m0_payload = None, m0_tag = tag\<rparr>
   | _ \<Rightarrow> Err InvalidValue)"

definition of_tagged :: "u64 \<Rightarrow> cbor \<Rightarrow> cbor cb" where
  "of_tagged n v = (case v of Cbor_Tag m w \<Rightarrow> if m = n then Ok w else Err InvalidValue | _ \<Rightarrow> Err InvalidValue)"

definition rfc9052_mac0 :: mac0_lib where
  "rfc9052_mac0 = \<lparr>ml_protected = [0xa1, 0x01, 0x05],
     ml_structure = (\<lambda>prot aad payload. cbor_enc (Cbor_Array [Cbor_Text ''MAC0'', Cbor_Bytes prot, Cbor_Bytes aad, Cbor_Bytes payload])),
     ml_to_tagged_vec = (\<lambda>m. into_vec rfc8949 id (Cbor_Tag 17 (mac0_to_value m))),
     ml_from_tagged_slice = (\<lambda>bs. and_then (read_to_value rfc8949 bs) (\<lambda>v. and_then (of_tagged 17 v) mac0_of_value)),
     ml_value_to_tagged = (\<lambda>n v. into_vec rfc8949 id (Cbor_Tag n v)),
     ml_tagged_to_value = (\<lambda>n bs. and_then (read_to_value rfc8949 bs) (of_tagged n))\<rparr>"

section \<open>The device\<close>

definition bytes_aead :: "bytes aead_impl" where
  "bytes_aead = \<lparr>aead_begin = (\<lambda>_ _ _. Ok []), aead_update_aad = (\<lambda>k _. Ok k),
     aead_update = (\<lambda>k d. Ok (d, k)), aead_finish = (\<lambda>_. Ok [])\<rparr>"

lemma bytes_aead_works: "aead_works bytes_aead"
  by (simp add: aead_works_def seal_def unseal_def bytes_aead_def)

definition ex_imp :: "(bytes, unit) crypto_imp" where
  "ex_imp = \<lparr>ci_fill = noop_fill, ci_add_entropy = (\<lambda>_ r. r), ci_has_clock = True, ci_compare = (=),
     ci_sha256 = (\<lambda>d. Ok (take 32 (d @ replicate 32 0))),
     ci_emit_update = (\<lambda>k d. Ok (d, k)), ci_emit_finish = (\<lambda>_. Ok []), ci_aes_begin = (\<lambda>_ _ _. Ok []),
     ci_aead = bytes_aead, ci_des_begin = (\<lambda>_ _ _. Ok []), ci_hmac = pad_hmac, ci_max_input_size = (\<lambda>_. None),
     ci_rsa_begin_decrypt = (\<lambda>_ _. Ok []), ci_rsa_begin_sign = (\<lambda>_ _. Ok []),
     ci_ec_begin_agree = (\<lambda>_. Ok []), ci_ec_begin_sign = (\<lambda>_ _. Ok []),
     ci_kdf = kdf_of_hmac pad_hmac, ci_ckdf = (\<lambda>_ l cs n. Ok (take n (l @ concat cs @ replicate n 0))),
     ci_generate = (\<lambda>info _ r. (Ok (case info of
         KeyGenInfo_NistEc _ \<Rightarrow> Material_Ec EcCurve_P256 CurveType_Nist (Explicit (Ec_P256 [1]))
       | _ \<Rightarrow> Material_Hmac (Explicit (HmacKey (replicate 32 1)))), r)),
     ci_import = default_import,
     ci_ec_subject_public_key = (\<lambda>_. Ok (SEC1_UNCOMPRESSED_PREFIX # replicate 64 1)), ci_rsa_subject_public_key = (\<lambda>_. Err (Hal Unimplemented))\<rparr>"

definition ex_kak :: "aes_key opaque_or km" where
  "ex_kak = Ok (Explicit (Aes128 (replicate 16 2)))"

definition ex_dev :: "(mem_slots, unit) device_imp" where
  "ex_dev = \<lparr>di_root_kek = (\<lambda>_. Ok (Explicit (HmacKey [9]))), di_kek_context = Ok [], di_kak = ex_kak,
     di_hmac_key_agreed = (\<lambda>_. None), di_unique_id_hbk = default_unique_id_hbk ex_kak,
     di_timestamp_token_mac_input = (\<lambda>t. Ok (timestamp_token_mac_input t)),
     di_sdd_mgr = Some (mem_sdd noop_fill), di_attest_ids = None, di_legacy_key = None, di_sk_wrapper = None,
     di_sign_info = None,
     di_rpc = \<lparr>ra_compute_hmac_sha256 = (\<lambda>d. Ok (take 32 (d @ replicate 32 0))),
       ra_get_dice_info = (\<lambda>_. Ok \<lparr>dice_uds_certs = [0x80], dice_cert_chain = [0x80], dice_signing_algorithm = CsrSigning_ES256\<rparr>),
       ra_sign_data_in_cose_sign1 = (\<lambda>_ _. Ok [0x80])\<rparr>\<rparr>"

definition ex_conf :: "security_level \<Rightarrow> (bytes, mem_slots, unit, cbor) ta_conf" where
  "ex_conf level = \<lparr>tc_imp = ex_imp, tc_dev = ex_dev, tc_cbor = rfc8949, tc_cose = rfc9052, tc_mac0 = rfc9052_mac0,
     tc_cert = no_cert_lib,
     tc_hw_info = \<lparr>hw_security_level = level, hw_version_number = 1, hw_impl_name = ''impl'', hw_author_name = ''author'',
       hw_unique_id = ''id''\<rparr>,
     tc_rpc_info = RpcInfo_V3 \<lparr>r3_author_name = ''author'', r3_unique_id = ''id'', r3_fused = False,
       r3_supported_num_of_keys_in_csr = 20\<rparr>,
     tc_downgrade = True\<rparr>"

definition ex_ta :: "security_level \<Rightarrow> (bytes, mem_slots, unit) ta" where
  "ex_ta level = ta_new (ex_conf level) (mem_default 2) ()"

definition ex_env :: ta_env where
  "ex_env = \<lparr>env_now = 1000, env_user_present = True, env_bootloader_done = True\<rparr>"

end
