(* ===== verification/Ta_Keys.thy ===== *)
theory Ta_Keys
  imports Ta_Instance
begin

unbundle bit_operations_syntax

text \<open>
  Creation of keys in the trusted application (\<open>ta/src/keys.rs\<close>): generation, import, import of wrapped
  keys, the certificate of a new public key, and the upgrade of key blobs.
\<close>

definition MAX_ATTESTATION_CHALLENGE_LEN :: nat where "MAX_ATTESTATION_CHALLENGE_LEN = 128"
definition SECURE_KEY_WRAPPER_VERSION :: int where "SECURE_KEY_WRAPPER_VERSION = 0"
definition UNDEFINED_NOT_BEFORE :: i64 where "UNDEFINED_NOT_BEFORE = 0"
definition UNDEFINED_NOT_AFTER :: i64 where "UNDEFINED_NOT_AFTER = 253402300799000"

datatype key_import = Import_Wrapped | Import_NonWrapped

section \<open>Certificates\<close>

definition chain_info ::
  "('k, 's, 'r, 'c) ta_conf \<Rightarrow> sign_info_impl \<Rightarrow> signing_key_type \<Rightarrow> (('k, 's, 'r) ta, certificate list \<times> bytes, error) act" where
  "chain_info C sign_info key_type T = (case ta_attestation_chain_info T key_type of
     Some info \<Rightarrow> (Ok info, T)
   | None \<Rightarrow> st_then
       (st_ret (and_then (si_cert_chain sign_info key_type) (\<lambda>chain. case chain of
           [] \<Rightarrow> Err (Hal KeymintNotConfigured)
         | cert # _ \<Rightarrow> map_ok (\<lambda>issuer. (chain, issuer)) (extract_subject (tc_cert C) cert)))) (\<lambda>info.
       st_then (st_put (\<lambda>T. T\<lparr>ta_attestation_chain_info := (ta_attestation_chain_info T)(key_type \<mapsto> info)\<rparr>)) (\<lambda>_.
       st_ret (Ok info))) T)"

definition get_signing_info ::
  "('k, 's, 'r, 'c) ta_conf \<Rightarrow> signing_key_type \<Rightarrow> (('k, 's, 'r) ta, signing_info, error) act" where
  "get_signing_info C key_type = (case di_sign_info (tc_dev C) of
     None \<Rightarrow> st_ret (Err (Hal AttestationKeysNotProvisioned))
   | Some sign_info \<Rightarrow>
       st_then (chain_info C sign_info key_type) (\<lambda>(chain, issuer).
       st_ret (map_ok (\<lambda>key. \<lparr>sig_attestation_info = None, sig_signing_key = key, sig_issuer_subject = issuer, sig_chain = chain\<rparr>)
         (si_signing_key sign_info key_type))))"

definition sign_cert_data :: "('k, 'r) crypto_imp \<Rightarrow> key_material \<Rightarrow> bytes \<Rightarrow> bytes km" where
  "sign_cert_data imp key tbs_data =
     and_then (case key of
         Material_Rsa key \<Rightarrow> ci_rsa_begin_sign imp key (Sign_Pkcs1_1_5Padding Digest_Sha256)
       | Material_Ec curve _ key \<Rightarrow>
           ci_ec_begin_sign imp key (if curve = EcCurve_Curve25519 then Digest_None else Digest_Sha256)
       | _ \<Rightarrow> Err (Hal IncompatibleAlgorithm)) (\<lambda>op.
     and_then (acc_update (ci_hmac imp) op tbs_data) (acc_finish (ci_hmac imp)))"

text \<open>Division of an \<open>i64\<close> rounds towards zero.\<close>

definition trunc_div :: "int \<Rightarrow> int \<Rightarrow> int" where
  "trunc_div x n = (if 0 \<le> x then x div n else - ((- x) div n))"

definition calculate_unique_id :: "('k, 's, 'r, 'c) ta_conf \<Rightarrow> bytes \<Rightarrow> key_param list \<Rightarrow> bytes km" where
  "calculate_unique_id C app_id params =
     and_then (get_bool_tag_value Bool_IncludeUniqueId params) (\<lambda>include_unique_id.
     if \<not> include_unique_id then Ok []
     else
       and_then (get_tag_value (sel_date Date_CreationDatetime) InvalidArgument params) (\<lambda>creation_datetime.
       let rounded_datetime = trunc_div (sint creation_datetime) 2592000000 in
       and_then (get_bool_tag_value Bool_ResetSinceIdRotation params) (\<lambda>reset.
       let combined_input = u64_to_ne (word_of_int rounded_datetime) @ app_id @ [if reset then 1 else 0] in
       and_then (di_unique_id_hbk (tc_dev C) (ci_ckdf (tc_imp C))) (\<lambda>hbk.
       and_then (hmac_begin (ci_hmac (tc_imp C)) (Explicit hbk) Digest_Sha256) (\<lambda>hmac_op.
       and_then (acc_update (ci_hmac (tc_imp C)) hmac_op combined_input) (\<lambda>hmac_op.
       and_then (acc_finish (ci_hmac (tc_imp C)) hmac_op) (\<lambda>tag.
       if length tag < 16 then Panic else Ok (take 16 tag))))))))"

definition attest_ext_val ::
  "('k, 's, 'r, 'c) ta_conf \<Rightarrow> attestation_id_info option \<Rightarrow> signing_info option \<Rightarrow> key_param list \<Rightarrow> key_characteristics list \<Rightarrow>
   ('k, 's, 'r) ta \<Rightarrow> bytes option km" where
  "attest_ext_val C id_info info params chars T = (case Option.bind info sig_attestation_info of
     Some (challenge, app_id) \<Rightarrow>
       and_then (calculate_unique_id C app_id params) (\<lambda>unique_id.
       and_then (boot_info_hashed_key C T) (\<lambda>boot_info.
       and_then (attestation_extension_new (tc_cert C) (hal_version_i32 (ta_aidl_version T)) challenge app_id (sec_level C)
         id_info params chars unique_id boot_info (ta_additional_attestation_info T)) (\<lambda>attest_ext.
       map_ok Some (ok_or (cl_attestation_extension (tc_cert C) attest_ext) Der))))
   | None \<Rightarrow> Ok None)"

definition generate_cert ::
  "('k, 's, 'r, 'c) ta_conf \<Rightarrow> signing_info option \<Rightarrow> subject_public_key_info \<Rightarrow> key_param list \<Rightarrow> key_characteristics list \<Rightarrow>
   (('k, 's, 'r) ta, certificate, error) act" where
  "generate_cert C info spki params chars =
     st_then (st_ret (ok_or (cl_key_usage (tc_cert C) (key_usage_extension_bits params)) Der)) (\<lambda>key_usage_ext_val.
     st_then (st_ret (if Usage_KeyCertSign \<in> key_usage_extension_bits params
       then map_ok Some (ok_or (cl_basic_constraints (tc_cert C) True) Der) else Ok None)) (\<lambda>basic_constraints_ext_val.
     st_then (get_attestation_ids C) (\<lambda>id_info.
     st_then (st_check (attest_ext_val C id_info info params chars)) (\<lambda>attest_ext.
     st_ret (
       and_then (characteristics_at chars (sec_level C)) (\<lambda>key_chars.
       and_then (tbs_certificate_new (tc_cert C) info spki key_usage_ext_val basic_constraints_ext_val attest_ext key_chars params) (\<lambda>tbs_cert.
       and_then (ok_or (cl_tbs_certificate (tc_cert C) tbs_cert) Der) (\<lambda>tbs_data.
       and_then (case info of Some info \<Rightarrow> sign_cert_data (tc_imp C) (sig_signing_key info) tbs_data | None \<Rightarrow> Ok []) (\<lambda>sig_data.
       and_then (x509_certificate_new (tc_cert C) tbs_cert sig_data) (\<lambda>cert.
       map_ok (\<lambda>cert_data. \<lparr>cert_encoded_certificate = cert_data\<rparr>) (ok_or (cl_certificate (tc_cert C) cert) Der)))))))))))"

section \<open>Finishing a new key\<close>

definition on_store_rng :: "('s \<times> 'r, 'a, 'e) act \<Rightarrow> (('k, 's, 'r) ta, 'a, 'e) act" where
  "on_store_rng m T = (case m (ta_store T, ta_rng T) of (res, (s, r)) \<Rightarrow> (res, T\<lparr>ta_store := s, ta_rng := r\<rparr>))"

definition which_signing_key :: "('k, 's, 'r, 'c) ta_conf \<Rightarrow> key_param list \<Rightarrow> key_material \<Rightarrow> signing_key_type km" where
  "which_signing_key C params key =
     and_then (get_bool_tag_value Bool_DeviceUniqueAttestation params) (\<lambda>device_unique.
     and_then (if \<not> device_unique then Ok SigningKey_Batch
       else if is_strongbox C then Ok SigningKey_DeviceUnique else Err (Hal InvalidArgument)) (\<lambda>which_key.
     map_ok (\<lambda>algo_hint. \<lparr>skt_which = which_key, skt_algo_hint = algo_hint\<rparr>) (case key of
         Material_Rsa _ \<Rightarrow> Ok SigningAlgorithm_Rsa
       | Material_Ec _ _ _ \<Rightarrow> Ok SigningAlgorithm_Ec
       | _ \<Rightarrow> Err (Hal InvalidArgument))))"

definition attestation_signing_info ::
  "('k, 's, 'r, 'c) ta_conf \<Rightarrow> key_param list \<Rightarrow> attestation_key option \<Rightarrow> bytes \<Rightarrow> key_material \<Rightarrow>
   (('k, 's, 'r) ta, signing_info, error) act" where
  "attestation_signing_info C params attestation_key attest_challenge key =
     st_then (st_ret (require (length attest_challenge \<le> MAX_ATTESTATION_CHALLENGE_LEN) (Hal InvalidInputLength))) (\<lambda>_.
     st_then (st_ret (and_then (get_opt_tag_value (sel_bytes Bytes_AttestationApplicationId) InvalidTag params) (\<lambda>app_id.
       ok_or app_id (Hal AttestationApplicationIdMissing)))) (\<lambda>attest_app_id.
     case attestation_key of
       Some attest_keyinfo \<Rightarrow>
         st_then (st_check (keyblob_parse_decrypt C (ak_key_blob attest_keyinfo) (ak_attest_key_params attest_keyinfo))) (\<lambda>(attest_keyblob, _).
         st_then (st_ret (suitable_for attest_keyblob KeyPurpose_AttestKey (sec_level C))) (\<lambda>_.
         st_then (st_ret (require (ak_issuer_subject_name attest_keyinfo \<noteq> []) (Hal InvalidArgument))) (\<lambda>_.
         st_ret (Ok \<lparr>sig_attestation_info = Some (attest_challenge, attest_app_id),
           sig_signing_key = pkb_key_material attest_keyblob,
           sig_issuer_subject = ak_issuer_subject_name attest_keyinfo, sig_chain = []\<rparr>))))
     | None \<Rightarrow>
         st_then (st_ret (which_signing_key C params key)) (\<lambda>key_type.
         st_then (get_signing_info C key_type) (\<lambda>info.
         st_ret (Ok (info\<lparr>sig_attestation_info := Some (attest_challenge, attest_app_id)\<rparr>))))))"

definition is_signing_param :: "key_param \<Rightarrow> bool" where
  "is_signing_param param \<longleftrightarrow> param = KP_Purpose KeyPurpose_Sign \<or> param = KP_Purpose KeyPurpose_AttestKey"

definition self_signing_info ::
  "key_param list \<Rightarrow> attestation_key option \<Rightarrow> key_material \<Rightarrow> signing_info option km" where
  "self_signing_info params attestation_key key =
     and_then (require (attestation_key = None) (Hal AttestationChallengeMissing)) (\<lambda>_.
     if list_ex is_signing_param params
     then map_ok (\<lambda>subject. Some \<lparr>sig_attestation_info = None, sig_signing_key = key, sig_issuer_subject = subject, sig_chain = []\<rparr>)
       (get_cert_subject params)
     else Ok None)"

definition certificate_chain ::
  "('k, 's, 'r, 'c) ta_conf \<Rightarrow> key_param list \<Rightarrow> attestation_key option \<Rightarrow> key_characteristics list \<Rightarrow> key_material \<Rightarrow>
   (('k, 's, 'r) ta, certificate list, error) act" where
  "certificate_chain C params attestation_key chars key =
     st_then (st_ret (key_subject_public_key_info (cl_bit_string_ok (tc_cert C)) (ci_ec_subject_public_key (tc_imp C))
       (ci_rsa_subject_public_key (tc_imp C)) key)) (\<lambda>spki. case spki of
       None \<Rightarrow> st_ret (Ok [])
     | Some spki \<Rightarrow>
         st_then (st_ret (get_opt_tag_value (sel_bytes Bytes_AttestationChallenge) InvalidTag params)) (\<lambda>attest_challenge.
         st_then (case attest_challenge of
             Some attest_challenge \<Rightarrow>
               st_then (attestation_signing_info C params attestation_key attest_challenge key) (\<lambda>info. st_ret (Ok (Some info)))
           | None \<Rightarrow> st_ret (self_signing_info params attestation_key key)) (\<lambda>signing_info.
         st_then (generate_cert C signing_info spki params chars) (\<lambda>leaf_cert.
         st_ret (Ok (leaf_cert # (case signing_info of Some info \<Rightarrow> sig_chain info | None \<Rightarrow> [])))))))"

definition encrypt_keyblob ::
  "('k, 's, 'r, 'c) ta_conf \<Rightarrow> key_param list \<Rightarrow> plaintext_key_blob \<Rightarrow> slot_purpose \<Rightarrow> (('k, 's, 'r) ta, bytes, error) act" where
  "encrypt_keyblob C params keyblob purpose =
     st_then (st_ret (di_kek_context (tc_dev C))) (\<lambda>ctx.
     st_then (st_ret (root_kek C ctx)) (\<lambda>kek.
     st_then (st_check (\<lambda>T. and_then (root_of_trust T) (hidden params))) (\<lambda>hidden_params.
     st_then (on_store_rng (encrypt (tc_cbor C) (tc_cose C) (sec_level C) (di_sdd_mgr (tc_dev C)) (ci_aead (tc_imp C))
       (ci_kdf (tc_imp C)) (ci_fill (tc_imp C)) kek ctx keyblob hidden_params purpose)) (\<lambda>encrypted_keyblob.
     st_ret (map_err Cbor (into_vec (tc_cbor C) (ekb_to_cbor (tc_cose C)) encrypted_keyblob))))))"

definition finish_keyblob_creation ::
  "('k, 's, 'r, 'c) ta_conf \<Rightarrow> key_param list \<Rightarrow> attestation_key option \<Rightarrow> key_characteristics list \<Rightarrow> key_material \<Rightarrow>
   slot_purpose \<Rightarrow> (('k, 's, 'r) ta, key_creation_result, error) act" where
  "finish_keyblob_creation C params attestation_key chars key purpose =
     (let keyblob = \<lparr>pkb_characteristics = filter (\<lambda>c. kc_security_level c \<noteq> SecurityLevel_Keystore) chars, pkb_key_material = key\<rparr> in
      st_then (certificate_chain C params attestation_key chars key) (\<lambda>chain.
      st_then (encrypt_keyblob C params keyblob purpose) (\<lambda>serialized_keyblob.
      st_ret (Ok \<lparr>kcr_key_blob = serialized_keyblob, kcr_key_characteristics = chars, kcr_certificate_chain = chain\<rparr>))))"

section \<open>Generation and import\<close>

definition generate_key_material ::
  "('k, 's, 'r, 'c) ta_conf \<Rightarrow> key_param list \<Rightarrow> (('k, 's, 'r) ta, key_material \<times> key_characteristics list, error) act" where
  "generate_key_material C params =
     st_then (st_ret (extract_key_gen_characteristics (secure_storage_available C) params (sec_level C))) (\<lambda>(chars, keygen_info).
     st_then (st_check (\<lambda>T. add_keymint_tags C T KeyOrigin_Generated chars)) (\<lambda>chars.
     st_then (on_rng (ci_generate (tc_imp C) keygen_info params)) (\<lambda>key.
     st_ret (Ok (key, chars)))))"

definition generate_key ::
  "('k, 's, 'r, 'c) ta_conf \<Rightarrow> key_param list \<Rightarrow> attestation_key option \<Rightarrow> (('k, 's, 'r) ta, key_creation_result, error) act" where
  "generate_key C params attestation_key =
     st_then (generate_key_material C params) (\<lambda>(key, chars).
     finish_keyblob_creation C params attestation_key chars key Slot_KeyGeneration)"

definition import_key ::
  "('k, 's, 'r, 'c) ta_conf \<Rightarrow> key_param list \<Rightarrow> key_format \<Rightarrow> bytes \<Rightarrow> attestation_key option \<Rightarrow> key_import \<Rightarrow>
   (('k, 's, 'r) ta, key_creation_result, error) act" where
  "import_key C params key_format key_data attestation_key import_type =
     st_then (st_check (\<lambda>T. if ta_in_early_boot T then Ok ()
       else and_then (get_bool_tag_value Bool_EarlyBootOnly params) (\<lambda>b. require (\<not> b) (Hal EarlyBootEnded)))) (\<lambda>_.
     st_then (st_ret (extract_key_import_characteristics (ci_import (tc_imp C)) (secure_storage_available C) params (sec_level C)
       key_format key_data)) (\<lambda>(chars, key).
     st_then (st_check (\<lambda>T. add_keymint_tags C T (case import_type of
         Import_NonWrapped \<Rightarrow> KeyOrigin_Imported | Import_Wrapped \<Rightarrow> KeyOrigin_SecurelyImported) chars)) (\<lambda>chars.
     finish_keyblob_creation C params attestation_key chars key Slot_KeyImport)))"

section \<open>Import of wrapped keys\<close>

definition unwrap_transport_key ::
  "('k, 's, 'r, 'c) ta_conf \<Rightarrow> plaintext_key_blob \<Rightarrow> key_param list \<Rightarrow> secure_key_wrapper \<Rightarrow> bytes km" where
  "unwrap_transport_key C wrapping_key unwrapping_params wrapper = (case pkb_key_material wrapping_key of
     Material_Rsa key \<Rightarrow>
       and_then (characteristics_at (pkb_characteristics wrapping_key) (sec_level C)) (\<lambda>chars.
       and_then (check_rsa_wrapping_key_params chars unwrapping_params) (\<lambda>decrypt_mode.
       and_then (ci_rsa_begin_decrypt (tc_imp C) key decrypt_mode) (\<lambda>crypto_op.
       and_then (acc_update (ci_hmac (tc_imp C)) crypto_op (skw_encrypted_transport_key wrapper)) (\<lambda>crypto_op.
       acc_finish (ci_hmac (tc_imp C)) crypto_op))))
   | _ \<Rightarrow> Err (Hal InvalidArgument))"

definition wrapped_gcm_mode :: "secure_key_wrapper \<Rightarrow> gcm_mode km" where
  "wrapped_gcm_mode wrapper =
     and_then (require (length (skw_initialization_vector wrapper) = GCM_NONCE_SIZE) (Hal InvalidArgument)) (\<lambda>_.
     let iv = skw_initialization_vector wrapper; tag_len = length (skw_tag wrapper) in
     if tag_len = 12 then Ok (GcmTag12 iv)
     else if tag_len = 13 then Ok (GcmTag13 iv)
     else if tag_len = 14 then Ok (GcmTag14 iv)
     else if tag_len = 15 then Ok (GcmTag15 iv)
     else if tag_len = 16 then Ok (GcmTag16 iv)
     else Err (Hal InvalidMacLength))"

text \<open>The imported key is decrypted with the re-encoded key description as associated data.\<close>

definition decrypt_wrapped_key :: "('k, 's, 'r, 'c) ta_conf \<Rightarrow> bytes \<Rightarrow> secure_key_wrapper \<Rightarrow> bytes km" where
  "decrypt_wrapped_key C transport_key wrapper =
     and_then (require (length transport_key = 32) (Hal InvalidArgument)) (\<lambda>_.
     and_then (wrapped_gcm_mode wrapper) (\<lambda>mode.
     and_then (aead_begin (ci_aead (tc_imp C)) (Explicit (Aes256 transport_key)) mode Op_Decrypt) (\<lambda>op.
     and_then (ok_or (cl_key_description (tc_cert C) (skw_key_description wrapper)) Der) (\<lambda>aad.
     and_then (aead_update_aad (ci_aead (tc_imp C)) op aad) (\<lambda>op.
     and_then (aead_update (ci_aead (tc_imp C)) op (skw_encrypted_key wrapper)) (\<lambda>(d1, op).
     and_then (aead_update (ci_aead (tc_imp C)) op (skw_tag wrapper)) (\<lambda>(d2, op).
     and_then (aead_finish (ci_aead (tc_imp C)) op) (\<lambda>d3.
     Ok (d1 @ d2 @ d3)))))))))"

definition is_user_secure_id :: "key_param \<Rightarrow> bool" where
  "is_user_secure_id param \<longleftrightarrow> sel_u64 U64_UserSecureId param \<noteq> None"

definition has_auth_bit :: "u64 \<Rightarrow> hw_auth_type \<Rightarrow> bool" where
  "has_auth_bit secure_id t \<longleftrightarrow> secure_id AND word_of_int (hw_auth_type_i32 t) = word_of_int (hw_auth_type_i32 t)"

definition wrapped_key_params :: "key_param list \<Rightarrow> i64 \<Rightarrow> i64 \<Rightarrow> key_param list km" where
  "wrapped_key_params auths password_sid biometric_sid =
     and_then (get_opt_tag_value (sel_u64 U64_UserSecureId) InvalidTag auths) (\<lambda>secure_id.
     let rest = filter (\<lambda>p. \<not> is_user_secure_id p) auths;
         auths = (case secure_id of
           Some secure_id \<Rightarrow>
             (if has_auth_bit secure_id HardwareAuthenticatorType_Password \<and> has_auth_bit secure_id HardwareAuthenticatorType_Fingerprint
              then rest @ [KP_U64 U64_UserSecureId password_sid]
              else if has_auth_bit secure_id HardwareAuthenticatorType_Password
              then rest @ [KP_U64 U64_UserSecureId password_sid]
              else if has_auth_bit secure_id HardwareAuthenticatorType_Fingerprint
              then rest @ [KP_U64 U64_UserSecureId biometric_sid]
              else auths)
         | None \<Rightarrow> auths)
     in Ok (auths @ [KP_Date Date_CertificateNotBefore UNDEFINED_NOT_BEFORE, KP_Date Date_CertificateNotAfter UNDEFINED_NOT_AFTER]))"

definition unwrap_key ::
  "('k, 's, 'r, 'c) ta_conf \<Rightarrow> bytes \<Rightarrow> bytes \<Rightarrow> bytes \<Rightarrow> key_param list \<Rightarrow> i64 \<Rightarrow> i64 \<Rightarrow> ('k, 's, 'r) ta \<Rightarrow>
   (key_param list \<times> key_format \<times> bytes) km" where
  "unwrap_key C wrapped_key_data wrapping_key_blob masking_key unwrapping_params password_sid biometric_sid T =
     and_then (keyblob_parse_decrypt C wrapping_key_blob unwrapping_params T) (\<lambda>(wrapping_key, _).
     and_then (ok_or (cl_secure_key_wrapper (tc_cert C) wrapped_key_data) Der) (\<lambda>wrapper.
     and_then (require (skw_version wrapper = SECURE_KEY_WRAPPER_VERSION) (Hal InvalidArgument)) (\<lambda>_.
     and_then (unwrap_transport_key C wrapping_key unwrapping_params wrapper) (\<lambda>masked_transport_key.
     and_then (require (length masked_transport_key = length masking_key) (Hal InvalidArgument)) (\<lambda>_.
     and_then (decrypt_wrapped_key C (map2 (XOR) masked_transport_key masking_key) wrapper) (\<lambda>imported_key_data.
     and_then (wrapped_key_params (al_auths (kd_key_params (skw_key_description wrapper))) password_sid biometric_sid) (\<lambda>imported_key_params.
     and_then (ok_or (enum_n key_format_i32 key_format_variants (kd_key_format (skw_key_description wrapper)))
       (Hal UnsupportedKeyFormat)) (\<lambda>key_format.
     Ok (imported_key_params, key_format, imported_key_data)))))))))"

definition import_wrapped_key ::
  "('k, 's, 'r, 'c) ta_conf \<Rightarrow> bytes \<Rightarrow> bytes \<Rightarrow> bytes \<Rightarrow> key_param list \<Rightarrow> i64 \<Rightarrow> i64 \<Rightarrow>
   (('k, 's, 'r) ta, key_creation_result, error) act" where
  "import_wrapped_key C wrapped_key_data wrapping_key_blob masking_key unwrapping_params password_sid biometric_sid =
     st_then (st_check (unwrap_key C wrapped_key_data wrapping_key_blob masking_key unwrapping_params password_sid biometric_sid))
       (\<lambda>(params, key_format, key_data). import_key C params key_format key_data None Import_Wrapped)"

section \<open>Upgrade\<close>

definition upgrade_version :: "u32 \<Rightarrow> u32 \<Rightarrow> (u32 \<times> bool) km" where
  "upgrade_version v cur =
     (if v < cur then Ok (cur, True) else if v = cur then Ok (v, False) else Err (Hal InvalidArgument))"

definition upgrade_os_version :: "u32 \<Rightarrow> u32 \<Rightarrow> (u32 \<times> bool) km" where
  "upgrade_os_version v cur = (if cur = 0 then Ok (0, v \<noteq> 0) else upgrade_version v cur)"

definition upgrade_param :: "('k, 's, 'r) ta \<Rightarrow> key_param \<Rightarrow> (key_param \<times> bool) km" where
  "upgrade_param T param = (case param of
     KP_U32 U32_OsVersion v \<Rightarrow> (case ta_hal_info T of
         Some hal_info \<Rightarrow> map_ok (\<lambda>(v, m). (KP_U32 U32_OsVersion v, m)) (upgrade_os_version v (hi_os_version hal_info))
       | None \<Rightarrow> Ok (param, False))
   | KP_U32 U32_OsPatchlevel v \<Rightarrow> (case ta_hal_info T of
         Some hal_info \<Rightarrow> map_ok (\<lambda>(v, m). (KP_U32 U32_OsPatchlevel v, m)) (upgrade_version v (hi_os_patchlevel hal_info))
       | None \<Rightarrow> Ok (param, False))
   | KP_U32 U32_VendorPatchlevel v \<Rightarrow> (case ta_hal_info T of
         Some hal_info \<Rightarrow> map_ok (\<lambda>(v, m). (KP_U32 U32_VendorPatchlevel v, m)) (upgrade_version v (hi_vendor_patchlevel hal_info))
       | None \<Rightarrow> Ok (param, False))
   | KP_U32 U32_BootPatchlevel v \<Rightarrow> (case ta_boot_info T of
         Some boot_info \<Rightarrow> map_ok (\<lambda>(v, m). (KP_U32 U32_BootPatchlevel v, m)) (upgrade_version v (bi_boot_patchlevel boot_info))
       | None \<Rightarrow> Ok (param, False))
   | _ \<Rightarrow> Ok (param, False))"

fun upgrade_params :: "('k, 's, 'r) ta \<Rightarrow> key_param list \<Rightarrow> bool \<Rightarrow> (key_param list \<times> bool) km" where
  "upgrade_params T [] modified = Ok ([], modified)"
| "upgrade_params T (param # params) modified =
     and_then (upgrade_param T param) (\<lambda>(param, m).
     and_then (upgrade_params T params (modified \<or> m)) (\<lambda>(params, modified). Ok (param # params, modified)))"

fun upgrade_chars ::
  "security_level \<Rightarrow> ('k, 's, 'r) ta \<Rightarrow> key_characteristics list \<Rightarrow> bool \<Rightarrow> (key_characteristics list \<times> bool) km" where
  "upgrade_chars level T [] modified = Ok ([], modified)"
| "upgrade_chars level T (c # chars) modified =
     (if kc_security_level c \<noteq> level
      then and_then (upgrade_chars level T chars modified) (\<lambda>(chars, modified). Ok (c # chars, modified))
      else and_then (upgrade_params T (kc_authorizations c) modified) (\<lambda>(auths, modified).
        and_then (upgrade_chars level T chars modified) (\<lambda>(chars, modified).
        Ok (c\<lparr>kc_authorizations := auths\<rparr> # chars, modified))))"

definition keyblob_for_upgrade ::
  "('k, 's, 'r, 'c) ta_conf \<Rightarrow> bytes \<Rightarrow> key_param list \<Rightarrow> ('k, 's, 'r) ta \<Rightarrow> (plaintext_key_blob \<times> bool) km" where
  "keyblob_for_upgrade C keyblob_to_upgrade params T =
     (case keyblob_parse_decrypt_backlevel C keyblob_to_upgrade params T of
        Ok (keyblob, _) \<Rightarrow> Ok (keyblob, False)
      | Err e \<Rightarrow>
          (if e = Hal KeyRequiresUpgrade
           then case di_legacy_key (tc_dev C) of
               None \<Rightarrow> Err (Hal KeymintNotConfigured)
             | Some legacy_handler \<Rightarrow>
                 and_then (get_boot_info T) (\<lambda>boot_info.
                 map_ok (\<lambda>keyblob. (keyblob, True))
                   (lh_convert_legacy_key legacy_handler keyblob_to_upgrade params boot_info (sec_level C) (ta_store T)))
           else Err e)
      | Panic \<Rightarrow> Panic)"

definition upgraded_keyblob ::
  "('k, 's, 'r, 'c) ta_conf \<Rightarrow> bytes \<Rightarrow> key_param list \<Rightarrow> ('k, 's, 'r) ta \<Rightarrow> (plaintext_key_blob \<times> bool) km" where
  "upgraded_keyblob C keyblob_to_upgrade params T =
     and_then (keyblob_for_upgrade C keyblob_to_upgrade params T) (\<lambda>(keyblob, modified).
     and_then (upgrade_chars (sec_level C) T (pkb_characteristics keyblob) modified) (\<lambda>(chars, modified).
     Ok (keyblob\<lparr>pkb_characteristics := chars\<rparr>, modified)))"

definition upgrade_key ::
  "('k, 's, 'r, 'c) ta_conf \<Rightarrow> bytes \<Rightarrow> key_param list \<Rightarrow> (('k, 's, 'r) ta, bytes, error) act" where
  "upgrade_key C keyblob_to_upgrade params =
     st_then (st_check (upgraded_keyblob C keyblob_to_upgrade params)) (\<lambda>(keyblob, modified).
     if \<not> modified then st_ret (Ok []) else encrypt_keyblob C params keyblob Slot_KeyUpgrade)"

end
