(* ===== verification/Ta_Key_Props.thy ===== *)
theory Ta_Key_Props
  imports Ta_Keys
begin

text \<open>
  Properties of the creation and the upgrade of keys: a key blob that the trusted application returns is
  one that it accepts, for the key and with the characteristics it has reported.
\<close>

section \<open>What creating a certificate leaves alone\<close>

text \<open>The state without what is only cached for certificates.\<close>

definition core :: "('k, 's, 'r) ta \<Rightarrow> ('k, 's, 'r) ta" where
  "core T = T\<lparr>ta_attestation_id_info := None, ta_attestation_chain_info := Map.empty\<rparr>"

lemma core_eqD:
  assumes "core T = core T'"
  shows "ta_aidl_version T = ta_aidl_version T'" "ta_shared_secret_params T = ta_shared_secret_params T'"
    "ta_boot_info T = ta_boot_info T'" "ta_rot_data T = ta_rot_data T'" "ta_hal_info T = ta_hal_info T'"
    "ta_additional_attestation_info T = ta_additional_attestation_info T'" "ta_dice_info T = ta_dice_info T'"
    "ta_in_early_boot T = ta_in_early_boot T'" "ta_device_hmac T = ta_device_hmac T'" "ta_rot_challenge T = ta_rot_challenge T'"
    "ta_operations T = ta_operations T'" "ta_use_count T = ta_use_count T'" "ta_presence_required_op T = ta_presence_required_op T'"
    "ta_store T = ta_store T'" "ta_rng T = ta_rng T'"
  using assms by (cases T; cases T'; simp add: core_def)+

lemma keeps_cases:
  "(x = None \<Longrightarrow> keeps P m) \<Longrightarrow> (\<And>y. x = Some y \<Longrightarrow> keeps P (f y)) \<Longrightarrow> keeps P (case x of None \<Rightarrow> m | Some y \<Rightarrow> f y)"
  by (cases x) simp_all

lemmas keeps_intros = keeps_st_then keeps_st_put keeps_cases

lemma get_attestation_ids_keeps: "keeps (\<lambda>T. core T = v) (get_attestation_ids C)"
  by (rule keepsI) (auto simp: get_attestation_ids_def core_def split: option.splits res.splits)

lemma chain_info_keeps: "keeps (\<lambda>T. core T = v) (chain_info C si kt)"
  by (rule keepsI) (auto simp: chain_info_def core_def st_then_def split: option.splits res.splits list.splits prod.splits)

lemma get_signing_info_keeps: "keeps (\<lambda>T. core T = v) (get_signing_info C kt)"
  unfolding get_signing_info_def
  by (intro keeps_intros chain_info_keeps keeps_st_ret) (auto split: prod.splits)

lemma generate_cert_keeps: "keeps (\<lambda>T. core T = v) (generate_cert C info spki params chars)"
  unfolding generate_cert_def by (intro keeps_intros get_attestation_ids_keeps keeps_st_ret keeps_st_check)

lemma attestation_signing_info_keeps: "keeps (\<lambda>T. core T = v) (attestation_signing_info C params ak challenge key)"
  unfolding attestation_signing_info_def
  by (intro keeps_intros get_signing_info_keeps keeps_st_ret keeps_st_check)
     (auto intro!: keeps_intros keeps_st_check split: prod.splits)

lemma certificate_chain_keeps: "keeps (\<lambda>T. core T = v) (certificate_chain C params ak chars key)"
  unfolding certificate_chain_def
  by (intro keeps_intros attestation_signing_info_keeps generate_cert_keeps keeps_st_ret)

section \<open>A new key blob is accepted\<close>

text \<open>
  What is assumed of the libraries and of the device: the CBOR and COSE libraries, the cipher and the
  random generator do what they are documented to do, and so does the manager of secrets, if there
  is one.
\<close>

definition ta_works :: "('k, 's, 'r, 'c) ta_conf \<Rightarrow> ('s \<Rightarrow> bool) \<Rightarrow> bool" where
  "ta_works C minv \<longleftrightarrow> cbor_lib_works (tc_cbor C) \<and> cose_lib_works (tc_cose C) \<and> aead_works (ci_aead (tc_imp C))
     \<and> rng (ci_fill (tc_imp C)) \<and> pred_option (\<lambda>mgr. sdd_manager mgr minv) (di_sdd_mgr (tc_dev C))"

text \<open>The encoding of every blob for a key stays within the limits of CBOR.\<close>

definition blob_fits :: "('k, 's, 'r, 'c) ta_conf \<Rightarrow> ('s \<Rightarrow> bool) \<Rightarrow> plaintext_key_blob \<Rightarrow> bool" where
  "blob_fits C minv blob \<longleftrightarrow> pkb_wf blob \<and> (\<forall>kek ctx hs purpose s r eb sr'. minv s \<longrightarrow> di_kek_context (tc_dev C) = Ok ctx \<longrightarrow>
     encrypt (tc_cbor C) (tc_cose C) (sec_level C) (di_sdd_mgr (tc_dev C)) (ci_aead (tc_imp C)) (ci_kdf (tc_imp C))
       (ci_fill (tc_imp C)) kek ctx blob hs purpose (s, r) = (Ok eb, sr') \<longrightarrow> cbor_fits 12 (ekb_to_cbor (tc_cose C) eb))"

lemma on_store_rng_eq:
  "on_store_rng m T = (res, T') \<longleftrightarrow> (\<exists>s r. m (ta_store T, ta_rng T) = (res, (s, r)) \<and> T' = T\<lparr>ta_store := s, ta_rng := r\<rparr>)"
  by (auto simp: on_store_rng_def split: prod.splits)

lemma encrypt_keyblob_accepted:
  assumes "ta_works C minv" "minv (ta_store T)" "blob_fits C minv blob"
    and "encrypt_keyblob C params blob purpose T = (Ok bs, T')"
  obtains slot s r where "T' = T\<lparr>ta_store := s, ta_rng := r\<rparr>" "mgr_ok (di_sdd_mgr (tc_dev C)) minv s"
    "keyblob_parse_decrypt_backlevel C bs params T' = Ok (blob, slot)"
proof -
  obtain ctx kek hs rot eb s r where ctx: "di_kek_context (tc_dev C) = Ok ctx" "root_kek C ctx = Ok kek"
    and rot: "root_of_trust T = Ok rot" "hidden params rot = Ok hs"
    and enc: "encrypt (tc_cbor C) (tc_cose C) (sec_level C) (di_sdd_mgr (tc_dev C)) (ci_aead (tc_imp C)) (ci_kdf (tc_imp C))
       (ci_fill (tc_imp C)) kek ctx blob hs purpose (ta_store T, ta_rng T) = (Ok eb, (s, r))"
    and bs: "into_vec (tc_cbor C) (ekb_to_cbor (tc_cose C)) eb = Ok bs"
    and T': "T' = T\<lparr>ta_store := s, ta_rng := r\<rparr>"
    using assms(4)
    by (auto simp: encrypt_keyblob_def res_simps on_store_rng_eq)
  have works: "cbor_lib_works (tc_cbor C)" "cose_lib_works (tc_cose C)" "aead_works (ci_aead (tc_imp C))" "rng (ci_fill (tc_imp C))"
    "mgr_ok (di_sdd_mgr (tc_dev C)) minv (ta_store T)"
    using assms(1,2) by (auto simp: ta_works_def mgr_ok_def option.pred_set)
  obtain eb' where new: "encrypted_key_blob_new (tc_cbor C) (tc_cose C) bs = Ok eb'" "kek_context eb' = ctx"
    and dec: "decrypt (tc_cbor C) (tc_cose C) (di_sdd_mgr (tc_dev C)) s (ci_aead (tc_imp C)) (ci_kdf (tc_imp C)) kek eb' hs = Ok blob"
    using encrypt_decrypts [OF works _ enc] assms(2,3) enc bs ctx(1) by (fastforce simp: blob_fits_def)
  have "keyblob_parse_decrypt_backlevel C bs params T' = Ok (blob, secure_deletion_slot eb')"
    using new ctx rot dec by (simp add: keyblob_parse_decrypt_backlevel_def T' root_of_trust_def)
  moreover have "mgr_ok (di_sdd_mgr (tc_dev C)) minv s"
    by (rule encrypt_Ok [OF works(5) enc])
  ultimately show thesis
    by (intro that [OF T'])
qed

lemma check_version_param_cong:
  assumes "ta_hal_info T' = ta_hal_info T" "ta_boot_info T' = ta_boot_info T"
  shows "check_version_param T' = check_version_param T"
  by (intro ext) (simp only: check_version_param_def assms)

lemma check_version_keymint_tags:
  "param \<in> set (keymint_tags T origin) \<Longrightarrow> check_version_param T param = Ok ()"
  by (auto simp: keymint_tags_def check_version_param_def check_level_def split: option.splits)

lemma check_version_other:
  "key_param_tag param \<notin> set AUTO_ADDED_CHARACTERISTICS \<Longrightarrow> check_version_param T param = Ok ()"
  by (cases param) (auto simp: check_version_param_def AUTO_ADDED_CHARACTERISTICS_def split: u32_tag.splits)

text \<open>The characteristics that a new key gets, and that they say nothing of another version.\<close>

lemma new_key_versions:
  assumes "extract_key_characteristics ss ps es (sec_level C) = Ok chars0" "add_keymint_tags C T origin chars0 = Ok chars"
    and "sec_level C \<noteq> SecurityLevel_Keystore" "ta_hal_info T' = ta_hal_info T" "ta_boot_info T' = ta_boot_info T"
  obtains auths where
    "filter (\<lambda>c. kc_security_level c \<noteq> SecurityLevel_Keystore) chars = [\<lparr>kc_security_level = sec_level C, kc_authorizations = auths\<rparr>]"
    "for_each (check_version_param T') auths = Ok ()"
proof -
  let ?a = "sort_by param_le (filter (keymint_enforced ss) (ps @ es))"
  have ok: "\<not> list_ex (forbidden_param (sec_level C)) (ps @ es)"
    and c0: "\<exists>ks. chars0 = \<lparr>kc_security_level = sec_level C, kc_authorizations = ?a\<rparr> # ks
      \<and> list_all (\<lambda>c. kc_security_level c = SecurityLevel_Keystore) ks"
    using assms(1) by (auto simp: extract_key_characteristics_eq split: if_splits list.splits)
  have "filter (\<lambda>c. kc_security_level c \<noteq> SecurityLevel_Keystore) ks = []"
    if "list_all (\<lambda>c. kc_security_level c = SecurityLevel_Keystore) ks" for ks
    using that by (auto simp: list_all_iff filter_empty_conv)
  then have "filter (\<lambda>c. kc_security_level c \<noteq> SecurityLevel_Keystore) chars =
      [\<lparr>kc_security_level = sec_level C, kc_authorizations = ?a @ keymint_tags T origin\<rparr>]"
    using c0 assms(2,3) by auto
  moreover have "check_version_param T' p = Ok ()" if "p \<in> set (?a @ keymint_tags T origin)" for p
  proof -
    have "p \<in> set (keymint_tags T origin) \<or> key_param_tag p \<notin> set AUTO_ADDED_CHARACTERISTICS"
      using that ok by (auto simp: list_ex_iff forbidden_param_def set_sort_by)
    then show ?thesis
      using check_version_keymint_tags check_version_other check_version_param_cong [OF assms(4,5)] by metis
  qed
  ultimately show thesis
    by (intro that) (auto simp: for_each_eq_Ok)
qed

definition stored_blob :: "key_characteristics list \<Rightarrow> key_material \<Rightarrow> plaintext_key_blob" where
  "stored_blob chars key =
     \<lparr>pkb_characteristics = filter (\<lambda>c. kc_security_level c \<noteq> SecurityLevel_Keystore) chars, pkb_key_material = key\<rparr>"

lemma finish_keyblob_creation_accepted:
  assumes "ta_works C minv" "minv (ta_store T)" "blob_fits C minv (stored_blob chars key)"
    and "finish_keyblob_creation C params ak chars key purpose T = (Ok res, T')"
    and "pkb_characteristics (stored_blob chars key) = [\<lparr>kc_security_level = sec_level C, kc_authorizations = auths\<rparr>]"
    and "for_each (check_version_param T) auths = Ok ()"
  shows "kcr_key_characteristics res = chars"
    "\<exists>slot. keyblob_parse_decrypt C (kcr_key_blob res) params T' = Ok (stored_blob chars key, slot)"
proof -
  obtain chain T1 bs where chain: "certificate_chain C params ak chars key T = (Ok chain, T1)"
    and enc: "encrypt_keyblob C params (stored_blob chars key) purpose T1 = (Ok bs, T')"
    and res: "kcr_key_blob res = bs" "kcr_key_characteristics res = chars"
    using assms(4) by (auto simp: finish_keyblob_creation_def res_simps stored_blob_def)
  have core: "core T1 = core T"
    using keepsD [OF certificate_chain_keeps, of T "core T" C params ak chars key] chain by simp
  obtain slot s r where T': "T' = T1\<lparr>ta_store := s, ta_rng := r\<rparr>"
    and dec: "keyblob_parse_decrypt_backlevel C bs params T' = Ok (stored_blob chars key, slot)"
    by (rule encrypt_keyblob_accepted [OF assms(1) _ assms(3) enc]) (use assms(2) core_eqD [OF core] in simp)
  have "check_version_param T' = check_version_param T"
    using core_eqD [OF core] by (intro check_version_param_cong) (simp_all add: T')
  then show "\<exists>slot. keyblob_parse_decrypt C (kcr_key_blob res) params T' = Ok (stored_blob chars key, slot)"
    using dec assms(5,6) by (auto simp: keyblob_parse_decrypt_def pkb_characteristics_at_def characteristics_at_eq res)
  show "kcr_key_characteristics res = chars"
    by (rule res)
qed

lemma extract_gen_chars:
  "extract_key_gen_characteristics ss ps sl = Ok (chars, info) \<Longrightarrow> \<exists>es. extract_key_characteristics ss ps es sl = Ok chars"
  by (auto simp: extract_key_gen_characteristics_def res_simps)

lemma extract_import_chars:
  "extract_key_import_characteristics imp ss ps sl fmt data = Ok (chars, key) \<Longrightarrow> \<exists>es. extract_key_characteristics ss ps es sl = Ok chars"
  by (auto simp: extract_key_import_characteristics_def res_simps)

lemma new_key_finished:
  assumes "ta_works C minv" "minv (ta_store T)" "sec_level C \<noteq> SecurityLevel_Keystore"
    and "\<exists>es. extract_key_characteristics ss ps es (sec_level C) = Ok chars0" "add_keymint_tags C T origin chars0 = Ok chars"
    and "finish_keyblob_creation C params ak chars key purpose T1 = (Ok res, T')"
    and "ta_store T1 = ta_store T" "ta_hal_info T1 = ta_hal_info T" "ta_boot_info T1 = ta_boot_info T"
    and "blob_fits C minv (stored_blob (kcr_key_characteristics res) key)"
  shows "\<exists>slot. keyblob_parse_decrypt C (kcr_key_blob res) params T' = Ok (stored_blob (kcr_key_characteristics res) key, slot)"
proof -
  obtain es where ex: "extract_key_characteristics ss ps es (sec_level C) = Ok chars0"
    using assms(4) by blast
  obtain auths where auths: "pkb_characteristics (stored_blob chars key) = [\<lparr>kc_security_level = sec_level C, kc_authorizations = auths\<rparr>]"
    "for_each (check_version_param T1) auths = Ok ()"
    by (rule new_key_versions [OF ex assms(5,3,8,9)]) (simp add: stored_blob_def)
  have chars: "kcr_key_characteristics res = chars"
    using assms(6) by (auto simp: finish_keyblob_creation_def res_simps)
  show ?thesis
    using finish_keyblob_creation_accepted(2) [OF assms(1) _ _ assms(6) auths] assms(2,7,10) chars by simp
qed


section \<open>A concrete key\<close>

lemma ex_conf_works: "ta_works (ex_conf level) mem_inv"
  by (simp add: ta_works_def ex_conf_def ex_imp_def ex_dev_def rfc8949_works rfc9052_works bytes_aead_works
    noop_rng.rng_axioms noop_rng.mem_sdd_manager)

lemma ex_blob_fits:
  assumes "pkb_wf blob" "\<And>pt. into_vec rfc8949 key_material_to_cbor (pkb_key_material blob) = Ok pt \<Longrightarrow> length pt < 100"
  shows "blob_fits (ex_conf level) mem_inv blob"
  unfolding blob_fits_def
proof (intro conjI allI impI)
  let ?C = "ex_conf level"
  fix kek ctx hs purpose s r eb sr'
  assume inv: "mem_inv s" and ctx: "di_kek_context (tc_dev ?C) = Ok ctx"
    and enc: "encrypt (tc_cbor ?C) (tc_cose ?C) (sec_level ?C) (di_sdd_mgr (tc_dev ?C)) (ci_aead (tc_imp ?C)) (ci_kdf (tc_imp ?C))
       (ci_fill (tc_imp ?C)) kek ctx blob hs purpose (s, r) = (Ok eb, sr')"
  obtain s' r' where sr': "sr' = (s', r')"
    by (cases sr')
  have mgr: "mgr_ok (di_sdd_mgr (tc_dev ?C)) mem_inv s"
    using inv by (simp add: mgr_ok_def ex_conf_def ex_dev_def noop_rng.mem_sdd_manager)
  obtain slot sdd r1 where run: "encrypt_with (tc_cbor ?C) (tc_cose ?C) (ci_aead (tc_imp ?C)) (ci_kdf (tc_imp ?C)) (ci_fill (tc_imp ?C))
      kek ctx blob hs slot sdd (s', r1) = (Ok eb, (s', r'))"
    by (rule encrypt_Ok [OF mgr enc [unfolded sr']])
  obtain kdi k pt ct where f: "ci_fill (tc_imp ?C) r1 32 = (kdi, r')"
    and pt: "into_vec (tc_cbor ?C) key_material_to_cbor (pkb_key_material blob) = Ok pt"
    and ct: "seal (ci_aead (tc_imp ?C)) k pt (cose_aad (tc_cose ?C)) = Ok ct"
    and eb: "eb = EncryptedKeyBlob_V1 \<lparr>ekb_characteristics = pkb_characteristics blob,
        ekb_key_derivation_input = kdi, ekb_kek_context = ctx,
        ekb_encrypted_key_material = cose_new (tc_cose ?C) ct, ekb_secure_deletion_slot = slot\<rparr>"
    by (rule encrypt_with_Ok [OF run])
  have "ct = pt" "length kdi = 32" "ctx = []" "length pt < 100"
    using ct f ctx pt assms(2) by (auto simp: seal_def ex_conf_def ex_imp_def ex_dev_def bytes_aead_def noop_fill_def)
  moreover have "cbor_fits 10 (vec_to_cbor key_characteristics_to_cbor (pkb_characteristics blob))"
    using assms(1) by (intro characteristics_codec.fits_in) (simp_all add: pkb_wf_def)
  ultimately show "cbor_fits 12 (ekb_to_cbor (tc_cose ?C) eb)"
    by (cases slot) (simp_all add: eb ekb_v1_to_cbor_def ex_conf_def rfc9052_def enum_to_cbor_def bytes_to_cbor_def
      option_to_cbor_def u32_codec.fits_in)
qed (rule assms(1))

definition ex_params :: "key_param list" where
  "ex_params = [KP_Algorithm Algorithm_Hmac, KP_KeySize 256, KP_Digest Digest_Sha256, KP_MinMacLength 128, KP_Purpose KeyPurpose_Sign,
     KP_Bool Bool_NoAuthRequired, KP_Bytes Bytes_ApplicationId [7]]"

definition ex_ta_booted :: "(bytes, mem_slots, unit) ta" where
  "ex_ta_booted = (ex_ta SecurityLevel_TrustedEnvironment)\<lparr>ta_boot_info := Some ex_boot_info, ta_rot_data := Some [1],
     ta_hal_info := Some \<lparr>hi_os_version = 15, hi_os_patchlevel = 202401, hi_vendor_patchlevel = 20240101\<rparr>\<rparr>"

abbreviation "ex_tee \<equiv> ex_conf SecurityLevel_TrustedEnvironment"

lemma extract_wf:
  assumes "extract_key_characteristics ss ps es sl = Ok chars" "length (ps @ es) < 2 ^ 63" "list_all key_param_wf (ps @ es)"
  shows "list_all (\<lambda>c. length (kc_authorizations c) < 2 ^ 63 \<and> list_all key_param_wf (kc_authorizations c)) chars" "length chars \<le> 2"
proof -
  have wf: "length (sort_by param_le (filter P (ps @ es))) < 2 ^ 63 \<and> list_all key_param_wf (sort_by param_le (filter P (ps @ es)))" for P
    using assms(2,3) length_filter_le [of P "ps @ es"] by (auto simp: list_all_iff set_sort_by length_sort_by simp del: filter_append)
  have chars: "chars = \<lparr>kc_security_level = sl, kc_authorizations = sort_by param_le (filter (keymint_enforced ss) (ps @ es))\<rparr> #
       (if filter (keystore_enforced ss) (ps @ es) = [] then []
        else [\<lparr>kc_security_level = SecurityLevel_Keystore,
          kc_authorizations = sort_by param_le (filter (keystore_enforced ss) (ps @ es))\<rparr>])"
    using assms(1) by (auto simp: extract_key_characteristics_eq simp del: filter_append split: if_splits list.splits)
  show "length chars \<le> 2"
    unfolding chars by simp
  show "list_all (\<lambda>c. length (kc_authorizations c) < 2 ^ 63 \<and> list_all key_param_wf (kc_authorizations c)) chars"
    unfolding chars using wf [of "keymint_enforced ss"] wf [of "keystore_enforced ss"] by (simp del: filter_append)
qed

lemma keymint_tags_wf: "length (keymint_tags T origin) \<le> 5" "list_all key_param_wf (keymint_tags T origin)"
  by (auto simp: keymint_tags_def split: option.splits)

lemma add_keymint_tags_wf:
  assumes "add_keymint_tags C T origin chars0 = Ok chars"
    and "list_all (\<lambda>c. length (kc_authorizations c) < 2 ^ 63 \<and> list_all key_param_wf (kc_authorizations c)) chars0"
  shows "list_all key_characteristics_wf chars \<and> length chars = length chars0"
  using assms
proof (induction chars0 arbitrary: chars)
  case (Cons c chars0)
  have "list_all key_characteristics_wf chars0"
    using Cons.prems(2) by (auto simp: list_all_iff key_characteristics_wf_def key_params_wf_def)
  then show ?case
    using Cons keymint_tags_wf [of T origin]
    by (auto simp: map_ok_eq key_characteristics_wf_def key_params_wf_def list_all_iff split: if_splits)
qed simp

abbreviation "ex_key \<equiv> Material_Hmac (Explicit (HmacKey (replicate 32 1)))"

lemma ex_extract:
  "\<exists>chars. extract_key_characteristics Storage_Available ex_params [] SecurityLevel_TrustedEnvironment = Ok chars
     \<and> extract_key_gen_characteristics Storage_Available ex_params SecurityLevel_TrustedEnvironment = Ok (chars, KeyGenInfo_Hmac 256)
     \<and> (\<exists>auths ks. chars = \<lparr>kc_security_level = SecurityLevel_TrustedEnvironment, kc_authorizations = auths\<rparr> # ks)"
proof -
  have "check_hmac_gen_params ex_params SecurityLevel_TrustedEnvironment = Ok (KeyGenInfo_Hmac 256)"
    by (simp add: check_hmac_gen_params_def check_hmac_params_def valid_hal_size_def hmac_valid_size_def
      get_tag_value_values ex_params_def hmac_MAX_KEY_SIZE_BITS_def hmac_MIN_KEY_SIZE_BITS_def)
  moreover have "get_algorithm ex_params = Ok Algorithm_Hmac"
    by (simp add: get_algorithm_def get_tag_value_values ex_params_def)
  moreover have "\<not> list_ex (forbidden_param SecurityLevel_TrustedEnvironment) ex_params" "\<not> auth_conflict ex_params"
    by (simp_all add: ex_params_def forbidden_param_def AUTO_ADDED_CHARACTERISTICS_def auth_conflict_def seen_def)
  ultimately show ?thesis
    by (simp add: extract_key_gen_characteristics_def extract_key_characteristics_eq)
qed

lemma ex_generated:
  assumes ex: "extract_key_characteristics Storage_Available ps [] SecurityLevel_TrustedEnvironment = Ok chars0"
    and gen: "extract_key_gen_characteristics Storage_Available ps SecurityLevel_TrustedEnvironment = Ok (chars0, info)"
    and c0: "chars0 = \<lparr>kc_security_level = SecurityLevel_TrustedEnvironment, kc_authorizations = auths0\<rparr> # ks"
    and key: "ci_generate ex_imp info ps () = (Ok key, ())" "key_material_wf key" "length (key_material_bytes key) < 2 ^ 64"
    and ps: "length ps < 2 ^ 63" "list_all key_param_wf ps"
  obtains chars auths where "generate_key_material ex_tee ps ex_ta_booted = (Ok (key, chars), ex_ta_booted)"
    "pkb_wf (stored_blob chars key)" "pkb_characteristics_at (stored_blob chars key) SecurityLevel_TrustedEnvironment = Ok auths"
    "characteristics_at chars SecurityLevel_TrustedEnvironment = Ok auths"
proof -
  have level: "sec_level ex_tee = SecurityLevel_TrustedEnvironment"
    by (simp add: ex_conf_def)
  then have ex': "extract_key_characteristics Storage_Available ps [] (sec_level ex_tee) = Ok chars0"
    using ex by simp
  have ss: "secure_storage_available ex_tee = Storage_Available"
    by (simp add: secure_storage_available_def ex_conf_def ex_dev_def)
  obtain chars where tags: "add_keymint_tags ex_tee ex_ta_booted KeyOrigin_Generated chars0 = Ok chars"
    by (simp add: c0 level)
  have imp: "tc_imp ex_tee = ex_imp"
    by (simp add: ex_conf_def)
  have g: "generate_key_material ex_tee ps ex_ta_booted = (Ok (key, chars), ex_ta_booted)"
    using gen tags key by (simp add: generate_key_material_def ss level imp st_then_def on_rng_def)
  have wf: "list_all key_characteristics_wf chars" "length chars \<le> 2"
    using add_keymint_tags_wf [OF tags extract_wf(1) [OF ex]] extract_wf(2) [OF ex] ps by simp_all
  obtain auths where auths: "filter (\<lambda>c. kc_security_level c \<noteq> SecurityLevel_Keystore) chars =
      [\<lparr>kc_security_level = SecurityLevel_TrustedEnvironment, kc_authorizations = auths\<rparr>]"
    by (rule new_key_versions [OF ex' tags _ refl refl]) (simp_all add: level)
  moreover have "pkb_wf (stored_blob chars key)"
    using wf key(2,3) by (auto simp: pkb_wf_def stored_blob_def characteristics_wf_def list_all_iff
      intro!: le_less_trans [OF length_filter_le])
  moreover have "filter (\<lambda>c. kc_security_level c = SecurityLevel_TrustedEnvironment) chars =
      filter (\<lambda>c. kc_security_level c = SecurityLevel_TrustedEnvironment) (filter (\<lambda>c. kc_security_level c \<noteq> SecurityLevel_Keystore) chars)"
    by (auto intro: filter_cong)
  ultimately show thesis
    using g by (intro that [of chars auths]) (simp_all add: pkb_characteristics_at_def stored_blob_def characteristics_at_eq del: filter_filter)
qed

lemma ex_material:
  obtains chars auths where "generate_key_material ex_tee ex_params ex_ta_booted = (Ok (ex_key, chars), ex_ta_booted)"
    "pkb_wf (stored_blob chars ex_key)" "pkb_characteristics_at (stored_blob chars ex_key) SecurityLevel_TrustedEnvironment = Ok auths"
proof -
  obtain chars0 auths0 ks where "extract_key_characteristics Storage_Available ex_params [] SecurityLevel_TrustedEnvironment = Ok chars0"
    and "extract_key_gen_characteristics Storage_Available ex_params SecurityLevel_TrustedEnvironment = Ok (chars0, KeyGenInfo_Hmac 256)"
    and "chars0 = \<lparr>kc_security_level = SecurityLevel_TrustedEnvironment, kc_authorizations = auths0\<rparr> # ks"
    using ex_extract by blast
  then show thesis
    by (rule ex_generated [where key = ex_key]) (simp_all add: ex_imp_def ex_params_def that)
qed

lemma ex_secret:
  "secret_available (Some ex_mgr) needed p (mem_default 2, ())"
  "mem_inv s \<Longrightarrow> secret_available (Some ex_mgr) False p (s, ())"
proof -
  show *: "secret_available (Some ex_mgr) False p (s, ())" if "mem_inv s" for s
  proof -
    obtain res s' where g: "mem_get_or_create noop_fill (s, ()) = (res, (s', ()))"
      by (cases "mem_get_or_create noop_fill (s, ())") auto
    show ?thesis
      by (rule noop_rng.mem_get_or_create_eq [OF that g]) (simp add: secret_available_def mem_sdd_def g)
  qed
  show "secret_available (Some ex_mgr) needed p (mem_default 2, ())"
    using * [OF mem_default_inv] by (cases needed) (simp_all add: secret_available_def ex_new_secret)
qed

lemma ex_encrypt_keyblob:
  assumes "pkb_wf blob" "\<And>pt. into_vec rfc8949 key_material_to_cbor (pkb_key_material blob) = Ok pt \<Longrightarrow> length pt < 100"
    and "pkb_characteristics_at blob SecurityLevel_TrustedEnvironment = Ok auths"
    and "mem_inv (ta_store T)" "secret_available (Some ex_mgr) (requires_sdd auths) purpose (ta_store T, ())" "ta_rot_data T = Some [1]"
    and hs: "hidden params [1] = Ok hs" "key_params_wf hs"
  shows "\<exists>bs T'. encrypt_keyblob ex_tee params blob purpose T = (Ok bs, T')"
proof -
  let ?enc = "encrypt rfc8949 rfc9052 SecurityLevel_TrustedEnvironment (Some ex_mgr) bytes_aead (kdf_of_hmac pad_hmac) noop_fill
     (Explicit (HmacKey [9])) [] blob hs purpose (ta_store T, ())"
  have mgr: "mgr_ok (Some ex_mgr) mem_inv (ta_store T)"
    using assms(4) by (simp add: mgr_ok_def noop_rng.mem_sdd_manager)
  have "is_ok (fst ?enc)"
    using encrypt_ok_iff [OF rfc8949_works bytes_aead_works pad_hmac_works assms(1) hs(2) mgr assms(3)] assms(5) by blast
  then obtain eb s where enc: "?enc = (Ok eb, (s, ()))"
    by (cases ?enc) (auto simp: is_ok_iff)
  have "cbor_fits 12 (ekb_to_cbor rfc9052 eb)"
    using ex_blob_fits [OF assms(1,2), of SecurityLevel_TrustedEnvironment] enc assms(4)
    by (force simp: blob_fits_def ex_conf_def ex_imp_def ex_dev_def)
  then obtain bs where "into_vec rfc8949 (ekb_to_cbor rfc9052) eb = Ok bs"
    using encrypt_decrypts [OF rfc8949_works rfc9052_works bytes_aead_works noop_rng.rng_axioms mgr assms(1) enc] by blast
  then show ?thesis
    using enc assms(6) hs(1) by (simp add: encrypt_keyblob_def root_kek_def root_of_trust_def on_store_rng_def st_then_def
      ex_conf_def ex_imp_def ex_dev_def)
qed

lemma ex_hidden: "hidden ex_params [1] = Ok [KP_ApplicationId [7], KP_RootOfTrust [1]]" "key_params_wf [KP_ApplicationId [7], KP_RootOfTrust [1]]"
  by (simp_all add: hidden_def get_opt_tag_value_values ex_params_def key_params_wf_def)

lemma ex_booted_store: "ta_store ex_ta_booted = mem_default 2" "ta_rot_data ex_ta_booted = Some [1]" "mem_inv (mem_default 2)"
  by (simp_all add: ex_ta_booted_def ex_ta_def ta_new_def mem_default_inv)

lemma ex_key_short: "into_vec rfc8949 key_material_to_cbor ex_key = Ok pt \<Longrightarrow> length pt < 100"
  by (auto simp: rfc8949_def into_vec_def material_to_cbor_def bytes_to_cbor_def enum_to_cbor_def bool_to_cbor_def cbor_head_def)


end
