(* ===== verification/Ta_Upgrade.thy ===== *)
theory Ta_Upgrade
  imports Ta_Key_Props
begin

text \<open>
  Upgrade of key blobs: the blob that \<open>upgrade_key\<close> returns holds the same key, none of its versions is
  lowered, and it is accepted by the version checks of the other requests.
\<close>

section \<open>What an upgrade changes\<close>

text \<open>A parameter after an upgrade: only a version may change, and only upwards, or to the OS version 0.\<close>

definition is_version_tag :: "u32_tag \<Rightarrow> bool" where
  "is_version_tag t \<longleftrightarrow> t \<in> {U32_OsVersion, U32_OsPatchlevel, U32_VendorPatchlevel, U32_BootPatchlevel}"

definition param_upgraded :: "key_param \<Rightarrow> key_param \<Rightarrow> bool" where
  "param_upgraded p p' \<longleftrightarrow> p' = p \<or> (\<exists>t v v'. p = KP_U32 t v \<and> p' = KP_U32 t v' \<and> is_version_tag t \<and> (v < v' \<or> t = U32_OsVersion \<and> v' = 0))"

definition chars_upgraded :: "security_level \<Rightarrow> key_characteristics \<Rightarrow> key_characteristics \<Rightarrow> bool" where
  "chars_upgraded level c c' \<longleftrightarrow> kc_security_level c' = kc_security_level c
     \<and> (if kc_security_level c = level then list_all2 param_upgraded (kc_authorizations c) (kc_authorizations c') else c' = c)"

lemma upgrade_param_Ok:
  assumes "upgrade_param T p = Ok (p', m)"
  shows "check_version_param T p' = Ok ()" "param_upgraded p p'" "\<not> m \<Longrightarrow> p' = p"
proof -
  have "check_version_param T p' = Ok () \<and> param_upgraded p p' \<and> (\<not> m \<longrightarrow> p' = p)"
  proof (cases p)
    case (KP_U32 t v)
    then show ?thesis
      using assms by (cases t)
        (auto simp: upgrade_param_def upgrade_version_def upgrade_os_version_def check_version_param_def check_level_def
          param_upgraded_def is_version_tag_def map_ok_eq split: option.splits if_splits)
  qed (use assms in \<open>auto simp: upgrade_param_def check_version_param_def param_upgraded_def\<close>)
  then show "check_version_param T p' = Ok ()" "param_upgraded p p'" "\<not> m \<Longrightarrow> p' = p"
    by simp_all
qed

lemma upgrade_params_Ok:
  assumes "upgrade_params T ps m = Ok (ps', m')"
  shows "for_each (check_version_param T) ps' = Ok () \<and> list_all2 param_upgraded ps ps' \<and> (\<not> m' \<longrightarrow> \<not> m \<and> ps' = ps)"
  using assms
proof (induction ps arbitrary: m ps' m')
  case (Cons p ps)
  then obtain p' mp qs where p: "upgrade_param T p = Ok (p', mp)"
    and ps: "upgrade_params T ps (m \<or> mp) = Ok (qs, m')" "ps' = p' # qs"
    by (auto simp: res_simps)
  show ?case
    using upgrade_param_Ok [OF p] Cons.IH [OF ps(1)] by (auto simp: ps(2) for_each_eq_Ok)
qed auto

lemma upgrade_chars_Ok:
  assumes "upgrade_chars level T cs m = Ok (cs', m')"
  shows "list_all2 (chars_upgraded level) cs cs' \<and> (\<not> m' \<longrightarrow> \<not> m \<and> cs' = cs)
    \<and> (\<forall>c \<in> set cs'. kc_security_level c = level \<longrightarrow> for_each (check_version_param T) (kc_authorizations c) = Ok ())"
  using assms
proof (induction cs arbitrary: m cs' m')
  case (Cons c cs)
  show ?case
  proof (cases "kc_security_level c = level")
    case True
    then obtain ps mp qs where ps: "upgrade_params T (kc_authorizations c) m = Ok (ps, mp)"
      and cs: "upgrade_chars level T cs mp = Ok (qs, m')" "cs' = c\<lparr>kc_authorizations := ps\<rparr> # qs"
      using Cons.prems by (auto simp: res_simps)
    show ?thesis
      using upgrade_params_Ok [OF ps] Cons.IH [OF cs(1)] True by (auto simp: cs(2) chars_upgraded_def)
  next
    case False
    then obtain qs where cs: "upgrade_chars level T cs m = Ok (qs, m')" "cs' = c # qs"
      using Cons.prems by (auto simp: res_simps)
    show ?thesis
      using Cons.IH [OF cs(1)] False by (auto simp: cs(2) chars_upgraded_def)
  qed
qed auto

lemma list_all2_filter_level:
  assumes "list_all2 (chars_upgraded level) cs cs'"
  shows "list_all2 (chars_upgraded level) (filter (\<lambda>c. kc_security_level c = l) cs) (filter (\<lambda>c. kc_security_level c = l) cs')"
  using assms by (induction rule: list_all2_induct) (auto simp: chars_upgraded_def)

lemma upgraded_characteristics_at:
  assumes "list_all2 (chars_upgraded level) cs cs'" "characteristics_at cs level = Ok auths"
    and "\<forall>c \<in> set cs'. kc_security_level c = level \<longrightarrow> for_each (check_version_param T) (kc_authorizations c) = Ok ()"
  obtains auths' where "characteristics_at cs' level = Ok auths'" "for_each (check_version_param T) auths' = Ok ()"
proof -
  obtain c where c: "filter (\<lambda>c. kc_security_level c = level) cs = [c]"
    using assms(2) by (auto simp: characteristics_at_eq split: list.splits)
  then obtain c' where c': "filter (\<lambda>c. kc_security_level c = level) cs' = [c']"
    using list_all2_filter_level [OF assms(1), of level] by (auto simp: list_all2_Cons1)
  then have "c' \<in> set cs'" "kc_security_level c' = level"
    by (auto simp: filter_eq_Cons_iff)
  then show thesis
    using assms(3) c' by (intro that [of "kc_authorizations c'"]) (auto simp: characteristics_at_eq)
qed

section \<open>The upgraded blob\<close>

text \<open>
  C8: When a key is upgraded, the result is either empty, and then the blob that was given is one
  that all other requests accept as it is, or a new blob that they accept, with the same key and the same
  characteristics but for versions that were raised to those of the running system, and never
  lowered (an OS version may be set to 0, if that is the version of the system). The upgrade
  changes nothing of the state but the store of secrets and the random generator.
\<close>

theorem upgrade_key_correct:
  assumes "ta_works C minv" "minv (ta_store T)"
    and "keyblob_for_upgrade C blob params T = Ok (kb, legacy)" "is_ok (pkb_characteristics_at kb (sec_level C))"
    and "\<And>kb'. upgraded_keyblob C blob params T = Ok (kb', True) \<Longrightarrow> blob_fits C minv kb'"
    and "upgrade_key C blob params T = (Ok bs, T')"
  shows "(\<exists>s r. T' = T\<lparr>ta_store := s, ta_rng := r\<rparr>) \<and>
    (bs = [] \<and> (\<exists>slot. keyblob_parse_decrypt C blob params T' = Ok (kb, slot)) \<or>
     (\<exists>kb' slot. keyblob_parse_decrypt C bs params T' = Ok (kb', slot) \<and> pkb_key_material kb' = pkb_key_material kb
        \<and> list_all2 (chars_upgraded (sec_level C)) (pkb_characteristics kb) (pkb_characteristics kb')))"
proof -
  obtain auths where auths: "characteristics_at (pkb_characteristics kb) (sec_level C) = Ok auths"
    using assms(4) by (auto simp: pkb_characteristics_at_def is_ok_iff)
  obtain cs m where up: "upgrade_chars (sec_level C) T (pkb_characteristics kb) legacy = Ok (cs, m)"
    using assms(3,6) by (auto simp: upgrade_key_def upgraded_keyblob_def res_simps)
  let ?kb = "kb\<lparr>pkb_characteristics := cs\<rparr>"
  have kb: "upgraded_keyblob C blob params T = Ok (?kb, m)"
    using assms(3) up by (simp add: upgraded_keyblob_def)
  note cs = upgrade_chars_Ok [OF up]
  obtain auths' where auths': "pkb_characteristics_at ?kb (sec_level C) = Ok auths'" "for_each (check_version_param T) auths' = Ok ()"
    by (rule upgraded_characteristics_at [OF _ auths]) (use cs in \<open>auto simp: pkb_characteristics_at_def\<close>)
  show ?thesis
  proof (cases m)
    case False
    then have "\<not> legacy" "?kb = kb" "bs = []" "T' = T"
      using cs assms(6) kb by (auto simp: upgrade_key_def st_then_def)
    moreover obtain slot where "keyblob_parse_decrypt_backlevel C blob params T = Ok (kb, slot)"
      using assms(3) \<open>\<not> legacy\<close> by (auto simp: keyblob_for_upgrade_def map_ok_eq res_simps split: res.splits if_splits option.splits)
    ultimately show ?thesis
      using auths' by (auto simp: keyblob_parse_decrypt_def intro!: exI [of _ "ta_store T"] exI [of _ "ta_rng T"])
  next
    case True
    then have enc: "encrypt_keyblob C params ?kb Slot_KeyUpgrade T = (Ok bs, T')"
      using assms(6) kb by (simp add: upgrade_key_def st_then_def)
    obtain slot s r where T': "T' = T\<lparr>ta_store := s, ta_rng := r\<rparr>"
      and dec: "keyblob_parse_decrypt_backlevel C bs params T' = Ok (?kb, slot)"
      by (rule encrypt_keyblob_accepted [OF assms(1,2) assms(5) enc]) (use kb True in simp_all)
    have "check_version_param T' = check_version_param T"
      by (intro check_version_param_cong) (simp_all add: T')
    then have "keyblob_parse_decrypt C bs params T' = Ok (?kb, slot)"
      using dec auths' by (simp add: keyblob_parse_decrypt_def)
    moreover have "pkb_key_material ?kb = pkb_key_material kb"
      "list_all2 (chars_upgraded (sec_level C)) (pkb_characteristics kb) (pkb_characteristics ?kb)"
      using cs by simp_all
    ultimately show ?thesis
      using T' by blast
  qed
qed

text \<open>A key of OS version \<open>v\<close>, to be upgraded on a system of version 15.\<close>

definition ex_versioned :: "u32 \<Rightarrow> plaintext_key_blob" where
  "ex_versioned v = \<lparr>pkb_characteristics = [\<lparr>kc_security_level = SecurityLevel_TrustedEnvironment,
     kc_authorizations = [KP_OsVersion v]\<rparr>], pkb_key_material = ex_key\<rparr>"

lemma ex_versioned_ok:
  "pkb_wf (ex_versioned v)" "pkb_key_material (ex_versioned v) = ex_key"
  "pkb_characteristics_at (ex_versioned v) SecurityLevel_TrustedEnvironment = Ok [KP_OsVersion v]"
  "blob_fits ex_tee mem_inv (ex_versioned v)"
proof -
  show wf: "pkb_wf (ex_versioned v)"
    by (simp add: pkb_wf_def ex_versioned_def characteristics_wf_def key_characteristics_wf_def key_params_wf_def)
  show key: "pkb_key_material (ex_versioned v) = ex_key"
    by (simp add: ex_versioned_def)
  show "pkb_characteristics_at (ex_versioned v) SecurityLevel_TrustedEnvironment = Ok [KP_OsVersion v]"
    by (simp add: ex_versioned_def pkb_characteristics_at_def characteristics_at_eq)
  show "blob_fits ex_tee mem_inv (ex_versioned v)"
    using wf ex_key_short by (intro ex_blob_fits) (simp_all add: key)
qed

lemma ex_encrypt_versioned:
  assumes "mem_inv (ta_store T)" "ta_rot_data T = Some [1]"
  shows "\<exists>bs T'. encrypt_keyblob ex_tee ex_params (ex_versioned v) purpose T = (Ok bs, T')"
  using assms ex_versioned_ok ex_key_short ex_hidden
  by (intro ex_encrypt_keyblob [where auths = "[KP_OsVersion v]"]) (simp_all add: requires_sdd_def ex_secret(2))

theorem upgrade_key_correct_witness:
  "\<exists>blob T bs T' kb' slot. upgrade_key ex_tee blob ex_params T = (Ok bs, T')
    \<and> keyblob_parse_decrypt ex_tee bs ex_params T' = Ok (kb', slot) \<and> pkb_key_material kb' = ex_key
    \<and> list_all2 (chars_upgraded SecurityLevel_TrustedEnvironment) (pkb_characteristics (ex_versioned 1)) (pkb_characteristics kb')"
proof -
  have level: "sec_level ex_tee = SecurityLevel_TrustedEnvironment" and sdd: "di_sdd_mgr (tc_dev ex_tee) = Some ex_mgr"
    by (simp_all add: ex_conf_def ex_dev_def)
  obtain blob T where enc: "encrypt_keyblob ex_tee ex_params (ex_versioned 1) Slot_KeyGeneration ex_ta_booted = (Ok blob, T)"
    using ex_encrypt_versioned [of ex_ta_booted] ex_booted_store by metis
  obtain slot s r where T: "T = ex_ta_booted\<lparr>ta_store := s, ta_rng := r\<rparr>" and mgr: "mgr_ok (di_sdd_mgr (tc_dev ex_tee)) mem_inv s"
    and dec: "keyblob_parse_decrypt_backlevel ex_tee blob ex_params T = Ok (ex_versioned 1, slot)"
    by (rule encrypt_keyblob_accepted [OF ex_conf_works _ ex_versioned_ok(4) enc]) (simp add: ex_booted_store)
  have inv: "mem_inv (ta_store T)"
    using mgr by (simp add: mgr_ok_def sdd T)
  have hal: "ta_hal_info T = Some \<lparr>hi_os_version = 15, hi_os_patchlevel = 202401, hi_vendor_patchlevel = 20240101\<rparr>"
    by (simp add: T ex_ta_booted_def)
  have old: "keyblob_for_upgrade ex_tee blob ex_params T = Ok (ex_versioned 1, False)"
    by (simp add: keyblob_for_upgrade_def dec)
  have up: "upgraded_keyblob ex_tee blob ex_params T = Ok (ex_versioned 15, True)"
    by (simp add: upgraded_keyblob_def old level) (simp add: hal ex_versioned_def upgrade_param_def upgrade_os_version_def upgrade_version_def)
  obtain bs T' where "encrypt_keyblob ex_tee ex_params (ex_versioned 15) Slot_KeyUpgrade T = (Ok bs, T')"
    using ex_encrypt_versioned [OF inv] ex_booted_store by (fastforce simp: T)
  then have upg: "upgrade_key ex_tee blob ex_params T = (Ok bs, T')"
    by (simp add: upgrade_key_def st_then_def up)
  have "(\<exists>s r. T' = T\<lparr>ta_store := s, ta_rng := r\<rparr>) \<and>
    (bs = [] \<and> (\<exists>slot. keyblob_parse_decrypt ex_tee blob ex_params T' = Ok (ex_versioned 1, slot)) \<or>
     (\<exists>kb' slot. keyblob_parse_decrypt ex_tee bs ex_params T' = Ok (kb', slot) \<and> pkb_key_material kb' = pkb_key_material (ex_versioned 1)
        \<and> list_all2 (chars_upgraded (sec_level ex_tee)) (pkb_characteristics (ex_versioned 1)) (pkb_characteristics kb')))"
    by (rule upgrade_key_correct [OF ex_conf_works inv old _ _ upg]) (auto simp: level ex_versioned_ok up)
  moreover have "keyblob_parse_decrypt ex_tee blob ex_params T' \<noteq> Ok (ex_versioned 1, slot)" if "T' = T\<lparr>ta_store := s, ta_rng := r\<rparr>" for s r slot
    by (auto simp: keyblob_parse_decrypt_def res_simps ex_versioned_ok level that hal check_version_param_def check_level_def)
  ultimately show ?thesis
    using upg unfolding ex_versioned_ok(2) level by blast
qed

end
