(* ===== verification/Ta_Rkp.thy ===== *)
theory Ta_Rkp
  imports Ta_Key_Props
begin

text \<open>
  Remote key provisioning (\<open>ta/src/rkp.rs\<close>): the description of the device, the generation of key pairs
  with a MACed public key, and requests for certificates.  Strings are their UTF-8 bytes.
  The \<open>coset\<close> library's COSE keys and its untagged \<open>COSE_Mac0\<close> encoding are parameters.
\<close>

section \<open>The standard library: text\<close>

text \<open>
  The step of \<open>String::from_utf8_lossy\<close>: whether the bytes begin with the encoding of a character,
  and how many bytes belong to it, or to the invalid part that is replaced.
\<close>

definition is_cont :: "u8 \<Rightarrow> bool" where "is_cont b \<longleftrightarrow> 0x80 \<le> b \<and> b \<le> 0xbf"

definition nth_or_0 :: "bytes \<Rightarrow> nat \<Rightarrow> u8" where
  "nth_or_0 bs i = (if i < length bs then bs ! i else 0)"

definition second_ok :: "u8 \<Rightarrow> u8 \<Rightarrow> bool" where
  "second_ok b c \<longleftrightarrow> is_cont c \<and> (b = 0xe0 \<longrightarrow> 0xa0 \<le> c) \<and> (b = 0xed \<longrightarrow> c \<le> 0x9f) \<and> (b = 0xf0 \<longrightarrow> 0x90 \<le> c) \<and> (b = 0xf4 \<longrightarrow> c \<le> 0x8f)"

definition utf8_step :: "u8 \<Rightarrow> bytes \<Rightarrow> bool \<times> nat" where
  "utf8_step b bs =
     (if b < 0x80 then (True, 0)
      else if 0xc2 \<le> b \<and> b \<le> 0xdf then (if is_cont (nth_or_0 bs 0) then (True, 1) else (False, 0))
      else if 0xe0 \<le> b \<and> b \<le> 0xef then
        (if \<not> second_ok b (nth_or_0 bs 0) then (False, 0)
         else if is_cont (nth_or_0 bs 1) then (True, 2) else (False, 1))
      else if 0xf0 \<le> b \<and> b \<le> 0xf4 then
        (if \<not> second_ok b (nth_or_0 bs 0) then (False, 0)
         else if \<not> is_cont (nth_or_0 bs 1) then (False, 1)
         else if is_cont (nth_or_0 bs 2) then (True, 3) else (False, 2))
      else (False, 0))"

function utf8_lossy :: "bytes \<Rightarrow> bytes" where
  "utf8_lossy [] = []"
| "utf8_lossy (b # bs) = (case utf8_step b bs of (ok, n) \<Rightarrow>
     (if ok then b # take n bs else [0xef, 0xbf, 0xbd]) @ utf8_lossy (drop n bs))"
  by pat_completeness auto
termination
  by (relation "measure length") auto

definition bytes_str :: "bytes \<Rightarrow> string" where
  "bytes_str = map (\<lambda>w. char_of (unat w))"

definition from_utf8_lossy :: "bytes \<Rightarrow> string" where
  "from_utf8_lossy bs = bytes_str (utf8_lossy bs)"

text \<open>The decimal digits of a number (\<open>to_string\<close>).\<close>

fun dec_string :: "nat \<Rightarrow> string" where
  "dec_string n = (if n < 10 then [char_of (48 + n)] else dec_string (n div 10) @ [char_of (48 + n mod 10)])"

declare dec_string.simps [simp del]

section \<open>COSE keys\<close>

datatype cose_curve = CoseCurve_P_256 | CoseCurve_P_384 | CoseCurve_P_521 | CoseCurve_X25519 | CoseCurve_Ed25519
datatype cose_algorithm = CoseAlg_ES256 | CoseAlg_ES384 | CoseAlg_EdDSA | CoseAlg_ECDH_ES_HKDF_256
datatype cose_label = Label_Int int | Label_Text string
datatype cose_key_purpose = CosePurpose_Agree | CosePurpose_Sign

text \<open>Of \<open>coset\<close>: the builder of COSE keys, their parameters and encodings, and untagged \<open>COSE_Mac0\<close>.\<close>

record 'q rkp_lib =
  rk_new_ec2_pub_key :: "cose_curve \<Rightarrow> bytes \<Rightarrow> bytes \<Rightarrow> 'q"
  rk_new_okp_key :: 'q
  rk_algorithm :: "cose_algorithm \<Rightarrow> 'q \<Rightarrow> 'q"
  rk_key_id :: "bytes \<Rightarrow> 'q \<Rightarrow> 'q"
  rk_param :: "int \<Rightarrow> cbor \<Rightarrow> 'q \<Rightarrow> 'q"
  rk_okp_crv :: int
  rk_okp_x :: int
  rk_curve :: "cose_curve \<Rightarrow> int"
  rk_params :: "'q \<Rightarrow> (cose_label \<times> cbor) list"
  rk_key_to_vec :: "'q \<Rightarrow> bytes cb"
  rk_key_from_value :: "cbor \<Rightarrow> 'q cb"
  rk_mac0_to_vec :: "cose_mac0 \<Rightarrow> bytes cb"
  rk_mac0_from_slice :: "bytes \<Rightarrow> cose_mac0 cb"

definition RKP_TEST_KEY_CBOR_MARKER :: int where "RKP_TEST_KEY_CBOR_MARKER = -70000"

fun cose_nist_curve :: "nist_curve \<Rightarrow> cose_curve km" where
  "cose_nist_curve NistCurve_P224 = Err (Hal Unimplemented)"
| "cose_nist_curve NistCurve_P256 = Ok CoseCurve_P_256"
| "cose_nist_curve NistCurve_P384 = Ok CoseCurve_P_384"
| "cose_nist_curve NistCurve_P521 = Ok CoseCurve_P_521"

definition okp_key :: "'q rkp_lib \<Rightarrow> cose_curve \<Rightarrow> bytes \<Rightarrow> cose_algorithm \<Rightarrow> 'q" where
  "okp_key R curve pub_key alg =
     rk_algorithm R alg (rk_param R (rk_okp_x R) (Cbor_Bytes pub_key)
       (rk_param R (rk_okp_crv R) (Cbor_Integer (rk_curve R curve)) (rk_new_okp_key R)))"

definition public_cose_key ::
  "'q rkp_lib \<Rightarrow> (ec_key opaque_or \<Rightarrow> bytes km) \<Rightarrow> ec_key opaque_or \<Rightarrow> ec_curve \<Rightarrow> curve_type \<Rightarrow> cose_key_purpose \<Rightarrow>
   bytes option \<Rightarrow> bool \<Rightarrow> 'q km" where
  "public_cose_key R subject_public_key key curve curve_type purpose kid test_mode =
     (let nist_algo = (case purpose of CosePurpose_Agree \<Rightarrow> CoseAlg_ECDH_ES_HKDF_256 | CosePurpose_Sign \<Rightarrow> CoseAlg_ES256) in
      and_then (subject_public_key key) (\<lambda>pub_key.
      and_then (case curve_type of
          CurveType_Nist \<Rightarrow>
            and_then (nist_curve_try_from curve) (\<lambda>nist_curve.
            and_then (coordinates_from_pub_key pub_key nist_curve) (\<lambda>(x, y).
            and_then (cose_nist_curve nist_curve) (\<lambda>cose_curve.
            Ok (rk_algorithm R nist_algo (rk_new_ec2_pub_key R cose_curve x y)))))
        | CurveType_EdDsa \<Rightarrow> Ok (okp_key R CoseCurve_Ed25519 pub_key CoseAlg_EdDSA)
        | CurveType_Xdh \<Rightarrow> Ok (okp_key R CoseCurve_X25519 pub_key CoseAlg_ECDH_ES_HKDF_256)) (\<lambda>builder.
      let builder = (case kid of Some kid \<Rightarrow> rk_key_id R kid builder | None \<Rightarrow> builder) in
      Ok (if test_mode then rk_param R RKP_TEST_KEY_CBOR_MARKER Cbor_Null builder else builder))))"

section \<open>The device\<close>

definition serialize_cbor :: "cbor_lib \<Rightarrow> cbor \<Rightarrow> bytes km" where
  "serialize_cbor lib v = ok_or (cl_write lib v) (Cbor EncodeFailed)"

definition uds_certs :: "('k, 's, 'r, 'c) ta_conf \<Rightarrow> (('k, 's, 'r) ta, bytes, error) act" where
  "uds_certs C = st_then (get_dice_info C) (\<lambda>dice_info.
     st_ret (map_ok dice_uds_certs (ok_or dice_info (Rpc RpcErrorCode_Failed))))"

primrec vb_state :: "verified_boot_state \<Rightarrow> string" where
  "vb_state VerifiedBootState_Verified = ''green''"
| "vb_state VerifiedBootState_SelfSigned = ''yellow''"
| "vb_state VerifiedBootState_Unverified = ''orange''"
| "vb_state VerifiedBootState_Failed = ''red''"

definition security_level_str :: "security_level \<Rightarrow> string km" where
  "security_level_str l = (case l of
     SecurityLevel_TrustedEnvironment \<Rightarrow> Ok ''tee''
   | SecurityLevel_Strongbox \<Rightarrow> Ok ''strongbox''
   | _ \<Rightarrow> Err (Hal HardwareTypeUnavailable))"

fun rpc_fused :: "rpc_info \<Rightarrow> bool" where
  "rpc_fused (RpcInfo_V2 i) = r2_fused i"
| "rpc_fused (RpcInfo_V3 i) = r3_fused i"

definition device_info_map ::
  "rpc_info \<Rightarrow> attestation_id_info \<Rightarrow> boot_info \<Rightarrow> hal_info \<Rightarrow> string \<Rightarrow> (cbor \<times> cbor) list" where
  "device_info_map info ids boot_info hal_info level = [
     (Cbor_Text ''brand'', Cbor_Text (from_utf8_lossy (aid_brand ids))),
     (Cbor_Text ''fused'', Cbor_Integer (of_bool (rpc_fused info))),
     (Cbor_Text ''model'', Cbor_Text (from_utf8_lossy (aid_model ids))),
     (Cbor_Text ''device'', Cbor_Text (from_utf8_lossy (aid_device ids))),
     (Cbor_Text ''product'', Cbor_Text (from_utf8_lossy (aid_product ids))),
     (Cbor_Text ''vb_state'', Cbor_Text (vb_state (bi_verified_boot_state boot_info))),
     (Cbor_Text ''os_version'', Cbor_Text (dec_string (unat (hi_os_version hal_info)))),
     (Cbor_Text ''manufacturer'', Cbor_Text (from_utf8_lossy (aid_manufacturer ids))),
     (Cbor_Text ''vbmeta_digest'', Cbor_Bytes (bi_verified_boot_hash boot_info)),
     (Cbor_Text ''security_level'', Cbor_Text level),
     (Cbor_Text ''boot_patch_level'', Cbor_Integer (uint (bi_boot_patchlevel boot_info))),
     (Cbor_Text ''bootloader_state'', Cbor_Text (if bi_device_boot_locked boot_info then ''locked'' else ''unlocked'')),
     (Cbor_Text ''system_patch_level'', Cbor_Integer (uint (hi_os_patchlevel hal_info))),
     (Cbor_Text ''vendor_patch_level'', Cbor_Integer (uint (hi_vendor_patchlevel hal_info)))]"

definition rpc_device_info_cbor :: "('k, 's, 'r, 'c) ta_conf \<Rightarrow> (('k, 's, 'r) ta, cbor, error) act" where
  "rpc_device_info_cbor C =
     st_then (get_attestation_ids C) (\<lambda>ids.
     st_then (st_ret (ok_or ids (Hal AttestationIdsNotProvisioned))) (\<lambda>ids.
     st_then (st_check get_boot_info) (\<lambda>boot_info.
     st_then (st_check (\<lambda>T. ok_or (ta_hal_info T) (Hal HardwareNotYetAvailable))) (\<lambda>hal_info.
     st_then (st_ret (security_level_str (sec_level C))) (\<lambda>level.
     st_ret (Ok (Cbor_Map (device_info_map (tc_rpc_info C) ids boot_info hal_info level))))))))"

definition rpc_device_info :: "('k, 's, 'r, 'c) ta_conf \<Rightarrow> (('k, 's, 'r) ta, bytes, error) act" where
  "rpc_device_info C = st_then (rpc_device_info_cbor C) (\<lambda>info. st_ret (serialize_cbor (tc_cbor C) info))"

definition MINIMUM_SUPPORTED_KEYS_IN_CSR :: int where "MINIMUM_SUPPORTED_KEYS_IN_CSR = 20"

definition get_rpc_hardware_info :: "('k, 's, 'r, 'c) ta_conf \<Rightarrow> rpc_hardware_info km" where
  "get_rpc_hardware_info C = (case tc_rpc_info C of
     RpcInfo_V2 i \<Rightarrow> Ok \<lparr>rhi_version_number = IRPC_V2, rhi_rpc_author_name = r2_author_name i,
       rhi_supported_eek_curve = r2_supported_eek_curve i, rhi_unique_id = Some (r2_unique_id i),
       rhi_supported_num_keys_in_csr = MINIMUM_SUPPORTED_KEYS_IN_CSR\<rparr>
   | RpcInfo_V3 i \<Rightarrow> Ok \<lparr>rhi_version_number = IRPC_V3, rhi_rpc_author_name = r3_author_name i,
       rhi_supported_eek_curve = EekCurve_None, rhi_unique_id = Some (r3_unique_id i),
       rhi_supported_num_keys_in_csr = r3_supported_num_of_keys_in_csr i\<rparr>)"

section \<open>Key pairs\<close>

definition RPC_P256_KEYGEN_PARAMS :: "key_param list" where
  "RPC_P256_KEYGEN_PARAMS = [
     KP_Purpose KeyPurpose_AttestKey, KP_Algorithm Algorithm_Ec, KP_KeySize 256, KP_EcCurve EcCurve_P256,
     KP_Bool Bool_NoAuthRequired, KP_Digest Digest_Sha256,
     KP_Date Date_CertificateNotBefore UNDEFINED_NOT_BEFORE, KP_Date Date_CertificateNotAfter UNDEFINED_NOT_AFTER]"

definition build_maced_pub_key ::
  "'q rkp_lib \<Rightarrow> mac0_lib \<Rightarrow> bytes \<Rightarrow> (bytes \<Rightarrow> bytes km) \<Rightarrow> bytes km" where
  "build_maced_pub_key R lib pub_cose_key compute_mac =
     and_then (compute_mac (ml_structure lib (ml_protected lib) [] pub_cose_key)) (\<lambda>tag.
     map_err Cbor (rk_mac0_to_vec R \<lparr>m0_protected = ml_protected lib, m0_payload = Some pub_cose_key, m0_tag = tag\<rparr>))"

definition rpc_hmac :: "('k, 's, 'r, 'c) ta_conf \<Rightarrow> bool \<Rightarrow> bytes \<Rightarrow> bytes km" where
  "rpc_hmac C test_mode data =
     (if test_mode then hmac_sha256 (ci_hmac (tc_imp C)) (replicate 32 0) data
      else ra_compute_hmac_sha256 (di_rpc (tc_dev C)) data)"

definition maced_public_key_of ::
  "'q rkp_lib \<Rightarrow> ('k, 's, 'r, 'c) ta_conf \<Rightarrow> bool \<Rightarrow> key_material \<Rightarrow> bytes km" where
  "maced_public_key_of R C test_mode key =
     and_then (case key of
         Material_Ec curve curve_type k \<Rightarrow>
           public_cose_key R (ci_ec_subject_public_key (tc_imp C)) k curve curve_type CosePurpose_Sign None test_mode
       | _ \<Rightarrow> Err (Hal InvalidKeyBlob)) (\<lambda>pub_cose_key.
     and_then (map_err Cbor (rk_key_to_vec R pub_cose_key)) (\<lambda>pub_cose_key_encoded.
     build_maced_pub_key R (tc_mac0 C) pub_cose_key_encoded (rpc_hmac C test_mode)))"

definition generate_ecdsa_p256_keypair ::
  "'q rkp_lib \<Rightarrow> ('k, 's, 'r, 'c) ta_conf \<Rightarrow> bool \<Rightarrow> (('k, 's, 'r) ta, maced_public_key \<times> bytes, error) act" where
  "generate_ecdsa_p256_keypair R C test_mode =
     st_then (st_ret (require (\<not> (rpc_version (tc_rpc_info C) > IRPC_V2 \<and> test_mode)) (Rpc RpcErrorCode_Removed))) (\<lambda>_.
     st_then (generate_key_material C RPC_P256_KEYGEN_PARAMS) (\<lambda>(key, chars).
     st_then (st_ret (maced_public_key_of R C test_mode key)) (\<lambda>maced_pub_key.
     st_then (finish_keyblob_creation C RPC_P256_KEYGEN_PARAMS None chars key Slot_KeyGeneration) (\<lambda>key_result.
     st_ret (Ok (\<lparr>mpk_maced_key = maced_pub_key\<rparr>, kcr_key_blob key_result))))))"

section \<open>Requests for certificates\<close>

definition MAX_CHALLENGE_SIZE_V2 :: nat where "MAX_CHALLENGE_SIZE_V2 = 64"
definition AUTH_REQ_SCHEMA_V1 :: int where "AUTH_REQ_SCHEMA_V1 = 1"
definition CERT_TYPE_KEYMINT :: string where "CERT_TYPE_KEYMINT = ''keymint''"

definition generate_cert_req ::
  "('k, 's, 'r, 'c) ta_conf \<Rightarrow> (('k, 's, 'r) ta, bytes \<times> bytes \<times> bytes, error) act" where
  "generate_cert_req C =
     st_then (st_ret (require (\<not> rpc_version (tc_rpc_info C) > IRPC_V2) (Rpc RpcErrorCode_Removed))) (\<lambda>_.
     st_then (rpc_device_info C) (\<lambda>_.
     st_ret (Err (Hal Unimplemented))))"

definition is_test_key :: "'q rkp_lib \<Rightarrow> 'q \<Rightarrow> bool" where
  "is_test_key R key \<longleftrightarrow> list_ex (\<lambda>param. fst param = Label_Int RKP_TEST_KEY_CBOR_MARKER) (rk_params R key)"

definition key_to_sign ::
  "'q rkp_lib \<Rightarrow> ('k, 's, 'r, 'c) ta_conf \<Rightarrow> maced_public_key \<Rightarrow> cbor km" where
  "key_to_sign R C maced_pub_key =
     and_then (map_err Cbor (rk_mac0_from_slice R (mpk_maced_key maced_pub_key))) (\<lambda>cose_mac0.
     and_then (case m0_payload cose_mac0 of
         Some pub_cose_key_data \<Rightarrow>
           and_then (map_err Cbor (read_to_value (tc_cbor C) pub_cose_key_data)) (\<lambda>pub_cose_key_cbor.
           and_then (map_err Cbor (rk_key_from_value R pub_cose_key_cbor)) (\<lambda>pub_cose_key.
           and_then (require (\<not> is_test_key R pub_cose_key) (Rpc RpcErrorCode_TestKeyInProductionRequest)) (\<lambda>_.
           Ok pub_cose_key_cbor)))
       | None \<Rightarrow> Err (Rpc RpcErrorCode_Failed)) (\<lambda>pub_cose_key_cbor.
     and_then (mac0_verify_tag (tc_mac0 C) cose_mac0 [] (\<lambda>expected_tag data.
       and_then (ra_compute_hmac_sha256 (di_rpc (tc_dev C)) data) (\<lambda>computed_tag.
       require (ci_compare (tc_imp C) expected_tag computed_tag) (Rpc RpcErrorCode_InvalidMac)))) (\<lambda>_.
     Ok pub_cose_key_cbor)))"

fun keys_to_sign ::
  "'q rkp_lib \<Rightarrow> ('k, 's, 'r, 'c) ta_conf \<Rightarrow> maced_public_key list \<Rightarrow> cbor list km" where
  "keys_to_sign R C [] = Ok []"
| "keys_to_sign R C (k # ks) =
     and_then (key_to_sign R C k) (\<lambda>key.
     and_then (keys_to_sign R C ks) (\<lambda>keys. Ok (key # keys)))"

definition csr_payload :: "rpc_info \<Rightarrow> cbor \<Rightarrow> cbor list \<Rightarrow> cbor" where
  "csr_payload info device_info keys =
     Cbor_Array [Cbor_Integer (rpc_version info), Cbor_Text CERT_TYPE_KEYMINT, device_info, Cbor_Array keys]"

definition generate_cert_req_v2 ::
  "'q rkp_lib \<Rightarrow> ('k, 's, 'r, 'c) ta_conf \<Rightarrow> maced_public_key list \<Rightarrow> bytes \<Rightarrow> (('k, 's, 'r) ta, bytes, error) act" where
  "generate_cert_req_v2 R C keys challenge =
     st_then (st_ret (require (\<not> rpc_version (tc_rpc_info C) < IRPC_V3) (Hal Unimplemented))) (\<lambda>_.
     st_then (st_ret (require (\<not> length challenge > MAX_CHALLENGE_SIZE_V2) (Hal InvalidArgument))) (\<lambda>_.
     st_then (st_ret (keys_to_sign R C keys)) (\<lambda>pub_cose_keys.
     st_then (rpc_device_info_cbor C) (\<lambda>device_info.
     st_then (st_ret (serialize_cbor (tc_cbor C) (csr_payload (tc_rpc_info C) device_info pub_cose_keys))) (\<lambda>csr_payload_data.
     st_then (st_ret (serialize_cbor (tc_cbor C) (Cbor_Array [Cbor_Bytes challenge, Cbor_Bytes csr_payload_data]))) (\<lambda>signed_data_payload.
     st_then (get_dice_info C) (\<lambda>dice_info.
     st_then (st_ret (ok_or dice_info (Rpc RpcErrorCode_Failed))) (\<lambda>dice_info.
     st_then (st_ret (map_err Cbor (read_to_value (tc_cbor C) (dice_uds_certs dice_info)))) (\<lambda>uds_certs.
     st_then (st_ret (map_err Cbor (read_to_value (tc_cbor C) (dice_cert_chain dice_info)))) (\<lambda>cert_chain.
     st_then (st_ret (ra_sign_data_in_cose_sign1 (di_rpc (tc_dev C)) (dice_signing_algorithm dice_info) signed_data_payload)) (\<lambda>signed_data.
     st_then (st_ret (map_err Cbor (read_to_value (tc_cbor C) signed_data))) (\<lambda>signed_data_cbor.
     st_ret (serialize_cbor (tc_cbor C)
       (Cbor_Array [Cbor_Integer AUTH_REQ_SCHEMA_V1, uds_certs, cert_chain, signed_data_cbor]))))))))))))))"

section \<open>Default methods of the device\<close>

definition RPC_HMAC_KEY_CONTEXT :: bytes where "RPC_HMAC_KEY_CONTEXT = str_bytes ''Key to MAC public keys''"
definition RPC_HMAC_KEY_LEN :: nat where "RPC_HMAC_KEY_LEN = 32"

definition default_compute_hmac_sha256 :: "(bytes \<Rightarrow> nat \<Rightarrow> bytes km) \<Rightarrow> 'k hmac_impl \<Rightarrow> bytes \<Rightarrow> bytes km" where
  "default_compute_hmac_sha256 derive_bytes_from_hbk hmac input =
     and_then (derive_bytes_from_hbk RPC_HMAC_KEY_CONTEXT RPC_HMAC_KEY_LEN) (\<lambda>secret. hmac_sha256 hmac secret input)"

text \<open>\<open>COSE_Sign1\<close> of \<open>coset\<close>: the encoded protected header, the data to sign, and the message.\<close>

record sign1_lib =
  s1_protected :: "cose_algorithm \<Rightarrow> bytes"
  s1_structure :: "bytes \<Rightarrow> bytes \<Rightarrow> bytes \<Rightarrow> bytes"
  s1_to_value :: "bytes \<Rightarrow> bytes \<Rightarrow> bytes \<Rightarrow> cbor cb"

primrec csr_cose_algorithm :: "csr_signing_algorithm \<Rightarrow> cose_algorithm" where
  "csr_cose_algorithm CsrSigning_ES256 = CoseAlg_ES256"
| "csr_cose_algorithm CsrSigning_ES384 = CoseAlg_ES384"
| "csr_cose_algorithm CsrSigning_EdDSA = CoseAlg_EdDSA"

definition default_sign_data_in_cose_sign1 ::
  "cbor_lib \<Rightarrow> sign1_lib \<Rightarrow> (bytes \<Rightarrow> bytes km) \<Rightarrow> csr_signing_algorithm \<Rightarrow> bytes \<Rightarrow> bytes km" where
  "default_sign_data_in_cose_sign1 lib s1 sign_data signing_algorithm payload =
     (let protected = s1_protected s1 (csr_cose_algorithm signing_algorithm) in
      and_then (sign_data (s1_structure s1 protected [] payload)) (\<lambda>signature.
      and_then (map_err Cbor (s1_to_value s1 protected payload signature)) (serialize_cbor lib)))"

section \<open>Properties\<close>

text \<open>
  What is assumed of \<open>coset\<close>: reading back what was written gives the same message or key, a parameter
  that is set is appended to those of the key, and the coordinates of a key have the labels of RFC 9053.
\<close>

definition rkp_lib_works :: "'q rkp_lib \<Rightarrow> cbor_lib \<Rightarrow> bool" where
  "rkp_lib_works R lib \<longleftrightarrow>
     (\<forall>m bs. rk_mac0_to_vec R m = Ok bs \<longrightarrow> rk_mac0_from_slice R bs = Ok m)
   \<and> (\<forall>q bs. rk_key_to_vec R q = Ok bs \<longrightarrow> (\<exists>v. read_to_value lib bs = Ok v \<and> rk_key_from_value R v = Ok q))
   \<and> (\<forall>l v q. rk_params R (rk_param R l v q) = rk_params R q @ [(Label_Int l, v)])
   \<and> (\<forall>a q. rk_params R (rk_algorithm R a q) = rk_params R q) \<and> (\<forall>k q. rk_params R (rk_key_id R k q) = rk_params R q)
   \<and> rk_params R (rk_new_okp_key R) = [] \<and> rk_okp_crv R = -1 \<and> rk_okp_x R = -2
   \<and> (\<forall>c x y. fst ` set (rk_params R (rk_new_ec2_pub_key R c x y)) \<subseteq> {Label_Int (-1), Label_Int (-2), Label_Int (-3)})"

lemma rkp_key_round_trip:
  "rkp_lib_works R lib \<Longrightarrow> rk_key_to_vec R q = Ok bs \<Longrightarrow> \<exists>v. read_to_value lib bs = Ok v \<and> rk_key_from_value R v = Ok q"
  by (simp add: rkp_lib_works_def)

lemma okp_key_no_test: "rkp_lib_works R lib \<Longrightarrow> \<not> is_test_key R (okp_key R curve x alg)"
  by (simp add: is_test_key_def okp_key_def rkp_lib_works_def RKP_TEST_KEY_CBOR_MARKER_def)

lemma public_cose_key_test:
  assumes "rkp_lib_works R lib" "public_cose_key R pub key curve ct purpose kid test_mode = Ok q"
  shows "is_test_key R q \<longleftrightarrow> test_mode"
proof -
  obtain b where q: "q = (let b = (case kid of Some kid \<Rightarrow> rk_key_id R kid b | None \<Rightarrow> b) in
      if test_mode then rk_param R RKP_TEST_KEY_CBOR_MARKER Cbor_Null b else b)" and b: "\<not> is_test_key R b"
  proof (cases ct)
    case CurveType_Nist
    then obtain a c x y where "q = (let b = (case kid of Some kid \<Rightarrow> rk_key_id R kid (rk_algorithm R a (rk_new_ec2_pub_key R c x y))
          | None \<Rightarrow> rk_algorithm R a (rk_new_ec2_pub_key R c x y)) in
        if test_mode then rk_param R RKP_TEST_KEY_CBOR_MARKER Cbor_Null b else b)"
      using assms(2) by (auto simp: public_cose_key_def Let_def res_simps)
    moreover have "fst ` set (rk_params R (rk_new_ec2_pub_key R c x y)) \<subseteq> {Label_Int (-1), Label_Int (-2), Label_Int (-3)}"
      using assms(1) by (simp add: rkp_lib_works_def)
    then have "\<not> is_test_key R (rk_algorithm R a (rk_new_ec2_pub_key R c x y))"
      using assms(1) by (fastforce simp: is_test_key_def list_ex_iff rkp_lib_works_def RKP_TEST_KEY_CBOR_MARKER_def)
    ultimately show thesis
      by (intro that)
  next
    case CurveType_EdDsa
    then obtain x where "q = (let b = (case kid of Some kid \<Rightarrow> rk_key_id R kid (okp_key R CoseCurve_Ed25519 x CoseAlg_EdDSA)
          | None \<Rightarrow> okp_key R CoseCurve_Ed25519 x CoseAlg_EdDSA) in
        if test_mode then rk_param R RKP_TEST_KEY_CBOR_MARKER Cbor_Null b else b)"
      using assms(2) by (auto simp: public_cose_key_def Let_def res_simps)
    then show thesis
      by (intro that [OF _ okp_key_no_test [OF assms(1)]])
  next
    case CurveType_Xdh
    then obtain x where "q = (let b = (case kid of Some kid \<Rightarrow> rk_key_id R kid (okp_key R CoseCurve_X25519 x CoseAlg_ECDH_ES_HKDF_256)
          | None \<Rightarrow> okp_key R CoseCurve_X25519 x CoseAlg_ECDH_ES_HKDF_256) in
        if test_mode then rk_param R RKP_TEST_KEY_CBOR_MARKER Cbor_Null b else b)"
      using assms(2) by (auto simp: public_cose_key_def Let_def res_simps)
    then show thesis
      by (intro that [OF _ okp_key_no_test [OF assms(1)]])
  qed
  define b' where "b' = (case kid of Some kid \<Rightarrow> rk_key_id R kid b | None \<Rightarrow> b)"
  have "rk_params R b' = rk_params R b"
    using assms(1) by (simp add: b'_def rkp_lib_works_def split: option.split)
  moreover have "rk_params R (rk_param R RKP_TEST_KEY_CBOR_MARKER Cbor_Null b') = rk_params R b' @ [(Label_Int RKP_TEST_KEY_CBOR_MARKER, Cbor_Null)]"
    using assms(1) by (simp add: rkp_lib_works_def)
  moreover have "q = (if test_mode then rk_param R RKP_TEST_KEY_CBOR_MARKER Cbor_Null b' else b')"
    unfolding q b'_def Let_def by (rule refl)
  ultimately show ?thesis
    using b by (cases test_mode) (simp_all add: is_test_key_def)
qed

lemma maced_key_checked:
  assumes "rkp_lib_works R (tc_cbor C)" "\<And>a. ci_compare (tc_imp C) a a" "maced_public_key_of R C test_mode key = Ok m"
  obtains curve ct k q where "key = Material_Ec curve ct k"
    "public_cose_key R (ci_ec_subject_public_key (tc_imp C)) k curve ct CosePurpose_Sign None test_mode = Ok q"
    "if test_mode then key_to_sign R C \<lparr>mpk_maced_key = m\<rparr> = Err (Rpc RpcErrorCode_TestKeyInProductionRequest)
     else \<exists>v. key_to_sign R C \<lparr>mpk_maced_key = m\<rparr> = Ok v \<and> rk_key_from_value R v = Ok q"
proof -
  obtain curve ct k q bs tag where key: "key = Material_Ec curve ct k"
    and q: "public_cose_key R (ci_ec_subject_public_key (tc_imp C)) k curve ct CosePurpose_Sign None test_mode = Ok q"
    and bs: "rk_key_to_vec R q = Ok bs"
    and tag: "rpc_hmac C test_mode (ml_structure (tc_mac0 C) (ml_protected (tc_mac0 C)) [] bs) = Ok tag"
    and m: "rk_mac0_to_vec R \<lparr>m0_protected = ml_protected (tc_mac0 C), m0_payload = Some bs, m0_tag = tag\<rparr> = Ok m"
    using assms(3) unfolding maced_public_key_of_def build_maced_pub_key_def by (cases key) (auto simp: res_simps)
  obtain v where v: "read_to_value (tc_cbor C) bs = Ok v" "rk_key_from_value R v = Ok q"
    using rkp_key_round_trip [OF assms(1) bs] by blast
  have "rk_mac0_from_slice R m = Ok \<lparr>m0_protected = ml_protected (tc_mac0 C), m0_payload = Some bs, m0_tag = tag\<rparr>"
    using assms(1) m by (simp add: rkp_lib_works_def)
  then show thesis
    using v tag public_cose_key_test [OF assms(1) q]
    by (intro that [OF key q], cases test_mode) (simp_all add: key_to_sign_def mac0_verify_tag_def rpc_hmac_def assms(2))
qed

text \<open>
  What a certificate request is: the version and the type of certificate, the data of the device and the public
  keys are encoded, signed together with the challenge, and put beside the certificates of the device.
\<close>

definition signed_request ::
  "('k, 's, 'r, 'c) ta_conf \<Rightarrow> cbor list \<Rightarrow> bytes \<Rightarrow> ('k, 's, 'r) ta \<Rightarrow> bytes \<Rightarrow> ('k, 's, 'r) ta \<Rightarrow> bool" where
  "signed_request C keys challenge U csr U' \<longleftrightarrow> (\<exists>device_info U1 payload tbs dice uds chain signed v.
     rpc_device_info_cbor C U = (Ok device_info, U1) \<and> get_dice_info C U1 = (Ok (Some dice), U')
   \<and> serialize_cbor (tc_cbor C) (csr_payload (tc_rpc_info C) device_info keys) = Ok payload
   \<and> serialize_cbor (tc_cbor C) (Cbor_Array [Cbor_Bytes challenge, Cbor_Bytes payload]) = Ok tbs
   \<and> ra_sign_data_in_cose_sign1 (di_rpc (tc_dev C)) (dice_signing_algorithm dice) tbs = Ok signed
   \<and> read_to_value (tc_cbor C) (dice_uds_certs dice) = Ok uds \<and> read_to_value (tc_cbor C) (dice_cert_chain dice) = Ok chain
   \<and> read_to_value (tc_cbor C) signed = Ok v
   \<and> serialize_cbor (tc_cbor C) (Cbor_Array [Cbor_Integer AUTH_REQ_SCHEMA_V1, uds, chain, v]) = Ok csr)"

lemma generate_cert_req_v2_eq_Ok:
  "generate_cert_req_v2 R C pubs challenge U = (Ok csr, U') \<longleftrightarrow>
     IRPC_V3 \<le> rpc_version (tc_rpc_info C) \<and> length challenge \<le> MAX_CHALLENGE_SIZE_V2
   \<and> (\<exists>keys. keys_to_sign R C pubs = Ok keys \<and> signed_request C keys challenge U csr U')"
  unfolding generate_cert_req_v2_def signed_request_def
  by (auto simp: res_simps not_less ok_or_eq require_eq)

lemma keys_to_sign_append:
  "keys_to_sign R C (ks @ ls) = Ok vs \<longleftrightarrow>
     (\<exists>us ws. keys_to_sign R C ks = Ok us \<and> keys_to_sign R C ls = Ok ws \<and> vs = us @ ws)"
  by (induction ks arbitrary: vs) (auto simp: and_then_eq_Ok)

lemma keys_to_sign_length: "keys_to_sign R C ks = Ok vs \<Longrightarrow> length vs = length ks"
  by (induction ks arbitrary: vs) (auto simp: and_then_eq_Ok)


section \<open>A concrete library\<close>

text \<open>COSE keys as their parameters, encoded as a map.\<close>

primrec label_value :: "cose_label \<Rightarrow> cbor" where
  "label_value (Label_Int i) = Cbor_Integer i"
| "label_value (Label_Text s) = Cbor_Text s"

definition value_label :: "cbor \<Rightarrow> cose_label" where
  "value_label v = (case v of Cbor_Text s \<Rightarrow> Label_Text s | Cbor_Integer i \<Rightarrow> Label_Int i | _ \<Rightarrow> Label_Int 0)"

definition key_value :: "(cose_label \<times> cbor) list \<Rightarrow> cbor" where
  "key_value q = Cbor_Map (map (map_prod label_value id) q)"

definition write_fitting :: "cbor \<Rightarrow> bytes cb" where
  "write_fitting v = (if cbor_fits 12 v then into_vec rfc8949 id v else Err EncodeFailed)"

definition ex_rkp :: "(cose_label \<times> cbor) list rkp_lib" where
  "ex_rkp = \<lparr>rk_new_ec2_pub_key = (\<lambda>_ x y. [(Label_Int (-1), Cbor_Integer 1), (Label_Int (-2), Cbor_Bytes x), (Label_Int (-3), Cbor_Bytes y)]),
     rk_new_okp_key = [], rk_algorithm = (\<lambda>_ q. q), rk_key_id = (\<lambda>_ q. q), rk_param = (\<lambda>l v q. q @ [(Label_Int l, v)]),
     rk_okp_crv = -1, rk_okp_x = -2, rk_curve = (\<lambda>_. 6), rk_params = (\<lambda>q. q), rk_key_to_vec = (\<lambda>q. write_fitting (key_value q)),
     rk_key_from_value = (\<lambda>v. case v of Cbor_Map kvs \<Rightarrow> Ok (map (map_prod value_label id) kvs) | _ \<Rightarrow> Err InvalidValue),
     rk_mac0_to_vec = (\<lambda>m. write_fitting (mac0_to_value m)),
     rk_mac0_from_slice = (\<lambda>bs. and_then (read_to_value rfc8949 bs) mac0_of_value)\<rparr>"

lemma write_fitting_read: "write_fitting v = Ok bs \<Longrightarrow> read_to_value rfc8949 bs = Ok v"
proof -
  assume v: "write_fitting v = Ok bs"
  then obtain b where "cl_write rfc8949 v = Some b" "\<forall>rest. cl_read rfc8949 (b @ rest) = Some (v, rest)"
    using rfc8949_works by (auto simp: write_fitting_def cbor_lib_works_def split: if_splits)
  then show ?thesis
    using v by (auto simp: write_fitting_def into_vec_def read_to_value_def dest!: spec [of _ "[]"] split: if_splits)
qed

lemma value_label_id: "value_label (label_value l) = l"
  by (cases l) (simp_all add: value_label_def)

lemma key_value_read: "map (map_prod value_label id) (map (map_prod label_value id) q) = q"
  by (induction q) (auto simp: value_label_id)

lemma mac0_value_read: "mac0_of_value (mac0_to_value m) = Ok m"
  by (cases m; cases "m0_payload m") (simp_all add: mac0_of_value_def mac0_to_value_def)

lemma ex_rkp_works: "rkp_lib_works ex_rkp rfc8949"
  unfolding rkp_lib_works_def
proof (intro conjI allI impI)
  fix m bs
  assume "rk_mac0_to_vec ex_rkp m = Ok bs"
  then show "rk_mac0_from_slice ex_rkp bs = Ok m"
    using write_fitting_read [of "mac0_to_value m" bs] by (simp add: ex_rkp_def mac0_value_read)
next
  fix q bs
  assume "rk_key_to_vec ex_rkp q = Ok bs"
  then show "\<exists>v. read_to_value rfc8949 bs = Ok v \<and> rk_key_from_value ex_rkp v = Ok q"
    using write_fitting_read [of "key_value q" bs] by (simp add: ex_rkp_def key_value_def key_value_read del: map_map)
qed (simp_all add: ex_rkp_def)

abbreviation "ex_ec_key \<equiv> Material_Ec EcCurve_P256 CurveType_Nist (Explicit (Ec_P256 [1]))"

lemma ex_rkp_extract:
  "\<exists>chars. extract_key_characteristics Storage_Available RPC_P256_KEYGEN_PARAMS [] SecurityLevel_TrustedEnvironment = Ok chars
     \<and> extract_key_gen_characteristics Storage_Available RPC_P256_KEYGEN_PARAMS SecurityLevel_TrustedEnvironment
         = Ok (chars, KeyGenInfo_NistEc NistCurve_P256)
     \<and> (\<exists>auths ks. chars = \<lparr>kc_security_level = SecurityLevel_TrustedEnvironment, kc_authorizations = auths\<rparr> # ks)"
proof -
  have "check_ec_gen_params RPC_P256_KEYGEN_PARAMS SecurityLevel_TrustedEnvironment = Ok (KeyGenInfo_NistEc NistCurve_P256)"
    by (simp add: check_ec_gen_params_def check_ec_params_def get_ec_curve_def get_tag_value_values get_opt_tag_value_values
      RPC_P256_KEYGEN_PARAMS_def seen_purpose_def Let_def)
  moreover have "get_algorithm RPC_P256_KEYGEN_PARAMS = Ok Algorithm_Ec"
    by (simp add: get_algorithm_def get_tag_value_values RPC_P256_KEYGEN_PARAMS_def)
  moreover have "\<not> list_ex (forbidden_param SecurityLevel_TrustedEnvironment) RPC_P256_KEYGEN_PARAMS" "\<not> auth_conflict RPC_P256_KEYGEN_PARAMS"
    by (simp_all add: RPC_P256_KEYGEN_PARAMS_def forbidden_param_def AUTO_ADDED_CHARACTERISTICS_def auth_conflict_def seen_def)
  ultimately show ?thesis
    by (simp add: extract_key_gen_characteristics_def extract_key_characteristics_eq)
qed

lemma ex_rkp_certificate:
  assumes "characteristics_at chars SecurityLevel_TrustedEnvironment = Ok auths"
  shows "\<exists>chain. certificate_chain ex_tee RPC_P256_KEYGEN_PARAMS None chars ex_ec_key ex_ta_booted = (Ok chain, ex_ta_booted)"
proof -
  let ?ps = RPC_P256_KEYGEN_PARAMS
  have tc: "tc_cert ex_tee = no_cert_lib" "tc_imp ex_tee = ex_imp" "di_attest_ids (tc_dev ex_tee) = None"
    "sec_level ex_tee = SecurityLevel_TrustedEnvironment"
    by (simp_all add: ex_conf_def ex_dev_def)
  obtain spki where spki: "key_subject_public_key_info (cl_bit_string_ok no_cert_lib) (ci_ec_subject_public_key ex_imp)
      (ci_rsa_subject_public_key ex_imp) ex_ec_key = Ok (Some spki)"
    by (simp add: key_subject_public_key_info_def ec_subject_public_key_info_def no_cert_lib_def ex_imp_def)
  have challenge: "get_opt_tag_value (sel_bytes Bytes_AttestationChallenge) InvalidTag ?ps = Ok None"
    by (simp add: get_opt_tag_value_values RPC_P256_KEYGEN_PARAMS_def)
  obtain subject serial where subject: "get_cert_subject ?ps = Ok subject" "get_cert_serial ?ps = Ok serial"
    by (simp add: get_cert_subject_def get_cert_serial_def get_opt_tag_value_values RPC_P256_KEYGEN_PARAMS_def)
  define info where "info = \<lparr>sig_attestation_info = None, sig_signing_key = ex_ec_key, sig_issuer_subject = subject, sig_chain = []\<rparr>"
  have sign: "self_signing_info ?ps None ex_ec_key = Ok (Some info)"
    by (simp add: self_signing_info_def subject info_def) (simp add: RPC_P256_KEYGEN_PARAMS_def is_signing_param_def)
  have dates: "get_tag_value (sel_date Date_CertificateNotBefore) MissingNotBefore ?ps = Ok UNDEFINED_NOT_BEFORE"
    "get_tag_value (sel_date Date_CertificateNotAfter) MissingNotAfter ?ps = Ok UNDEFINED_NOT_AFTER"
    by (simp_all add: get_tag_value_values RPC_P256_KEYGEN_PARAMS_def)
  have valid: "\<exists>t. validity_time_from_datetime no_cert_lib d = Ok t" for d
    by (simp add: validity_time_from_datetime_def no_cert_lib_def Let_def)
  have "\<exists>tbs. tbs_certificate_new no_cert_lib (Some info) spki ku bc None auths ?ps = Ok tbs" for ku bc
    using valid [of UNDEFINED_NOT_BEFORE] valid [of UNDEFINED_NOT_AFTER]
    by (auto simp: tbs_certificate_new_def subject dates info_def sig_alg_oid_def Let_def)
       (simp add: no_cert_lib_def extension_new_def opt_extension_def split: option.split)
  then obtain tbs where tbs: "tbs_certificate_new no_cert_lib (Some info) spki [] (Some []) None auths ?ps = Ok tbs"
    by blast
  have ids: "get_attestation_ids ex_tee ex_ta_booted = (Ok None, ex_ta_booted)"
    by (simp add: get_attestation_ids_def tc ex_ta_booted_def ex_ta_def ta_new_def)
  have no_att: "attest_ext_val ex_tee None (Some info) ?ps chars T = Ok None" for T
    by (simp add: attest_ext_val_def info_def)
  have usage: "Usage_KeyCertSign \<in> key_usage_extension_bits ?ps"
    by (simp add: RPC_P256_KEYGEN_PARAMS_def)
  have lib: "cl_key_usage no_cert_lib u = Some []" "cl_basic_constraints no_cert_lib True = Some []"
    "cl_tbs_certificate no_cert_lib t = Some []" "x509_certificate_new no_cert_lib t s =
        Ok \<lparr>x509_signature_algorithm = tbs_signature t, x509_tbs_certificate = t, x509_signature = s\<rparr>"
    "cl_certificate no_cert_lib c = Some []" for u t s c
    by (simp_all add: no_cert_lib_def x509_certificate_new_def)
  have "\<exists>s. sign_cert_data ex_imp (sig_signing_key info) [] = Ok s"
    by (simp add: sign_cert_data_def info_def ex_imp_def pad_hmac_def)
  then have "\<exists>cert. generate_cert ex_tee (Some info) spki ?ps chars ex_ta_booted = (Ok cert, ex_ta_booted)"
    by (auto simp: generate_cert_def tc usage lib st_then_def ids no_att assms tbs)
  then show ?thesis
    by (auto simp: certificate_chain_def tc spki challenge sign st_then_def)
qed

lemma ex_ec_key_short: "into_vec rfc8949 key_material_to_cbor ex_ec_key = Ok pt \<Longrightarrow> length pt < 100"
  by (auto simp: rfc8949_def into_vec_def material_to_cbor_def ec_raw_to_cbor_def bytes_to_cbor_def enum_to_cbor_def
    bool_to_cbor_def cbor_head_def)

lemma ex_maced_key: "\<exists>m. maced_public_key_of ex_rkp ex_tee False ex_ec_key = Ok m"
proof -
  have imp: "tc_imp ex_tee = ex_imp" "tc_mac0 ex_tee = rfc9052_mac0" "di_rpc (tc_dev ex_tee) = di_rpc ex_dev"
    by (simp_all add: ex_conf_def)
  obtain q where q: "public_cose_key ex_rkp (ci_ec_subject_public_key ex_imp) (Explicit (Ec_P256 [1])) EcCurve_P256 CurveType_Nist
      CosePurpose_Sign None False = Ok q"
    and fits: "cbor_fits 2 (key_value q)" "length (cbor_enc (key_value q)) < 200"
    by (simp add: public_cose_key_def ex_rkp_def ex_imp_def coordinates_from_pub_key_def Let_def key_value_def cbor_head_def
      SEC1_UNCOMPRESSED_PREFIX_def)
  have "rk_key_to_vec ex_rkp q = Ok (cbor_enc (key_value q))"
    using fits cbor_fits_mono [OF fits(1)] by (simp add: ex_rkp_def write_fitting_def into_vec_def rfc8949_def)
  then show ?thesis
    using fits(2) by (simp add: maced_public_key_of_def imp q build_maced_pub_key_def rpc_hmac_def)
      (simp add: ex_dev_def rfc9052_mac0_def ex_rkp_def write_fitting_def mac0_to_value_def into_vec_def rfc8949_def)
qed

lemma ex_rpc_info: "tc_rpc_info ex_tee = RpcInfo_V3 \<lparr>r3_author_name = ''author'', r3_unique_id = ''id'', r3_fused = False, r3_supported_num_of_keys_in_csr = 20\<rparr>"
  by (simp add: ex_conf_def)

lemma ex_signed_request:
  "\<exists>csr U'. signed_request ex_tee keys challenge (ex_ta_booted\<lparr>ta_attestation_id_info := Some ex_ids\<rparr>) csr U'"
proof -
  have read: "read_to_value rfc8949 [0x80] = Ok (Cbor_Array [])"
    using write_fitting_read [of "Cbor_Array []"] by (simp add: write_fitting_def into_vec_def rfc8949_def cbor_head_def)
  show ?thesis
    unfolding signed_request_def
    by (simp add: rpc_device_info_cbor_def get_attestation_ids_def st_then_def get_boot_info_def security_level_str_def get_dice_info_def
      ex_ta_booted_def ex_ta_def ta_new_def ex_conf_def ex_dev_def ok_or_def serialize_cbor_def read)
      (simp add: rfc8949_def)
qed


end
