(* ===== verification/Ta_Operation.thy ===== *)
theory Ta_Operation
  imports Ta_Instance
begin

unbundle bit_operations_syntax

text \<open>
  Operations of the trusted application (\<open>ta/src/operation.rs\<close>): the table of operations in progress,
  the checks of authentication, presence and confirmation, and the four methods begin, update, finish
  and abort.

  Choosing a handle repeats until the random number is not in use; it is a
  \<open>partial_function (option)\<close>, and so is \<open>begin_operation\<close>, which calls it.
\<close>

definition CONFIRMATION_TOKEN_SIZE :: nat where "CONFIRMATION_TOKEN_SIZE = 32"
definition CONFIRMATION_MESSAGE_MAX_LEN :: nat where "CONFIRMATION_MESSAGE_MAX_LEN = 6144"

section \<open>The operation table\<close>

fun position :: "('a \<Rightarrow> bool) \<Rightarrow> 'a list \<Rightarrow> nat option" where
  "position P [] = None"
| "position P (x # xs) = (if P x then Some 0 else map_option Suc (position P xs))"

definition new_operation_index :: "('k, 's, 'r) ta \<Rightarrow> nat km" where
  "new_operation_index T = ok_or (position Option.is_none (ta_operations T)) (Hal TooManyOperations)"

definition has_handle :: "i64 \<Rightarrow> 'k operation option \<Rightarrow> bool" where
  "has_handle h op = (case op of Some op \<Rightarrow> op_handle op = h | None \<Rightarrow> False)"

definition op_index :: "'k operation option list \<Rightarrow> i64 \<Rightarrow> nat km" where
  "op_index ops h = ok_or (position (has_handle h) ops) (Hal InvalidOperation)"

definition next_u64 :: "'r fill \<Rightarrow> 'r \<Rightarrow> u64 \<times> 'r" where
  "next_u64 fill r = (case fill r 8 of (buf, r) \<Rightarrow> (word_of_nat (le_val buf), r))"

partial_function (option) new_op_handle :: "'r fill \<Rightarrow> 'k operation option list \<Rightarrow> 'r \<Rightarrow> (i64 \<times> 'r) option" where
  "new_op_handle fill ops r = (case next_u64 fill r of
     (h, r) \<Rightarrow> if is_ok (op_index ops h) then new_op_handle fill ops r else Some (h, r))"

definition op_at :: "('k, 's, 'r) ta \<Rightarrow> i64 \<Rightarrow> (nat \<times> 'k operation) km" where
  "op_at T h = and_then (op_index (ta_operations T) h) (\<lambda>op_idx.
     case ta_operations T ! op_idx of Some op \<Rightarrow> Ok (op_idx, op) | None \<Rightarrow> Panic)"

definition set_op :: "nat \<Rightarrow> 'k operation option \<Rightarrow> ('k, 's, 'r) ta \<Rightarrow> ('k, 's, 'r) ta" where
  "set_op op_idx op T = T\<lparr>ta_operations := (ta_operations T)[op_idx := op]\<rparr>"

definition take_operation :: "i64 \<Rightarrow> (('k, 's, 'r) ta, 'k operation, error) act" where
  "take_operation h = st_then (st_check (\<lambda>T. op_at T h)) (\<lambda>(op_idx, op).
     st_then (st_put (set_op op_idx None)) (\<lambda>_. st_ret (Ok op)))"

definition clear_presence :: "i64 \<Rightarrow> ('k, 's, 'r) ta \<Rightarrow> ('k, 's, 'r) ta" where
  "clear_presence h T =
     (if ta_presence_required_op T = Some h then T\<lparr>ta_presence_required_op := None\<rparr> else T)"

section \<open>Authentication\<close>

fun auth_info_scan ::
  "key_param list \<Rightarrow> u64 list \<times> u32 option \<times> u32 option \<times> bool \<Rightarrow> (u64 list \<times> u32 option \<times> u32 option \<times> bool) km" where
  "auth_info_scan [] acc = Ok acc"
| "auth_info_scan (param # params) (secure_ids, auth_type, timeout_secs, no_auth_required) = (case param of
     KP_U64 U64_UserSecureId sid \<Rightarrow> auth_info_scan params (secure_ids @ [sid], auth_type, timeout_secs, no_auth_required)
   | KP_U32 U32_UserAuthType atype \<Rightarrow>
       (if auth_type = None then auth_info_scan params (secure_ids, Some atype, timeout_secs, no_auth_required)
        else Err (Hal InvalidKeyBlob))
   | KP_U32 U32_AuthTimeout secs \<Rightarrow>
       (if timeout_secs = None then auth_info_scan params (secure_ids, auth_type, Some secs, no_auth_required)
        else Err (Hal InvalidKeyBlob))
   | KP_Bool Bool_NoAuthRequired \<Rightarrow> auth_info_scan params (secure_ids, auth_type, timeout_secs, True)
   | _ \<Rightarrow> auth_info_scan params (secure_ids, auth_type, timeout_secs, no_auth_required))"

definition auth_info_new :: "key_param list \<Rightarrow> auth_info option km" where
  "auth_info_new key_chars =
     and_then (auth_info_scan key_chars ([], None, None, False)) (\<lambda>(secure_ids, auth_type, timeout_secs, no_auth_required).
     if secure_ids = [] then Ok None
     else case auth_type of
       Some auth_type \<Rightarrow>
         (if no_auth_required then Err (Hal InvalidKeyBlob)
          else Ok (Some \<lparr>au_secure_ids = secure_ids, au_auth_type = auth_type, au_timeout_secs = timeout_secs\<rparr>))
     | None \<Rightarrow> Err (Hal KeyUserNotAuthenticated))"

text \<open>\<open>timestamp.milliseconds + 1000 * timeout_secs as i64\<close>; the sum can overflow.\<close>

definition expiry :: "i64 \<Rightarrow> u32 \<Rightarrow> int km" where
  "expiry ms timeout_secs =
     (let t = sint ms + 1000 * int (unat timeout_secs) in if t < 2 ^ 63 then Ok t else Panic)"

definition check_auth_token ::
  "('k, 's, 'r, 'c) ta_conf \<Rightarrow> ('k, 's, 'r) ta \<Rightarrow> hardware_auth_token \<Rightarrow> auth_info \<Rightarrow> i64 option \<Rightarrow> u32 option \<Rightarrow>
   i64 option \<Rightarrow> unit km" where
  "check_auth_token C T auth_token auth_info now timeout_secs challenge =
     and_then (verify_device_hmac C T (hardware_auth_token_mac_input auth_token) (hat_mac auth_token)) (\<lambda>ok.
     and_then (require ok (Hal KeyUserNotAuthenticated)) (\<lambda>_.
     and_then (require (word_of_int (hw_auth_type_i32 (hat_authenticator_type auth_token)) AND au_auth_type auth_info \<noteq> 0)
       (Hal KeyUserNotAuthenticated)) (\<lambda>_.
     and_then (require (list_ex (\<lambda>sid. hat_user_id auth_token = sid \<or> hat_authenticator_id auth_token = sid) (au_secure_ids auth_info))
       (Hal KeyUserNotAuthenticated)) (\<lambda>_.
     and_then (case (now, timeout_secs) of
         (Some now, Some timeout_secs) \<Rightarrow>
           and_then (expiry (ts_milliseconds (hat_timestamp auth_token)) timeout_secs) (\<lambda>t.
           require (sint now \<le> t) (Hal KeyUserNotAuthenticated))
       | _ \<Rightarrow> Ok ()) (\<lambda>_.
     case challenge of
       Some challenge \<Rightarrow> require (hat_challenge auth_token = challenge) (Hal KeyUserNotAuthenticated)
     | None \<Rightarrow> Ok ())))))"

definition check_begin_auths ::
  "('k, 's, 'r, 'c) ta_conf \<Rightarrow> ta_env \<Rightarrow> key_param list \<Rightarrow> bytes \<Rightarrow> (('k, 's, 'r) ta, unit, error) act" where
  "check_begin_auths C V key_chars key_blob =
     st_then (st_ret (if env_bootloader_done V
       then and_then (get_bool_tag_value Bool_BootloaderOnly key_chars) (\<lambda>b. require (\<not> b) (Hal InvalidKeyBlob)) else Ok ())) (\<lambda>_.
     st_then (st_check (\<lambda>T. if \<not> ta_in_early_boot T
       then and_then (get_bool_tag_value Bool_EarlyBootOnly key_chars) (\<lambda>b. require (\<not> b) (Hal EarlyBootEnded)) else Ok ())) (\<lambda>_.
     st_then (st_ret (get_opt_tag_value (sel_u32 U32_MaxUsesPerBoot) InvalidTag key_chars)) (\<lambda>max_uses.
     case max_uses of
       Some max_uses \<Rightarrow> st_then (st_ret (key_id C key_blob)) (\<lambda>id. update_use_count id max_uses)
     | None \<Rightarrow> st_ret (Ok ()))))"

definition check_begin_token ::
  "('k, 's, 'r, 'c) ta_conf \<Rightarrow> ta_env \<Rightarrow> ('k, 's, 'r) ta \<Rightarrow> auth_info option \<Rightarrow> hardware_auth_token option \<Rightarrow> auth_info option km" where
  "check_begin_token C V T needed auth_token = (case needed of
     None \<Rightarrow> Ok None
   | Some auth_info \<Rightarrow> (case au_timeout_secs auth_info of
       None \<Rightarrow> Ok needed
     | Some timeout_secs \<Rightarrow> (case ta_clock C V of
         Some now \<Rightarrow>
           and_then (ok_or auth_token (Hal KeyUserNotAuthenticated)) (\<lambda>auth_token.
           and_then (check_auth_token C T auth_token auth_info (Some now) (Some timeout_secs) None) (\<lambda>_. Ok None))
       | None \<Rightarrow> (case auth_token of
           Some auth_token \<Rightarrow> and_then (check_auth_token C T auth_token auth_info None None None) (\<lambda>_. Ok needed)
         | None \<Rightarrow> Ok needed))))"

definition check_subsequent_auth ::
  "('k, 's, 'r, 'c) ta_conf \<Rightarrow> ('k, 's, 'r) ta \<Rightarrow> 'k operation \<Rightarrow> hardware_auth_token option \<Rightarrow> time_stamp_token option \<Rightarrow> bool km" where
  "check_subsequent_auth C T op auth_token timestamp_token = (case op_auth_info op of
     None \<Rightarrow> Ok False
   | Some auth_info \<Rightarrow>
       and_then (ok_or auth_token (Hal KeyUserNotAuthenticated)) (\<lambda>auth_token.
       case au_timeout_secs auth_info of
         Some timeout_secs \<Rightarrow>
           and_then (require (\<not> ci_has_clock (tc_imp C)) (Hal InvalidAuthorizationTimeout)) (\<lambda>_.
           and_then (ok_or timestamp_token (Hal InvalidArgument)) (\<lambda>timestamp_token.
           and_then (require (tst_challenge timestamp_token = op_handle op) (Hal InvalidArgument)) (\<lambda>_.
           and_then (verify_device_hmac C T (timestamp_token_mac_input timestamp_token) (tst_mac timestamp_token)) (\<lambda>ok.
           and_then (require ok (Hal InvalidArgument)) (\<lambda>_.
           and_then (check_auth_token C T auth_token auth_info (Some (ts_milliseconds (tst_timestamp timestamp_token)))
             (Some timeout_secs) (Some (op_handle op))) (\<lambda>_.
           Ok False))))))
       | None \<Rightarrow>
           and_then (check_auth_token C T auth_token auth_info None None (Some (op_handle op))) (\<lambda>_. Ok True)))"

definition verify_confirmation_token ::
  "('k, 's, 'r, 'c) ta_conf \<Rightarrow> ('k, 's, 'r) ta \<Rightarrow> bytes \<Rightarrow> bytes option \<Rightarrow> unit km" where
  "verify_confirmation_token C T data token = (case token of
     Some token \<Rightarrow>
       and_then (require (length token = CONFIRMATION_TOKEN_SIZE) (Hal InvalidArgument)) (\<lambda>_.
       and_then (map_err (\<lambda>_. Hal VerificationFailed) (verify_device_hmac C T data token)) (\<lambda>ok.
       require ok (Hal NoUserConfirmation)))
   | None \<Rightarrow> Err (Hal NoUserConfirmation))"

section \<open>Begin\<close>

definition symmetric_dir :: "key_purpose \<Rightarrow> symmetric_operation km" where
  "symmetric_dir purpose = (case purpose of
     KeyPurpose_Encrypt \<Rightarrow> Ok Op_Encrypt
   | KeyPurpose_Decrypt \<Rightarrow> Ok Op_Decrypt
   | _ \<Rightarrow> Err (Hal IncompatiblePurpose))"

definition nonce_param :: "bytes option \<Rightarrow> bytes option \<Rightarrow> key_param list" where
  "nonce_param caller_nonce mode_nonce = (if caller_nonce = None
     then (case mode_nonce of Some n \<Rightarrow> [KP_Nonce n] | None \<Rightarrow> []) else [])"

definition begin_crypto ::
  "('k, 'r) crypto_imp \<Rightarrow> key_purpose \<Rightarrow> key_material \<Rightarrow> key_param list \<Rightarrow> key_param list \<Rightarrow>
   ('r, key_param list \<times> bool \<times> 'k crypto_operation, error) act" where
  "begin_crypto imp purpose key_material key_chars params = (case key_material of
     Material_Aes key \<Rightarrow>
       st_then (st_ret (get_opt_tag_value (sel_bytes Bytes_Nonce) InvalidTag params)) (\<lambda>caller_nonce.
       st_then (aes_mode_new (ci_fill imp) params caller_nonce) (\<lambda>mode.
       st_then (st_ret (symmetric_dir purpose)) (\<lambda>dir.
       let ret_params = nonce_param caller_nonce (aes_mode_nonce mode) in
       case mode of
         Mode_Cipher mode \<Rightarrow> st_ret (map_ok (\<lambda>op. (ret_params, False, CO_Aes op)) (ci_aes_begin imp key mode dir))
       | Mode_Aead mode \<Rightarrow> st_ret (map_ok (\<lambda>op. (ret_params, True, CO_AesGcm op)) (aead_begin (ci_aead imp) key mode dir)))))
   | Material_TripleDes key \<Rightarrow>
       st_then (st_ret (get_opt_tag_value (sel_bytes Bytes_Nonce) InvalidTag params)) (\<lambda>caller_nonce.
       st_then (des_mode_new (ci_fill imp) params caller_nonce) (\<lambda>mode.
       st_then (st_ret (symmetric_dir purpose)) (\<lambda>dir.
       st_ret (map_ok (\<lambda>op. (nonce_param caller_nonce (des_mode_nonce mode), False, CO_Des op)) (ci_des_begin imp key mode dir)))))
   | Material_Hmac key \<Rightarrow> st_ret (
       and_then (get_digest params) (\<lambda>digest.
       case purpose of
         KeyPurpose_Sign \<Rightarrow>
           and_then (get_tag_value (sel_u32 U32_MacLength) MissingMacLength params) (\<lambda>mac_len.
           map_ok (\<lambda>op. ([], False, CO_HmacSign op (unat mac_len div 8))) (hmac_begin (ci_hmac imp) key digest))
       | KeyPurpose_Verify \<Rightarrow>
           and_then (get_tag_value (sel_u32 U32_MinMacLength) MissingMinMacLength key_chars) (\<lambda>min_len.
           and_then (digest_len digest) (\<lambda>max_len.
           map_ok (\<lambda>op. ([], False, CO_HmacVerify op (unat min_len div 8) (unat max_len))) (hmac_begin (ci_hmac imp) key digest)))
       | _ \<Rightarrow> Err (Hal IncompatiblePurpose)))
   | Material_Rsa key \<Rightarrow> st_ret (case purpose of
         KeyPurpose_Decrypt \<Rightarrow>
           and_then (rsa_decryption_mode_new params) (\<lambda>mode.
           map_ok (\<lambda>op. ([], False, CO_RsaDecrypt op)) (ci_rsa_begin_decrypt imp key mode))
       | KeyPurpose_Sign \<Rightarrow>
           and_then (rsa_sign_mode_new params) (\<lambda>mode.
           map_ok (\<lambda>op. ([], False, CO_RsaSign op)) (ci_rsa_begin_sign imp key mode))
       | _ \<Rightarrow> Err (Hal IncompatiblePurpose))
   | Material_Ec _ _ key \<Rightarrow> st_ret (case purpose of
         KeyPurpose_AgreeKey \<Rightarrow> map_ok (\<lambda>op. ([], False, CO_EcAgree op)) (ci_ec_begin_agree imp key)
       | KeyPurpose_Sign \<Rightarrow>
           and_then (get_digest params) (\<lambda>digest.
           map_ok (\<lambda>op. ([], False, CO_EcSign op)) (ci_ec_begin_sign imp key digest))
       | _ \<Rightarrow> Err (Hal IncompatiblePurpose)))"

text \<open>
  What \<open>begin_operation\<close> has checked and computed before it chooses the handle.
\<close>

record begun =
  bg_op_idx :: nat
  bg_key_material :: key_material
  bg_key_chars :: "key_param list"
  bg_trusted_conf_data :: "bytes option"
  bg_slot_to_delete :: "u32 option"
  bg_presence_required :: bool
  bg_auth_info :: "auth_info option"

definition begin_checks ::
  "('k, 's, 'r, 'c) ta_conf \<Rightarrow> ta_env \<Rightarrow> key_purpose \<Rightarrow> bytes \<Rightarrow> key_param list \<Rightarrow> hardware_auth_token option \<Rightarrow>
   (('k, 's, 'r) ta, begun, error) act" where
  "begin_checks C V purpose key_blob params auth_token =
     st_then (st_check new_operation_index) (\<lambda>op_idx.
     st_then (st_check (keyblob_parse_decrypt C key_blob params)) (\<lambda>(keyblob, sdd_slot).
     st_then (st_ret (characteristics_at (pkb_characteristics keyblob) (sec_level C))) (\<lambda>key_chars.
     st_then (st_ret (check_begin_params key_chars purpose params)) (\<lambda>_.
     st_then (check_begin_auths C V key_chars key_blob) (\<lambda>_.
     st_then (st_ret (if purpose = KeyPurpose_Sign
       then map_ok (\<lambda>b. if b then Some CONFIRMATION_DATA_PREFIX else None)
         (get_bool_tag_value Bool_TrustedConfirmationRequired key_chars)
       else Ok None)) (\<lambda>trusted_conf_data.
     st_then (st_ret (get_opt_tag_value (sel_u32 U32_UsageCountLimit) InvalidTag key_chars)) (\<lambda>limit.
     st_then (st_ret (get_bool_tag_value Bool_TrustedUserPresenceRequired key_chars)) (\<lambda>presence_required.
     st_then (st_check (\<lambda>T. require (\<not> (presence_required \<and> ta_presence_required_op T \<noteq> None))
       (Hal ConcurrentProofOfPresenceRequested))) (\<lambda>_.
     st_then (st_ret (auth_info_new key_chars)) (\<lambda>needed.
     st_then (st_check (\<lambda>T. check_begin_token C V T needed auth_token)) (\<lambda>needed.
     st_ret (Ok \<lparr>bg_op_idx = op_idx, bg_key_material = pkb_key_material keyblob, bg_key_chars = key_chars,
       bg_trusted_conf_data = trusted_conf_data, bg_slot_to_delete = (if limit = Some 1 then sdd_slot else None),
       bg_presence_required = presence_required, bg_auth_info = needed\<rparr>))))))))))))"

definition install_operation ::
  "begun \<Rightarrow> i64 \<Rightarrow> key_param list \<times> bool \<times> 'k crypto_operation \<Rightarrow> (('k, 's, 'r) ta, internal_begin_result, error) act" where
  "install_operation b h = (\<lambda>(ret_params, aad_allowed, crypto_op).
     st_then (st_put (set_op (bg_op_idx b) (Some \<lparr>op_handle = h, op_aad_allowed = aad_allowed,
       op_slot_to_delete = bg_slot_to_delete b, op_trusted_conf_data = bg_trusted_conf_data b,
       op_auth_info = bg_auth_info b, op_crypto_op = crypto_op, op_input_size = 0\<rparr>))) (\<lambda>_.
     st_then (st_put (\<lambda>T. if bg_presence_required b then T\<lparr>ta_presence_required_op := Some h\<rparr> else T)) (\<lambda>_.
     st_ret (Ok \<lparr>ibr_challenge = h, ibr_params = ret_params, ibr_op_handle = h\<rparr>))))"

definition begin_operation ::
  "('k, 's, 'r, 'c) ta_conf \<Rightarrow> ta_env \<Rightarrow> key_purpose \<Rightarrow> bytes \<Rightarrow> key_param list \<Rightarrow> hardware_auth_token option \<Rightarrow>
   ('k, 's, 'r) ta \<Rightarrow> (internal_begin_result km \<times> ('k, 's, 'r) ta) option" where
  "begin_operation C V purpose key_blob params auth_token =
     opt_then (begin_checks C V purpose key_blob params auth_token) (\<lambda>b T.
     case new_op_handle (ci_fill (tc_imp C)) (ta_operations T) (ta_rng T) of
       None \<Rightarrow> None
     | Some (h, r) \<Rightarrow> Some (st_then
         (on_rng (begin_crypto (tc_imp C) purpose (bg_key_material b) (bg_key_chars b) params))
         (install_operation b h) (T\<lparr>ta_rng := r\<rparr>)))"

section \<open>Update, finish, abort\<close>

definition with_authed_operation ::
  "('k, 's, 'r, 'c) ta_conf \<Rightarrow> i64 \<Rightarrow> hardware_auth_token option \<Rightarrow> time_stamp_token option \<Rightarrow>
   ('k operation \<Rightarrow> ('a \<times> 'k operation) km) \<Rightarrow> (('k, 's, 'r) ta, 'a, error) act" where
  "with_authed_operation C h auth_token timestamp_token f =
     st_then (st_check (\<lambda>T. op_at T h)) (\<lambda>(op_idx, op).
     st_then (st_check (\<lambda>T. check_subsequent_auth C T op auth_token timestamp_token)) (\<lambda>check_again T.
     case f (if check_again then op else op\<lparr>op_auth_info := None\<rparr>) of
       Ok (x, op) \<Rightarrow> (Ok x, set_op op_idx (Some op) T)
     | Err e \<Rightarrow> (Err e, set_op op_idx None (clear_presence h T))
     | Panic \<Rightarrow> (Panic, T)))"

definition check_size :: "('k, 'r) crypto_imp \<Rightarrow> nat \<Rightarrow> 'k operation \<Rightarrow> 'k operation km" where
  "check_size imp len op =
     (let op = op\<lparr>op_input_size := op_input_size op + len\<rparr>;
          max_size = (case op_crypto_op op of
            CO_HmacSign k _ \<Rightarrow> ci_max_input_size imp k
          | CO_HmacVerify k _ _ \<Rightarrow> ci_max_input_size imp k
          | CO_RsaDecrypt k \<Rightarrow> ci_max_input_size imp k
          | CO_RsaSign k \<Rightarrow> ci_max_input_size imp k
          | CO_EcAgree k \<Rightarrow> ci_max_input_size imp k
          | CO_EcSign k \<Rightarrow> ci_max_input_size imp k
          | _ \<Rightarrow> None)
      in case max_size of
        Some max_size \<Rightarrow> if max_size < op_input_size op then Err (Hal InvalidInputLength) else Ok op
      | None \<Rightarrow> Ok op)"

definition add_conf_data :: "bytes \<Rightarrow> 'k operation \<Rightarrow> 'k operation km" where
  "add_conf_data data op = (case op_trusted_conf_data op of
     Some trusted_conf_data \<Rightarrow>
       (if length CONFIRMATION_DATA_PREFIX + CONFIRMATION_MESSAGE_MAX_LEN < length trusted_conf_data + length data
        then Err (Hal InvalidArgument)
        else Ok (op\<lparr>op_trusted_conf_data := Some (trusted_conf_data @ data)\<rparr>))
   | None \<Rightarrow> Ok op)"

definition acc :: "('k, 'r) crypto_imp \<Rightarrow> 'k \<Rightarrow> bytes \<Rightarrow> 'k km" where
  "acc imp k data = acc_update (ci_hmac imp) k data"

fun crypto_update :: "('k, 'r) crypto_imp \<Rightarrow> bytes \<Rightarrow> 'k crypto_operation \<Rightarrow> (bytes \<times> 'k crypto_operation) km" where
  "crypto_update imp data (CO_Aes k) = map_ok (\<lambda>(out, k). (out, CO_Aes k)) (ci_emit_update imp k data)"
| "crypto_update imp data (CO_AesGcm k) = map_ok (\<lambda>(out, k). (out, CO_AesGcm k)) (aead_update (ci_aead imp) k data)"
| "crypto_update imp data (CO_Des k) = map_ok (\<lambda>(out, k). (out, CO_Des k)) (ci_emit_update imp k data)"
| "crypto_update imp data (CO_HmacSign k n) = map_ok (\<lambda>k. ([], CO_HmacSign k n)) (acc imp k data)"
| "crypto_update imp data (CO_HmacVerify k lo hi) = map_ok (\<lambda>k. ([], CO_HmacVerify k lo hi)) (acc imp k data)"
| "crypto_update imp data (CO_RsaDecrypt k) = map_ok (\<lambda>k. ([], CO_RsaDecrypt k)) (acc imp k data)"
| "crypto_update imp data (CO_RsaSign k) = map_ok (\<lambda>k. ([], CO_RsaSign k)) (acc imp k data)"
| "crypto_update imp data (CO_EcAgree k) = map_ok (\<lambda>k. ([], CO_EcAgree k)) (acc imp k data)"
| "crypto_update imp data (CO_EcSign k) = map_ok (\<lambda>k. ([], CO_EcSign k)) (acc imp k data)"

definition update_aad_body :: "('k, 'r) crypto_imp \<Rightarrow> bytes \<Rightarrow> 'k operation \<Rightarrow> (unit \<times> 'k operation) km" where
  "update_aad_body imp data op =
     (if \<not> op_aad_allowed op then Err (Hal InvalidTag)
      else case op_crypto_op op of
        CO_AesGcm k \<Rightarrow> map_ok (\<lambda>k. ((), op\<lparr>op_crypto_op := CO_AesGcm k\<rparr>)) (aead_update_aad (ci_aead imp) k data)
      | _ \<Rightarrow> Err (Hal InvalidOperation))"

definition op_update_aad ::
  "('k, 's, 'r, 'c) ta_conf \<Rightarrow> i64 \<Rightarrow> bytes \<Rightarrow> hardware_auth_token option \<Rightarrow> time_stamp_token option \<Rightarrow>
   (('k, 's, 'r) ta, unit, error) act" where
  "op_update_aad C h data auth_token timestamp_token =
     with_authed_operation C h auth_token timestamp_token (update_aad_body (tc_imp C) data)"

definition update_body ::
  "('k, 'r) crypto_imp \<Rightarrow> bool \<Rightarrow> bytes \<Rightarrow> 'k operation \<Rightarrow> (bytes \<times> 'k operation) km" where
  "update_body imp presence_missing data op =
     and_then (require (\<not> presence_missing) (Hal ProofOfPresenceRequired)) (\<lambda>_.
     and_then (add_conf_data data op) (\<lambda>op.
     and_then (check_size imp (length data) (op\<lparr>op_aad_allowed := False\<rparr>)) (\<lambda>op.
     map_ok (\<lambda>(out, c). (out, op\<lparr>op_crypto_op := c\<rparr>)) (crypto_update imp data (op_crypto_op op)))))"

definition op_update ::
  "('k, 's, 'r, 'c) ta_conf \<Rightarrow> ta_env \<Rightarrow> i64 \<Rightarrow> bytes \<Rightarrow> hardware_auth_token option \<Rightarrow> time_stamp_token option \<Rightarrow>
   (('k, 's, 'r) ta, bytes, error) act" where
  "op_update C V h data auth_token timestamp_token =
     st_then (st_get (\<lambda>T. ta_presence_required_op T = Some h)) (\<lambda>check_presence.
     st_then (st_put (clear_presence h)) (\<lambda>_.
     with_authed_operation C h auth_token timestamp_token
       (update_body (tc_imp C) (check_presence \<and> \<not> env_user_present V) data)))"

definition opt_update ::
  "('k \<Rightarrow> bytes \<Rightarrow> (bytes \<times> 'k) km) \<Rightarrow> ('k \<Rightarrow> bytes km) \<Rightarrow> 'k \<Rightarrow> bytes option \<Rightarrow> bytes km" where
  "opt_update upd fin k data =
     and_then (case data of Some data \<Rightarrow> upd k data | None \<Rightarrow> Ok ([], k)) (\<lambda>(out, k).
     map_ok (\<lambda>rest. out @ rest) (fin k))"

definition opt_acc :: "('k, 'r) crypto_imp \<Rightarrow> 'k \<Rightarrow> bytes option \<Rightarrow> bytes km" where
  "opt_acc imp k data =
     and_then (case data of Some data \<Rightarrow> acc imp k data | None \<Rightarrow> Ok k) (acc_finish (ci_hmac imp))"

fun crypto_finish :: "('k, 'r) crypto_imp \<Rightarrow> bytes option \<Rightarrow> bytes option \<Rightarrow> 'k crypto_operation \<Rightarrow> bytes km" where
  "crypto_finish imp data sig (CO_Aes k) = opt_update (ci_emit_update imp) (ci_emit_finish imp) k data"
| "crypto_finish imp data sig (CO_AesGcm k) = opt_update (aead_update (ci_aead imp)) (aead_finish (ci_aead imp)) k data"
| "crypto_finish imp data sig (CO_Des k) = opt_update (ci_emit_update imp) (ci_emit_finish imp) k data"
| "crypto_finish imp data sig (CO_HmacSign k tag_len) = map_ok (take tag_len) (opt_acc imp k data)"
| "crypto_finish imp data sig (CO_HmacVerify k lo hi) =
     and_then (ok_or sig (Hal InvalidArgument)) (\<lambda>sig.
     and_then (require (lo \<le> length sig \<and> length sig < hi) (Hal InvalidArgument)) (\<lambda>_.
     and_then (opt_acc imp k data) (\<lambda>got.
     if length got < length sig then Panic
     else if ci_compare imp (take (length sig) got) sig then Ok [] else Err (Hal VerificationFailed))))"
| "crypto_finish imp data sig (CO_RsaDecrypt k) = opt_acc imp k data"
| "crypto_finish imp data sig (CO_RsaSign k) = opt_acc imp k data"
| "crypto_finish imp data sig (CO_EcAgree k) = opt_acc imp k data"
| "crypto_finish imp data sig (CO_EcSign k) = opt_acc imp k data"

definition op_finish ::
  "('k, 's, 'r, 'c) ta_conf \<Rightarrow> ta_env \<Rightarrow> i64 \<Rightarrow> bytes option \<Rightarrow> bytes option \<Rightarrow> hardware_auth_token option \<Rightarrow>
   time_stamp_token option \<Rightarrow> bytes option \<Rightarrow> (('k, 's, 'r) ta, bytes, error) act" where
  "op_finish C V h data sig auth_token timestamp_token confirmation_token =
     st_then (take_operation h) (\<lambda>op.
     st_then (st_check (\<lambda>T. check_subsequent_auth C T op auth_token timestamp_token)) (\<lambda>_.
     st_then (st_get (\<lambda>T. ta_presence_required_op T = Some h)) (\<lambda>check_presence.
     st_then (st_put (clear_presence h)) (\<lambda>_.
     st_then (st_ret (require (\<not> (check_presence \<and> \<not> env_user_present V)) (Hal ProofOfPresenceRequired))) (\<lambda>_.
     st_then (st_ret (case data of Some data \<Rightarrow> add_conf_data data op | None \<Rightarrow> Ok op)) (\<lambda>op.
     st_then (st_ret (check_size (tc_imp C) (case data of Some data \<Rightarrow> length data | None \<Rightarrow> 0) op)) (\<lambda>op.
     st_then (st_ret (crypto_finish (tc_imp C) data sig (op_crypto_op op))) (\<lambda>result.
     st_then (st_check (\<lambda>T. case op_trusted_conf_data op of
         Some trusted_conf_data \<Rightarrow> verify_confirmation_token C T trusted_conf_data confirmation_token
       | None \<Rightarrow> Ok ())) (\<lambda>_.
     st_then (\<lambda>T. case (op_slot_to_delete op, di_sdd_mgr (tc_dev C)) of
         (Some slot, Some sdd_mgr) \<Rightarrow> ignore_err (on_store (sm_delete_secret sdd_mgr slot) T)
       | _ \<Rightarrow> (Ok (), T)) (\<lambda>_.
     st_ret (Ok result)))))))))))"

definition op_abort :: "i64 \<Rightarrow> (('k, 's, 'r) ta, unit, error) act" where
  "op_abort h =
     st_then (st_put (clear_presence h)) (\<lambda>_.
     st_then (take_operation h) (\<lambda>_. st_ret (Ok ())))"

section \<open>Lemmas on the table\<close>

lemma is_ok_st_thenE:
  assumes "is_ok (fst (st_then m f s))"
  obtains x s' where "m s = (Ok x, s')" "is_ok (fst (f x s'))"
  using assms by (auto simp: st_then_def split: prod.splits res.splits)

lemma position_Some: "position P xs = Some i \<Longrightarrow> i < length xs \<and> P (xs ! i)"
  by (induction xs arbitrary: i) (auto split: if_splits)

lemma position_None: "position P xs = None \<longleftrightarrow> (\<forall>x \<in> set xs. \<not> P x)"
  by (induction xs) auto

lemma op_index_Ok: "op_index ops h = Ok i \<Longrightarrow> i < length ops \<and> (\<exists>op. ops ! i = Some op \<and> op_handle op = h)"
  using position_Some [of "has_handle h" ops i] by (auto simp: op_index_def ok_or_eq has_handle_def split: option.splits)

lemma is_ok_st_thenD: "is_ok (fst (st_then m f s)) \<Longrightarrow> is_ok (fst (m s))"
  by (auto simp: st_then_def split: prod.splits res.splits)

lemma is_ok_ok_or: "is_ok (ok_or x e) \<longleftrightarrow> \<not> x = None"
  by (cases x) simp_all

lemma upd_nth: "j < length xs \<Longrightarrow> xs[i := x] ! j = (if i = j then x else xs ! j)"
  by (auto simp: nth_list_update)

lemma op_index_fresh: "\<not> is_ok (op_index ops h) \<longleftrightarrow> (\<forall>op. Some op \<in> set ops \<longrightarrow> op_handle op \<noteq> h)"
proof -
  have "(\<exists>o' \<in> set ops. has_handle h o') \<longleftrightarrow> (\<exists>op. Some op \<in> set ops \<and> op_handle op = h)"
    by (auto simp: has_handle_def split: option.splits)
  then show ?thesis
    unfolding op_index_def is_ok_ok_or not_not position_None by blast
qed

lemma op_at_Ok:
  "op_at T h = Ok (i, op) \<Longrightarrow> i < length (ta_operations T) \<and> ta_operations T ! i = Some op \<and> op_handle op = h"
  by (auto simp: op_at_def and_then_eq_Ok dest!: op_index_Ok)

lemma op_at_not_Panic: "op_at T h \<noteq> Panic"
  by (auto simp: op_at_def and_then_eq_Panic op_index_def ok_or_eq split: option.splits dest!: position_Some simp: has_handle_def)

lemma new_operation_index_Ok:
  "new_operation_index T = Ok i \<Longrightarrow> i < length (ta_operations T) \<and> ta_operations T ! i = None"
  using position_Some [of Option.is_none "ta_operations T" i]
  by (auto simp: new_operation_index_def ok_or_eq Option.is_none_def)

text \<open>No two operations in progress have the same handle.\<close>

definition handles_distinct :: "'k operation option list \<Rightarrow> bool" where
  "handles_distinct ops \<longleftrightarrow> (\<forall>i < length ops. \<forall>j < length ops. \<forall>a b.
     ops ! i = Some a \<longrightarrow> ops ! j = Some b \<longrightarrow> op_handle a = op_handle b \<longrightarrow> i = j)"

lemma handles_distinctD:
  "handles_distinct ops \<Longrightarrow> i < length ops \<Longrightarrow> j < length ops \<Longrightarrow> ops ! i = Some a \<Longrightarrow> ops ! j = Some b \<Longrightarrow>
   op_handle a = op_handle b \<Longrightarrow> i = j"
  unfolding handles_distinct_def by blast

lemma handles_distinct_upd:
  assumes "handles_distinct ops"
    and "\<And>op j b. x = Some op \<Longrightarrow> j < length ops \<Longrightarrow> j \<noteq> i \<Longrightarrow> ops ! j = Some b \<Longrightarrow> op_handle b \<noteq> op_handle op"
  shows "handles_distinct (ops[i := x])"
  unfolding handles_distinct_def length_list_update
proof (intro allI impI)
  fix m n a b
  assume *: "m < length ops" "n < length ops" "ops[i := x] ! m = Some a" "ops[i := x] ! n = Some b" "op_handle a = op_handle b"
  consider "m = i" "n = i" | "m = i" "n \<noteq> i" | "m \<noteq> i" "n = i" | "m \<noteq> i" "n \<noteq> i"
    by blast
  then show "m = n"
  proof cases
    case 2
    then show ?thesis
      using * assms(2) [of a n b] by (simp add: upd_nth)
  next
    case 3
    then show ?thesis
      using * assms(2) [of b m a] by (simp add: upd_nth)
  next
    case 4
    then show ?thesis
      using * handles_distinctD [OF assms(1) *(1,2), of a b] by (simp add: upd_nth)
  qed simp
qed

lemma handles_distinct_remove: "handles_distinct ops \<Longrightarrow> handles_distinct (ops[i := None])"
  by (erule handles_distinct_upd) simp

lemma handles_distinct_replace:
  assumes "handles_distinct ops" "i < length ops" "ops ! i = Some op" "op_handle op' = op_handle op"
  shows "handles_distinct (ops[i := Some op'])"
proof (rule handles_distinct_upd [OF assms(1)])
  fix op'' j b
  assume "Some op' = Some op''" "j < length ops" "j \<noteq> i" "ops ! j = Some b"
  then show "op_handle b \<noteq> op_handle op''"
    using handles_distinctD [OF assms(1) _ assms(2) _ assms(3), of j b] assms(4) by auto
qed

lemma handles_distinct_add:
  assumes "handles_distinct ops" "\<And>op. Some op \<in> set ops \<Longrightarrow> op_handle op \<noteq> op_handle op'"
  shows "handles_distinct (ops[i := Some op'])"
proof (rule handles_distinct_upd [OF assms(1)])
  fix op'' j b
  assume "Some op' = Some op''" "j < length ops" "j \<noteq> i" "ops ! j = Some b"
  then show "op_handle b \<noteq> op_handle op''"
    using assms(2) [of b] nth_mem [of j ops] by simp
qed

section \<open>Choosing a handle\<close>

lemma new_op_handle_fresh:
  assumes "new_op_handle fill ops r = Some (h, r')" "Some op \<in> set ops"
  shows "op_handle op \<noteq> h"
proof -
  have "\<not> is_ok (op_index ops (fst y))" if "new_op_handle fill ops r = Some y"
    for ops :: "'k operation option list" and fill :: "'r fill" and r y
  proof (rule new_op_handle.raw_induct [OF _ that, of "\<lambda>fill ops r y. \<not> is_ok (op_index ops (fst y))"])
    fix f :: "'r fill \<Rightarrow> 'k operation option list \<Rightarrow> 'r \<Rightarrow> (i64 \<times> 'r) option" and fill ops r y
    assume IH: "\<And>fill ops r y. f fill ops r = Some y \<Longrightarrow> \<not> is_ok (op_index ops (fst y))"
      and step: "(case next_u64 fill r of (h, r) \<Rightarrow> if is_ok (op_index ops h) then f fill ops r else Some (h, r)) = Some y"
    show "\<not> is_ok (op_index ops (fst y))"
      using step IH by (auto simp: case_prod_beta split: if_splits)
  qed
  then show ?thesis
    using assms by (force simp: op_index_fresh)
qed

text \<open>The random numbers that the generator gives one after another.\<close>

fun draw :: "'r fill \<Rightarrow> nat \<Rightarrow> 'r \<Rightarrow> u64" where
  "draw fill 0 r = fst (next_u64 fill r)"
| "draw fill (Suc n) r = draw fill n (snd (next_u64 fill r))"

text \<open>
  Choosing a handle ends as soon as the generator gives a number that is not in use.
\<close>

lemma new_op_handle_returns:
  "\<not> is_ok (op_index ops (draw fill n r)) \<Longrightarrow> \<exists>h r'. new_op_handle fill ops r = Some (h, r')"
proof (induction n arbitrary: r)
  case 0
  then show ?case
    by (subst new_op_handle.simps) (auto split: prod.splits)
next
  case (Suc n)
  then obtain h r' where "new_op_handle fill ops (snd (next_u64 fill r)) = Some (h, r')"
    by (metis draw.simps(2))
  then show ?case
    by (subst new_op_handle.simps) (auto split: prod.splits)
qed

section \<open>Authentication is enforced\<close>

lemma device_hmac_cong: "ta_device_hmac T = ta_device_hmac T' \<Longrightarrow> device_hmac C T = device_hmac C T'"
  by (simp add: device_hmac_def fun_eq_iff)

text \<open>
  A token that authenticates the user for a key: its MAC was made with the shared key, its type is one
  of those the key allows, and it is for a user or an authenticator that the key is bound to.
\<close>

definition mac_valid :: "('k, 's, 'r, 'c) ta_conf \<Rightarrow> ('k, 's, 'r) ta \<Rightarrow> bytes \<Rightarrow> bytes \<Rightarrow> bool" where
  "mac_valid C T data mac \<longleftrightarrow> (\<exists>remac. device_hmac C T data = Ok remac \<and> ci_compare (tc_imp C) mac remac)"

definition token_authenticates ::
  "('k, 's, 'r, 'c) ta_conf \<Rightarrow> ('k, 's, 'r) ta \<Rightarrow> hardware_auth_token \<Rightarrow> auth_info \<Rightarrow> bool" where
  "token_authenticates C T tok ai \<longleftrightarrow> mac_valid C T (hardware_auth_token_mac_input tok) (hat_mac tok)
     \<and> word_of_int (hw_auth_type_i32 (hat_authenticator_type tok)) AND au_auth_type ai \<noteq> 0
     \<and> (hat_user_id tok \<in> set (au_secure_ids ai) \<or> hat_authenticator_id tok \<in> set (au_secure_ids ai))"

definition not_expired :: "i64 \<Rightarrow> hardware_auth_token \<Rightarrow> u32 \<Rightarrow> bool" where
  "not_expired now tok timeout_secs \<longleftrightarrow>
     sint now \<le> sint (ts_milliseconds (hat_timestamp tok)) + 1000 * int (unat timeout_secs)"

lemma verify_device_hmac_iff: "verify_device_hmac C T data mac = Ok True \<longleftrightarrow> mac_valid C T data mac"
  by (auto simp: verify_device_hmac_def mac_valid_def and_then_eq_Ok)

lemma check_auth_token_Ok:
  assumes "check_auth_token C T tok ai now timeout challenge = Ok u"
  shows "token_authenticates C T tok ai"
    "challenge = Some h \<Longrightarrow> hat_challenge tok = h"
    "now = Some n \<Longrightarrow> timeout = Some t \<Longrightarrow> not_expired n tok t"
proof -
  have *: "verify_device_hmac C T (hardware_auth_token_mac_input tok) (hat_mac tok) = Ok True"
    "word_of_int (hw_auth_type_i32 (hat_authenticator_type tok)) AND au_auth_type ai \<noteq> 0"
    "list_ex (\<lambda>sid. hat_user_id tok = sid \<or> hat_authenticator_id tok = sid) (au_secure_ids ai)"
    "(case (now, timeout) of (Some n, Some t) \<Rightarrow> \<exists>e. expiry (ts_milliseconds (hat_timestamp tok)) t = Ok e \<and> sint n \<le> e | _ \<Rightarrow> True)"
    "(case challenge of Some c \<Rightarrow> hat_challenge tok = c | None \<Rightarrow> True)"
    using assms by (auto simp: check_auth_token_def and_then_eq_Ok require_eq split: option.splits)
  then show "token_authenticates C T tok ai"
    by (auto simp: token_authenticates_def verify_device_hmac_iff list_ex_iff)
  show "hat_challenge tok = h" if "challenge = Some h"
    using * that by simp
  show "not_expired n tok t" if "now = Some n" "timeout = Some t"
    using * that by (auto simp: not_expired_def expiry_def Let_def split: if_splits)
qed

text \<open>What a request on an operation that still needs authentication must come with.\<close>

definition request_authenticated ::
  "('k, 's, 'r, 'c) ta_conf \<Rightarrow> ('k, 's, 'r) ta \<Rightarrow> i64 \<Rightarrow> auth_info \<Rightarrow> hardware_auth_token option \<Rightarrow> time_stamp_token option \<Rightarrow> bool" where
  "request_authenticated C T h ai auth_token timestamp_token \<longleftrightarrow> (\<exists>tok. auth_token = Some tok
     \<and> token_authenticates C T tok ai \<and> hat_challenge tok = h
     \<and> (case au_timeout_secs ai of None \<Rightarrow> True
        | Some t \<Rightarrow> (\<exists>ts. timestamp_token = Some ts \<and> tst_challenge ts = h
            \<and> mac_valid C T (timestamp_token_mac_input ts) (tst_mac ts)
            \<and> not_expired (ts_milliseconds (tst_timestamp ts)) tok t)))"

lemma check_subsequent_auth_Ok:
  assumes "check_subsequent_auth C T op auth_token timestamp_token = Ok b" "op_auth_info op = Some ai"
  shows "request_authenticated C T (op_handle op) ai auth_token timestamp_token"
proof (cases "au_timeout_secs ai")
  case None
  then obtain tok where tok: "auth_token = Some tok" and c: "check_auth_token C T tok ai None None (Some (op_handle op)) = Ok ()"
    using assms by (auto simp: check_subsequent_auth_def and_then_eq_Ok ok_or_eq)
  show ?thesis
    using None tok check_auth_token_Ok(1,2) [OF c] by (simp add: request_authenticated_def)
next
  case (Some t)
  then obtain tok ts where *: "auth_token = Some tok" "timestamp_token = Some ts" "tst_challenge ts = op_handle op"
    "verify_device_hmac C T (timestamp_token_mac_input ts) (tst_mac ts) = Ok True"
    "check_auth_token C T tok ai (Some (ts_milliseconds (tst_timestamp ts))) (Some t) (Some (op_handle op)) = Ok ()"
    using assms by (auto simp: check_subsequent_auth_def and_then_eq_Ok ok_or_eq require_eq)
  then show ?thesis
    using Some check_auth_token_Ok [OF *(5)] by (simp add: request_authenticated_def verify_device_hmac_iff)
qed

lemma with_authed_operation_Ok:
  assumes "is_ok (fst (with_authed_operation C h auth_token timestamp_token f T))" "op_at T h = Ok (i, op)"
  obtains b where "check_subsequent_auth C T op auth_token timestamp_token = Ok b"
  using assms by (auto simp: with_authed_operation_def is_ok_iff fst_st_then_eq_Ok)

lemma op_finish_auth:
  assumes "is_ok (fst (op_finish C V h data sig auth_token timestamp_token conf T))" "op_at T h = Ok (i, op)"
  obtains b where "check_subsequent_auth C (set_op i None T) op auth_token timestamp_token = Ok b"
proof -
  have op: "take_operation h T = (Ok op, set_op i None T)"
    using assms(2) by (simp add: take_operation_def st_then_def)
  show thesis
    by (rule is_ok_st_thenE [OF assms(1) [unfolded op_finish_def]], drule is_ok_st_thenD) (use op that in \<open>auto simp: is_ok_iff\<close>)
qed

lemma request_authenticated_cong:
  "ta_device_hmac T = ta_device_hmac T' \<Longrightarrow> request_authenticated C T h ai a b = request_authenticated C T' h ai a b"
  unfolding request_authenticated_def token_authenticates_def mac_valid_def
  by (simp add: device_hmac_cong [of T T' C] split: option.splits)

lemma op_at_cong: "ta_operations T = ta_operations T' \<Longrightarrow> op_at T h = op_at T' h"
  by (simp add: op_at_def)

lemma clear_presence_fields [simp]:
  "ta_operations (clear_presence h T) = ta_operations T" "ta_device_hmac (clear_presence h T) = ta_device_hmac T"
  by (simp_all add: clear_presence_def)

text \<open>
  C1: Authentication of a key that is bound to users is enforced on every step of an operation: if an
  operation still needs authentication, then update, update of associated data, and finish succeed only
  with a token for this operation that authenticates the user, and, when the key has a timeout, with
  a valid time stamp for this operation that shows the token not to have expired.
\<close>

theorem operation_steps_authenticated:
  assumes "op_at T h = Ok (i, op)" "op_auth_info op = Some ai"
    and "is_ok (fst (op_update C V h data tok ts T)) \<or> is_ok (fst (op_update_aad C h data tok ts T)) \<or>
      is_ok (fst (op_finish C V h fdata sig tok ts conf T))"
  shows "request_authenticated C T h ai tok ts"
proof -
  have h: "op_handle op = h"
    using op_at_Ok [OF assms(1)] by simp
  have at: "op_at (clear_presence h T) h = Ok (i, op)"
    using assms(1) op_at_cong [of "clear_presence h T" T] by simp
  from assms(3) obtain T1 b where "ta_device_hmac T1 = ta_device_hmac T" "check_subsequent_auth C T1 op tok ts = Ok b"
  proof (elim disjE)
    assume "is_ok (fst (op_update C V h data tok ts T))"
    then show thesis
      unfolding op_update_def st_then_basic
      by (rule with_authed_operation_Ok [OF _ at]) (rule that [of "clear_presence h T"], simp)
  next
    assume "is_ok (fst (op_update_aad C h data tok ts T))"
    then show thesis
      unfolding op_update_aad_def by (rule with_authed_operation_Ok [OF _ assms(1)]) (rule that [of T], simp)
  next
    assume "is_ok (fst (op_finish C V h fdata sig tok ts conf T))"
    then show thesis
      by (rule op_finish_auth [OF _ assms(1)]) (rule that [of "set_op i None T"], simp_all add: set_op_def)
  qed
  then show ?thesis
    using check_subsequent_auth_Ok [OF _ assms(2), of C T1 tok ts b] request_authenticated_cong [of T1 T] h by blast
qed

text \<open>An operation with an HMAC key that is bound to a user, in progress in the concrete device.\<close>

definition ex_auth_info :: auth_info where
  "ex_auth_info = \<lparr>au_secure_ids = [7], au_auth_type = 1, au_timeout_secs = None\<rparr>"

definition ex_op :: "bytes operation" where
  "ex_op = \<lparr>op_handle = 5, op_aad_allowed = False, op_slot_to_delete = None, op_trusted_conf_data = None,
     op_auth_info = Some ex_auth_info, op_crypto_op = CO_HmacSign [] 32, op_input_size = 0\<rparr>"

definition ex_ta_op :: "(bytes, mem_slots, unit) ta" where
  "ex_ta_op = (ex_ta SecurityLevel_TrustedEnvironment)\<lparr>ta_device_hmac := Some (SoftDeviceHmac (HmacKey [1])),
     ta_operations := [None, Some ex_op]\<rparr>"

definition ex_token :: hardware_auth_token where
  "ex_token = (let tok = \<lparr>hat_challenge = 5, hat_user_id = 7, hat_authenticator_id = 0,
       hat_authenticator_type = HardwareAuthenticatorType_Password, hat_timestamp = \<lparr>ts_milliseconds = 0\<rparr>, hat_mac = []\<rparr>
     in tok\<lparr>hat_mac := take 32 (1 # hardware_auth_token_mac_input tok @ replicate 32 0)\<rparr>)"

lemma ex_op_at: "op_at ex_ta_op 5 = Ok (1, ex_op)"
  by (simp add: op_at_def ex_ta_op_def op_index_def has_handle_def ex_op_def)

lemma ex_token_checks:
  "check_auth_token (ex_conf level) ex_ta_op ex_token ex_auth_info None None (Some 5) = Ok ()"
  by (simp add: check_auth_token_def verify_device_hmac_def device_hmac_def ex_ta_op_def ex_token_def ex_conf_def
    ex_imp_def pad_hmac_def ex_auth_info_def Let_def hardware_auth_token_mac_input_def require_def)

lemma ex_update_runs:
  "is_ok (fst (op_update (ex_conf SecurityLevel_TrustedEnvironment) ex_env 5 [1, 2] (Some ex_token) None ex_ta_op))"
proof -
  have p: "clear_presence 5 ex_ta_op = ex_ta_op" "ta_presence_required_op ex_ta_op = None"
    by (simp_all add: clear_presence_def ex_ta_op_def ex_ta_def ta_new_def)
  have "check_subsequent_auth (ex_conf level) ex_ta_op ex_op (Some ex_token) None = Ok True" for level
    using ex_token_checks [of level] by (simp add: check_subsequent_auth_def ex_op_def ex_auth_info_def)
  then show ?thesis
    by (simp add: op_update_def st_then_basic p with_authed_operation_def st_then_def ex_op_at)
       (simp add: update_body_def ex_op_def add_conf_data_def check_size_def ex_conf_def ex_imp_def acc_def pad_hmac_def
         Let_def require_def)
qed

theorem operation_steps_authenticated_witness:
  "request_authenticated (ex_conf SecurityLevel_TrustedEnvironment) ex_ta_op 5 ex_auth_info (Some ex_token) None"
  by (rule operation_steps_authenticated [OF ex_op_at, of _ _ ex_env "[1, 2]"])
     (use ex_update_runs in \<open>simp_all add: ex_op_def\<close>)

end
