(* ===== verification/Ta_Process.thy ===== *)
theory Ta_Process
  imports Ta_Rkp Ta_Operation Channel
begin

text \<open>
  The dispatch of requests by the trusted application (\<open>process_req\<close> in \<open>ta/src/lib.rs\<close>), and sequences
  of requests.  \<open>None\<close> stands for a request that is never answered, since a random handle may collide
  with those in use again and again.
\<close>

section \<open>Dispatch\<close>

definition verified_boot_state_try_from :: "int \<Rightarrow> verified_boot_state km" where
  "verified_boot_state_try_from v =
     ok_or (enum_n verified_boot_state_i32 verified_boot_state_variants v) (Cbor OutOfRangeIntegerValue)"

text \<open>The two arms of each match on the result of a handler.\<close>

fun answer :: "keymint_operation \<Rightarrow> ('a \<Rightarrow> perform_op_rsp) \<Rightarrow> 'a km \<times> 't \<Rightarrow> (perform_op_response, 'e) res \<times> 't" where
  "answer op rsp (Ok x, T) = (Ok (op_ok_rsp (rsp x)), T)"
| "answer op rsp (Err e, T) = (Ok (op_error_rsp op e), T)"
| "answer op rsp (Panic, T) = (Panic, T)"

definition respond ::
  "keymint_operation \<Rightarrow> ('a \<Rightarrow> perform_op_rsp) \<Rightarrow> ('t, 'a, error) act \<Rightarrow> 't \<Rightarrow> ((perform_op_response, 'e) res \<times> 't) option" where
  "respond op rsp m T = Some (answer op rsp (m T))"

primrec process_req ::
  "'q rkp_lib \<Rightarrow> ('k, 's, 'r, 'c) ta_conf \<Rightarrow> ta_env \<Rightarrow> perform_op_req \<Rightarrow> ('k, 's, 'r) ta \<Rightarrow>
   (perform_op_response bres \<times> ('k, 's, 'r) ta) option" where
  "process_req R C V (Req_SetBootInfo key locked state hash patchlevel) =
     respond Op_SetBootInfo (\<lambda>_. Rsp_SetBootInfo)
       (st_then (st_ret (verified_boot_state_try_from state)) (\<lambda>state.
        set_boot_info C \<lparr>bi_verified_boot_key = key, bi_device_boot_locked = locked, bi_verified_boot_state = state,
          bi_verified_boot_hash = hash, bi_boot_patchlevel = patchlevel\<rparr>))"
| "process_req R C V (Req_SetHalInfo os_version os_patchlevel vendor_patchlevel) =
     respond Op_SetHalInfo (\<lambda>_. Rsp_SetHalInfo) (st_put (set_hal_info
       \<lparr>hi_os_version = os_version, hi_os_patchlevel = os_patchlevel, hi_vendor_patchlevel = vendor_patchlevel\<rparr>))"
| "process_req R C V (Req_SetAttestationIds ids) =
     respond Op_SetAttestationIds (\<lambda>_. Rsp_SetAttestationIds) (st_put (set_attestation_ids C ids))"
| "process_req R C V (Req_SetHalVersion aidl_version) =
     respond Op_SetHalVersion (\<lambda>_. Rsp_SetHalVersion) (set_hal_version C aidl_version)"
| "process_req R C V Req_SharedSecretGetSharedSecretParameters =
     respond Op_SharedSecretGetSharedSecretParameters Rsp_SharedSecretGetSharedSecretParameters (get_shared_secret_params C)"
| "process_req R C V (Req_SharedSecretComputeSharedSecret params) =
     respond Op_SharedSecretComputeSharedSecret Rsp_SharedSecretComputeSharedSecret (compute_shared_secret C params)"
| "process_req R C V (Req_SecureClockGenerateTimeStamp challenge) =
     respond Op_SecureClockGenerateTimeStamp Rsp_SecureClockGenerateTimeStamp (st_check (generate_timestamp C V challenge))"
| "process_req R C V Req_DeviceGetHardwareInfo =
     respond Op_DeviceGetHardwareInfo Rsp_DeviceGetHardwareInfo (st_ret (get_hardware_info C))"
| "process_req R C V (Req_DeviceAddRngEntropy data) =
     respond Op_DeviceAddRngEntropy (\<lambda>_. Rsp_DeviceAddRngEntropy) (add_rng_entropy C data)"
| "process_req R C V (Req_DeviceGenerateKey key_params attestation_key) =
     respond Op_DeviceGenerateKey Rsp_DeviceGenerateKey (generate_key C key_params attestation_key)"
| "process_req R C V (Req_DeviceImportKey key_params key_format key_data attestation_key) =
     respond Op_DeviceImportKey Rsp_DeviceImportKey (import_key C key_params key_format key_data attestation_key Import_NonWrapped)"
| "process_req R C V (Req_DeviceImportWrappedKey data wrapping_key_blob masking_key params password_sid biometric_sid) =
     respond Op_DeviceImportWrappedKey Rsp_DeviceImportWrappedKey
       (import_wrapped_key C data wrapping_key_blob masking_key params password_sid biometric_sid)"
| "process_req R C V (Req_DeviceUpgradeKey key_blob params) =
     respond Op_DeviceUpgradeKey Rsp_DeviceUpgradeKey (upgrade_key C key_blob params)"
| "process_req R C V (Req_DeviceDeleteKey key_blob) =
     respond Op_DeviceDeleteKey (\<lambda>_. Rsp_DeviceDeleteKey) (delete_key C key_blob)"
| "process_req R C V Req_DeviceDeleteAllKeys =
     respond Op_DeviceDeleteAllKeys (\<lambda>_. Rsp_DeviceDeleteAllKeys) (delete_all_keys C)"
| "process_req R C V Req_DeviceDestroyAttestationIds =
     respond Op_DeviceDestroyAttestationIds (\<lambda>_. Rsp_DeviceDestroyAttestationIds) (destroy_attestation_ids C)"
| "process_req R C V (Req_DeviceBegin purpose key_blob params auth_token) =
     (\<lambda>T. map_option (answer Op_DeviceBegin Rsp_DeviceBegin) (begin_operation C V purpose key_blob params auth_token T))"
| "process_req R C V Req_DeviceEarlyBootEnded =
     respond Op_DeviceEarlyBootEnded (\<lambda>_. Rsp_DeviceEarlyBootEnded) early_boot_ended"
| "process_req R C V (Req_DeviceConvertStorageKeyToEphemeral key_blob) =
     respond Op_DeviceConvertStorageKeyToEphemeral Rsp_DeviceConvertStorageKeyToEphemeral
       (st_check (convert_storage_key_to_ephemeral C key_blob))"
| "process_req R C V (Req_DeviceGetKeyCharacteristics key_blob app_id app_data) =
     respond Op_DeviceGetKeyCharacteristics Rsp_DeviceGetKeyCharacteristics (st_check (get_key_characteristics C key_blob app_id app_data))"
| "process_req R C V Req_GetRootOfTrustChallenge =
     respond Op_GetRootOfTrustChallenge Rsp_GetRootOfTrustChallenge (get_root_of_trust_challenge C)"
| "process_req R C V (Req_GetRootOfTrust challenge) =
     respond Op_GetRootOfTrust Rsp_GetRootOfTrust (st_check (get_root_of_trust C challenge))"
| "process_req R C V (Req_SendRootOfTrust rot_msg) =
     respond Op_SendRootOfTrust (\<lambda>_. Rsp_SendRootOfTrust) (send_root_of_trust C rot_msg)"
| "process_req R C V (Req_SetAdditionalAttestationInfo info) =
     respond Op_SetAdditionalAttestationInfo (\<lambda>_. Rsp_SetAdditionalAttestationInfo) (set_additional_attestation_info info)"
| "process_req R C V (Req_OperationUpdateAad h data auth_token timestamp_token) =
     respond Op_OperationUpdateAad (\<lambda>_. Rsp_OperationUpdateAad) (op_update_aad C h data auth_token timestamp_token)"
| "process_req R C V (Req_OperationUpdate h data auth_token timestamp_token) =
     respond Op_OperationUpdate Rsp_OperationUpdate (op_update C V h data auth_token timestamp_token)"
| "process_req R C V (Req_OperationFinish h data signature auth_token timestamp_token confirmation_token) =
     respond Op_OperationFinish Rsp_OperationFinish
       (op_finish C V h data signature auth_token timestamp_token confirmation_token)"
| "process_req R C V (Req_OperationAbort h) =
     respond Op_OperationAbort (\<lambda>_. Rsp_OperationAbort) (op_abort h)"
| "process_req R C V Req_RpcGetHardwareInfo =
     respond Op_RpcGetHardwareInfo Rsp_RpcGetHardwareInfo (st_ret (get_rpc_hardware_info C))"
| "process_req R C V (Req_RpcGenerateEcdsaP256KeyPair test_mode) =
     respond Op_RpcGenerateEcdsaP256KeyPair (\<lambda>(pubkey, ret). Rsp_RpcGenerateEcdsaP256KeyPair pubkey ret)
       (generate_ecdsa_p256_keypair R C test_mode)"
| "process_req R C V (Req_RpcGenerateCertificateRequest test_mode keys eek_chain challenge) =
     respond Op_RpcGenerateCertificateRequest
       (\<lambda>(device_info, protected_data, ret). Rsp_RpcGenerateCertificateRequest \<lparr>di_device_info = device_info\<rparr>
          \<lparr>pd_protected_data = protected_data\<rparr> ret) (generate_cert_req C)"
| "process_req R C V (Req_RpcGenerateCertificateV2Request keys challenge) =
     respond Op_RpcGenerateCertificateV2Request Rsp_RpcGenerateCertificateV2Request (generate_cert_req_v2 R C keys challenge)"

section \<open>The type of a response\<close>

definition response_typed :: "keymint_operation \<Rightarrow> perform_op_response \<Rightarrow> bool" where
  "response_typed op resp \<longleftrightarrow>
     (case por_rsp resp of
        Some rsp \<Rightarrow> por_error_code resp = 0 \<and> rsp_code rsp = op
      | None \<Rightarrow> if is_rpc_operation op then por_error_code resp \<in> range rpc_error_code_i32 else por_error_code resp \<in> range error_code_i32)"

lemma ok_typed [simp]: "response_typed op (op_ok_rsp rsp) \<longleftrightarrow> rsp_code rsp = op"
  by (simp add: response_typed_def op_ok_rsp_def)

lemma error_typed [simp]: "response_typed op (op_error_rsp op e)"
  by (simp add: response_typed_def op_error_rsp_def error_rsp_def)

lemma answer_typed:
  assumes "answer op rsp x = (Ok resp, T)" "\<And>y. rsp_code (rsp y) = op"
  shows "response_typed op resp"
  using assms by (cases x; cases "fst x") auto

text \<open>
  C10: The response to a request has the type that belongs to the request: a positive response carries
  the error code 0 and the payload for this request, so that the HAL service gets it, and a
  negative one has no payload and an error code from the numbering space of the interface that the request
  belongs to.
\<close>

theorem process_req_typed:
  assumes "process_req R C V req T = Some (Ok resp, T')"
  shows "response_typed (req_code req) resp \<and> (\<forall>rsp. por_rsp resp = Some rsp \<longrightarrow> response_outcome (req_code req) resp = Ok rsp)"
proof -
  have "response_typed (req_code req) resp"
  proof (cases req rule: perform_op_req.exhaust)
  qed (use assms in \<open>auto simp: respond_def elim!: answer_typed\<close>)
  then show ?thesis
    by (auto simp: response_typed_def response_outcome_def split: option.splits)
qed

theorem process_req_typed_witness:
  "response_typed Op_DeviceEarlyBootEnded (op_ok_rsp Rsp_DeviceEarlyBootEnded)
   \<and> response_outcome Op_DeviceEarlyBootEnded (op_ok_rsp Rsp_DeviceEarlyBootEnded) = Ok Rsp_DeviceEarlyBootEnded"
  using process_req_typed [of ex_rkp ex_tee ex_env Req_DeviceEarlyBootEnded "ex_ta SecurityLevel_TrustedEnvironment"]
  by (simp add: respond_def early_boot_ended_def) (simp add: op_ok_rsp_def)

section \<open>Sequences of requests\<close>

fun run ::
  "'q rkp_lib \<Rightarrow> ('k, 's, 'r, 'c) ta_conf \<Rightarrow> (ta_env \<times> perform_op_req) list \<Rightarrow> ('k, 's, 'r) ta \<Rightarrow>
   (perform_op_response list \<times> ('k, 's, 'r) ta) option" where
  "run R C [] T = Some ([], T)"
| "run R C ((V, req) # reqs) T = (case process_req R C V req T of
     Some (Ok resp, T') \<Rightarrow> map_option (\<lambda>(resps, T''). (resp # resps, T'')) (run R C reqs T')
   | _ \<Rightarrow> None)"

text \<open>The part of the state that only some requests change.\<close>

definition frame where
  "frame T = (ta_operations T, ta_use_count T, ta_boot_info T, ta_rot_data T, ta_hal_info T, ta_in_early_boot T,
     ta_additional_attestation_info T)"

definition frames :: "(('k, 's, 'r) ta, 'a, 'e) act \<Rightarrow> bool" where
  "frames m \<longleftrightarrow> (\<forall>T. frame (snd (m T)) = frame T)"

lemma framesI: "(\<And>T. frame (snd (m T)) = frame T) \<Longrightarrow> frames m"
  by (simp add: frames_def)

lemma frames_st_then: "frames m \<Longrightarrow> (\<And>x. frames (f x)) \<Longrightarrow> frames (st_then m f)"
proof (rule framesI)
  fix T
  assume m: "frames m" and f: "\<And>x. frames (f x)"
  have "frame (snd (f x T')) = frame T'" for x T'
    using f [of x] by (simp add: frames_def)
  moreover have "frame (snd (m T)) = frame T"
    using m by (simp add: frames_def)
  ultimately show "frame (snd (st_then m f T)) = frame T"
    by (cases "m T"; cases "fst (m T)") (simp_all add: st_then_def)
qed

lemma frames_simple [simp, intro!]: "frames (st_ret r)" "frames (st_get g)" "frames (st_check c)"
  by (simp_all add: frames_def)

lemma frames_st_put: "(\<And>T. frame (h T) = frame T) \<Longrightarrow> frames (st_put h)"
  by (simp add: frames_def)

lemma frames_option:
  "(x = None \<Longrightarrow> frames m) \<Longrightarrow> (\<And>y. x = Some y \<Longrightarrow> frames (f y)) \<Longrightarrow> frames (case x of None \<Rightarrow> m | Some y \<Rightarrow> f y)"
  by (cases x) simp_all

lemma frames_prod: "(\<And>a b. p = (a, b) \<Longrightarrow> frames (f a b)) \<Longrightarrow> frames (case p of (a, b) \<Rightarrow> f a b)"
  by (cases p) simp

lemmas frames_intros = frames_st_then frames_st_put frames_option frames_prod frames_simple

lemma frame_upd [simp]:
  "frame (T\<lparr>ta_store := s\<rparr>) = frame T" "frame (T\<lparr>ta_rng := r\<rparr>) = frame T" "frame (T\<lparr>ta_aidl_version := a\<rparr>) = frame T"
  "frame (T\<lparr>ta_shared_secret_params := p\<rparr>) = frame T" "frame (T\<lparr>ta_attestation_id_info := i\<rparr>) = frame T"
  "frame (T\<lparr>ta_attestation_chain_info := c\<rparr>) = frame T" "frame (T\<lparr>ta_dice_info := d\<rparr>) = frame T"
  "frame (T\<lparr>ta_device_hmac := h\<rparr>) = frame T" "frame (T\<lparr>ta_rot_challenge := rc\<rparr>) = frame T"
  "frame (T\<lparr>ta_presence_required_op := po\<rparr>) = frame T"
  by (simp_all add: frame_def)

lemma frames_lift: "frames (on_store m)" "frames (on_rng n)" "frames (on_store_rng l)"
  by (auto simp: frames_def on_store_def on_rng_def on_store_rng_def split: prod.splits)

lemma frames_core:
  assumes "\<And>v. keeps (\<lambda>T. core T = v) m"
  shows "frames m"
proof (rule framesI)
  fix T
  have "core (snd (m T)) = core T"
    by (rule keepsD [OF assms refl])
  then show "frame (snd (m T)) = frame T"
    using core_eqD [of "snd (m T)" T] by (simp add: frame_def)
qed

section \<open>Requests that keep the frame\<close>

lemma frames_certificates:
  "frames (get_attestation_ids C)" "frames (certificate_chain C params ak chars key)"
  by (rule frames_core, rule get_attestation_ids_keeps certificate_chain_keeps)+

lemma frames_encrypt_keyblob: "frames (encrypt_keyblob C params blob purpose)"
  unfolding encrypt_keyblob_def by (intro frames_intros frames_lift)

lemma frames_finish: "frames (finish_keyblob_creation C params ak chars key purpose)"
  unfolding finish_keyblob_creation_def Let_def by (intro frames_intros frames_certificates frames_encrypt_keyblob)

lemma frames_generate_material: "frames (generate_key_material C params)"
  unfolding generate_key_material_def by (intro frames_intros frames_lift)

lemma frames_import_key: "frames (import_key C params fmt data ak it)"
  unfolding import_key_def by (intro frames_intros frames_finish)

lemma frames_keys:
  "frames (generate_key C params ak)" "frames (import_key C params fmt data ak it)"
  "frames (import_wrapped_key C data blob masking params p b)" "frames (upgrade_key C blob params)"
  unfolding generate_key_def import_wrapped_key_def upgrade_key_def
  by (intro frames_intros frames_finish frames_generate_material frames_import_key frames_encrypt_keyblob
    | simp add: frames_encrypt_keyblob)+

lemma frames_get_dice_info: "frames (get_dice_info C)"
  by (auto simp: frames_def get_dice_info_def split: option.splits res.splits)

lemma frames_device_info: "frames (rpc_device_info_cbor C)"
  unfolding rpc_device_info_cbor_def by (intro frames_intros frames_certificates)

lemma frames_rkp:
  "frames (generate_ecdsa_p256_keypair R C test_mode)" "frames (generate_cert_req C)" "frames (generate_cert_req_v2 R C keys challenge)"
  unfolding generate_ecdsa_p256_keypair_def generate_cert_req_def generate_cert_req_v2_def rpc_device_info_def
  by (intro frames_intros frames_finish frames_generate_material frames_device_info frames_get_dice_info)+

lemma ignore_err_snd [simp]: "snd (ignore_err x) = snd x"
  by (cases x; cases "fst x") auto

lemma frames_device:
  "frames (get_shared_secret_params C)" "frames (compute_shared_secret C sps)" "frames (add_rng_entropy C data)"
  "frames (delete_key C blob)" "frames (delete_all_keys C)" "frames (destroy_attestation_ids C)" "frames (set_hal_version C v)"
  "frames (get_root_of_trust_challenge C)" "frames (st_put (set_attestation_ids C ids))"
proof -
  have on_store: "frame (snd (on_store m T)) = frame T" for m T
    by (simp add: on_store_def split: prod.split)
  show "frames (get_shared_secret_params C)" "frames (add_rng_entropy C data)" "frames (delete_key C blob)" "frames (delete_all_keys C)"
    "frames (destroy_attestation_ids C)" "frames (set_hal_version C v)" "frames (get_root_of_trust_challenge C)"
    "frames (st_put (set_attestation_ids C ids))"
    by (auto simp: frames_def get_shared_secret_params_def add_rng_entropy_def delete_key_def delete_all_keys_def
      destroy_attestation_ids_def set_hal_version_def get_root_of_trust_challenge_def set_attestation_ids_def Let_def on_store
      split: option.splits prod.splits res.splits encrypted_key_blob.splits)
  show "frames (compute_shared_secret C sps)"
    unfolding compute_shared_secret_def by (intro frames_intros) simp
qed

end
