(* ===== verification/Ta_Runs.thy ===== *)
theory Ta_Runs
  imports Ta_Process "HOL-Library.Sublist"
begin

text \<open>
  What holds in every state of a trusted application that can be reached by requests, what no request can
  undo, and how often a key can be used during one boot.
\<close>

section \<open>Counting uses\<close>

fun uses_in :: "bytes \<Rightarrow> use_count option list \<Rightarrow> nat" where
  "uses_in key [] = 0"
| "uses_in key (None # slots) = uses_in key slots"
| "uses_in key (Some uc # slots) = (if uc_key_id uc = key then unat (uc_count uc) else uses_in key slots)"

definition uses :: "bytes \<Rightarrow> ('k, 's, 'r) ta \<Rightarrow> nat" where
  "uses key T = uses_in key (ta_use_count T)"

definition is_key :: "bytes \<Rightarrow> use_count option \<Rightarrow> bool" where
  "is_key key slot \<longleftrightarrow> (case slot of Some uc \<Rightarrow> uc_key_id uc = key | None \<Rightarrow> False)"

lemma use_count_scan_found:
  "use_count_scan key i slots free = (fr, Some j) \<Longrightarrow>
   \<exists>k uc. j = i + k \<and> k < length slots \<and> slots ! k = Some uc \<and> uc_key_id uc = key \<and> (\<forall>l < k. \<not> is_key key (slots ! l))"
proof (induction slots arbitrary: i free)
  case (Cons slot slots)
  show ?case
  proof (cases "is_key key slot")
    case True
    then show ?thesis
      using Cons.prems by (intro exI [of _ 0]) (auto simp: is_key_def split: option.splits)
  next
    case False
    then obtain k uc where "j = Suc i + k" "k < length slots" "slots ! k = Some uc" "uc_key_id uc = key"
      "\<forall>l < k. \<not> is_key key (slots ! l)"
      using Cons by (fastforce simp: is_key_def split: option.splits)
    then show ?thesis
      using False by (intro exI [of _ "Suc k"]) (auto simp: nth_Cons split: nat.split)
  qed
qed simp

lemma use_count_scan_none: "use_count_scan key i slots free = (fr, None) \<Longrightarrow> slot \<in> set slots \<Longrightarrow> \<not> is_key key slot"
  by (induction slots arbitrary: i free) (auto simp: is_key_def split: option.splits if_splits)

lemma use_count_scan_free:
  "use_count_scan key i slots free = (Some j, None) \<Longrightarrow> free \<noteq> Some j \<Longrightarrow> \<exists>k. j = i + k \<and> k < length slots \<and> slots ! k = None"
proof (induction slots arbitrary: i free)
  case (Cons slot slots)
  show ?case
  proof (cases "slot = None \<and> free = None \<and> j = i")
    case True
    then show ?thesis
      by (intro exI [of _ 0]) simp
  next
    case False
    then obtain k where "j = Suc i + k" "k < length slots" "slots ! k = None"
      using Cons.IH [of "Suc i" "if slot = None \<and> free = None then Some i else free"] Cons.prems
      by (auto split: option.splits if_splits)
    then show ?thesis
      by (intro exI [of _ "Suc k"]) simp
  qed
qed simp

lemma uses_in_none: "\<forall>slot \<in> set slots. \<not> is_key key slot \<Longrightarrow> uses_in key slots = 0"
  by (induction key slots rule: uses_in.induct) (auto simp: is_key_def)

lemma uses_in_found:
  assumes "k < length slots" "slots ! k = Some uc" "uc_key_id uc = key" "\<forall>l < k. \<not> is_key key (slots ! l)"
  shows "uses_in key slots = unat (uc_count uc)"
  using assms
proof (induction key slots arbitrary: k rule: uses_in.induct)
  case (2 key slots)
  then obtain k' where "k = Suc k'"
    by (cases k) auto
  then show ?case
    using "2.IH" [of k'] "2.prems" by (auto simp: nth_Cons split: nat.splits)
next
  case (3 key c slots)
  show ?case
  proof (cases k)
    case 0
    then show ?thesis
      using "3.prems" by auto
  next
    case (Suc k')
    then have "uc_key_id c \<noteq> key"
      using "3.prems"(4) by (auto simp: is_key_def)
    moreover have "\<not> is_key key (slots ! l)" if "l < k'" for l
      using "3.prems"(4) Suc that by (metis Suc_less_eq nth_Cons_Suc)
    ultimately show ?thesis
      using "3.IH" [of k'] "3.prems" Suc by simp
  qed
qed simp

lemma uses_in_other:
  "k < length slots \<Longrightarrow> \<not> is_key key (slots ! k) \<Longrightarrow> \<not> is_key key slot \<Longrightarrow> uses_in key (slots[k := slot]) = uses_in key slots"
proof (induction slots arbitrary: k)
  case (Cons s slots)
  then show ?case
    by (cases k; cases s; cases slot) (auto simp: is_key_def)
qed simp

text \<open>The slot that a use is counted in, and what was counted before.\<close>

lemma update_use_count_slot:
  obtains (found) k uc where "k < length (ta_use_count T)" "ta_use_count T ! k = Some uc" "uc_key_id uc = key"
      "\<forall>l < k. \<not> is_key key (ta_use_count T ! l)" "update_use_count key n T = count_use n k uc T"
  | (fresh) k where "k < length (ta_use_count T)" "ta_use_count T ! k = None" "\<forall>slot \<in> set (ta_use_count T). \<not> is_key key slot"
      "update_use_count key n T = count_use n k \<lparr>uc_key_id = key, uc_count = 0\<rparr>
         (T\<lparr>ta_use_count := (ta_use_count T)[k := Some \<lparr>uc_key_id = key, uc_count = 0\<rparr>]\<rparr>)"
  | (full) "update_use_count key n T = (Err (Hal TooManyOperations), T)"
proof (cases "use_count_scan key 0 (ta_use_count T) None")
  case (Pair fr found)
  show thesis
  proof (cases found)
    case (Some j)
    obtain k uc where "j = k" "k < length (ta_use_count T)" "ta_use_count T ! k = Some uc" "uc_key_id uc = key"
      "\<forall>l < k. \<not> is_key key (ta_use_count T ! l)"
      using use_count_scan_found [of key 0 "ta_use_count T" None fr j] Pair Some by auto
    then show thesis
      by (intro that(1) [of k uc]) (use Pair Some in \<open>simp_all add: update_use_count_def split: option.split\<close>)
  next
    case None
    then have none: "\<forall>slot \<in> set (ta_use_count T). \<not> is_key key slot"
      using use_count_scan_none Pair by blast
    show thesis
    proof (cases fr)
      case (Some j)
      then have "j < length (ta_use_count T)" "ta_use_count T ! j = None"
        using use_count_scan_free [of key 0 "ta_use_count T" None j] Pair None by auto
      then show thesis
        using that(2) none Pair None Some by (simp add: update_use_count_def Let_def)
    qed (use that(3) Pair None in \<open>simp add: update_use_count_def\<close>)
  qed
qed

definition keeps_uses :: "('k, 's, 'r) ta \<Rightarrow> ('k, 's, 'r) ta \<Rightarrow> bool" where
  "keeps_uses T T' \<longleftrightarrow> (\<forall>key. uses key T \<le> uses key T') \<and> length (ta_use_count T') = length (ta_use_count T)"

lemma count_up:
  assumes "\<not> unat (n :: u32) \<le> unat (c :: u64)"
  shows "unat (c + 1) = Suc (unat c)"
proof -
  have "unat n < 2 ^ LENGTH(32)"
    by (rule unsigned_less)
  then have "unat c < 2 ^ 32"
    using assms by simp
  then show ?thesis
    by (simp add: unat_word_ariths)
qed

lemma same_uses: "\<exists>slots. T = T\<lparr>ta_use_count := slots\<rparr>"
  by (rule exI [of _ "ta_use_count T"]) simp

lemma update_use_count_shape: "\<exists>slots. snd (update_use_count key n T) = T\<lparr>ta_use_count := slots\<rparr>"
proof (cases rule: update_use_count_slot [of T key n])
  case (found k uc)
  then show ?thesis
    by (cases "unat n \<le> unat (uc_count uc)") (auto simp: count_use_def same_uses)
next
  case (fresh k)
  then show ?thesis
    by (cases "unat n = 0") (auto simp: count_use_def)
qed (simp add: same_uses)

lemma update_use_count_effect:
  fixes T :: "('k, 's, 'r) ta"
  shows "keeps_uses T (snd (update_use_count key n T))
    \<and> (fst (update_use_count key n T) = Ok u \<longrightarrow>
        uses key T < unat n \<and> uses key (snd (update_use_count key n T)) = Suc (uses key T))"
proof (cases rule: update_use_count_slot [of T key n])
  case (found k uc)
  let ?slot = "Some (uc\<lparr>uc_count := uc_count uc + 1\<rparr>)"
  have before: "uses key T = unat (uc_count uc)"
    unfolding uses_def by (rule uses_in_found [OF found(1-4)])
  show ?thesis
  proof (cases "unat n \<le> unat (uc_count uc)")
    case True
    then have "update_use_count key n T = (Err (Hal KeyMaxOpsExceeded), T)"
      using found(5) by (simp add: count_use_def)
    then show ?thesis
      by (simp add: keeps_uses_def)
  next
    case False
    have "uses_in key ((ta_use_count T)[k := ?slot]) = Suc (unat (uc_count uc))"
      using found count_up [OF False] by (subst uses_in_found [of k _ "uc\<lparr>uc_count := uc_count uc + 1\<rparr>"]) (auto simp: nth_list_update)
    moreover have "uses_in key' ((ta_use_count T)[k := ?slot]) = uses_in key' (ta_use_count T)" if "key' \<noteq> key" for key'
      using found that by (intro uses_in_other) (auto simp: is_key_def)
    ultimately have "uses_in key' (ta_use_count T) \<le> uses_in key' ((ta_use_count T)[k := ?slot])" for key'
      using before by (cases "key' = key") (auto simp: uses_def)
    then show ?thesis
      using False found(5) before \<open>uses_in key _ = Suc _\<close> by (auto simp: count_use_def keeps_uses_def uses_def)
  qed
next
  case (fresh k)
  let ?slot = "\<lambda>c. Some \<lparr>uc_key_id = key, uc_count = c\<rparr>"
  have before: "uses key T = 0"
    unfolding uses_def by (rule uses_in_none [OF fresh(3)])
  have own: "uses_in key ((ta_use_count T)[k := ?slot c]) = unat c" for c
    using fresh by (subst uses_in_found [of k _ "\<lparr>uc_key_id = key, uc_count = c\<rparr>"]) (auto simp: nth_list_update)
  have other: "uses_in key' ((ta_use_count T)[k := ?slot c]) = uses_in key' (ta_use_count T)" if "key' \<noteq> key" for key' c
    using fresh that by (intro uses_in_other) (auto simp: is_key_def)
  have mono: "uses_in key' (ta_use_count T) \<le> uses_in key' ((ta_use_count T)[k := ?slot c])" for key' c
    using before other by (cases "key' = key") (auto simp: uses_def)
  show ?thesis
  proof (cases "unat n = 0")
    case True
    then show ?thesis
      using mono by (simp add: fresh(4) count_use_def keeps_uses_def uses_def)
  next
    case False
    then show ?thesis
      using before own [of 1] mono by (simp add: fresh(4) count_use_def keeps_uses_def uses_def)
  qed
next
  case full
  then show ?thesis
    by (simp add: keeps_uses_def)
qed

section \<open>What holds in every state\<close>

text \<open>
  The tables keep their sizes and no two operations have the same handle; the root of trust that key
  blobs are bound to is the one of the boot information; and there is at most one value of each kind of
  additional attestation information.
\<close>

definition ta_inv :: "('k, 's, 'r, 'c) ta_conf \<Rightarrow> ('k, 's, 'r) ta \<Rightarrow> bool" where
  "ta_inv C T \<longleftrightarrow>
     length (ta_operations T) = (if is_strongbox C then MAX_STRONGBOX_OPERATIONS else MAX_TEE_OPERATIONS)
   \<and> length (ta_use_count T) = MAX_USE_COUNTED_KEYS \<and> handles_distinct (ta_operations T)
   \<and> (\<forall>d. ta_rot_data T = Some d \<longrightarrow> (\<exists>b. ta_boot_info T = Some b \<and>
        into_vec (tc_cbor C) root_of_trust_info_to_cbor (rot_info_of b) = Ok d))
   \<and> distinct (map key_param_tag (ta_additional_attestation_info T))
   \<and> key_param_tag ` set (ta_additional_attestation_info T) \<subseteq> set ALLOWED_ADDITIONAL_ATTESTATION_TAGS"

text \<open>What no request undoes.\<close>

definition latched :: "('k, 's, 'r) ta \<Rightarrow> ('k, 's, 'r) ta \<Rightarrow> bool" where
  "latched T T' \<longleftrightarrow>
     (ta_boot_info T \<noteq> None \<longrightarrow> ta_boot_info T' = ta_boot_info T)
   \<and> (ta_hal_info T \<noteq> None \<longrightarrow> ta_hal_info T' = ta_hal_info T) \<and> (ta_in_early_boot T' \<longrightarrow> ta_in_early_boot T)
   \<and> prefix (ta_additional_attestation_info T) (ta_additional_attestation_info T') \<and> (\<forall>key. uses key T \<le> uses key T')"

definition good_step :: "('k, 's, 'r, 'c) ta_conf \<Rightarrow> ('k, 's, 'r) ta \<Rightarrow> ('k, 's, 'r) ta \<Rightarrow> bool" where
  "good_step C T T' \<longleftrightarrow> latched T T' \<and>
     (ta_inv C T \<longrightarrow> ta_inv C T' \<and> (ta_rot_data T \<noteq> None \<longrightarrow> ta_rot_data T' = ta_rot_data T))"

lemma latched_trans:
  assumes "latched T T'" "latched T' T''"
  shows "latched T T''"
proof -
  have "uses key T \<le> uses key T''" for key
    using assms le_trans [of "uses key T" "uses key T'" "uses key T''"] by (simp add: latched_def)
  moreover have "prefix (ta_additional_attestation_info T) (ta_additional_attestation_info T'')"
    using assms by (auto simp: latched_def intro: prefix_order.order_trans)
  ultimately show ?thesis
    using assms by (auto simp: latched_def)
qed

lemma good_step_trans: "good_step C T T' \<Longrightarrow> good_step C T' T'' \<Longrightarrow> good_step C T T''"
  by (auto simp: good_step_def intro: latched_trans)

lemma good_step_refl [simp]: "good_step C T T"
  by (simp add: good_step_def latched_def)

lemma frame_good_step: "frame T' = frame T \<Longrightarrow> good_step C T T'"
  by (simp add: frame_def good_step_def latched_def ta_inv_def uses_def)

lemma frames_good_step: "frames m \<Longrightarrow> good_step C T (snd (m T))"
  by (intro frame_good_step) (simp add: frames_def)

lemma good_step_st_then:
  "good_step C T (snd (m T)) \<Longrightarrow> (\<And>x T'. m T = (Ok x, T') \<Longrightarrow> good_step C T' (snd (f x T'))) \<Longrightarrow> good_step C T (snd (st_then m f T))"
  by (cases "m T"; cases "fst (m T)") (auto simp: st_then_def intro: good_step_trans)

lemma good_step_operations:
  "length ops = length (ta_operations T) \<Longrightarrow> (handles_distinct (ta_operations T) \<Longrightarrow> handles_distinct ops) \<Longrightarrow>
   good_step C T (T\<lparr>ta_operations := ops\<rparr>)"
  by (simp add: good_step_def latched_def ta_inv_def uses_def)

lemma good_step_presence: "good_step C T (T\<lparr>ta_presence_required_op := p\<rparr>)"
  by (rule frame_good_step) simp

lemma good_step_clear: "good_step C T (clear_presence h T)"
  by (simp add: clear_presence_def good_step_presence)

lemma good_step_remove: "good_step C T (set_op i None T)"
  unfolding set_op_def by (rule good_step_operations) (simp_all add: handles_distinct_remove)

section \<open>Every request is a good step\<close>

definition good :: "('k, 's, 'r, 'c) ta_conf \<Rightarrow> (('k, 's, 'r) ta, 'a, 'e) act \<Rightarrow> bool" where
  "good C m \<longleftrightarrow> (\<forall>T. good_step C T (snd (m T)))"

lemma goodI: "(\<And>T. good_step C T (snd (m T))) \<Longrightarrow> good C m"
  by (simp add: good_def)

lemma goodD: "good C m \<Longrightarrow> good_step C T (snd (m T))"
  by (simp add: good_def)

lemma good_frames: "frames m \<Longrightarrow> good C m"
  by (simp add: good_def frames_good_step)

lemma good_st_then: "good C m \<Longrightarrow> (\<And>x. good C (f x)) \<Longrightarrow> good C (st_then m f)"
  by (intro goodI good_step_st_then) (simp_all add: good_def)

lemma good_st_put: "(\<And>T. good_step C T (h T)) \<Longrightarrow> good C (st_put h)"
  by (simp add: good_def)

lemma good_simple: "good C (st_ret r)" "good C (st_get g)" "good C (st_check c)"
  by (simp_all add: good_def)

lemma good_option:
  "(x = None \<Longrightarrow> good C m) \<Longrightarrow> (\<And>y. x = Some y \<Longrightarrow> good C (f y)) \<Longrightarrow> good C (case x of None \<Rightarrow> m | Some y \<Rightarrow> f y)"
  by (cases x) simp_all

lemma good_prod: "(\<And>a b. p = (a, b) \<Longrightarrow> good C (f a b)) \<Longrightarrow> good C (case p of (a, b) \<Rightarrow> f a b)"
  by (cases p) simp

lemmas good_intros = good_st_then good_st_put good_option good_prod good_simple

lemma good_update_use_count: "good C (update_use_count key n)"
proof (rule goodI)
  fix T :: "('a, 'b, 'c) ta"
  obtain slots where T': "snd (update_use_count key n T) = T\<lparr>ta_use_count := slots\<rparr>"
    using update_use_count_shape by blast
  have "keeps_uses T (T\<lparr>ta_use_count := slots\<rparr>)"
    using update_use_count_effect [of T key n "()"] unfolding T' by blast
  then show "good_step C T (snd (update_use_count key n T))"
    unfolding T' by (simp add: keeps_uses_def good_step_def latched_def ta_inv_def)
qed

lemma good_begin_checks: "good C (begin_checks C V purpose blob params tok)"
  unfolding begin_checks_def check_begin_auths_def by (intro good_intros good_update_use_count)

lemma good_begin:
  assumes "begin_operation C V purpose blob params tok T = Some out"
  shows "good_step C T (snd out)"
proof (cases "begin_checks C V purpose blob params tok T")
  case (Pair res T1)
  have T1: "good_step C T T1"
    using goodD [OF good_begin_checks [of C V purpose blob params tok], of T] Pair by simp
  show ?thesis
  proof (cases res)
    case (Ok b)
    then obtain h r where h: "new_op_handle (ci_fill (tc_imp C)) (ta_operations T1) (ta_rng T1) = Some (h, r)"
      and out: "out = st_then (on_rng (begin_crypto (tc_imp C) purpose (bg_key_material b) (bg_key_chars b) params))
         (install_operation b h) (T1\<lparr>ta_rng := r\<rparr>)"
      using assms Pair by (auto simp: begin_operation_def opt_then_def split: option.splits prod.splits)
    have "good_step C T1 (snd out)"
      unfolding out
    proof (rule good_step_trans)
      show "good_step C T1 (T1\<lparr>ta_rng := r\<rparr>)"
        by (rule frame_good_step) simp
      show "good_step C (T1\<lparr>ta_rng := r\<rparr>) (snd (st_then (on_rng (begin_crypto (tc_imp C) purpose (bg_key_material b) (bg_key_chars b) params))
         (install_operation b h) (T1\<lparr>ta_rng := r\<rparr>)))"
      proof (rule good_step_st_then)
        fix x T'
        assume "on_rng (begin_crypto (tc_imp C) purpose (bg_key_material b) (bg_key_chars b) params) (T1\<lparr>ta_rng := r\<rparr>) = (Ok x, T')"
        then have "ta_operations T' = ta_operations T1"
          by (auto simp: on_rng_eq)
        then have "good_step C T' (set_op i (Some op) T')" if "op_handle op = h" for i and op :: "'a operation"
          using new_op_handle_fresh [OF h] that unfolding set_op_def
          by (intro good_step_operations) (auto intro: handles_distinct_add)
        then show "good_step C T' (snd (install_operation b h x T'))"
          unfolding install_operation_def
          by (auto simp: st_then_def split: prod.splits intro: good_step_trans [OF _ good_step_presence])
      qed (rule frames_good_step [OF frames_lift(2)])
    qed
    then show ?thesis
      by (rule good_step_trans [OF T1])
  qed (use assms Pair T1 in \<open>auto simp: begin_operation_def opt_then_def\<close>)
qed

lemma good_with_authed:
  assumes "\<And>op x op'. f op = Ok (x, op') \<Longrightarrow> op_handle op' = op_handle op"
  shows "good C (with_authed_operation C' h tok ts f)"
proof (rule goodI)
  fix T
  show "good_step C T (snd (with_authed_operation C' h tok ts f T))"
  proof (cases "op_at T h")
    case (Ok p)
    obtain i op where p: "p = (i, op)"
      by (cases p)
    note at = op_at_Ok [of T h i op]
    have set: "good_step C T (set_op i (Some op') T)" if "op_handle op' = op_handle op" for op'
      unfolding set_op_def using at Ok p that by (intro good_step_operations) (auto intro: handles_distinct_replace)
    have gone: "good_step C T (set_op i None (clear_presence h T))"
      by (rule good_step_trans [OF good_step_clear good_step_remove])
    have run: "good_step C T (snd (case f op1 of Ok (x, op) \<Rightarrow> (Ok x, set_op i (Some op) T)
        | Err e \<Rightarrow> (Err e, set_op i None (clear_presence h T)) | Panic \<Rightarrow> (Panic, T)))" if op1: "op_handle op1 = op_handle op" for op1
    proof (cases "f op1")
      case (Ok y)
      obtain x op2 where y: "y = (x, op2)"
        by (cases y)
      then have "op_handle op2 = op_handle op"
        using assms [of op1 x op2] op1 Ok by simp
      then show ?thesis
        by (simp add: Ok y set)
    qed (simp_all add: gone)
    show ?thesis
    proof (cases "check_subsequent_auth C' T op tok ts")
      case (Ok b)
      then show ?thesis
        using run [of "if b then op else op\<lparr>op_auth_info := None\<rparr>"]
        by (simp add: with_authed_operation_def st_then_def \<open>op_at T h = Ok p\<close> p)
    qed (simp_all add: with_authed_operation_def st_then_def \<open>op_at T h = Ok p\<close> p)
  qed (simp_all add: with_authed_operation_def st_then_def)
qed

lemma check_size_handle: "check_size imp n op = Ok op' \<Longrightarrow> op_handle op' = op_handle op"
  by (auto simp: check_size_def Let_def split: option.splits if_splits crypto_operation.splits)

lemma add_conf_data_handle: "add_conf_data data op = Ok op' \<Longrightarrow> op_handle op' = op_handle op"
  by (auto simp: add_conf_data_def split: option.splits if_splits)

lemma update_body_handle: "update_body imp p data op = Ok (x, op') \<Longrightarrow> op_handle op' = op_handle op"
  by (auto simp: update_body_def res_simps dest!: check_size_handle add_conf_data_handle)

lemma update_aad_body_handle: "update_aad_body imp data op = Ok (x, op') \<Longrightarrow> op_handle op' = op_handle op"
  by (auto simp: update_aad_body_def map_ok_eq split: if_splits crypto_operation.splits)

lemma good_take: "good C (take_operation h)"
  by (rule goodI) (auto simp: take_operation_def st_then_def good_step_remove split: res.split prod.split)

lemma good_operations:
  "good C (op_update_aad C' h data tok ts)" "good C (op_update C' V h data tok ts)"
  "good C (op_finish C' V h fdata sig tok ts conf)" "good C (op_abort h)"
proof -
  show "good C (op_update_aad C' h data tok ts)"
    unfolding op_update_aad_def by (rule good_with_authed) (rule update_aad_body_handle)
  show "good C (op_update C' V h data tok ts)"
    unfolding op_update_def by (intro good_intros good_step_clear good_with_authed) (rule update_body_handle)
  have "frames (\<lambda>T. case (slot, mgr) of (Some slot, Some sdd_mgr) \<Rightarrow> ignore_err (on_store (sm_delete_secret sdd_mgr slot) T)
      | _ \<Rightarrow> (Ok (), T))" for slot mgr
    by (auto simp: frames_def on_store_def split: option.split prod.split)
  then show "good C (op_finish C' V h fdata sig tok ts conf)"
    unfolding op_finish_def by (intro good_intros good_take good_step_clear good_frames)
  show "good C (op_abort h)"
    unfolding op_abort_def by (intro good_intros good_take good_step_clear)
qed

lemma good_boot:
  "good C (set_boot_info C b)" "good C (st_put (set_hal_info hi))" "good C early_boot_ended" "good C (send_root_of_trust C m)"
proof -
  show "good C (set_boot_info C b)"
    by (rule goodI) (auto simp: set_boot_info_def Let_def good_step_def latched_def ta_inv_def uses_def split: option.split res.split)
  show "good C (st_put (set_hal_info hi))" "good C early_boot_ended"
    by (auto simp: good_def set_hal_info_def early_boot_ended_def good_step_def latched_def ta_inv_def uses_def)
  show "good C (send_root_of_trust C m)"
    unfolding send_root_of_trust_def
    by (intro good_intros) (auto simp: good_step_def latched_def ta_inv_def uses_def)
qed

lemma good_additional: "good C (set_additional_attestation_info info)"
proof (rule goodI)
  fix T
  show "good_step C T (snd (set_additional_attestation_info info T))"
  proof (induction info T rule: set_additional_attestation_info.induct)
    case (2 param info T)
    have "good_step C T (T\<lparr>ta_additional_attestation_info := ta_additional_attestation_info T @ [param]\<rparr>)"
      if "key_param_tag param \<in> set ALLOWED_ADDITIONAL_ATTESTATION_TAGS"
        "find (\<lambda>x. key_param_tag x = key_param_tag param) (ta_additional_attestation_info T) = None"
      using that by (auto simp: good_step_def latched_def ta_inv_def uses_def find_None_iff)
    then show ?case
      using 2 by (auto simp: Let_def split: option.split intro: good_step_trans)
  qed simp
qed

lemma answer_snd [simp]: "snd (answer op rsp x) = snd x"
  by (cases x; cases "fst x") auto

lemma respond_good: "good C m \<Longrightarrow> respond op rsp m T = Some out \<Longrightarrow> good_step C T (snd out)"
  by (auto simp: respond_def dest: goodD [of C m T])

lemmas good_requests = good_boot good_additional good_operations
  good_frames [OF frames_device(1)] good_frames [OF frames_device(2)] good_frames [OF frames_device(3)]
  good_frames [OF frames_device(4)] good_frames [OF frames_device(5)] good_frames [OF frames_device(6)]
  good_frames [OF frames_device(7)] good_frames [OF frames_device(8)] good_frames [OF frames_device(9)]
  good_frames [OF frames_keys(1)] good_frames [OF frames_keys(2)] good_frames [OF frames_keys(3)] good_frames [OF frames_keys(4)]
  good_frames [OF frames_rkp(1)] good_frames [OF frames_rkp(2)] good_frames [OF frames_rkp(3)] good_simple

lemma process_req_good:
  assumes "process_req R C V req T = Some out"
  shows "good_step C T (snd out)"
proof (cases req rule: perform_op_req.exhaust)
  case (Req_DeviceBegin purpose blob params tok)
  then show ?thesis
    using assms good_begin by auto
next
  case (Req_SetBootInfo key locked state hash patchlevel)
  then show ?thesis
    using assms by (auto intro: respond_good [rotated] good_st_then good_simple good_boot(1))
qed (use assms in \<open>auto intro: respond_good [rotated] good_requests\<close>)

section \<open>Reachable states\<close>

inductive reachable :: "'q rkp_lib \<Rightarrow> ('k, 's, 'r, 'c) ta_conf \<Rightarrow> ('k, 's, 'r) ta \<Rightarrow> bool" for R C where
  initial: "reachable R C (ta_new C s r)"
| request: "reachable R C T \<Longrightarrow> process_req R C V req T = Some (Ok resp, T') \<Longrightarrow> reachable R C T'"

lemma ta_new_inv: "ta_inv C (ta_new C s r)"
proof -
  have "replicate n None ! i = None" if "i < n" for n i
    using that by simp
  then show ?thesis
    by (auto simp: ta_inv_def ta_new_def is_strongbox_def handles_distinct_def)
qed

lemma reachable_inv: "reachable R C T \<Longrightarrow> ta_inv C T"
proof (induction rule: reachable.induct)
  case (request T V req resp T')
  then show ?case
    using process_req_good [OF request.hyps(2)] by (simp add: good_step_def)
qed (rule ta_new_inv)

lemma run_Cons_Some:
  assumes "run R C ((V, req) # reqs) T = Some (resps, T')"
  obtains resp T1 resps' where "process_req R C V req T = Some (Ok resp, T1)" "run R C reqs T1 = Some (resps', T')"
    "resps = resp # resps'"
  using assms by (auto split: option.splits res.splits prod.splits)

lemma run_reachable: "run R C reqs T = Some (resps, T') \<Longrightarrow> reachable R C T \<Longrightarrow> reachable R C T'"
proof (induction reqs arbitrary: T resps)
  case (Cons vr reqs)
  obtain V req where vr: "vr = (V, req)"
    by (cases vr)
  show ?case
    by (rule run_Cons_Some [OF Cons.prems(1) [unfolded vr]]) (use Cons in \<open>auto intro: reachable.request\<close>)
qed simp

lemma run_good: "run R C reqs T = Some (resps, T') \<Longrightarrow> good_step C T T'"
proof (induction reqs arbitrary: T resps)
  case (Cons vr reqs)
  obtain V req where vr: "vr = (V, req)"
    by (cases vr)
  obtain resp T1 resps' where step: "process_req R C V req T = Some (Ok resp, T1)" and rest: "run R C reqs T1 = Some (resps', T')"
    by (rule run_Cons_Some [OF Cons.prems [unfolded vr]])
  show ?case
    using process_req_good [OF step] Cons.IH [OF rest] by (auto intro: good_step_trans)
qed simp

text \<open>
  C9: In every state that a trusted application can reach, and across all later requests: the tables of
  operations and of counted keys keep their sizes, no two operations share a handle, the root of trust
  that key blobs are bound to is that of the boot information, and the additional attestation
  information has at most one value of each kind. Boot information, root of trust and HAL
  information, once set, never change, early boot never starts again, additional attestation
  information is never changed or removed, and no use count goes down.
\<close>

theorem reachable_states:
  assumes "reachable R C T" "run R C reqs T = Some (resps, T')"
  shows "ta_inv C T' \<and> latched T T' \<and> (ta_rot_data T \<noteq> None \<longrightarrow> ta_rot_data T' = ta_rot_data T)"
  using run_good [OF assms(2)] reachable_inv [OF assms(1)] by (simp add: good_step_def)

theorem reachable_states_witness:
  "\<exists>T'. run ex_rkp ex_tee [(ex_env, Req_SetHalInfo 15 202401 20240101), (ex_env, Req_SetHalInfo 16 202402 20240201)]
      (ex_ta SecurityLevel_TrustedEnvironment)
    = Some ([op_ok_rsp Rsp_SetHalInfo, op_ok_rsp Rsp_SetHalInfo], T')
    \<and> ta_inv ex_tee T' \<and> ta_hal_info T' = Some \<lparr>hi_os_version = 15, hi_os_patchlevel = 202401, hi_vendor_patchlevel = 20240101\<rparr>"
proof -
  let ?T = "ex_ta SecurityLevel_TrustedEnvironment"
  let ?T' = "?T\<lparr>ta_hal_info := Some \<lparr>hi_os_version = 15, hi_os_patchlevel = 202401, hi_vendor_patchlevel = 20240101\<rparr>\<rparr>"
  have run: "run ex_rkp ex_tee [(ex_env, Req_SetHalInfo 15 202401 20240101), (ex_env, Req_SetHalInfo 16 202402 20240201)] ?T
    = Some ([op_ok_rsp Rsp_SetHalInfo, op_ok_rsp Rsp_SetHalInfo], ?T')"
    by (simp add: respond_def set_hal_info_def ex_ta_def ta_new_def)
  have "reachable ex_rkp ex_tee ?T"
    unfolding ex_ta_def by (rule initial)
  then show ?thesis
    using reachable_states [OF _ run] run by auto
qed

section \<open>Uses per boot\<close>

lemma decrypt_characteristics:
  "decrypt lib cose mgr s aes kdf kek (EncryptedKeyBlob_V1 e) hs = Ok kb \<Longrightarrow> pkb_characteristics kb = ekb_characteristics e"
  by (auto simp: res_simps Let_def)

lemma parsed_characteristics:
  assumes "keyblob_parse_decrypt C blob params T = Ok (kb, slot)"
  obtains e where "encrypted_key_blob_new (tc_cbor C) (tc_cose C) blob = Ok (EncryptedKeyBlob_V1 e)"
    "pkb_characteristics kb = ekb_characteristics e"
proof -
  obtain eb kek hs where eb: "encrypted_key_blob_new (tc_cbor C) (tc_cose C) blob = Ok eb"
    and dec: "decrypt (tc_cbor C) (tc_cose C) (di_sdd_mgr (tc_dev C)) (ta_store T) (ci_aead (tc_imp C)) (ci_kdf (tc_imp C)) kek eb hs = Ok kb"
    using assms by (auto simp: keyblob_parse_decrypt_def keyblob_parse_decrypt_backlevel_def res_simps split: res.splits option.splits if_splits)
  obtain e where e: "eb = EncryptedKeyBlob_V1 e"
    by (cases eb)
  show thesis
    by (rule that [OF eb [unfolded e] decrypt_characteristics [OF dec [unfolded e]]])
qed

text \<open>The limit on uses per boot that a key blob carries.\<close>

definition blob_max_uses :: "('k, 's, 'r, 'c) ta_conf \<Rightarrow> bytes \<Rightarrow> u32 \<Rightarrow> bool" where
  "blob_max_uses C blob n \<longleftrightarrow> (case encrypted_key_blob_new (tc_cbor C) (tc_cose C) blob of
     Ok (EncryptedKeyBlob_V1 e) \<Rightarrow> (case characteristics_at (ekb_characteristics e) (sec_level C) of
         Ok auths \<Rightarrow> get_opt_tag_value (sel_u32 U32_MaxUsesPerBoot) InvalidTag auths = Ok (Some n)
       | _ \<Rightarrow> False)
   | _ \<Rightarrow> False)"

lemma begin_checks_counts:
  assumes "begin_checks C V purpose blob params tok T = (Ok b, T1)" "blob_max_uses C blob n" "key_id C blob = Ok key"
  shows "uses key T < unat n" "uses key T1 = Suc (uses key T)"
proof -
  obtain kb slot auths where kb: "keyblob_parse_decrypt C blob params T = Ok (kb, slot)"
    and auths: "characteristics_at (pkb_characteristics kb) (sec_level C) = Ok auths"
    and run: "check_begin_auths C V auths blob T = (Ok (), T1)"
    using assms(1) by (auto simp: begin_checks_def res_simps)
  have "get_opt_tag_value (sel_u32 U32_MaxUsesPerBoot) InvalidTag auths = Ok (Some n)"
    by (rule parsed_characteristics [OF kb]) (use assms(2) auths in \<open>simp add: blob_max_uses_def\<close>)
  then have "update_use_count key n T = (Ok (), T1)"
    using run assms(3) by (auto simp: check_begin_auths_def st_then_eq_Ok)
  then show "uses key T < unat n" "uses key T1 = Suc (uses key T)"
    using update_use_count_effect [of T key n "()"] by simp_all
qed

lemma begin_counts:
  assumes "begin_operation C V purpose blob params tok T = Some (Ok res, T')" "blob_max_uses C blob n" "key_id C blob = Ok key"
  shows "uses key T < unat n" "uses key T' = Suc (uses key T)"
proof -
  obtain b T1 h r x T2 where checks: "begin_checks C V purpose blob params tok T = (Ok b, T1)"
    and T2: "T2 = T1\<lparr>ta_rng := r\<rparr>" and inst: "install_operation b h x T2 = (Ok res, T')"
    using assms(1) by (auto simp: begin_operation_def opt_then_eq_Ok res_simps on_rng_eq split: option.splits prod.splits)
  have "ta_use_count T' = ta_use_count T1"
    using inst by (auto simp: install_operation_def st_then_def set_op_def T2 split: prod.splits)
  then show "uses key T < unat n" "uses key T' = Suc (uses key T)"
    using begin_checks_counts [OF checks assms(2,3)] by (simp_all add: uses_def)
qed

fun is_begin_of :: "bytes \<Rightarrow> perform_op_req \<Rightarrow> bool" where
  "is_begin_of blob (Req_DeviceBegin _ b _ _) \<longleftrightarrow> b = blob"
| "is_begin_of blob _ \<longleftrightarrow> False"

fun begun_with :: "bytes \<Rightarrow> (ta_env \<times> perform_op_req) list \<Rightarrow> perform_op_response list \<Rightarrow> nat" where
  "begun_with blob ((_, req) # reqs) (resp # resps) = of_bool (is_begin_of blob req \<and> por_rsp resp \<noteq> None) + begun_with blob reqs resps"
| "begun_with blob _ _ = 0"

lemma begun_bounded:
  assumes "blob_max_uses C blob n" "key_id C blob = Ok key" "run R C reqs T = Some (resps, T')"
  shows "begun_with blob reqs resps \<le> unat n - uses key T"
  using assms(3)
proof (induction reqs arbitrary: T resps)
  case (Cons vr reqs)
  obtain V req where vr: "vr = (V, req)"
    by (cases vr)
  obtain resp T1 resps' where step: "process_req R C V req T = Some (Ok resp, T1)" and rest: "run R C reqs T1 = Some (resps', T')"
    and resps: "resps = resp # resps'"
    by (rule run_Cons_Some [OF Cons.prems [unfolded vr]])
  have mono: "uses key T \<le> uses key T1"
    using process_req_good [OF step] by (simp add: good_step_def latched_def)
  show ?case
  proof (cases "is_begin_of blob req \<and> por_rsp resp \<noteq> None")
    case True
    then obtain purpose params tok res where "begin_operation C V purpose blob params tok T = Some (Ok res, T1)"
      using step by (cases "(blob, req)" rule: is_begin_of.cases)
        (auto simp: op_error_rsp_def error_rsp_def elim!: answer.elims split: if_splits)
    then show ?thesis
      using begin_counts [OF _ assms(1,2)] Cons.IH [OF rest] True by (fastforce simp: vr resps)
  next
    case False
    then have "of_bool (is_begin_of blob req \<and> por_rsp resp \<noteq> None) = (0 :: nat)"
      by simp
    then show ?thesis
      using Cons.IH [OF rest] mono by (simp add: vr resps del: of_bool_eq_0_iff not_None_eq)
  qed
qed simp

end
