(* ===== verification/Ta_Begin.thy ===== *)
theory Ta_Begin
  imports Ta_Runs
begin

text \<open>
  What the start of an operation guarantees, and how the limits of a key bind it: the checks of
  \<open>begin_operation\<close>, the limit on uses per boot over a sequence of requests, and the check of user presence.
\<close>

section \<open>Authorizations enforced at the start\<close>

text \<open>
  The user authentication that a key asks for is checked at once when the device has a clock to compare a
  timeout with; otherwise the operation remembers that it is still due.
\<close>

definition begin_authenticated ::
  "('k, 's, 'r, 'c) ta_conf \<Rightarrow> ta_env \<Rightarrow> ('k, 's, 'r) ta \<Rightarrow> key_param list \<Rightarrow> hardware_auth_token option \<Rightarrow> auth_info option \<Rightarrow> bool" where
  "begin_authenticated C V T auths tok due \<longleftrightarrow> (case auth_info_new auths of
     Ok None \<Rightarrow> True
   | Ok (Some ai) \<Rightarrow> (case (au_timeout_secs ai, ta_clock C V) of
         (Some timeout, Some now) \<Rightarrow> (case tok of
             Some token \<Rightarrow> token_authenticates C T token ai \<and> not_expired now token timeout
           | None \<Rightarrow> False)
       | _ \<Rightarrow> due = Some ai)
   | _ \<Rightarrow> False)"

lemma check_begin_token_Ok:
  assumes "auth_info_new auths = Ok needed" "check_begin_token C V T1 needed tok = Ok due" "ta_device_hmac T1 = ta_device_hmac T"
  shows "begin_authenticated C V T auths tok due"
proof -
  have same: "token_authenticates C T1 token ai = token_authenticates C T token ai" for token ai
    using device_hmac_cong [OF assms(3), of C] by (simp add: token_authenticates_def mac_valid_def)
  show ?thesis
  proof (cases needed)
    case (Some ai)
    show ?thesis
    proof (cases "au_timeout_secs ai")
      case (Some timeout)
      note timeout = Some
      show ?thesis
      proof (cases "ta_clock C V")
        case (Some now)
        then obtain token where "tok = Some token" "check_auth_token C T1 token ai (Some now) (Some timeout) None = Ok ()"
          using assms(2) \<open>needed = Some ai\<close> timeout by (auto simp: check_begin_token_def res_simps)
        then show ?thesis
          using check_auth_token_Ok(1,3) [of C T1 token ai "Some now" "Some timeout" None "()"] assms(1) \<open>needed = Some ai\<close> timeout Some
          by (simp add: begin_authenticated_def same)
      next
        case None
        then have "due = Some ai"
          using assms(2) \<open>needed = Some ai\<close> timeout by (auto simp: check_begin_token_def res_simps split: option.splits)
        then show ?thesis
          using assms(1) \<open>needed = Some ai\<close> timeout None by (simp add: begin_authenticated_def)
      qed
    qed (use assms Some in \<open>auto simp: begin_authenticated_def check_begin_token_def\<close>)
  qed (use assms in \<open>simp add: begin_authenticated_def\<close>)
qed

lemma check_begin_auths_Ok:
  assumes "check_begin_auths C V auths blob T = (Ok (), T1)"
  shows "\<exists>slots. T1 = T\<lparr>ta_use_count := slots\<rparr>"
    "env_bootloader_done V \<Longrightarrow> KP_Bool Bool_BootloaderOnly \<notin> set auths"
    "\<not> ta_in_early_boot T \<Longrightarrow> KP_Bool Bool_EarlyBootOnly \<notin> set auths"
    "tag_values (sel_u32 U32_MaxUsesPerBoot) auths = [n] \<Longrightarrow> \<exists>key. key_id C blob = Ok key \<and> uses key T < unat n \<and> uses key T1 = Suc (uses key T)"
proof -
  obtain max_uses where boot: "(if env_bootloader_done V
       then and_then (get_bool_tag_value Bool_BootloaderOnly auths) (\<lambda>b. require (\<not> b) (Hal InvalidKeyBlob)) else Ok ()) = Ok ()"
    and early: "(if \<not> ta_in_early_boot T
       then and_then (get_bool_tag_value Bool_EarlyBootOnly auths) (\<lambda>b. require (\<not> b) (Hal EarlyBootEnded)) else Ok ()) = Ok ()"
    and uses: "get_opt_tag_value (sel_u32 U32_MaxUsesPerBoot) InvalidTag auths = Ok max_uses"
      "(case max_uses of Some n \<Rightarrow> st_then (st_ret (key_id C blob)) (\<lambda>id. update_use_count id n) | None \<Rightarrow> st_ret (Ok ())) T = (Ok (), T1)"
    using assms by (auto simp: check_begin_auths_def st_then_eq_Ok)
  show "env_bootloader_done V \<Longrightarrow> KP_Bool Bool_BootloaderOnly \<notin> set auths"
    using boot by (auto simp: and_then_eq_Ok require_eq get_bool_tag_value_eq)
  show "\<not> ta_in_early_boot T \<Longrightarrow> KP_Bool Bool_EarlyBootOnly \<notin> set auths"
    using early by (auto simp: and_then_eq_Ok require_eq get_bool_tag_value_eq)
  show "\<exists>slots. T1 = T\<lparr>ta_use_count := slots\<rparr>"
    using uses(2) update_use_count_shape [of _ _ T]
    by (cases max_uses) (auto simp: same_uses st_then_eq_Ok dest: arg_cong [of _ _ snd], metis snd_conv)
  show "\<exists>key. key_id C blob = Ok key \<and> uses key T < unat n \<and> uses key T1 = Suc (uses key T)"
    if "tag_values (sel_u32 U32_MaxUsesPerBoot) auths = [n]"
  proof -
    have "max_uses = Some n"
      using uses(1) that by (simp add: get_opt_tag_value_values)
    then obtain key where key: "key_id C blob = Ok key" "update_use_count key n T = (Ok (), T1)"
      using uses(2) by (auto simp: st_then_eq_Ok)
    then show ?thesis
      using update_use_count_effect [of T key n "()"] by simp
  qed
qed

text \<open>
  C2: An operation is started only as the key allows: the key blob is accepted for the given application,
  the purpose is authorized, an early-boot key works only during early boot and a bootloader key only
  before the bootloader is done, a key with a limit on uses per boot is below its limit and this use is
  counted, and a key that needs the user's presence has no competitor. Authentication is
  checked at once or remembered as due, and so are the confirmation of what is signed and the
  slot of a single-use key. The operation is put into an empty slot, with a handle of its own; nothing else
  of the table changes.
\<close>

theorem begin_operation_enforces:
  assumes "begin_operation C V purpose blob params tok T = Some (Ok res, T')"
  shows "\<exists>kb slot auths i op. keyblob_parse_decrypt C blob params T = Ok (kb, slot)
    \<and> characteristics_at (pkb_characteristics kb) (sec_level C) = Ok auths
    \<and> purpose \<in> set (tag_values sel_Purpose auths)
    \<and> (KP_Bool Bool_BootloaderOnly \<in> set auths \<longrightarrow> \<not> env_bootloader_done V)
    \<and> (KP_Bool Bool_EarlyBootOnly \<in> set auths \<longrightarrow> ta_in_early_boot T)
    \<and> (\<forall>n. tag_values (sel_u32 U32_MaxUsesPerBoot) auths = [n] \<longrightarrow>
         (\<exists>key. key_id C blob = Ok key \<and> uses key T < unat n \<and> uses key T' = Suc (uses key T)))
    \<and> (KP_Bool Bool_TrustedUserPresenceRequired \<in> set auths \<longrightarrow>
         ta_presence_required_op T = None \<and> ta_presence_required_op T' = Some (op_handle op))
    \<and> begin_authenticated C V T auths tok (op_auth_info op)
    \<and> (purpose = KeyPurpose_Sign \<and> KP_Bool Bool_TrustedConfirmationRequired \<in> set auths \<longrightarrow>
         op_trusted_conf_data op = Some CONFIRMATION_DATA_PREFIX)
    \<and> (tag_values (sel_u32 U32_UsageCountLimit) auths = [1] \<longrightarrow> op_slot_to_delete op = slot)
    \<and> op_handle op = ibr_op_handle res \<and> (\<forall>other. Some other \<in> set (ta_operations T) \<longrightarrow> op_handle other \<noteq> op_handle op)
    \<and> i < length (ta_operations T) \<and> ta_operations T ! i = None \<and> ta_operations T' = (ta_operations T)[i := Some op]"
proof -
  obtain b T1 h r x r' where checks: "begin_checks C V purpose blob params tok T = (Ok b, T1)"
    and h: "new_op_handle (ci_fill (tc_imp C)) (ta_operations T1) (ta_rng T1) = Some (h, r)"
    and inst: "install_operation b h x (T1\<lparr>ta_rng := r'\<rparr>) = (Ok res, T')"
    using assms by (auto simp: begin_operation_def opt_then_eq_Ok st_then_eq_Ok on_rng_eq split: option.splits prod.splits)
  obtain i kb slot auths conf limit presence needed due where
    i: "new_operation_index T = Ok i" and kb: "keyblob_parse_decrypt C blob params T = Ok (kb, slot)"
    and auths: "characteristics_at (pkb_characteristics kb) (sec_level C) = Ok auths"
    and ps: "check_begin_params auths purpose params = Ok ()"
    and ba: "check_begin_auths C V auths blob T = (Ok (), T1)"
    and conf: "(if purpose = KeyPurpose_Sign then map_ok (\<lambda>b. if b then Some CONFIRMATION_DATA_PREFIX else None)
         (get_bool_tag_value Bool_TrustedConfirmationRequired auths) else Ok None) = Ok conf"
    and limit: "get_opt_tag_value (sel_u32 U32_UsageCountLimit) InvalidTag auths = Ok limit"
    and presence: "get_bool_tag_value Bool_TrustedUserPresenceRequired auths = Ok presence"
      "\<not> (presence \<and> ta_presence_required_op T1 \<noteq> None)"
    and needed: "auth_info_new auths = Ok needed" "check_begin_token C V T1 needed tok = Ok due"
    and b: "b = \<lparr>bg_op_idx = i, bg_key_material = pkb_key_material kb, bg_key_chars = auths, bg_trusted_conf_data = conf,
       bg_slot_to_delete = (if limit = Some 1 then slot else None), bg_presence_required = presence, bg_auth_info = due\<rparr>"
    using checks by (auto simp: begin_checks_def st_then_eq_Ok require_eq)
  obtain slots where T1: "T1 = T\<lparr>ta_use_count := slots\<rparr>"
    using check_begin_auths_Ok(1) [OF ba] by blast
  obtain op where op: "ta_operations T' = (ta_operations T)[i := Some op]" "op_handle op = h" "ibr_op_handle res = h"
    "op_trusted_conf_data op = conf" "op_slot_to_delete op = (if limit = Some 1 then slot else None)" "op_auth_info op = due"
    "ta_use_count T' = slots" "presence \<Longrightarrow> ta_presence_required_op T' = Some h"
    using inst by (cases x) (auto simp: install_operation_def st_then_def set_op_def b T1)
  have purpose: "purpose \<in> set (tag_values sel_Purpose auths)"
    by (rule check_begin_params_Ok [OF ps])
  have uses: "uses key T' = uses key T1" for key
    by (simp add: uses_def op(7) T1)
  have present: "KP_Bool Bool_TrustedUserPresenceRequired \<in> set auths \<Longrightarrow> presence"
    using presence(1) by (auto simp: get_bool_tag_value_eq split: if_splits)
  have conf': "conf = Some CONFIRMATION_DATA_PREFIX" if "purpose = KeyPurpose_Sign" "KP_Bool Bool_TrustedConfirmationRequired \<in> set auths"
    using conf that by (auto simp: map_ok_eq get_bool_tag_value_eq split: if_splits)
  have fresh: "op_handle other \<noteq> h" if "Some other \<in> set (ta_operations T)" for other
    using new_op_handle_fresh [OF h] that by (simp add: T1)
  have limit1: "limit = Some 1" if "tag_values (sel_u32 U32_UsageCountLimit) auths = [1]"
    using limit that by (simp add: get_opt_tag_value_values)
  have auth: "begin_authenticated C V T auths tok due"
    by (rule check_begin_token_Ok [OF needed]) (simp add: T1)
  note counted = check_begin_auths_Ok(4) [OF ba]
  show ?thesis
    using kb auths purpose check_begin_auths_Ok(2,3) [OF ba] counted op present presence(2) conf' fresh limit1 auth
      new_operation_index_Ok [OF i]
    by (intro exI [of _ kb] exI [of _ slot] exI [of _ auths] exI [of _ i] exI [of _ op] conjI) (auto simp: uses T1)
qed

section \<open>A key that may be used once per boot\<close>

definition ex_once_auths :: "key_param list" where
  "ex_once_auths = [KP_Algorithm Algorithm_Hmac, KP_Purpose KeyPurpose_Sign, KP_Digest Digest_Sha256, KP_MinMacLength 128,
     KP_Bool Bool_NoAuthRequired, KP_U32 U32_MaxUsesPerBoot 1]"

definition ex_once :: plaintext_key_blob where
  "ex_once = \<lparr>pkb_characteristics = [\<lparr>kc_security_level = SecurityLevel_TrustedEnvironment, kc_authorizations = ex_once_auths\<rparr>],
     pkb_key_material = ex_key\<rparr>"

definition ex_begin_params :: "key_param list" where
  "ex_begin_params = [KP_Digest Digest_Sha256, KP_MacLength 128, KP_Bytes Bytes_ApplicationId [7]]"

lemma ex_once_ok:
  "pkb_wf ex_once" "pkb_key_material ex_once = ex_key"
  "characteristics_at (pkb_characteristics ex_once) SecurityLevel_TrustedEnvironment = Ok ex_once_auths"
  "blob_fits ex_tee mem_inv ex_once"
proof -
  show wf: "pkb_wf ex_once"
    by (simp add: pkb_wf_def ex_once_def characteristics_wf_def key_characteristics_wf_def key_params_wf_def ex_once_auths_def)
  show key: "pkb_key_material ex_once = ex_key"
    by (simp add: ex_once_def)
  show "characteristics_at (pkb_characteristics ex_once) SecurityLevel_TrustedEnvironment = Ok ex_once_auths"
    by (simp add: ex_once_def characteristics_at_eq)
  show "blob_fits ex_tee mem_inv ex_once"
    using wf ex_key_short by (intro ex_blob_fits) (simp_all add: key)
qed

lemma ex_once_blob:
  obtains blob s slot where
    "keyblob_parse_decrypt ex_tee blob ex_begin_params (ex_ta_booted\<lparr>ta_store := s\<rparr>) = Ok (ex_once, slot)"
    "blob_max_uses ex_tee blob 1"
proof -
  have hs: "hidden ex_begin_params [1] = Ok [KP_ApplicationId [7], KP_RootOfTrust [1]]"
    by (simp add: hidden_def get_opt_tag_value_values ex_begin_params_def)
  have at: "pkb_characteristics_at ex_once SecurityLevel_TrustedEnvironment = Ok ex_once_auths"
    using ex_once_ok(3) by (simp add: pkb_characteristics_at_def)
  have level: "sec_level ex_tee = SecurityLevel_TrustedEnvironment"
    by (simp add: ex_conf_def)
  obtain blob T where enc: "encrypt_keyblob ex_tee ex_begin_params ex_once Slot_KeyGeneration ex_ta_booted = (Ok blob, T)"
    using ex_encrypt_keyblob [OF ex_once_ok(1) _ at _ _ _ hs ex_hidden(2), of ex_ta_booted] ex_key_short ex_secret(1) ex_booted_store
    by (fastforce simp: ex_once_ok(2))
  obtain slot s r where T: "T = ex_ta_booted\<lparr>ta_store := s, ta_rng := r\<rparr>"
    and dec: "keyblob_parse_decrypt_backlevel ex_tee blob ex_begin_params T = Ok (ex_once, slot)"
    by (rule encrypt_keyblob_accepted [OF ex_conf_works _ ex_once_ok(4) enc]) (simp add: ex_booted_store)
  have T': "T = ex_ta_booted\<lparr>ta_store := s\<rparr>"
    by (simp add: T)
  have kb: "keyblob_parse_decrypt ex_tee blob ex_begin_params T = Ok (ex_once, slot)"
    using dec at by (simp add: keyblob_parse_decrypt_def level) (simp add: ex_once_auths_def check_version_param_def)
  moreover have "blob_max_uses ex_tee blob 1"
    by (rule parsed_characteristics [OF kb])
      (use ex_once_ok(3) in \<open>simp add: blob_max_uses_def level get_opt_tag_value_values ex_once_auths_def\<close>)
  ultimately show thesis
    by (intro that) (simp_all add: T')
qed

lemma use_count_scan_empty:
  "use_count_scan key i (replicate n None) free = (if free = None \<and> 0 < n then Some i else free, None)"
  by (induction n arbitrary: i free) auto

lemma ex_once_begins:
  assumes kb: "keyblob_parse_decrypt ex_tee blob ex_begin_params (ex_ta_booted\<lparr>ta_store := s\<rparr>) = Ok (ex_once, slot)"
  obtains res T' where
    "begin_operation ex_tee ex_env KeyPurpose_Sign blob ex_begin_params None (ex_ta_booted\<lparr>ta_store := s\<rparr>) = Some (Ok res, T')"
    "\<exists>key. key_id ex_tee blob = Ok key"
proof -
  let ?T = "ex_ta_booted\<lparr>ta_store := s\<rparr>"
  have ops: "ta_operations ?T = replicate 16 None" "ta_use_count ?T = replicate 32 None" "ta_presence_required_op ?T = None"
    "ta_in_early_boot ?T"
    by (simp_all add: ex_ta_booted_def ex_ta_def ta_new_def ex_conf_def MAX_TEE_OPERATIONS_def MAX_USE_COUNTED_KEYS_def)
  have level: "sec_level ex_tee = SecurityLevel_TrustedEnvironment" and imp: "tc_imp ex_tee = ex_imp"
    by (simp_all add: ex_conf_def)
  have idx: "new_operation_index ?T = Ok 0"
    by (simp add: new_operation_index_def ops numeral_eq_Suc)
  have ps: "check_begin_params ex_once_auths KeyPurpose_Sign ex_begin_params = Ok ()"
    by (simp add: ex_once_auths_def ex_begin_params_def check_begin_params_def getter_defs get_tag_value_values get_opt_tag_value_values
      get_bool_tag_value_def valid_purpose_def contains_tag_value_def check_begin_hmac_params_def check_in_chars_def
      reject_tags_def reject_some_padding_def check_mac_len_def)
  have "min (16 + length blob) 32 + (16 - length blob) = 32"
    by simp
  then obtain key where key: "key_id ex_tee blob = Ok key"
    by (simp add: key_id_def imp ex_imp_def pad_hmac_def)
  obtain T1 where T1: "check_begin_auths ex_tee ex_env ex_once_auths blob ?T = (Ok (), T1)" "T1 = ?T\<lparr>ta_use_count := ta_use_count T1\<rparr>"
    by (simp add: check_begin_auths_def st_then_def ops key update_use_count_def use_count_scan_empty count_use_def ex_once_auths_def
      get_opt_tag_value_values get_bool_tag_value_def ex_env_def)
  have auth: "auth_info_new ex_once_auths = Ok None"
    by (simp add: auth_info_new_def ex_once_auths_def)
  have tags: "get_bool_tag_value Bool_TrustedConfirmationRequired ex_once_auths = Ok False"
    "get_opt_tag_value (sel_u32 U32_UsageCountLimit) InvalidTag ex_once_auths = Ok None"
    "get_bool_tag_value Bool_TrustedUserPresenceRequired ex_once_auths = Ok False"
    by (simp_all add: ex_once_auths_def get_bool_tag_value_def get_opt_tag_value_values)
  obtain b where checks: "begin_checks ex_tee ex_env KeyPurpose_Sign blob ex_begin_params None ?T = (Ok b, T1)"
    and b: "bg_key_material b = ex_key" "bg_key_chars b = ex_once_auths"
    using T1(1) by (simp add: begin_checks_def st_then_def idx kb level ex_once_ok(2,3) ps auth tags check_begin_token_def)
  have "ta_operations T1 = ta_operations (?T\<lparr>ta_use_count := ta_use_count T1\<rparr>)"
    by (rule arg_cong [OF T1(2)])
  then have "\<not> is_ok (op_index (ta_operations T1) (draw (ci_fill ex_imp) 0 (ta_rng T1)))"
    using ops(1) by (simp add: op_index_fresh)
  from new_op_handle_returns [OF this] obtain h r where
    h: "new_op_handle (ci_fill ex_imp) (ta_operations T1) (ta_rng T1) = Some (h, r)"
    by blast
  have "\<exists>x. begin_crypto ex_imp KeyPurpose_Sign ex_key ex_once_auths ex_begin_params r = (Ok x, r)"
    by (auto simp: begin_crypto_def ex_begin_params_def getter_defs get_tag_value_values ex_imp_def pad_hmac_def)
  then obtain res T' where
    "begin_operation ex_tee ex_env KeyPurpose_Sign blob ex_begin_params None ?T = Some (Ok res, T')"
    using h by (auto simp: begin_operation_def opt_then_def checks imp b st_then_def on_rng_def install_operation_def)
  then show thesis
    using that key by blast
qed

theorem begin_operation_enforces_witness:
  "\<exists>blob T res T' kb slot auths. begin_operation ex_tee ex_env KeyPurpose_Sign blob ex_begin_params None T = Some (Ok res, T')
    \<and> keyblob_parse_decrypt ex_tee blob ex_begin_params T = Ok (kb, slot)
    \<and> characteristics_at (pkb_characteristics kb) (sec_level ex_tee) = Ok auths \<and> KeyPurpose_Sign \<in> set (tag_values sel_Purpose auths)"
proof -
  obtain blob s slot where kb: "keyblob_parse_decrypt ex_tee blob ex_begin_params (ex_ta_booted\<lparr>ta_store := s\<rparr>) = Ok (ex_once, slot)"
    by (rule ex_once_blob)
  obtain res T' where run: "begin_operation ex_tee ex_env KeyPurpose_Sign blob ex_begin_params None (ex_ta_booted\<lparr>ta_store := s\<rparr>) = Some (Ok res, T')"
    by (rule ex_once_begins [OF kb])
  show ?thesis
    using begin_operation_enforces [OF run] run by (elim exE conjE) (intro exI conjI; assumption)
qed

section \<open>The limit on uses per boot\<close>

text \<open>
  C3: In any sequence of requests, whatever else happens in between, the number of operations that are
  started with a key blob does not exceed the limit on uses per boot that the blob carries.
\<close>

theorem uses_per_boot_bounded:
  assumes "blob_max_uses C blob n" "key_id C blob = Ok key" "run R C reqs T = Some (resps, T')"
  shows "begun_with blob reqs resps \<le> unat n"
  using begun_bounded [OF assms] by simp

theorem uses_per_boot_bounded_witness:
  "\<exists>blob T reqs resps T'. blob_max_uses ex_tee blob 1 \<and> run ex_rkp ex_tee reqs T = Some (resps, T') \<and> begun_with blob reqs resps = 1"
proof -
  obtain blob s slot where kb: "keyblob_parse_decrypt ex_tee blob ex_begin_params (ex_ta_booted\<lparr>ta_store := s\<rparr>) = Ok (ex_once, slot)"
    and limit: "blob_max_uses ex_tee blob 1"
    by (rule ex_once_blob)
  let ?T = "ex_ta_booted\<lparr>ta_store := s\<rparr>" and ?reqs = "[(ex_env, Req_DeviceBegin KeyPurpose_Sign blob ex_begin_params None)]"
  obtain res T' key where begun: "begin_operation ex_tee ex_env KeyPurpose_Sign blob ex_begin_params None ?T = Some (Ok res, T')"
    and key: "key_id ex_tee blob = Ok key"
    using ex_once_begins [OF kb] by blast
  have run: "run ex_rkp ex_tee ?reqs ?T = Some ([op_ok_rsp (Rsp_DeviceBegin res)], T')"
    by (simp add: begun)
  have "begun_with blob ?reqs [op_ok_rsp (Rsp_DeviceBegin res)] = 1"
    using uses_per_boot_bounded [OF limit key run] by (simp add: op_ok_rsp_def)
  then show ?thesis
    using limit run by blast
qed

section \<open>The check of user presence\<close>

lemma update_without_token:
  assumes "op_at T h = Ok (i, op)" "op_auth_info op = Some ai"
  shows "op_update C V h data None None T = (Err (Hal KeyUserNotAuthenticated), clear_presence h T)"
proof -
  have "op_at (clear_presence h T) h = Ok (i, op)"
    using assms(1) by (simp add: op_at_cong [of "clear_presence h T" T])
  then show ?thesis
    using assms(2) by (simp add: op_update_def with_authed_operation_def st_then_def check_subsequent_auth_def)
qed

text \<open>
  C40: The check that the user is present can be skipped. It is due in the first update of an operation,
  which takes the note of it back before the authentication of the request is checked; when that
  fails, the operation stays. So after an update without a token, for a key that needs both
  authentication and presence, neither the next update nor the next finish of this operation depends on
  the presence of the user.
\<close>

theorem presence_check_skipped:
  assumes "op_at T h = Ok (i, op)" "op_auth_info op = Some ai" "ta_presence_required_op T = Some h"
  shows "\<exists>T'. op_update C V h data None None T = (Err (Hal KeyUserNotAuthenticated), T') \<and> op_at T' h = Ok (i, op)
    \<and> (\<forall>V V' data tok ts. op_update C V h data tok ts T' = op_update C V' h data tok ts T')
    \<and> (\<forall>V V' data sig tok ts conf. op_finish C V h data sig tok ts conf T' = op_finish C V' h data sig tok ts conf T')"
proof -
  let ?T = "clear_presence h T"
  have cleared: "ta_presence_required_op ?T = None"
    using assms(3) by (simp add: clear_presence_def)
  have at: "op_at ?T h = Ok (i, op)"
    using assms(1) by (simp add: op_at_cong [of ?T T])
  have "op_update C V h data None None T = (Err (Hal KeyUserNotAuthenticated), ?T)"
    by (rule update_without_token [OF assms(1,2)])
  moreover have "op_update C V h data tok ts ?T = op_update C V' h data tok ts ?T" for V V' data tok ts
    by (simp add: op_update_def st_then_def cleared)
  moreover have "op_finish C V h data sig tok ts conf ?T = op_finish C V' h data sig tok ts conf ?T" for V V' data sig tok ts conf
  proof -
    have "ta_presence_required_op (set_op i None ?T) = None"
      using cleared by (simp add: set_op_def)
    then show ?thesis
      by (simp add: op_finish_def st_then_def take_operation_def at split: res.split)
  qed
  ultimately show ?thesis
    using at by blast
qed

theorem presence_check_skipped_witness:
  "\<exists>T'. op_update ex_tee ex_env 5 [1] None None (ex_ta_op\<lparr>ta_presence_required_op := Some 5\<rparr>) = (Err (Hal KeyUserNotAuthenticated), T')
    \<and> is_ok (fst (op_update ex_tee (ex_env\<lparr>env_user_present := False\<rparr>) 5 [1, 2] (Some ex_token) None T'))"
proof -
  let ?T = "ex_ta_op\<lparr>ta_presence_required_op := Some 5\<rparr>"
  have op: "op_at ?T 5 = Ok (1, ex_op)" "op_auth_info ex_op = Some ex_auth_info" "ta_presence_required_op ?T = Some 5"
    using ex_op_at by (simp_all add: op_at_cong [of ?T ex_ta_op] ex_op_def)
  obtain T' where T': "op_update ex_tee ex_env 5 [1] None None ?T = (Err (Hal KeyUserNotAuthenticated), T')"
    and same: "\<forall>V V' data tok ts. op_update ex_tee V 5 data tok ts T' = op_update ex_tee V' 5 data tok ts T'"
    using presence_check_skipped [OF op, of ex_tee ex_env "[1]"] by blast
  have "T' = ex_ta_op"
    using T' update_without_token [OF op(1,2), of ex_tee ex_env "[1]"]
    by (simp add: clear_presence_def ex_ta_op_def ex_ta_def ta_new_def)
  then have "is_ok (fst (op_update ex_tee ex_env 5 [1, 2] (Some ex_token) None T'))"
    using ex_update_runs by simp
  then show ?thesis
    using T' same by metis
qed

end
