(* ===== verification/Ta_Macs.thy ===== *)
theory Ta_Macs
  imports Ta_Instance
begin

text \<open>
  The uses of the HMAC key that the secure components of a device share (\<open>device_hmac\<close> and
  \<open>verify_device_hmac\<close> of \<open>ta/src/lib.rs\<close>): tokens, confirmed messages and the key check
  of the theory \<open>Tokens\<close>, and the root of trust that a TEE passes to a StrongBox, which is MACed in a
  COSE structure.
\<close>

section \<open>The data under the MAC\<close>

text \<open>The COSE structure has the protected header, the challenge and the encoded root of trust.\<close>

datatype device_mac = Mac_Message mac_use | Mac_Root_Of_Trust bytes bytes bytes

fun device_mac_input :: "mac0_lib \<Rightarrow> device_mac \<Rightarrow> bytes" where
  "device_mac_input lib (Mac_Message m) = mac_use_input m"
| "device_mac_input lib (Mac_Root_Of_Trust prot challenge payload) = ml_structure lib prot challenge payload"

fun device_mac_content :: "device_mac \<Rightarrow> device_mac" where
  "device_mac_content (Mac_Message m) = Mac_Message (mac_use_content m)"
| "device_mac_content m = m"

fun device_mac_fits :: "device_mac \<Rightarrow> bool" where
  "device_mac_fits (Mac_Root_Of_Trust prot challenge payload) \<longleftrightarrow>
     length prot < 2 ^ 64 \<and> length challenge < 2 ^ 64 \<and> length payload < 2 ^ 64"
| "device_mac_fits _ \<longleftrightarrow> True"

text \<open>
  RFC 9052, section 6.3: the data is the encoding of an array of the context \<open>MAC0\<close>, the protected header, the
  external data and the payload.  RFC 8949, section 3: an array of fewer than 24 items starts with a
  byte that has major type 4 and the number of items.
\<close>

definition mac0_structure_works :: "mac0_lib \<Rightarrow> cbor_lib \<Rightarrow> bool" where
  "mac0_structure_works lib cbor \<longleftrightarrow> (\<forall>prot aad payload.
     cl_write cbor (Cbor_Array [Cbor_Text ''MAC0'', Cbor_Bytes prot, Cbor_Bytes aad, Cbor_Bytes payload])
       = Some (ml_structure lib prot aad payload))"

definition array_head_works :: "cbor_lib \<Rightarrow> bool" where
  "array_head_works cbor \<longleftrightarrow> (\<forall>vs b. cl_write cbor (Cbor_Array vs) = Some b \<longrightarrow> length vs < 24 \<longrightarrow>
     (\<exists>rest. b = (0x80 + word_of_nat (length vs)) # rest))"

lemma mac0_structure_inj:
  assumes "cbor_lib_works cbor" "mac0_structure_works lib cbor"
    and "device_mac_fits (Mac_Root_Of_Trust p c d)" "device_mac_fits (Mac_Root_Of_Trust p' c' d')"
    and "ml_structure lib p c d = ml_structure lib p' c' d'"
  shows "p = p' \<and> c = c' \<and> d = d'"
proof -
  let ?v = "\<lambda>p c d. Cbor_Array [Cbor_Text ''MAC0'', Cbor_Bytes p, Cbor_Bytes c, Cbor_Bytes d]"
  have "cl_read cbor (ml_structure lib p c d @ []) = Some (?v p c d, [])" if "device_mac_fits (Mac_Root_Of_Trust p c d)" for p c d
  proof -
    have "cbor_fits 12 (?v p c d)"
      using that by simp
    then obtain b where b: "cl_write cbor (?v p c d) = Some b" "\<forall>rest. cl_read cbor (b @ rest) = Some (?v p c d, rest)"
      using assms(1) unfolding cbor_lib_works_def by blast
    have "b = ml_structure lib p c d"
      using assms(2) b(1) by (simp add: mac0_structure_works_def)
    then show ?thesis
      using b(2) by blast
  qed
  from this [OF assms(3)] this [OF assms(4)] show ?thesis
    using assms(5) by simp
qed

lemma mac0_structure_first:
  assumes "mac0_structure_works lib cbor" "array_head_works cbor"
  shows "\<exists>rest. ml_structure lib p c d = 0x84 # rest"
  using assms by (fastforce simp: mac0_structure_works_def array_head_works_def)

text \<open>
  C23: The uses of the shared HMAC key are kept apart: two inputs of \<open>device_hmac\<close> are equal exactly when
  they are of the same kind and authenticate the same content. So a MAC made for an authentication token, a
  time stamp, a confirmed message, the key check or a root of trust is never valid for other
  content, or as one of another kind.
\<close>

theorem mac_inputs_unambiguous:
  assumes "cbor_lib_works cbor" "mac0_structure_works lib cbor" "array_head_works cbor"
    and "device_mac_fits m" "device_mac_fits m'"
  shows "device_mac_input lib m = device_mac_input lib m' \<longleftrightarrow> device_mac_content m = device_mac_content m'"
proof -
  have other: "mac_use_input u \<noteq> ml_structure lib p c d" for u p c d
  proof
    assume eq: "mac_use_input u = ml_structure lib p c d"
    obtain rest where "ml_structure lib p c d = 0x84 # rest"
      using mac0_structure_first [OF assms(2,3)] by blast
    then have "hd (mac_use_input u) = 0x84"
      by (simp add: eq)
    then show False
      unfolding mac_use_first by (cases u) simp_all
  qed
  show ?thesis
  proof (cases m; cases m')
    fix p c d p' c' d'
    assume m: "m = Mac_Root_Of_Trust p c d" "m' = Mac_Root_Of_Trust p' c' d'"
    show ?thesis
      using mac0_structure_inj [OF assms(1,2), of p c d p' c' d'] assms(4,5) by (auto simp: m)
  qed (use other other [symmetric] in \<open>simp_all add: mac_use_input_iff\<close>)
qed

lemma rfc9052_mac0_works: "mac0_structure_works rfc9052_mac0 rfc8949" "array_head_works rfc8949"
  by (auto simp: mac0_structure_works_def array_head_works_def rfc9052_mac0_def rfc8949_def cbor_head_def)

theorem mac_inputs_unambiguous_witness:
  "device_mac_input rfc9052_mac0 (Mac_Root_Of_Trust [1] (replicate 16 7) [2]) \<noteq> device_mac_input rfc9052_mac0 (Mac_Message Mac_Key_Check)
   \<and> device_mac_input rfc9052_mac0 (Mac_Root_Of_Trust [1] (replicate 16 7) [2])
     \<noteq> device_mac_input rfc9052_mac0 (Mac_Root_Of_Trust [1] (replicate 16 8) [2])"
  using mac_inputs_unambiguous [OF rfc8949_works rfc9052_mac0_works,
      of "Mac_Root_Of_Trust [1] (replicate 16 7) [2]" "Mac_Message Mac_Key_Check"]
    mac_inputs_unambiguous [OF rfc8949_works rfc9052_mac0_works,
      of "Mac_Root_Of_Trust [1] (replicate 16 7) [2]" "Mac_Root_Of_Trust [1] (replicate 16 8) [2]"]
  by simp

end
