(* ===== verification/Cert_Der.thy ===== *)
theory Cert_Der
  imports Cert "HOL-Library.Sublist"
begin

unbundle bit_operations_syntax

text \<open>
  The ASN.1 encoding of authorization lists (\<open>ta/src/cert.rs\<close>), which the attestation extension and
  the description of a wrapped key contain: the tags above 30 that the \<open>der\<close> crate has no support for,
  the order of the fields, and the decoder that skips absent fields.  The \<open>der\<close> crate is a
  parameter: the encodings of integers, octet strings, sets and lengths.
\<close>

section \<open>The \<open>der\<close> crate\<close>

text \<open>
  \<open>Length::encode\<close>, \<open>Length::decode\<close> and \<open>Length::add\<close>, \<open>Reader::tlv_bytes\<close>, and \<open>to_der\<close> and \<open>from_der\<close> of the types
  that occur.  A reader is the list of the bytes that are left.
\<close>

record der_lib =
  dl_len :: "nat \<Rightarrow> bytes km"
  dl_read_len :: "bytes \<Rightarrow> (nat \<times> bytes) km"
  dl_add :: "nat \<Rightarrow> nat \<Rightarrow> nat km"
  dl_tlv :: "bytes \<Rightarrow> (bytes \<times> bytes) km"
  dl_i64 :: "i64 \<Rightarrow> bytes km"
  dl_i64_of :: "bytes \<Rightarrow> i64 km"
  dl_i32_of :: "bytes \<Rightarrow> int km"
  dl_u32_of :: "bytes \<Rightarrow> u32 km"
  dl_u64_of :: "bytes \<Rightarrow> u64 km"
  dl_null :: "bytes km"
  dl_null_of :: "bytes \<Rightarrow> unit km"
  dl_octets :: "bytes \<Rightarrow> bytes km"
  dl_octets_of :: "bytes \<Rightarrow> bytes km"
  dl_insert_ordered :: "i64 list \<Rightarrow> i64 \<Rightarrow> i64 list km"
  dl_set :: "i64 list \<Rightarrow> bytes km"
  dl_set_of :: "bytes \<Rightarrow> int list km"
  dl_rot :: "asn1_root_of_trust \<Rightarrow> bytes km"
  dl_rot_of :: "bytes \<Rightarrow> asn1_root_of_trust km"

section \<open>Explicit tags\<close>

text \<open>\<open>ExplicitTaggedValue\<close>: the raw tag and the encoding of the value.\<close>

type_synonym tagged_value = "u32 \<times> bytes km"

definition explicit_tag_len :: "u32 \<Rightarrow> nat km" where
  "explicit_tag_len tag =
     (if tag \<le> 0x1e then Ok 1 else if tag \<le> 0x7f then Ok 2 else if tag \<le> 0x3fff then Ok 3 else Err Der)"

definition explicit_tag_encode :: "u32 \<Rightarrow> bytes km" where
  "explicit_tag_encode tag =
     (if tag \<le> 0x1e then Ok [0b10100000 OR ucast tag]
      else if tag \<le> 0x7f then Ok [0b10111111, ucast tag]
      else if tag \<le> 0x3fff then Ok [0b10111111, ucast (drop_bit 7 tag) OR 0x80, ucast (tag AND 0x7f)]
      else Err Der)"

definition explicit_encoded_len :: "der_lib \<Rightarrow> tagged_value \<Rightarrow> nat km" where
  "explicit_encoded_len D = (\<lambda>(tag, val).
     and_then val (\<lambda>v.
     and_then (explicit_tag_len tag) (\<lambda>tag_len.
     and_then (dl_len D (length v)) (\<lambda>l.
     and_then (dl_add D tag_len (length l)) (\<lambda>n. dl_add D n (length v))))))"

definition explicit_encode :: "der_lib \<Rightarrow> tagged_value \<Rightarrow> bytes km" where
  "explicit_encode D = (\<lambda>(tag, val).
     and_then val (\<lambda>v.
     and_then (explicit_tag_encode tag) (\<lambda>t.
     and_then (dl_len D (length v)) (\<lambda>l. Ok (t @ l @ v)))))"

definition asn1_val :: "der_lib \<Rightarrow> tagged_value option \<Rightarrow> bytes km" where
  "asn1_val D val = (case val of Some v \<Rightarrow> explicit_encode D v | None \<Rightarrow> Ok [])"

definition asn1_len :: "der_lib \<Rightarrow> tagged_value option \<Rightarrow> nat km" where
  "asn1_len D val = (case val of Some v \<Rightarrow> explicit_encoded_len D v | None \<Rightarrow> Ok 0)"

section \<open>Encoding\<close>

fun sel_Origin :: "key_param \<Rightarrow> key_origin option" where
  "sel_Origin (KP_Origin v) = Some v"
| "sel_Origin _ = None"

text \<open>The values of a repeatable tag, from which repetitions in a row are dropped.\<close>

fun ordered_set :: "der_lib \<Rightarrow> i64 option \<Rightarrow> i64 list \<Rightarrow> i64 list \<Rightarrow> i64 list km" where
  "ordered_set D prev elems [] = Ok elems"
| "ordered_set D prev elems (v # vs) =
     (if prev = Some v then ordered_set D prev elems vs
      else and_then (dl_insert_ordered D elems v) (\<lambda>elems. ordered_set D (Some v) elems vs))"

definition asn1_set_of_integer ::
  "der_lib \<Rightarrow> (key_param \<Rightarrow> 'v option) \<Rightarrow> ('v \<Rightarrow> int) \<Rightarrow> enum_tag \<Rightarrow> key_param list \<Rightarrow> tagged_value option km" where
  "asn1_set_of_integer D sel as_i32 t params = (let results = tag_values sel params in
     if results = [] then Ok None
     else map_ok (\<lambda>elems. Some (raw_tag_value (Tag_Enum t), dl_set D elems))
       (ordered_set D None [] (map (\<lambda>v. word_of_int (as_i32 v)) results)))"

definition asn1_single ::
  "(key_param \<Rightarrow> 'v option) \<Rightarrow> ('v \<Rightarrow> bytes km) \<Rightarrow> tag \<Rightarrow> key_param list \<Rightarrow> tagged_value option km" where
  "asn1_single sel enc tag params =
     map_ok (map_option (\<lambda>v. (raw_tag_value tag, enc v))) (map_err (\<lambda>_. Der) (get_opt_tag_value sel InvalidTag params))"

definition asn1_enum :: "der_lib \<Rightarrow> (key_param \<Rightarrow> 'v option) \<Rightarrow> ('v \<Rightarrow> int) \<Rightarrow> enum_tag \<Rightarrow> key_param list \<Rightarrow> tagged_value option km" where
  "asn1_enum D sel as_i32 t = asn1_single sel (\<lambda>v. dl_i64 D (word_of_int (as_i32 v))) (Tag_Enum t)"

definition asn1_integer :: "der_lib \<Rightarrow> u32_tag \<Rightarrow> key_param list \<Rightarrow> tagged_value option km" where
  "asn1_integer D t = asn1_single (sel_u32 t) (\<lambda>v. dl_i64 D (ucast v)) (Tag_U32 t)"

definition asn1_integer_newtype :: "der_lib \<Rightarrow> u64_tag \<Rightarrow> key_param list \<Rightarrow> tagged_value option km" where
  "asn1_integer_newtype D t = asn1_single (sel_u64 t) (dl_i64 D) (Tag_U64 t)"

definition asn1_integer_datetime :: "der_lib \<Rightarrow> date_tag \<Rightarrow> key_param list \<Rightarrow> tagged_value option km" where
  "asn1_integer_datetime D t = asn1_single (sel_date t) (dl_i64 D) (Tag_Date t)"

definition asn1_octet_string :: "der_lib \<Rightarrow> bytes_tag \<Rightarrow> key_param list \<Rightarrow> tagged_value option km" where
  "asn1_octet_string D t = asn1_single (sel_bytes t) (dl_octets D) (Tag_Bytes t)"

definition asn1_null :: "der_lib \<Rightarrow> bool_tag \<Rightarrow> key_param list \<Rightarrow> tagged_value option km" where
  "asn1_null D t params =
     map_ok (\<lambda>b. if b then Some (raw_tag_value (Tag_Bool t), dl_null D) else None) (map_err (\<lambda>_. Der) (get_bool_tag_value t params))"

definition asn1_rot_info :: "der_lib \<Rightarrow> key_param option \<Rightarrow> tagged_value option km" where
  "asn1_rot_info D rot_info = (case rot_info of
     Some (KP_Bytes Bytes_RootOfTrust encoded) \<Rightarrow>
       map_ok (\<lambda>r. Some (raw_tag_value Tag_RootOfTrust, dl_rot D r)) (dl_rot_of D encoded)
   | _ \<Rightarrow> Ok None)"

definition asn1_app_id :: "der_lib \<Rightarrow> key_param option \<Rightarrow> tagged_value option km" where
  "asn1_app_id D app_id = (case app_id of
     Some (KP_Bytes Bytes_AttestationApplicationId b) \<Rightarrow> Ok (Some (raw_tag_value Tag_AttestationApplicationId, dl_octets D b))
   | _ \<Rightarrow> Ok None)"

text \<open>The fields in the order of \<open>value_len\<close> and of \<open>encode_value\<close>; there is none for \<open>UserSecureId\<close>.\<close>

definition auth_list_fields :: "der_lib \<Rightarrow> authorization_list \<Rightarrow> tagged_value option km list" where
  "auth_list_fields D al = (let auths = al_auths al; ids = al_keygen_params al in
    [asn1_set_of_integer D sel_Purpose key_purpose_i32 Enum_Purpose auths,
     asn1_enum D sel_Algorithm algorithm_i32 Enum_Algorithm auths,
     asn1_integer D U32_KeySize auths,
     asn1_set_of_integer D sel_BlockMode block_mode_i32 Enum_BlockMode auths,
     asn1_set_of_integer D sel_Digest digest_i32 Enum_Digest auths,
     asn1_set_of_integer D sel_Padding padding_mode_i32 Enum_Padding auths,
     asn1_null D Bool_CallerNonce auths,
     asn1_integer D U32_MinMacLength auths,
     asn1_enum D sel_EcCurve ec_curve_i32 Enum_EcCurve auths,
     asn1_integer_newtype D U64_RsaPublicExponent auths,
     asn1_set_of_integer D sel_RsaOaepMgfDigest digest_i32 Enum_RsaOaepMgfDigest auths,
     asn1_null D Bool_RollbackResistance auths,
     asn1_null D Bool_EarlyBootOnly auths,
     asn1_integer_datetime D Date_ActiveDatetime auths,
     asn1_integer_datetime D Date_OriginationExpireDatetime auths,
     asn1_integer_datetime D Date_UsageExpireDatetime auths,
     asn1_integer D U32_UsageCountLimit auths,
     asn1_null D Bool_NoAuthRequired auths,
     asn1_integer D U32_UserAuthType auths,
     asn1_integer D U32_AuthTimeout auths,
     asn1_null D Bool_AllowWhileOnBody auths,
     asn1_null D Bool_TrustedUserPresenceRequired auths,
     asn1_null D Bool_TrustedConfirmationRequired auths,
     asn1_null D Bool_UnlockedDeviceRequired auths,
     asn1_integer_datetime D Date_CreationDatetime auths,
     asn1_enum D sel_Origin key_origin_i32 Enum_Origin auths,
     asn1_rot_info D (al_rot_info al),
     asn1_integer D U32_OsVersion auths,
     asn1_integer D U32_OsPatchlevel auths,
     asn1_app_id D (al_app_id al),
     asn1_octet_string D Bytes_AttestationIdBrand ids,
     asn1_octet_string D Bytes_AttestationIdDevice ids,
     asn1_octet_string D Bytes_AttestationIdProduct ids,
     asn1_octet_string D Bytes_AttestationIdSerial ids,
     asn1_octet_string D Bytes_AttestationIdImei ids,
     asn1_octet_string D Bytes_AttestationIdMeid ids,
     asn1_octet_string D Bytes_AttestationIdManufacturer ids,
     asn1_octet_string D Bytes_AttestationIdModel ids,
     asn1_integer D U32_VendorPatchlevel auths,
     asn1_integer D U32_BootPatchlevel auths,
     asn1_null D Bool_DeviceUniqueAttestation auths,
     asn1_octet_string D Bytes_AttestationIdSecondImei ids,
     asn1_octet_string D Bytes_ModuleHash (al_additional_attestation_info al)])"

fun add_lens :: "der_lib \<Rightarrow> tagged_value option km list \<Rightarrow> nat \<Rightarrow> nat km" where
  "add_lens D [] n = Ok n"
| "add_lens D (f # fs) n =
     and_then f (\<lambda>val. and_then (asn1_len D val) (\<lambda>l. and_then (dl_add D n l) (add_lens D fs)))"

definition value_len :: "der_lib \<Rightarrow> authorization_list \<Rightarrow> nat km" where
  "value_len D al = (case auth_list_fields D al of
     [] \<Rightarrow> Ok 0
   | f # fs \<Rightarrow> and_then f (\<lambda>val. and_then (asn1_len D val) (add_lens D fs)))"

fun write_fields :: "der_lib \<Rightarrow> tagged_value option km list \<Rightarrow> bytes km" where
  "write_fields D [] = Ok []"
| "write_fields D (f # fs) =
     and_then f (\<lambda>val. and_then (asn1_val D val) (\<lambda>b. map_ok (\<lambda>rest. b @ rest) (write_fields D fs)))"

definition encode_value :: "der_lib \<Rightarrow> authorization_list \<Rightarrow> bytes km" where
  "encode_value D al = write_fields D (auth_list_fields D al)"

section \<open>Decoding\<close>

definition from_raw_tag_value :: "u32 \<Rightarrow> tag" where
  "from_raw_tag_value raw_tag = (case find (\<lambda>t. raw_tag = raw_tag_value t) tag_variants of
     Some t \<Rightarrow> t | None \<Rightarrow> Tag_Invalid)"

fun read_byte :: "bytes \<Rightarrow> (u8 \<times> bytes) km" where
  "read_byte [] = Err Der"
| "read_byte (b # bs) = Ok (b, bs)"

definition read_raw_tag :: "bytes \<Rightarrow> (u32 \<times> bytes) km" where
  "read_raw_tag buf =
     and_then (read_byte buf) (\<lambda>(b1, buf).
     if b1 AND 0xbf = 0xbf then
       and_then (read_byte buf) (\<lambda>(b2, buf).
       if b2 AND 0x80 = 0x80 then
         and_then (read_byte buf) (\<lambda>(b3, buf).
         Ok (ucast (push_bit 7 (ucast (b2 XOR 0x80) :: 16 word) OR (ucast b3 :: 16 word)), buf))
       else Ok (ucast b2, buf))
     else Ok (ucast (b1 XOR 0b10100000), buf))"

definition decode_tag_from_bytes :: "bytes \<Rightarrow> (tag option \<times> bytes) km" where
  "decode_tag_from_bytes buf =
     (if buf = [] then Ok (None, [])
      else and_then (read_raw_tag buf) (\<lambda>(raw_tag, buf).
        let tag = from_raw_tag_value raw_tag in
        if tag = Tag_Invalid then Err Der else Ok (Some tag, buf)))"

definition set_params :: "der_lib \<Rightarrow> (int \<Rightarrow> 'v option) \<Rightarrow> ('v \<Rightarrow> key_param) \<Rightarrow> bytes \<Rightarrow> key_param list \<Rightarrow> key_param list km" where
  "set_params D n mk tlv_bytes key_params =
     and_then (dl_set_of D tlv_bytes) (\<lambda>vals.
     map_ok (\<lambda>vs. key_params @ map mk vs) (traverse (\<lambda>i. ok_or (n i) Der) vals))"

definition enum_param :: "der_lib \<Rightarrow> (int \<Rightarrow> 'v option) \<Rightarrow> ('v \<Rightarrow> key_param) \<Rightarrow> bytes \<Rightarrow> key_param list \<Rightarrow> key_param list km" where
  "enum_param D n mk tlv_bytes key_params =
     and_then (dl_i32_of D tlv_bytes) (\<lambda>i. map_ok (\<lambda>v. key_params @ [mk v]) (ok_or (n i) Der))"

definition DER_U32_TAGS :: "u32_tag list" where
  "DER_U32_TAGS = [U32_KeySize, U32_MinMacLength, U32_UsageCountLimit, U32_UserAuthType, U32_AuthTimeout,
     U32_OsVersion, U32_OsPatchlevel, U32_VendorPatchlevel, U32_BootPatchlevel]"

definition DER_NULL_TAGS :: "bool_tag list" where
  "DER_NULL_TAGS = [Bool_CallerNonce, Bool_RollbackResistance, Bool_EarlyBootOnly, Bool_NoAuthRequired,
     Bool_AllowWhileOnBody, Bool_TrustedUserPresenceRequired, Bool_TrustedConfirmationRequired,
     Bool_UnlockedDeviceRequired, Bool_DeviceUniqueAttestation]"

definition DER_DATE_TAGS :: "date_tag list" where
  "DER_DATE_TAGS = [Date_ActiveDatetime, Date_OriginationExpireDatetime, Date_UsageExpireDatetime, Date_CreationDatetime]"

definition DER_BYTES_TAGS :: "bytes_tag list" where
  "DER_BYTES_TAGS = [Bytes_AttestationApplicationId, Bytes_AttestationIdBrand, Bytes_AttestationIdDevice,
     Bytes_AttestationIdProduct, Bytes_AttestationIdSerial, Bytes_AttestationIdImei, Bytes_AttestationIdSecondImei,
     Bytes_AttestationIdMeid, Bytes_AttestationIdManufacturer, Bytes_AttestationIdModel, Bytes_ModuleHash]"

fun decode_value_from_bytes :: "der_lib \<Rightarrow> tag \<Rightarrow> bytes \<Rightarrow> key_param list \<Rightarrow> key_param list km" where
  "decode_value_from_bytes D (Tag_Enum Enum_Purpose) b ps = set_params D (enum_n key_purpose_i32 key_purpose_variants) KP_Purpose b ps"
| "decode_value_from_bytes D (Tag_Enum Enum_Algorithm) b ps = enum_param D (enum_n algorithm_i32 algorithm_variants) KP_Algorithm b ps"
| "decode_value_from_bytes D (Tag_Enum Enum_BlockMode) b ps = set_params D (enum_n block_mode_i32 block_mode_variants) KP_BlockMode b ps"
| "decode_value_from_bytes D (Tag_Enum Enum_Digest) b ps = set_params D (enum_n digest_i32 digest_variants) KP_Digest b ps"
| "decode_value_from_bytes D (Tag_Enum Enum_Padding) b ps = set_params D (enum_n padding_mode_i32 padding_mode_variants) KP_Padding b ps"
| "decode_value_from_bytes D (Tag_Enum Enum_EcCurve) b ps = enum_param D (enum_n ec_curve_i32 ec_curve_variants) KP_EcCurve b ps"
| "decode_value_from_bytes D (Tag_Enum Enum_RsaOaepMgfDigest) b ps = set_params D (enum_n digest_i32 digest_variants) KP_RsaOaepMgfDigest b ps"
| "decode_value_from_bytes D (Tag_Enum Enum_Origin) b ps = enum_param D (enum_n key_origin_i32 key_origin_variants) KP_Origin b ps"
| "decode_value_from_bytes D (Tag_U32 t) b ps =
     (if t \<in> set DER_U32_TAGS then map_ok (\<lambda>v. ps @ [KP_U32 t v]) (dl_u32_of D b) else Err Der)"
| "decode_value_from_bytes D (Tag_U64 t) b ps = map_ok (\<lambda>v. ps @ [KP_U64 t v]) (dl_u64_of D b)"
| "decode_value_from_bytes D (Tag_Bool t) b ps =
     (if t \<in> set DER_NULL_TAGS then map_ok (\<lambda>_. ps @ [KP_Bool t]) (dl_null_of D b) else Err Der)"
| "decode_value_from_bytes D (Tag_Date t) b ps =
     (if t \<in> set DER_DATE_TAGS then map_ok (\<lambda>v. ps @ [KP_Date t v]) (dl_i64_of D b) else Err Der)"
| "decode_value_from_bytes D (Tag_Bytes t) b ps =
     (if t = Bytes_RootOfTrust then Ok (ps @ [KP_RootOfTrust b])
      else if t \<in> set DER_BYTES_TAGS then map_ok (\<lambda>v. ps @ [KP_Bytes t v]) (dl_octets_of D b) else Err Der)"
| "decode_value_from_bytes D (Tag_Other t) b ps = Err Der"

definition decode_opt_field ::
  "der_lib \<Rightarrow> tag option \<Rightarrow> tag \<Rightarrow> bytes \<times> key_param list \<Rightarrow> (tag option \<times> bytes \<times> key_param list) km" where
  "decode_opt_field D already_read_tag expected_tag = (\<lambda>(buf, key_params).
     and_then (case already_read_tag of None \<Rightarrow> decode_tag_from_bytes buf | Some _ \<Rightarrow> Ok (already_read_tag, buf)) (\<lambda>(tag, buf).
     case tag of
       Some tag \<Rightarrow>
         if tag = expected_tag then
           and_then (dl_read_len D buf) (\<lambda>(inner_len, buf).
           and_then (require (inner_len \<le> length buf) Der) (\<lambda>_.
           and_then (dl_tlv D buf) (\<lambda>(next_tlv, buf).
           map_ok (\<lambda>key_params. (None, buf, key_params)) (decode_value_from_bytes D expected_tag next_tlv key_params))))
         else Ok (Some tag, buf, key_params)
     | None \<Rightarrow> Ok (None, buf, key_params)))"

fun process_authz_list_tags ::
  "der_lib \<Rightarrow> tag list \<Rightarrow> tag option \<Rightarrow> bytes \<times> key_param list \<Rightarrow> (bytes \<times> key_param list) km" where
  "process_authz_list_tags D [] non_consumed_tag st = (if non_consumed_tag = None then Ok st else Err Der)"
| "process_authz_list_tags D (t # ts) non_consumed_tag st =
     and_then (decode_opt_field D non_consumed_tag t st) (\<lambda>(non_consumed_tag, st).
     process_authz_list_tags D ts non_consumed_tag st)"

definition AUTHZ_LIST_TAGS :: "tag list" where
  "AUTHZ_LIST_TAGS =
    [Tag_Purpose, Tag_Algorithm, Tag_KeySize, Tag_BlockMode, Tag_Digest, Tag_Padding, Tag_CallerNonce,
     Tag_MinMacLength, Tag_EcCurve, Tag_RsaPublicExponent, Tag_RsaOaepMgfDigest, Tag_RollbackResistance,
     Tag_EarlyBootOnly, Tag_ActiveDatetime, Tag_OriginationExpireDatetime, Tag_UsageExpireDatetime,
     Tag_UsageCountLimit, Tag_UserSecureId, Tag_NoAuthRequired, Tag_UserAuthType, Tag_AuthTimeout,
     Tag_AllowWhileOnBody, Tag_TrustedUserPresenceRequired, Tag_TrustedConfirmationRequired,
     Tag_UnlockedDeviceRequired, Tag_CreationDatetime, Tag_CreationDatetime, Tag_Origin, Tag_RootOfTrust,
     Tag_OsVersion, Tag_OsPatchlevel, Tag_AttestationApplicationId, Tag_AttestationIdBrand,
     Tag_AttestationIdDevice, Tag_AttestationIdProduct, Tag_AttestationIdSerial, Tag_AttestationIdSerial,
     Tag_AttestationIdSerial, Tag_AttestationIdImei, Tag_AttestationIdMeid, Tag_AttestationIdManufacturer,
     Tag_AttestationIdModel, Tag_VendorPatchlevel, Tag_BootPatchlevel, Tag_DeviceUniqueAttestation,
     Tag_AttestationIdSecondImei, Tag_ModuleHash]"

definition decode_value :: "der_lib \<Rightarrow> nat \<Rightarrow> bytes \<Rightarrow> (authorization_list \<times> bytes) km" where
  "decode_value D header_length buf =
     (if header_length = 0 then Ok (empty_auth_list, buf)
      else and_then (require (header_length \<le> length buf) Der) (\<lambda>_.
        map_ok (\<lambda>(buf, key_params). (new_from_key_params key_params, buf))
          (process_authz_list_tags D AUTHZ_LIST_TAGS None (buf, []))))"

section \<open>Tags\<close>

lemma bit_below: "tag < 2 ^ n \<Longrightarrow> bit (tag :: u32) i \<Longrightarrow> i < n"
  by (metis bit_take_bit_iff leD less_mask_eq take_bit_eq_mask)

lemma bit_128: "bit (0x80 :: int) i \<longleftrightarrow> i = 7"
proof -
  have "(0x80 :: int) = push_bit 7 1" by simp
  then show ?thesis by (simp only: bit_push_bit_iff bit_1_iff) auto
qed

lemma low_tag: assumes "tag \<le> (0x1e :: u32)"
  shows "(0b10100000 OR ucast tag :: u8) AND 0xbf \<noteq> 0xbf" "ucast ((0b10100000 OR ucast tag :: u8) XOR 0b10100000) = tag"
proof -
  have "unat tag < 31"
    using assms by (simp add: word_le_nat_alt)
  then have "unat tag \<in> set [0..<31]"
    by simp
  then have "tag \<in> of_nat ` set [0..<31]"
    by (metis imageI of_nat_unat ucast_id)
  then have "tag \<in> {0,1,2,3,4,5,6,7,8,9,10,11,12,13,14,15,16,17,18,19,20,21,22,23,24,25,26,27,28,29,30}"
    by (simp add: upt_rec)
  then show "(0b10100000 OR ucast tag :: u8) AND 0xbf \<noteq> 0xbf" "ucast ((0b10100000 OR ucast tag :: u8) XOR 0b10100000) = tag"
    by auto
qed

lemma mid_tag: assumes "tag < (2 ^ 7 :: u32)"
  shows "(ucast tag :: u8) AND 0x80 \<noteq> 0x80" "ucast (ucast tag :: u8) = tag"
proof -
  have "bit tag i \<Longrightarrow> i < 7" for i
    by (rule bit_below [OF assms])
  then show "ucast (ucast tag :: u8) = tag"
    by (intro bit_word_eqI) (force simp: bit_simps)
  have "\<not> bit ((ucast tag :: u8) AND 0x80) 7"
    using bit_below [OF assms, of 7] by (auto simp: bit_simps)
  moreover have "bit (0x80 :: u8) 7"
    by simp
  ultimately show "(ucast tag :: u8) AND 0x80 \<noteq> 0x80"
    by metis
qed

lemma high_tag: assumes "tag < (2 ^ 14 :: u32)"
  shows "(ucast (drop_bit 7 tag) OR 0x80 :: u8) AND 0x80 = 0x80"
   "ucast (push_bit 7 (ucast ((ucast (drop_bit 7 tag) OR 0x80 :: u8) XOR 0x80) :: 16 word) OR (ucast (ucast (tag AND 0x7f) :: u8) :: 16 word)) = tag"
proof -
  have b: "bit tag i \<Longrightarrow> i < 14" for i
    by (rule bit_below [OF assms])
  have m: "0x7f = (mask 7 :: u32)" by (simp add: mask_eq_exp_minus_1)
  show "(ucast (drop_bit 7 tag) OR 0x80 :: u8) AND 0x80 = 0x80"
    by (intro bit_word_eqI) (auto simp: bit_simps)
  have "(ucast (drop_bit 7 tag) OR 0x80 :: u8) XOR 0x80 = ucast (drop_bit 7 tag)"
    by (intro bit_word_eqI) (auto simp: bit_or_iff bit_xor_iff bit_unsigned_iff bit_drop_bit_eq bit_128 dest: b)
  then show "ucast (push_bit 7 (ucast ((ucast (drop_bit 7 tag) OR 0x80 :: u8) XOR 0x80) :: 16 word) OR (ucast (ucast (tag AND 0x7f) :: u8) :: 16 word)) = tag"
    by (simp only: m) (intro bit_word_eqI, use b in \<open>fastforce simp: bit_simps\<close>)
qed

lemma read_explicit_tag:
  assumes "explicit_tag_encode tag = Ok t"
  shows "read_raw_tag (t @ rest) = Ok (tag, rest)" "t \<noteq> []"
proof -
  consider (low) "tag \<le> 0x1e" "t = [0b10100000 OR ucast tag]"
    | (mid) "tag \<le> 0x7f" "t = [0b10111111, ucast tag]"
    | (high) "tag \<le> 0x3fff" "t = [0b10111111, ucast (drop_bit 7 tag) OR 0x80, ucast (tag AND 0x7f)]"
    using assms by (auto simp: explicit_tag_encode_def split: if_splits)
  then have "read_raw_tag (t @ rest) = Ok (tag, rest) \<and> t \<noteq> []"
  proof cases
    case low
    then show ?thesis
      using low_tag [OF low(1)] by (simp add: read_raw_tag_def)
  next
    case mid
    then have "tag < 2 ^ 7"
      by (simp add: word_le_nat_alt word_less_nat_alt)
    then show ?thesis
      using mid_tag [of tag] mid(2) by (simp add: read_raw_tag_def)
  next
    case high
    then have "tag < 2 ^ 14"
      by (simp add: word_le_nat_alt word_less_nat_alt)
    then show ?thesis
      using high_tag [of tag] high(2) by (simp add: read_raw_tag_def)
  qed
  then show "read_raw_tag (t @ rest) = Ok (tag, rest)" "t \<noteq> []"
    by simp_all
qed

lemma explicit_tag_len_encode:
  "explicit_tag_len tag = map_ok length (explicit_tag_encode tag)"
  by (simp add: explicit_tag_len_def explicit_tag_encode_def)

text \<open>The raw values are as good as the tags.\<close>

interpretation raw_tag: rust_enum "\<lambda>t. uint (raw_tag_value t)" tag_variants
proof
  show "set tag_variants = UNIV"
    by (rule tag_enum.exhaustive)
  show "distinct (map (\<lambda>t. uint (raw_tag_value t)) tag_variants)"
    by (simp add: tag_variants_def raw_tag_value_def tag_u32_def)
  fix x
  have "raw_tag_value x \<le> 0x0fffffff"
    by (simp add: raw_tag_value_def word_and_le1)
  then have "uint (raw_tag_value x) \<le> 0x0fffffff"
    by (simp add: word_le_def)
  then show "i32_range (uint (raw_tag_value x))"
    unfolding i32_range_def using uint_ge_0 [of "raw_tag_value x"] by linarith
qed

lemma from_raw_tag_value [simp]: "from_raw_tag_value (raw_tag_value t) = t"
proof -
  have "(\<lambda>t'. uint (raw_tag_value t') = uint (raw_tag_value t)) = (\<lambda>t'. raw_tag_value t = raw_tag_value t')"
    by (auto simp: fun_eq_iff word_uint_eq_iff)
  then show ?thesis
    using raw_tag.n_as_i32 [of t] by (simp add: enum_n_def from_raw_tag_value_def)
qed

lemma decode_explicit_tag:
  assumes "explicit_tag_encode (raw_tag_value t) = Ok b" "t \<noteq> Tag_Invalid"
  shows "decode_tag_from_bytes (b @ rest) = Ok (Some t, rest)"
  using read_explicit_tag [OF assms(1)] assms(2) by (simp add: decode_tag_from_bytes_def)

section \<open>What the \<open>der\<close> crate promises\<close>

text \<open>Elements of a set are inserted one by one; this is how a set comes about.\<close>

inductive der_set :: "der_lib \<Rightarrow> i64 list \<Rightarrow> bool" for D where
  empty: "der_set D []"
| insert: "der_set D vs \<Longrightarrow> dl_insert_ordered D vs v = Ok ws \<Longrightarrow> der_set D ws"

definition is_tlv :: "der_lib \<Rightarrow> bytes \<Rightarrow> bool" where
  "is_tlv D b \<longleftrightarrow> (\<forall>rest. dl_tlv D (b @ rest) = Ok (b, rest))"

text \<open>
  Every encoding is one TLV, which \<open>tlv_bytes\<close> cuts off the input; what was encoded is decoded again, also at
  another integer type that has the value; lengths add up below \<open>Length::MAX\<close>, 256 MiB.
\<close>

definition der_works :: "der_lib \<Rightarrow> bool" where
  "der_works D \<longleftrightarrow>
     (\<forall>n l rest. dl_len D n = Ok l \<longrightarrow> dl_read_len D (l @ rest) = Ok (n, rest))
   \<and> (\<forall>m n. m + n < 2 ^ 28 \<longrightarrow> dl_add D m n = Ok (m + n))
   \<and> (\<forall>vs v ws. dl_insert_ordered D vs v = Ok ws \<longrightarrow> ws = vs @ [v])
   \<and> (\<forall>i b. dl_i64 D i = Ok b \<longrightarrow> is_tlv D b \<and> dl_i64_of D b = Ok i \<and> (i < 2 ^ 63 \<longrightarrow> dl_u64_of D b = Ok i))
   \<and> (\<forall>n b. dl_i64 D (word_of_int n) = Ok b \<longrightarrow> i32_range n \<longrightarrow> dl_i32_of D b = Ok n)
   \<and> (\<forall>u b. dl_i64 D (ucast u) = Ok b \<longrightarrow> dl_u32_of D b = Ok u)
   \<and> (\<forall>b. dl_null D = Ok b \<longrightarrow> is_tlv D b \<and> dl_null_of D b = Ok ())
   \<and> (\<forall>d b. dl_octets D d = Ok b \<longrightarrow> is_tlv D b \<and> dl_octets_of D b = Ok d)
   \<and> (\<forall>ns b. dl_set D (map word_of_int ns) = Ok b \<longrightarrow> der_set D (map word_of_int ns) \<longrightarrow> (\<forall>n \<in> set ns. i32_range n) \<longrightarrow>
        is_tlv D b \<and> dl_set_of D b = Ok ns)
   \<and> (\<forall>r b. dl_rot D r = Ok b \<longrightarrow> is_tlv D b \<and> dl_rot_of D b = Ok r)"

lemma der_worksD:
  assumes "der_works D"
  shows der_len: "dl_len D n = Ok l \<Longrightarrow> dl_read_len D (l @ rest) = Ok (n, rest)"
    and der_add: "m + n < 2 ^ 28 \<Longrightarrow> dl_add D m n = Ok (m + n)"
    and der_insert: "dl_insert_ordered D vs v = Ok ws \<Longrightarrow> ws = vs @ [v]"
    and der_i64: "dl_i64 D i = Ok b \<Longrightarrow> is_tlv D b \<and> dl_i64_of D b = Ok i"
    and der_u64: "dl_i64 D i = Ok b \<Longrightarrow> i < 2 ^ 63 \<Longrightarrow> dl_u64_of D b = Ok i"
    and der_i32: "dl_i64 D (word_of_int k) = Ok b \<Longrightarrow> i32_range k \<Longrightarrow> dl_i32_of D b = Ok k"
    and der_u32: "dl_i64 D (ucast u) = Ok b \<Longrightarrow> dl_u32_of D b = Ok u"
    and der_null: "dl_null D = Ok b \<Longrightarrow> is_tlv D b \<and> dl_null_of D b = Ok ()"
    and der_octets: "dl_octets D d = Ok b \<Longrightarrow> is_tlv D b \<and> dl_octets_of D b = Ok d"
    and der_set_of: "dl_set D (map word_of_int ns) = Ok b \<Longrightarrow> der_set D (map word_of_int ns) \<Longrightarrow>
      (\<And>n. n \<in> set ns \<Longrightarrow> i32_range n) \<Longrightarrow> is_tlv D b \<and> dl_set_of D b = Ok ns"
    and der_rot: "dl_rot D r = Ok b \<Longrightarrow> is_tlv D b \<and> dl_rot_of D b = Ok r"
  using assms unfolding der_works_def by simp_all

section \<open>What is encoded\<close>

text \<open>A selector picks the parameters of one tag.\<close>

locale selector =
  fixes sel :: "key_param \<Rightarrow> 'v option" and mk :: "'v \<Rightarrow> key_param" and tag :: tag
  assumes sel_iff: "sel p = Some v \<longleftrightarrow> p = mk v"
    and tag_iff: "key_param_tag p = tag \<longleftrightarrow> sel p \<noteq> None"
begin

lemma filter_tag: "filter (\<lambda>p. key_param_tag p = tag) ps = map mk (tag_values sel ps)"
proof (induction ps)
  case (Cons p ps)
  then show ?case
    using sel_iff [of p] tag_iff [of p] by (cases "sel p") auto
qed simp

lemma mk_eq_iff: "mk v = mk w \<longleftrightarrow> v = w"
  by (metis option.inject sel_iff)

lemma inj_mk: "inj mk"
  by (simp add: inj_on_def mk_eq_iff)

end

interpretation sel_Purpose: selector sel_Purpose KP_Purpose Tag_Purpose
  by standard (case_tac p; auto)+
interpretation sel_Algorithm: selector sel_Algorithm KP_Algorithm Tag_Algorithm
  by standard (case_tac p; auto)+
interpretation sel_BlockMode: selector sel_BlockMode KP_BlockMode Tag_BlockMode
  by standard (case_tac p; auto)+
interpretation sel_Digest: selector sel_Digest KP_Digest Tag_Digest
  by standard (case_tac p; auto)+
interpretation sel_Padding: selector sel_Padding KP_Padding Tag_Padding
  by standard (case_tac p; auto)+
interpretation sel_EcCurve: selector sel_EcCurve KP_EcCurve Tag_EcCurve
  by standard (case_tac p; auto)+
interpretation sel_RsaOaepMgfDigest: selector sel_RsaOaepMgfDigest KP_RsaOaepMgfDigest Tag_RsaOaepMgfDigest
  by standard (case_tac p; auto)+
interpretation sel_Origin: selector sel_Origin KP_Origin Tag_Origin
  by standard (case_tac p; auto)+
interpretation sel_u32: selector "sel_u32 t" "KP_U32 t" "Tag_U32 t" for t
  by standard (case_tac p; auto)+
interpretation sel_u64: selector "sel_u64 t" "KP_U64 t" "Tag_U64 t" for t
  by standard (case_tac p; auto)+
interpretation sel_date: selector "sel_date t" "KP_Date t" "Tag_Date t" for t
  by standard (case_tac p; auto)+
interpretation sel_bytes: selector "sel_bytes t" "KP_Bytes t" "Tag_Bytes t" for t
  by standard (case_tac p; auto)+

text \<open>The fields of an encoded list and the parameters each of them carries.\<close>

definition ENCODED_TAGS :: "tag list" where
  "ENCODED_TAGS =
    [Tag_Purpose, Tag_Algorithm, Tag_KeySize, Tag_BlockMode, Tag_Digest, Tag_Padding, Tag_CallerNonce,
     Tag_MinMacLength, Tag_EcCurve, Tag_RsaPublicExponent, Tag_RsaOaepMgfDigest, Tag_RollbackResistance,
     Tag_EarlyBootOnly, Tag_ActiveDatetime, Tag_OriginationExpireDatetime, Tag_UsageExpireDatetime,
     Tag_UsageCountLimit, Tag_NoAuthRequired, Tag_UserAuthType, Tag_AuthTimeout,
     Tag_AllowWhileOnBody, Tag_TrustedUserPresenceRequired, Tag_TrustedConfirmationRequired,
     Tag_UnlockedDeviceRequired, Tag_CreationDatetime, Tag_Origin, Tag_RootOfTrust,
     Tag_OsVersion, Tag_OsPatchlevel, Tag_AttestationApplicationId, Tag_AttestationIdBrand,
     Tag_AttestationIdDevice, Tag_AttestationIdProduct, Tag_AttestationIdSerial, Tag_AttestationIdImei,
     Tag_AttestationIdMeid, Tag_AttestationIdManufacturer, Tag_AttestationIdModel, Tag_VendorPatchlevel,
     Tag_BootPatchlevel, Tag_DeviceUniqueAttestation, Tag_AttestationIdSecondImei, Tag_ModuleHash]"

definition source_params :: "authorization_list \<Rightarrow> tag \<Rightarrow> key_param list" where
  "source_params al t =
     (if t = Tag_RootOfTrust then (case al_rot_info al of None \<Rightarrow> [] | Some p \<Rightarrow> [p])
      else if t = Tag_AttestationApplicationId then (case al_app_id al of None \<Rightarrow> [] | Some p \<Rightarrow> [p])
      else if t = Tag_ModuleHash then al_additional_attestation_info al
      else if t \<in> Tag_Bytes ` fst ` set attestation_id_fields then al_keygen_params al
      else al_auths al)"

definition encoded_params :: "authorization_list \<Rightarrow> tag \<Rightarrow> key_param list" where
  "encoded_params al t = remdups_adj (filter (\<lambda>p. key_param_tag p = t) (source_params al t))"

definition field_ok :: "der_lib \<Rightarrow> tag \<Rightarrow> tagged_value option km \<Rightarrow> key_param list \<Rightarrow> bool" where
  "field_ok D t f ps \<longleftrightarrow>
     (f = Ok None \<longrightarrow> ps = [])
   \<and> (\<forall>raw v. f = Ok (Some (raw, Ok v)) \<longrightarrow>
        raw = raw_tag_value t \<and> is_tlv D v \<and> (\<forall>qs. decode_value_from_bytes D t v qs = Ok (qs @ ps)))"

context selector
begin

lemma single_field_ok:
  assumes "\<And>v b qs. enc v = Ok b \<Longrightarrow> mk v \<in> set ps \<Longrightarrow> is_tlv D b \<and> decode_value_from_bytes D tag b qs = Ok (qs @ [mk v])"
  shows "field_ok D tag (asn1_single sel enc tag ps) (remdups_adj (filter (\<lambda>p. key_param_tag p = tag) ps))"
proof -
  have "mk v \<in> set ps" if "tag_values sel ps = [v]" for v
    using filter_tag [of ps] that by (metis filter_eq_Cons_iff in_set_conv_decomp list.simps(8,9))
  moreover have "x = None \<and> tag_values sel ps = [] \<or> (\<exists>v. x = Some v \<and> tag_values sel ps = [v])"
    if "get_opt_tag_value sel InvalidTag ps = Ok x" for x
    using that by (cases x) (simp_all add: get_opt_tag_value_eq)
  ultimately show ?thesis
    using assms by (fastforce simp: field_ok_def asn1_single_def filter_tag map_ok_eq map_err_eq)
qed

end

lemma ordered_set_Some:
  assumes "der_works D" "ordered_set D (Some v) (vs @ [v]) ws = Ok us" "der_set D (vs @ [v])"
  shows "us = vs @ remdups_adj (v # ws) \<and> der_set D us"
  using assms(2,3)
proof (induction ws arbitrary: v vs)
  case (Cons w ws)
  show ?case
  proof (cases "w = v")
    case False
    then obtain us' where ins: "dl_insert_ordered D (vs @ [v]) w = Ok us'" and us: "ordered_set D (Some w) us' ws = Ok us"
      using Cons.prems(1) by (auto simp: and_then_eq_Ok)
    have "us' = (vs @ [v]) @ [w]"
      by (rule der_insert [OF assms(1) ins])
    then show ?thesis
      using Cons.IH [of w "vs @ [v]"] us der_set.insert [OF Cons.prems(2) ins] False by auto
  qed (use Cons in simp)
qed simp

lemma ordered_set_None:
  assumes "der_works D" "ordered_set D None [] ws = Ok us"
  shows "us = remdups_adj ws \<and> der_set D us"
proof (cases ws)
  case Nil
  then show ?thesis
    using assms(2) by (simp add: der_set.empty)
next
  case (Cons w ws')
  then obtain us' where ins: "dl_insert_ordered D [] w = Ok us'" and us: "ordered_set D (Some w) us' ws' = Ok us"
    using assms(2) by (auto simp: and_then_eq_Ok)
  have "us' = [] @ [w]"
    by (rule der_insert [OF assms(1) ins])
  then show ?thesis
    using ordered_set_Some [OF assms(1), of w "[]" ws' us] us der_set.insert [OF der_set.empty ins] Cons by auto
qed

lemma sint_i32: "i32_range n \<Longrightarrow> sint (word_of_int n :: i64) = n"
  by (simp add: i32_range_def signed_of_int signed_take_bit_int_eq_self)

lemma word_of_i32_inj:
  assumes "i32_range m" "i32_range n" "word_of_int m = (word_of_int n :: i64)"
  shows "m = n"
  using assms sint_i32 by metis

text \<open>A repeatable tag: a selector whose values are the variants of an enumeration.\<close>

locale enum_selector = selector sel mk tag + rust_enum as_i32 variants
  for sel :: "key_param \<Rightarrow> 'v option" and mk tag and as_i32 :: "'v \<Rightarrow> int" and variants
begin

lemma set_field_ok:
  assumes works: "der_works D" and tag: "tag = Tag_Enum t"
    and dec: "\<And>b qs. decode_value_from_bytes D tag b qs = set_params D (enum_n as_i32 variants) mk b qs"
  shows "field_ok D tag (asn1_set_of_integer D sel as_i32 t ps) (remdups_adj (filter (\<lambda>p. key_param_tag p = tag) ps))"
proof -
  let ?vs = "tag_values sel ps" and ?f = "\<lambda>v. word_of_int (as_i32 v) :: i64"
  have inj: "inj ?f"
    using word_of_i32_inj [OF discriminants_i32 discriminants_i32] as_i32_inj by (intro injI) blast
  have params: "remdups_adj (filter (\<lambda>p. key_param_tag p = tag) ps) = map mk (remdups_adj ?vs)"
    by (simp add: filter_tag remdups_adj_map_injective inj_mk)
  have "is_tlv D b \<and> decode_value_from_bytes D tag b qs = Ok (qs @ map mk (remdups_adj ?vs))"
    if elems: "ordered_set D None [] (map ?f ?vs) = Ok elems" and b: "dl_set D elems = Ok b" for elems b qs
  proof -
    have "elems = map word_of_int (map as_i32 (remdups_adj ?vs)) \<and> der_set D elems"
      using ordered_set_None [OF works elems] by (auto simp: remdups_adj_map_injective inj comp_def)
    then have "is_tlv D b \<and> dl_set_of D b = Ok (map as_i32 (remdups_adj ?vs))"
      using der_set_of [OF works, of "map as_i32 (remdups_adj ?vs)" b] b discriminants_i32 by auto
    moreover have "traverse (\<lambda>i. ok_or (enum_n as_i32 variants i) Der) (map as_i32 us) = Ok us" for us
      by (induction us) (simp_all add: n_as_i32 ok_or_def)
    ultimately show ?thesis
      by (simp add: dec set_params_def)
  qed
  then show ?thesis
    unfolding params by (auto simp: field_ok_def asn1_set_of_integer_def Let_def map_ok_eq tag [symmetric])
qed

lemma enum_field_ok:
  assumes works: "der_works D" and tag: "tag = Tag_Enum t"
    and dec: "\<And>b qs. decode_value_from_bytes D tag b qs = enum_param D (enum_n as_i32 variants) mk b qs"
  shows "field_ok D tag (asn1_enum D sel as_i32 t ps) (remdups_adj (filter (\<lambda>p. key_param_tag p = tag) ps))"
  unfolding asn1_enum_def tag [symmetric]
  using der_i64 [OF works] der_i32 [OF works _ discriminants_i32]
  by (intro single_field_ok) (simp add: dec enum_param_def n_as_i32 ok_or_def)

end

interpretation Purpose: enum_selector sel_Purpose KP_Purpose Tag_Purpose key_purpose_i32 key_purpose_variants ..
interpretation Algorithm: enum_selector sel_Algorithm KP_Algorithm Tag_Algorithm algorithm_i32 algorithm_variants ..
interpretation BlockMode: enum_selector sel_BlockMode KP_BlockMode Tag_BlockMode block_mode_i32 block_mode_variants ..
interpretation Digest: enum_selector sel_Digest KP_Digest Tag_Digest digest_i32 digest_variants ..
interpretation Padding: enum_selector sel_Padding KP_Padding Tag_Padding padding_mode_i32 padding_mode_variants ..
interpretation EcCurve: enum_selector sel_EcCurve KP_EcCurve Tag_EcCurve ec_curve_i32 ec_curve_variants ..
interpretation RsaOaepMgfDigest: enum_selector sel_RsaOaepMgfDigest KP_RsaOaepMgfDigest Tag_RsaOaepMgfDigest digest_i32 digest_variants ..
interpretation Origin: enum_selector sel_Origin KP_Origin Tag_Origin key_origin_i32 key_origin_variants ..

lemma null_field_ok:
  assumes "der_works D" "t \<in> set DER_NULL_TAGS"
  shows "field_ok D (Tag_Bool t) (asn1_null D t ps) (remdups_adj (filter (\<lambda>p. key_param_tag p = Tag_Bool t) ps))"
proof -
  have "(key_param_tag p = Tag_Bool t) = (p = KP_Bool t)" for p
    by (cases p) auto
  then have params: "filter (\<lambda>p. key_param_tag p = Tag_Bool t) ps = replicate (count_list ps (KP_Bool t)) (KP_Bool t)"
    by (induction ps) auto
  have "count_list ps (KP_Bool t) = (if b then 1 else 0)" if "get_bool_tag_value t ps = Ok b" for b
    using that by (simp add: get_bool_tag_value_eq count_notin split: if_splits)
  then show ?thesis
    using der_null [OF assms(1)] assms(2) by (auto simp: field_ok_def asn1_null_def params map_ok_eq map_err_eq split: if_splits)
qed

lemma key_param_tag_Bytes: "key_param_tag p = Tag_Bytes t \<Longrightarrow> \<exists>b. p = KP_Bytes t b"
  by (cases p) auto

lemma rot_field_ok:
  assumes "der_works D" "\<And>b. rot = Some (KP_RootOfTrust b) \<Longrightarrow> \<exists>r. dl_rot D r = Ok b"
  shows "field_ok D Tag_RootOfTrust (asn1_rot_info D rot)
    (remdups_adj (filter (\<lambda>p. key_param_tag p = Tag_RootOfTrust) (case rot of None \<Rightarrow> [] | Some p \<Rightarrow> [p])))"
proof (cases "\<exists>b. rot = Some (KP_RootOfTrust b)")
  case True
  then obtain b where b: "rot = Some (KP_RootOfTrust b)"
    by blast
  obtain r where r: "dl_rot D r = Ok b"
    using assms(2) [OF b] by blast
  show ?thesis
    using der_rot [OF assms(1) r] r by (auto simp: field_ok_def asn1_rot_info_def b)
next
  case False
  then have "asn1_rot_info D rot = Ok None" "\<And>p. rot = Some p \<Longrightarrow> key_param_tag p \<noteq> Tag_RootOfTrust"
    using key_param_tag_Bytes by (auto simp: asn1_rot_info_def split: option.splits key_param.splits bytes_tag.splits)
  then show ?thesis
    by (auto simp: field_ok_def split: option.splits)
qed

lemma app_id_field_ok:
  assumes "der_works D"
  shows "field_ok D Tag_AttestationApplicationId (asn1_app_id D app_id)
    (remdups_adj (filter (\<lambda>p. key_param_tag p = Tag_AttestationApplicationId) (case app_id of None \<Rightarrow> [] | Some p \<Rightarrow> [p])))"
proof (cases "\<exists>b. app_id = Some (KP_AttestationApplicationId b)")
  case True
  then show ?thesis
    using der_octets [OF assms] by (auto simp: field_ok_def asn1_app_id_def DER_BYTES_TAGS_def)
next
  case False
  then have "asn1_app_id D app_id = Ok None" "\<And>p. app_id = Some p \<Longrightarrow> key_param_tag p \<noteq> Tag_AttestationApplicationId"
    using key_param_tag_Bytes by (auto simp: asn1_app_id_def split: option.splits key_param.splits bytes_tag.splits)
  then show ?thesis
    by (auto simp: field_ok_def split: option.splits)
qed

lemma u32_field_ok:
  assumes "der_works D" "t \<in> set DER_U32_TAGS"
  shows "field_ok D (Tag_U32 t) (asn1_integer D t ps) (remdups_adj (filter (\<lambda>p. key_param_tag p = Tag_U32 t) ps))"
  unfolding asn1_integer_def using der_i64 [OF assms(1)] der_u32 [OF assms(1)] assms(2)
  by (intro sel_u32.single_field_ok) simp

lemma exponent_field_ok:
  assumes "der_works D" "\<And>e. KP_U64 t e \<in> set ps \<Longrightarrow> e < 2 ^ 63"
  shows "field_ok D (Tag_U64 t) (asn1_integer_newtype D t ps) (remdups_adj (filter (\<lambda>p. key_param_tag p = Tag_U64 t) ps))"
  unfolding asn1_integer_newtype_def using der_i64 [OF assms(1)] der_u64 [OF assms(1)] assms(2)
  by (intro sel_u64.single_field_ok) simp

lemma date_field_ok:
  assumes "der_works D" "t \<in> set DER_DATE_TAGS"
  shows "field_ok D (Tag_Date t) (asn1_integer_datetime D t ps) (remdups_adj (filter (\<lambda>p. key_param_tag p = Tag_Date t) ps))"
  unfolding asn1_integer_datetime_def using der_i64 [OF assms(1)] assms(2)
  by (intro sel_date.single_field_ok) simp

lemma octets_field_ok:
  assumes "der_works D" "t \<in> set DER_BYTES_TAGS"
  shows "field_ok D (Tag_Bytes t) (asn1_octet_string D t ps) (remdups_adj (filter (\<lambda>p. key_param_tag p = Tag_Bytes t) ps))"
  unfolding asn1_octet_string_def using der_octets [OF assms(1)] assms(2)
  by (intro sel_bytes.single_field_ok) (auto simp: DER_BYTES_TAGS_def)

text \<open>What can be encoded without loss: exponents that fit a signed integer, a root of trust that was encoded.\<close>

definition encodable :: "der_lib \<Rightarrow> authorization_list \<Rightarrow> bool" where
  "encodable D al \<longleftrightarrow>
     (\<forall>e. KP_RsaPublicExponent e \<in> set (al_auths al) \<longrightarrow> e < 2 ^ 63)
   \<and> (\<forall>b. al_rot_info al = Some (KP_RootOfTrust b) \<longrightarrow> (\<exists>r. dl_rot D r = Ok b))"

lemma fields_ok:
  assumes "der_works D" "encodable D al"
  shows "list_all2 (\<lambda>t f. field_ok D t f (encoded_params al t)) ENCODED_TAGS (auth_list_fields D al)"
  using assms(2)
  by (simp add: ENCODED_TAGS_def auth_list_fields_def Let_def encoded_params_def source_params_def attestation_id_fields_def
    encodable_def rot_field_ok [OF assms(1)] app_id_field_ok [OF assms(1)] exponent_field_ok [OF assms(1)]
    null_field_ok [OF assms(1)] u32_field_ok [OF assms(1)] date_field_ok [OF assms(1)] octets_field_ok [OF assms(1)]
    Purpose.set_field_ok [OF assms(1)] BlockMode.set_field_ok [OF assms(1)] Digest.set_field_ok [OF assms(1)]
    Padding.set_field_ok [OF assms(1)] RsaOaepMgfDigest.set_field_ok [OF assms(1)]
    Algorithm.enum_field_ok [OF assms(1)] EcCurve.enum_field_ok [OF assms(1)] Origin.enum_field_ok [OF assms(1)]
    DER_NULL_TAGS_def DER_U32_TAGS_def DER_DATE_TAGS_def DER_BYTES_TAGS_def)

text \<open>A field in the encoding: its tag, what follows the tag, and the parameters it carries.\<close>

fun item_ok :: "der_lib \<Rightarrow> tag \<times> bytes \<times> key_param list \<Rightarrow> bool" where
  "item_ok D (t, b, ps) \<longleftrightarrow>
     (\<exists>l v. b = l @ v \<and> dl_len D (length v) = Ok l \<and> is_tlv D v \<and> (\<forall>qs. decode_value_from_bytes D t v qs = Ok (qs @ ps)))
   \<and> is_ok (explicit_tag_encode (raw_tag_value t)) \<and> t \<noteq> Tag_Invalid"

fun item_bytes :: "tag \<times> bytes \<times> key_param list \<Rightarrow> bytes" where
  "item_bytes (t, b, ps) = (case explicit_tag_encode (raw_tag_value t) of Ok tb \<Rightarrow> tb @ b | _ \<Rightarrow> [])"

abbreviation item_params :: "tag \<times> bytes \<times> key_param list \<Rightarrow> key_param list" where
  "item_params it \<equiv> snd (snd it)"

lemma field_item:
  assumes "field_ok D t (Ok val) ps" "asn1_val D val = Ok b" "t \<noteq> Tag_Invalid"
  obtains items where "map fst items = (if items = [] then [] else [t])" "list_all (item_ok D) items"
    "b = concat (map item_bytes items)" "ps = concat (map item_params items)"
proof (cases val)
  case None
  then show thesis
    using assms that [of "[]"] by (simp add: field_ok_def asn1_val_def)
next
  case (Some x)
  then obtain raw v tb l where x: "x = (raw, Ok v)" and tb: "explicit_tag_encode raw = Ok tb"
    and l: "dl_len D (length v) = Ok l" and b: "b = tb @ l @ v"
    using assms(2) by (cases x) (auto simp: asn1_val_def explicit_encode_def and_then_eq_Ok)
  have "raw = raw_tag_value t" "is_tlv D v" "\<And>qs. decode_value_from_bytes D t v qs = Ok (qs @ ps)"
    using assms(1) Some x by (auto simp: field_ok_def)
  then show thesis
    using tb l b assms(3) that [of "[(t, l @ v, ps)]"] by (auto simp: is_ok_def)
qed

lemma write_fields_items:
  assumes "list_all2 (\<lambda>t f. field_ok D t f (P t)) ts fs" "write_fields D fs = Ok bs" "Tag_Invalid \<notin> set ts"
  shows "\<exists>items. subseq (map fst items) ts \<and> list_all (item_ok D) items
    \<and> bs = concat (map item_bytes items) \<and> concat (map P ts) = concat (map item_params items)"
  using assms
proof (induction arbitrary: bs)
  case (Cons t ts f fs)
  then obtain val b rest where f: "f = Ok val" and b: "asn1_val D val = Ok b"
    and rest: "write_fields D fs = Ok rest" and bs: "bs = b @ rest"
    by (auto simp: and_then_eq_Ok map_ok_eq)
  obtain items where items: "subseq (map fst items) ts" "list_all (item_ok D) items" "rest = concat (map item_bytes items)"
    "concat (map P ts) = concat (map item_params items)"
    using Cons.IH [OF rest] Cons.prems(2) by auto
  obtain its where "map fst its = (if its = [] then [] else [t])" "list_all (item_ok D) its"
    "b = concat (map item_bytes its)" "P t = concat (map item_params its)"
    using field_item [of D t val "P t" b] Cons.hyps(1) f b Cons.prems(2) by auto
  then show ?case
    using items bs by (intro exI [of _ "its @ items"]) (auto split: if_splits)
qed (intro exI [of _ "[]"], simp)

text \<open>The decoder reads the fields in order and skips the tags that are absent.\<close>

lemma decode_item:
  assumes "der_works D" "item_ok D (t, b, ps)"
  shows "decode_opt_field D (Some t) t (b @ rest, qs) = Ok (None, rest, qs @ ps)"
    and "decode_opt_field D None t' (item_bytes (t, b, ps) @ rest, qs) = decode_opt_field D (Some t) t' (b @ rest, qs)"
proof -
  obtain l v where lv: "b = l @ v" "dl_len D (length v) = Ok l" "is_tlv D v" "\<And>qs. decode_value_from_bytes D t v qs = Ok (qs @ ps)"
    using assms(2) by auto
  show "decode_opt_field D (Some t) t (b @ rest, qs) = Ok (None, rest, qs @ ps)"
    using lv der_len [OF assms(1) lv(2)] by (simp add: decode_opt_field_def is_tlv_def require_def)
  obtain tb where tb: "explicit_tag_encode (raw_tag_value t) = Ok tb" "t \<noteq> Tag_Invalid"
    using assms(2) by (cases "explicit_tag_encode (raw_tag_value t)") (auto simp: is_ok_def)
  show "decode_opt_field D None t' (item_bytes (t, b, ps) @ rest, qs) = decode_opt_field D (Some t) t' (b @ rest, qs)"
    using decode_explicit_tag [OF tb, of "b @ rest"] tb(1) by (simp add: decode_opt_field_def)
qed

lemma process_items:
  assumes "der_works D" "list_all (item_ok D) items" "subseq (map fst items) ts"
  shows "process_authz_list_tags D ts None (concat (map item_bytes items), qs) = Ok ([], qs @ concat (map item_params items))
    \<and> (\<forall>t b ps rest. items = (t, b, ps) # rest \<longrightarrow>
        process_authz_list_tags D ts (Some t) (b @ concat (map item_bytes rest), qs) = Ok ([], qs @ concat (map item_params items)))"
  using assms(2,3)
proof (induction ts arbitrary: items qs)
  case Nil
  then show ?case
    by (cases items) simp_all
next
  case (Cons t' ts)
  show ?case
  proof (cases items)
    case Nil
    then show ?thesis
      using Cons.IH [of "[]" qs] by (simp add: decode_opt_field_def decode_tag_from_bytes_def)
  next
    case (Cons it rest)
    obtain t b ps where it: "it = (t, b, ps)"
      by (cases it)
    have ok: "item_ok D (t, b, ps)" "list_all (item_ok D) rest"
      using \<open>list_all (item_ok D) items\<close> Cons it by simp_all
    have some: "process_authz_list_tags D (t' # ts) (Some t) (b @ concat (map item_bytes rest), qs)
      = Ok ([], qs @ concat (map item_params items))"
    proof (cases "t = t'")
      case True
      then have "subseq (map fst rest) ts"
        using \<open>subseq (map fst items) (t' # ts)\<close> Cons it by simp
      then show ?thesis
        using Cons.IH [OF ok(2), of "qs @ ps"] decode_item(1) [OF assms(1) ok(1)] True Cons it by simp
    next
      case False
      then have "subseq (map fst items) ts"
        using \<open>subseq (map fst items) (t' # ts)\<close> Cons it by simp
      then show ?thesis
        using Cons.IH [OF \<open>list_all (item_ok D) items\<close>, of qs] False Cons it by (simp add: decode_opt_field_def)
    qed
    then show ?thesis
      using decode_item(2) [OF assms(1) ok(1), of t' "concat (map item_bytes rest)" qs] Cons it by simp
  qed
qed

lemma encoded_tags: "subseq ENCODED_TAGS AUTHZ_LIST_TAGS" "Tag_Invalid \<notin> set ENCODED_TAGS" "distinct ENCODED_TAGS"
  by (simp_all add: ENCODED_TAGS_def AUTHZ_LIST_TAGS_def)

definition canonical_params :: "authorization_list \<Rightarrow> key_param list" where
  "canonical_params al = concat (map (encoded_params al) ENCODED_TAGS)"

lemma decode_encoded:
  assumes "der_works D" "encodable D al" "encode_value D al = Ok bs"
  shows "decode_value D (length bs) bs = Ok (new_from_key_params (canonical_params al), [])"
proof -
  obtain items where items: "subseq (map fst items) ENCODED_TAGS" "list_all (item_ok D) items"
    "bs = concat (map item_bytes items)" "canonical_params al = concat (map item_params items)"
    using write_fields_items [OF fields_ok [OF assms(1,2)] _ encoded_tags(2)] assms(3)
    by (auto simp: encode_value_def canonical_params_def)
  have "process_authz_list_tags D AUTHZ_LIST_TAGS None (bs, []) = Ok ([], canonical_params al)"
    using process_items [OF assms(1) items(2), of AUTHZ_LIST_TAGS "[]"] items(1,3,4) encoded_tags(1)
    by (simp add: subseq_order.trans)
  moreover have "items = []" if "bs = []"
  proof (cases items)
    case (Cons it rest)
    then have "item_bytes it = []" "item_ok D it"
      using that items(2,3) by simp_all
    then show ?thesis
      using read_explicit_tag(2) by (cases it) (auto simp: is_ok_def split: res.splits)
  qed
  ultimately show ?thesis
    using items(4) by (auto simp: decode_value_def require_def new_from_key_params_def)
qed

text \<open>Where the decoder puts the parameters.\<close>

lemma module_hash_no_id: "(Bytes_ModuleHash, f) \<notin> set attestation_id_fields"
  by (simp add: attestation_id_fields_def)

lemma route_params:
  assumes "t \<noteq> Tag_RootOfTrust" "t \<noteq> Tag_AttestationApplicationId"
  shows "filter (\<lambda>p. key_param_tag p = t) (source_params (fold auth_list_route ps al) t)
    = filter (\<lambda>p. key_param_tag p = t) (source_params al t) @ filter (\<lambda>p. key_param_tag p = t) ps"
proof (induction ps arbitrary: al)
  case (Cons p ps)
  have "filter (\<lambda>p. key_param_tag p = t) (source_params (auth_list_route p al) t)
    = filter (\<lambda>p. key_param_tag p = t) (source_params al t) @ filter (\<lambda>p. key_param_tag p = t) [p]"
    using assms module_hash_no_id by (cases p) (auto simp: auth_list_route_def source_params_def)
  then show ?case
    by (simp add: Cons.IH)
qed simp

lemma route_special:
  assumes "t = Tag_RootOfTrust \<or> t = Tag_AttestationApplicationId" "length (filter (\<lambda>p. key_param_tag p = t) ps) \<le> 1"
    "source_params al t = []"
  shows "source_params (fold auth_list_route ps al) t = filter (\<lambda>p. key_param_tag p = t) ps"
  using assms(2,3)
proof (induction ps arbitrary: al)
  case (Cons p ps)
  show ?case
  proof (cases "key_param_tag p = t")
    case True
    have "source_params (fold auth_list_route qs al') t = source_params al' t" if "filter (\<lambda>p. key_param_tag p = t) qs = []" for qs al'
      using that
    proof (induction qs arbitrary: al')
      case (Cons q qs)
      then have "source_params (auth_list_route q al') t = source_params al' t"
        using assms(1) by (cases q) (auto simp: auth_list_route_def source_params_def split: if_splits)
      then show ?case
        using Cons by (auto split: if_splits)
    qed simp
    moreover have "source_params (auth_list_route p al) t = [p]"
      using True assms(1) by (cases p) (auto simp: auth_list_route_def source_params_def)
    ultimately show ?thesis
      using True Cons.prems(1) by simp
  next
    case False
    then have "source_params (auth_list_route p al) t = []"
      using Cons.prems(2) assms(1) by (cases p) (auto simp: auth_list_route_def source_params_def)
    then show ?thesis
      using Cons False by simp
  qed
qed simp

lemma encoded_params_tag: "p \<in> set (encoded_params al t) \<Longrightarrow> key_param_tag p = t"
  by (auto simp: encoded_params_def)

lemma filter_canonical:
  assumes "t \<in> set ENCODED_TAGS"
  shows "filter (\<lambda>p. key_param_tag p = t) (canonical_params al) = encoded_params al t"
proof -
  have "filter (\<lambda>p. key_param_tag p = t) (concat (map (encoded_params al) us)) = (if t \<in> set us then encoded_params al t else [])"
    if "distinct us" for us
    using that
  proof (induction us)
    case (Cons u us)
    have "filter (\<lambda>p. key_param_tag p = t) (encoded_params al u) = (if t = u then encoded_params al u else [])"
      using encoded_params_tag by (auto intro!: filter_True filter_False)
    then show ?case
      using Cons by auto
  qed simp
  then show ?thesis
    using encoded_tags(3) assms by (simp add: canonical_params_def)
qed

lemma single_source: "t = Tag_RootOfTrust \<or> t = Tag_AttestationApplicationId \<Longrightarrow> length (encoded_params al t) \<le> 1"
  by (auto simp: encoded_params_def source_params_def split: option.splits)

lemma source_decoded:
  assumes "t \<in> set ENCODED_TAGS"
  shows "filter (\<lambda>p. key_param_tag p = t) (source_params (new_from_key_params (canonical_params al)) t) = encoded_params al t"
proof (cases "t = Tag_RootOfTrust \<or> t = Tag_AttestationApplicationId")
  case True
  then have "source_params (new_from_key_params (canonical_params al)) t = encoded_params al t"
    using route_special [OF True, of "canonical_params al" empty_auth_list] single_source [OF True, of al] assms
    by (auto simp: new_from_key_params_def filter_canonical empty_auth_list_def source_params_def)
  then show ?thesis
    using encoded_params_tag [of _ al t] by (auto intro: filter_True)
next
  case False
  then show ?thesis
    using route_params [of t "canonical_params al" empty_auth_list] assms
    by (simp add: new_from_key_params_def filter_canonical) (simp add: empty_auth_list_def source_params_def)
qed

text \<open>Encoding again what was decoded.\<close>

context selector
begin

lemma single_again:
  assumes "asn1_single sel enc tag ps = Ok val"
    and "filter (\<lambda>p. key_param_tag p = tag) qs = remdups_adj (filter (\<lambda>p. key_param_tag p = tag) ps)"
  shows "asn1_single sel enc tag qs = Ok val"
proof -
  have "length (tag_values sel ps) \<le> 1"
    using assms(1) by (auto simp: asn1_single_def map_ok_eq map_err_eq get_opt_tag_value_values split: list.splits)
  then have "map mk (tag_values sel qs) = map mk (tag_values sel ps)"
    using assms(2) by (cases "tag_values sel ps") (simp_all add: filter_tag)
  then have "tag_values sel qs = tag_values sel ps"
    by (simp add: inj_map_eq_map [OF inj_mk])
  then show ?thesis
    using assms(1) by (simp add: asn1_single_def get_opt_tag_value_values)
qed

end

lemma ordered_set_remdups_adj: "ordered_set D prev es (remdups_adj vs) = ordered_set D prev es vs"
proof (induction vs arbitrary: prev es rule: remdups_adj.induct)
  case (3 x y xs)
  then show ?case
    by (cases "x = y") auto
qed simp_all

context enum_selector
begin

lemma set_again:
  assumes "asn1_set_of_integer D sel as_i32 t ps = Ok val"
    and "filter (\<lambda>p. key_param_tag p = tag) qs = remdups_adj (filter (\<lambda>p. key_param_tag p = tag) ps)"
  shows "asn1_set_of_integer D sel as_i32 t qs = Ok val"
proof -
  have "map mk (tag_values sel qs) = map mk (remdups_adj (tag_values sel ps))"
    using assms(2) by (simp add: filter_tag remdups_adj_map_injective inj_mk)
  then have "tag_values sel qs = remdups_adj (tag_values sel ps)"
    by (simp add: inj_map_eq_map [OF inj_mk])
  moreover have "inj (\<lambda>v. word_of_int (as_i32 v) :: i64)"
    using word_of_i32_inj [OF discriminants_i32 discriminants_i32] as_i32_inj by (intro injI) blast
  then have "map (\<lambda>v. word_of_int (as_i32 v) :: i64) (remdups_adj vs) = remdups_adj (map (\<lambda>v. word_of_int (as_i32 v)) vs)" for vs
    by (simp add: remdups_adj_map_injective)
  ultimately show ?thesis
    using assms(1) by (simp add: asn1_set_of_integer_def Let_def ordered_set_remdups_adj split: if_splits)
qed

end

lemma null_again:
  assumes "asn1_null D t ps = Ok val"
    and "filter (\<lambda>p. key_param_tag p = Tag_Bool t) qs = remdups_adj (filter (\<lambda>p. key_param_tag p = Tag_Bool t) ps)"
  shows "asn1_null D t qs = Ok val"
proof -
  have tag: "(\<lambda>p. key_param_tag p = Tag_Bool t) = (\<lambda>p. p = KP_Bool t)"
    by (rule ext) (case_tac p; auto)
  have "length (filter (\<lambda>p. p = KP_Bool t) ps) \<le> 1"
    using assms(1) by (auto simp: asn1_null_def map_ok_eq map_err_eq get_bool_tag_value_def Let_def split: if_splits)
  then have "filter (\<lambda>p. p = KP_Bool t) qs = filter (\<lambda>p. p = KP_Bool t) ps"
    using assms(2) unfolding tag by (cases "filter (\<lambda>p. p = KP_Bool t) ps") simp_all
  then show ?thesis
    using assms(1) by (simp add: asn1_null_def get_bool_tag_value_def)
qed

lemma rot_again:
  "filter (\<lambda>p. key_param_tag p = Tag_RootOfTrust) (case rot' of None \<Rightarrow> [] | Some p \<Rightarrow> [p])
     = remdups_adj (filter (\<lambda>p. key_param_tag p = Tag_RootOfTrust) (case rot of None \<Rightarrow> [] | Some p \<Rightarrow> [p]))
   \<Longrightarrow> asn1_rot_info D rot' = asn1_rot_info D rot"
  by (auto simp: asn1_rot_info_def split: option.splits if_splits key_param.splits bytes_tag.splits)

lemma app_id_again:
  "filter (\<lambda>p. key_param_tag p = Tag_AttestationApplicationId) (case i' of None \<Rightarrow> [] | Some p \<Rightarrow> [p])
     = remdups_adj (filter (\<lambda>p. key_param_tag p = Tag_AttestationApplicationId) (case i of None \<Rightarrow> [] | Some p \<Rightarrow> [p]))
   \<Longrightarrow> asn1_app_id D i' = asn1_app_id D i"
  by (auto simp: asn1_app_id_def split: option.splits if_splits key_param.splits bytes_tag.splits)

lemmas again =
  Purpose.set_again BlockMode.set_again Digest.set_again Padding.set_again RsaOaepMgfDigest.set_again
  sel_Algorithm.single_again sel_EcCurve.single_again sel_Origin.single_again sel_u32.single_again sel_u64.single_again
  sel_date.single_again sel_bytes.single_again null_again

lemma fields_again:
  assumes "\<And>t. t \<in> set ENCODED_TAGS \<Longrightarrow> filter (\<lambda>p. key_param_tag p = t) (source_params al' t)
    = remdups_adj (filter (\<lambda>p. key_param_tag p = t) (source_params al t))"
  shows "list_all2 (\<lambda>f g. \<forall>val. f = Ok val \<longrightarrow> g = Ok val) (auth_list_fields D al) (auth_list_fields D al')"
proof -
  have same: "filter (\<lambda>p. key_param_tag p = t) ps' = remdups_adj (filter (\<lambda>p. key_param_tag p = t) ps)"
    if "t \<in> set ENCODED_TAGS" "source_params al' t = ps'" "source_params al t = ps" for t ps ps'
    using assms that by blast
  show ?thesis
    unfolding auth_list_fields_def Let_def asn1_enum_def asn1_integer_def asn1_integer_newtype_def
      asn1_integer_datetime_def asn1_octet_string_def list_all2_Cons
    by (intro conjI allI impI list_all2_Nil [THEN iffD2] refl; (erule again)?;
      (simp add: rot_again [of "al_rot_info al'" "al_rot_info al"] app_id_again [of "al_app_id al'" "al_app_id al"] same
        ENCODED_TAGS_def source_params_def attestation_id_fields_def)?)
qed

lemma write_fields_again:
  "list_all2 (\<lambda>f g. \<forall>val. f = Ok val \<longrightarrow> g = Ok val) fs gs \<Longrightarrow> write_fields D fs = Ok bs \<Longrightarrow> write_fields D gs = Ok bs"
  by (induction arbitrary: bs rule: list_all2_induct) (auto simp: and_then_eq_Ok map_ok_eq)

lemma encode_decoded:
  assumes "encode_value D al = Ok bs"
  shows "encode_value D (new_from_key_params (canonical_params al)) = Ok bs"
proof -
  have "list_all2 (\<lambda>f g. \<forall>val. f = Ok val \<longrightarrow> g = Ok val) (auth_list_fields D al)
      (auth_list_fields D (new_from_key_params (canonical_params al)))"
    using source_decoded by (intro fields_again) (simp add: encoded_params_def)
  then show ?thesis
    using write_fields_again assms by (simp add: encode_value_def)
qed

text \<open>The length that is announced is the length that is written.\<close>

lemma asn1_len_val:
  assumes "der_works D" "asn1_val D val = Ok b" "length b < 2 ^ 28"
  shows "asn1_len D val = Ok (length b)"
proof (cases val)
  case (Some x)
  then obtain raw v tb l where x: "x = (raw, Ok v)" and tb: "explicit_tag_encode raw = Ok tb"
    and l: "dl_len D (length v) = Ok l" and b: "b = tb @ l @ v"
    using assms(2) by (cases x) (auto simp: asn1_val_def explicit_encode_def and_then_eq_Ok)
  then show ?thesis
    using Some der_add [OF assms(1)] assms(3) by (simp add: asn1_len_def explicit_encoded_len_def explicit_tag_len_encode)
qed (use assms(2) in \<open>simp add: asn1_val_def asn1_len_def\<close>)

lemma add_lens_write:
  assumes "der_works D" "write_fields D fs = Ok bs" "n + length bs < 2 ^ 28"
  shows "add_lens D fs n = Ok (n + length bs)"
  using assms(2,3)
proof (induction fs arbitrary: bs n)
  case (Cons f fs)
  then obtain val b rest where f: "f = Ok val" and b: "asn1_val D val = Ok b"
    and rest: "write_fields D fs = Ok rest" and bs: "bs = b @ rest"
    by (auto simp: and_then_eq_Ok map_ok_eq)
  then show ?case
    using asn1_len_val [OF assms(1) b] der_add [OF assms(1), of n "length b"] Cons.IH [OF rest, of "n + length b"] Cons.prems(2)
    by (simp add: add.assoc)
qed simp

lemma value_len_correct:
  assumes "der_works D" "encode_value D al = Ok bs" "length bs < 2 ^ 28"
  shows "value_len D al = Ok (length bs)"
proof (cases "auth_list_fields D al")
  case Nil
  then show ?thesis
    using assms(2) by (simp add: encode_value_def value_len_def)
next
  case (Cons f fs)
  then obtain val b rest where f: "f = Ok val" and b: "asn1_val D val = Ok b"
    and rest: "write_fields D fs = Ok rest" and bs: "bs = b @ rest"
    using assms(2) by (auto simp: encode_value_def and_then_eq_Ok map_ok_eq)
  then show ?thesis
    using Cons asn1_len_val [OF assms(1) b] add_lens_write [OF assms(1) rest, of "length b"] assms(3)
    by (simp add: value_len_def)
qed

text \<open>The parts of a decoded list.\<close>

abbreviation id_tags :: "tag set" where
  "id_tags \<equiv> Tag_Bytes ` fst ` set attestation_id_fields"

abbreviation special_tags :: "tag set" where
  "special_tags \<equiv> {Tag_RootOfTrust, Tag_AttestationApplicationId, Tag_ModuleHash} \<union> id_tags"

lemma special_no_id:
  "Bytes_RootOfTrust \<notin> fst ` set attestation_id_fields" "Bytes_AttestationApplicationId \<notin> fst ` set attestation_id_fields"
  "Bytes_ModuleHash \<notin> fst ` set attestation_id_fields"
  by (simp_all add: attestation_id_fields_def)

lemma in_id_tags: "t \<in> id_tags \<longleftrightarrow> (case t of Tag_Bytes b \<Rightarrow> b \<in> fst ` set attestation_id_fields | _ \<Rightarrow> False)"
  by (cases t) auto

lemma route_parts:
  "set (al_auths (auth_list_route p al)) = set (al_auths al) \<union> (if key_param_tag p \<notin> special_tags then {p} else {})"
  "set (al_keygen_params (auth_list_route p al)) = set (al_keygen_params al) \<union> (if key_param_tag p \<in> id_tags then {p} else {})"
  "set (al_additional_attestation_info (auth_list_route p al)) =
     set (al_additional_attestation_info al) \<union> (if key_param_tag p = Tag_ModuleHash then {p} else {})"
  unfolding Un_iff in_id_tags insert_iff empty_iff
  by (cases p; simp add: auth_list_route_def special_no_id)+

lemma fold_route_parts:
  "set (al_auths (fold auth_list_route ps al)) = set (al_auths al) \<union> {p \<in> set ps. key_param_tag p \<notin> special_tags}"
  "set (al_keygen_params (fold auth_list_route ps al)) = set (al_keygen_params al) \<union> {p \<in> set ps. key_param_tag p \<in> id_tags}"
  "set (al_additional_attestation_info (fold auth_list_route ps al)) =
     set (al_additional_attestation_info al) \<union> {p \<in> set ps. key_param_tag p = Tag_ModuleHash}"
proof (induction ps arbitrary: al)
  case (Cons p ps)
  have insert: "{q \<in> set (p # ps). P q} = (if P p then {p} else {}) \<union> {q \<in> set ps. P q}" for P
    by auto
  note step = fold_simps o_apply Cons.IH route_parts insert Un_assoc
  case 1 show ?case unfolding step ..
  case 2 show ?case unfolding step ..
  case 3 show ?case unfolding step ..
qed simp_all

lemma source_parts:
  "t \<in> id_tags \<Longrightarrow> source_params al t = al_keygen_params al"
  "t \<notin> special_tags \<Longrightarrow> source_params al t = al_auths al"
  "source_params al Tag_ModuleHash = al_additional_attestation_info al"
proof -
  have no_id: "Tag_RootOfTrust \<notin> id_tags" "Tag_AttestationApplicationId \<notin> id_tags" "Tag_ModuleHash \<notin> id_tags"
    unfolding in_id_tags by (simp_all add: special_no_id)
  then show "source_params al t = al_keygen_params al" if "t \<in> id_tags"
    unfolding source_params_def using that by metis
  show "source_params al t = al_auths al" if "t \<notin> special_tags"
    unfolding source_params_def using that by simp
qed (simp add: source_params_def)

lemma set_canonical: "p \<in> set (canonical_params al) \<longleftrightarrow> key_param_tag p \<in> set ENCODED_TAGS \<and> p \<in> set (source_params al (key_param_tag p))"
  by (auto simp: canonical_params_def encoded_params_def)

lemma decoded_parts:
  fixes al defines "al' \<equiv> new_from_key_params (canonical_params al)"
  shows "set (al_auths al') = {p \<in> set (al_auths al). key_param_tag p \<in> set ENCODED_TAGS - special_tags}"
    and "set (al_keygen_params al') = {p \<in> set (al_keygen_params al). key_param_tag p \<in> id_tags}"
    and "set (al_additional_attestation_info al') = {p \<in> set (al_additional_attestation_info al). key_param_tag p = Tag_ModuleHash}"
proof -
  note parts = fold_route_parts [of "canonical_params al" empty_auth_list, folded new_from_key_params_def, folded al'_def]
    set_canonical empty_auth_list_def authorization_list.simps list.set(1) Un_empty_left
  have encoded: "t \<in> set ENCODED_TAGS" if "t \<in> id_tags \<or> t = Tag_ModuleHash" for t
    using that by (auto simp: ENCODED_TAGS_def attestation_id_fields_def)
  show "set (al_auths al') = {p \<in> set (al_auths al). key_param_tag p \<in> set ENCODED_TAGS - special_tags}"
    unfolding parts Diff_iff by (intro Collect_cong) (metis source_parts(2))
  show "set (al_keygen_params al') = {p \<in> set (al_keygen_params al). key_param_tag p \<in> id_tags}"
    unfolding parts by (intro Collect_cong) (metis source_parts(1) encoded)
  show "set (al_additional_attestation_info al') = {p \<in> set (al_additional_attestation_info al). key_param_tag p = Tag_ModuleHash}"
    unfolding parts by (intro Collect_cong) (metis source_parts(3) encoded)
qed

text \<open>
  C35: The encoding of authorization lists loses nothing but what it leaves out on purpose. The announced
  length is the written length, the decoder accepts what the encoder wrote and gives the encodable
  parameters back, each in the part of the list where it was, and encoding the decoded list again gives the
  same bytes, which the import of wrapped keys relies on. This holds for tags of one, two and three
  bytes, for any set of absent fields, and for repeated values of the repeatable tags.
\<close>

theorem authorization_list_round_trip:
  assumes "der_works D" "encodable D al" "encode_value D al = Ok bs" "length bs < 2 ^ 28"
  shows "value_len D al = Ok (length bs) \<and> (\<exists>al'. decode_value D (length bs) bs = Ok (al', []) \<and> encode_value D al' = Ok bs
    \<and> set (al_auths al') = {p \<in> set (al_auths al). key_param_tag p \<in> set ENCODED_TAGS - special_tags}
    \<and> set (al_keygen_params al') = {p \<in> set (al_keygen_params al). key_param_tag p \<in> id_tags}
    \<and> set (al_additional_attestation_info al') = {p \<in> set (al_additional_attestation_info al). key_param_tag p = Tag_ModuleHash}
    \<and> (\<forall>b. al_rot_info al' = Some (KP_RootOfTrust b) \<longleftrightarrow> al_rot_info al = Some (KP_RootOfTrust b))
    \<and> (\<forall>b. al_app_id al' = Some (KP_AttestationApplicationId b) \<longleftrightarrow> al_app_id al = Some (KP_AttestationApplicationId b)))"
proof -
  let ?al = "new_from_key_params (canonical_params al)"
  have special: "Tag_RootOfTrust \<in> set ENCODED_TAGS" "Tag_AttestationApplicationId \<in> set ENCODED_TAGS"
    by (simp_all add: ENCODED_TAGS_def)
  have "al_rot_info ?al = Some (KP_RootOfTrust b) \<longleftrightarrow> al_rot_info al = Some (KP_RootOfTrust b)" for b
    using source_decoded [OF special(1), of al]
    by (auto simp: encoded_params_def source_params_def split: option.splits if_splits)
  moreover have "al_app_id ?al = Some (KP_AttestationApplicationId b) \<longleftrightarrow> al_app_id al = Some (KP_AttestationApplicationId b)" for b
    using source_decoded [OF special(2), of al]
    by (auto simp: encoded_params_def source_params_def split: option.splits if_splits)
  ultimately show ?thesis
    using value_len_correct [OF assms(1,3,4)] decode_encoded [OF assms(1-3)] encode_decoded [OF assms(3)]
      decoded_parts [of al]
    by (intro conjI exI [of _ ?al]) simp_all
qed

text \<open>A small instance of the crate for concrete lists: short lengths and integers of eight bytes.\<close>

definition tlv_of :: "u8 \<Rightarrow> bytes \<Rightarrow> bytes km" where
  "tlv_of t c = (if length c < 128 then Ok (t # word_of_nat (length c) # c) else Err Der)"

definition tlv_content :: "u8 \<Rightarrow> bytes \<Rightarrow> bytes km" where
  "tlv_content t b = (case b of t' # l # c \<Rightarrow> if t' = t \<and> unat l = length c then Ok c else Err Der | _ \<Rightarrow> Err Der)"

definition cut_tlv :: "bytes \<Rightarrow> (bytes \<times> bytes) km" where
  "cut_tlv b = (case b of
     t # l # c \<Rightarrow> if unat l \<le> length c then Ok (t # l # take (unat l) c, drop (unat l) c) else Err Der
   | _ \<Rightarrow> Err Der)"

fun chunks8 :: "bytes \<Rightarrow> bytes list" where
  "chunks8 b = (if b = [] then [] else take 8 b # chunks8 (drop 8 b))"

declare chunks8.simps [simp del]

definition i64_tlv :: "bytes \<Rightarrow> i64 km" where
  "i64_tlv b = map_ok (\<lambda>c. word_of_nat (be_val c)) (tlv_content 2 b)"

definition rot_content :: "asn1_root_of_trust \<Rightarrow> bytes" where
  "rot_content r = word_of_nat (length (art_verified_boot_key r)) # art_verified_boot_key r
     @ (if art_device_locked r then 0xff else 0) # word_of_int (verified_boot_state_i32 (art_verified_boot_state r))
     # art_verified_boot_hash r"

definition content_rot :: "bytes \<Rightarrow> asn1_root_of_trust km" where
  "content_rot c = (case c of n # r \<Rightarrow> (case drop (unat n) r of
       l # st # h \<Rightarrow> map_ok (\<lambda>v. \<lparr>art_verified_boot_key = take (unat n) r, art_device_locked = (l = 0xff),
           art_verified_boot_state = v, art_verified_boot_hash = h\<rparr>)
         (ok_or (enum_n verified_boot_state_i32 verified_boot_state_variants (uint st)) Der)
     | _ \<Rightarrow> Err Der)
   | _ \<Rightarrow> Err Der)"

definition short_der :: der_lib where
  "short_der = \<lparr>
     dl_len = (\<lambda>n. if n < 128 then Ok [word_of_nat n] else Err Der),
     dl_read_len = (\<lambda>b. case b of l # b \<Rightarrow> Ok (unat l, b) | [] \<Rightarrow> Err Der),
     dl_add = (\<lambda>m n. Ok (m + n)),
     dl_tlv = cut_tlv,
     dl_i64 = (\<lambda>i. tlv_of 2 (be_bytes 8 (unat i))),
     dl_i64_of = i64_tlv,
     dl_i32_of = (\<lambda>b. and_then (i64_tlv b) (\<lambda>i. if i32_range (sint i) then Ok (sint i) else Err Der)),
     dl_u32_of = (\<lambda>b. and_then (i64_tlv b) (\<lambda>i. if i < 2 ^ 32 then Ok (ucast i) else Err Der)),
     dl_u64_of = (\<lambda>b. and_then (i64_tlv b) (\<lambda>i. if i < 2 ^ 63 then Ok i else Err Der)),
     dl_null = tlv_of 5 [],
     dl_null_of = (\<lambda>b. and_then (tlv_content 5 b) (\<lambda>c. if c = [] then Ok () else Err Der)),
     dl_octets = tlv_of 4,
     dl_octets_of = tlv_content 4,
     dl_insert_ordered = (\<lambda>vs v. if vs = [] \<or> sint (last vs) < sint v then Ok (vs @ [v]) else Err Der),
     dl_set = (\<lambda>vs. tlv_of 0x31 (concat (map (\<lambda>v. be_bytes 8 (unat v)) vs))),
     dl_set_of = (\<lambda>b. map_ok (\<lambda>c. map (\<lambda>d. sint (word_of_nat (be_val d) :: i64)) (chunks8 c)) (tlv_content 0x31 b)),
     dl_rot = (\<lambda>r. tlv_of 0x30 (rot_content r)),
     dl_rot_of = (\<lambda>b. and_then (tlv_content 0x30 b) content_rot)\<rparr>"

lemma tlv_of_Ok:
  assumes "tlv_of t c = Ok b"
  shows "cut_tlv (b @ rest) = Ok (b, rest)" "tlv_content t b = Ok c" "length c < 128"
  using assms by (auto simp: tlv_of_def cut_tlv_def tlv_content_def unat_of_nat split: if_splits)

lemma be_val_i64: "be_val (be_bytes 8 (unat i)) = unat (i :: i64)"
proof -
  have "unat i < 2 ^ 64"
    using unsigned_less [of i] by simp
  then show ?thesis
    by (intro be_val_be_bytes) simp
qed

lemma ucast_u32: "(ucast u :: i64) < 2 ^ 32" "ucast (ucast u :: i64) = (u :: u32)"
proof -
  have "unat u < 2 ^ 32"
    using unsigned_less [of u] by simp
  then show "(ucast u :: i64) < 2 ^ 32"
    by (simp add: word_less_nat_alt unsigned_ucast_eq take_bit_nat_eq_self)
  show "ucast (ucast u :: i64) = u"
    by (intro bit_word_eqI) (auto simp: bit_simps dest: bit_imp_le_length)
qed

lemma i64_tlv_of [simp]: "tlv_of 2 (be_bytes 8 (unat i)) = Ok b \<Longrightarrow> i64_tlv b = Ok (i :: i64)"
  by (simp add: i64_tlv_def tlv_of_Ok(2) be_val_i64)

lemma chunks8_concat: "chunks8 (concat (map (\<lambda>v. be_bytes 8 (unat v)) vs)) = map (\<lambda>v. be_bytes 8 (unat (v :: i64))) vs"
proof (induction vs)
  case (Cons v vs)
  then show ?case
    by (subst chunks8.simps) (simp, auto dest: arg_cong [of _ _ length])
qed (simp add: chunks8.simps)

lemma content_rot_of: "length (rot_content r) < 128 \<Longrightarrow> content_rot (rot_content r) = Ok r"
  using verified_boot_state_enum.n_as_i32 [of "art_verified_boot_state r"]
  by (cases "art_verified_boot_state r")
    (simp_all add: rot_content_def content_rot_def unat_of_nat ok_or_def)

lemma short_der_works: "der_works short_der"
  unfolding der_works_def
proof (intro conjI allI impI)
  fix ns b assume "dl_set short_der (map word_of_int ns) = Ok b" "\<forall>n \<in> set ns. i32_range n"
  then show "is_tlv short_der b" "dl_set_of short_der b = Ok ns"
    using chunks8_concat [of "map word_of_int ns"]
    by (auto simp: short_der_def is_tlv_def tlv_of_Ok be_val_i64 comp_def sint_i32 intro: map_idI)
qed (auto simp: short_der_def is_tlv_def tlv_of_Ok unat_of_nat sint_i32 ucast_u32 [simplified] content_rot_of split: if_splits)

definition ex_auth_list :: authorization_list where
  "ex_auth_list = \<lparr>
     al_auths = [KP_Purpose KeyPurpose_Sign, KP_Purpose KeyPurpose_Sign, KP_Purpose KeyPurpose_Verify, KP_Algorithm Algorithm_Ec,
       KP_KeySize 256, KP_UserSecureId 7, KP_UserAuthType 2, KP_EcCurve EcCurve_P256],
     al_keygen_params = [KP_AttestationIdBrand [1, 2]], al_rot_info = None, al_app_id = Some (KP_AttestationApplicationId [9]),
     al_additional_attestation_info = [KP_ModuleHash [8]]\<rparr>"

lemma ex_auth_list_encodes: "\<exists>bs. encode_value short_der ex_auth_list = Ok bs \<and> length bs < 2 ^ 28"
  by (simp add: encode_value_def auth_list_fields_def ex_auth_list_def Let_def short_der_def tlv_of_def
    asn1_set_of_integer_def asn1_enum_def asn1_integer_def asn1_integer_newtype_def asn1_integer_datetime_def asn1_octet_string_def
    asn1_null_def asn1_rot_info_def asn1_app_id_def asn1_single_def get_opt_tag_value_values get_bool_tag_value_def
    asn1_val_def explicit_encode_def explicit_tag_encode_def raw_tag_value_def tag_u32_def)

theorem authorization_list_round_trip_witness:
  "\<exists>bs al'. encode_value short_der ex_auth_list = Ok bs \<and> value_len short_der ex_auth_list = Ok (length bs)
    \<and> decode_value short_der (length bs) bs = Ok (al', []) \<and> encode_value short_der al' = Ok bs
    \<and> KP_Purpose KeyPurpose_Verify \<in> set (al_auths al') \<and> KP_UserSecureId 7 \<notin> set (al_auths al')
    \<and> al_app_id al' = Some (KP_AttestationApplicationId [9])"
proof -
  obtain bs where bs: "encode_value short_der ex_auth_list = Ok bs" "length bs < 2 ^ 28"
    using ex_auth_list_encodes by blast
  have "encodable short_der ex_auth_list"
    by (simp add: encodable_def ex_auth_list_def)
  from authorization_list_round_trip [OF short_der_works this bs] bs(1) show ?thesis
    by (fastforce simp: ex_auth_list_def ENCODED_TAGS_def attestation_id_fields_def)
qed

end
