(* ===== verification/Spec2Isabelle.thy ===== *)
theory Spec2Isabelle
  imports Imei Hal_Operation Ta_Upgrade Ta_Begin Ta_Macs Cert_Der
begin

text \<open>
  Verification of the Rust reference implementation of Android KeyMint.

  \<^bold>\<open>The program.\<close>  KeyMint keeps cryptographic keys in a trusted application (TA) and lets Android use
  them without seeing them.  It has three parts.  The HAL service (\<open>hal/src\<close>) implements the AIDL
  interfaces: it converts arguments, encodes a request in CBOR, sends it through a channel and converts the
  response.  The TA (\<open>ta/src\<close>) decodes a request, dispatches it (\<open>process_req\<close>) and answers; it has a table of
  operations in progress and a few registers set at boot, while the keys themselves live outside, as
  encrypted blobs that the client presents with each request.  The common code (\<open>common/src\<close>, \<open>wire/src\<close>,
  \<open>derive/src\<close>) has the types, the checks of key parameters, the format and encryption of key blobs, and the
  messages.  The cryptography and the device services are Rust traits that a vendor implements.

  \<^bold>\<open>How the code is modelled.\<close>  A fallible function returns \<open>('a, 'e) res\<close>, with \<open>Ok\<close>, \<open>Err\<close> and \<open>Panic\<close> (a slice
  index out of range, a checked overflow, \<open>unwrap\<close>); \<open>?\<close> is \<open>and_then\<close>.  A method with \<open>&mut self\<close> is a function of
  the state that returns the outcome and the new state, on the error paths too; \<open>?\<close> is then
  \<open>st_then\<close>.  Integers are words of their width, except \<open>usize\<close> (lengths and indices, \<open>nat\<close>), \<open>i32\<close> codes of
  enumerations (\<open>int\<close>) and the \<open>u64\<close> of the IMEI (\<open>nat\<close>, with the overflow checks written out).  Enumerations
  and tagged unions are datatypes with the variants of the code, structures are records.  Allocation
  does not fail, and log messages are left out.  A trait of a vendor or a crate is a record of
  functions, and what the code relies on is a named predicate on it: \<open>cbor_lib_works\<close> (\<open>ciborium\<close>), \<open>cbor_compact\<close>
  (its shortest heads), \<open>cose_lib_works\<close>, \<open>mac0_structure_works\<close> and \<open>rkp_lib_works\<close> (\<open>coset\<close>), \<open>der_works\<close> (\<open>der\<close>),
  \<open>aead_works\<close>, \<open>hmac_works\<close> and their like (crypto traits), \<open>rng\<close> and \<open>sdd_manager\<close> (locales).  Each has a concrete
  instance, with which the witness theorems evaluate the claims.

  \<^bold>\<open>Foundations.\<close>
  \<^item> \<open>Prelude\<close>: outcomes, stateful actions, fixed-width encodings of integers, list traversals.
  \<^item> \<open>Keymint_Types\<close>: \<open>wire/src/keymint.rs\<close>, its enumerations, tags, error types and \<open>KeyParam\<close>.  Locale
    \<open>rust_enum\<close> is interpreted for every enumeration.

  \<^bold>\<open>Key parameters\<close> (\<open>common/src/tag.rs\<close> and its submodules).
  \<^item> \<open>Tag_Info\<close>: the table of tags and \<open>DuplicateTagChecker\<close>, a bit set that refines a set of tags.
  \<^item> \<open>Tag_Get\<close>: the getters and \<open>characteristics_valid\<close>, with an exact characterization.
  \<^item> \<open>Tag_Legacy\<close>: the legacy serialization (round trip; when \<open>deserialize\<close> panics) and the total order
    \<open>param_compare\<close>.
  \<^item> \<open>Tag_Keygen\<close>: the checks of generation and import, and which characteristics result; they
    describe the key.
  \<^item> \<open>Tag_Begin\<close>: the checks at the start of an operation enforce the characteristics.
  \<^item> \<open>Imei\<close>: the second IMEI has a valid check digit.

  \<^bold>\<open>Cryptographic types and key blobs\<close> (\<open>common/src/crypto.rs\<close> and its submodules, \<open>common/src/keyblob.rs\<close>).
  \<^item> \<open>Crypto_Types\<close>: key material, cipher modes (\<open>aes::Mode::new\<close> is exact), curve data.
  \<^item> \<open>Kdf\<close>: HKDF equals RFC 5869 and the CMAC-based derivation SP 800-108, over the MAC traits.
  \<^item> \<open>Sdd\<close>: the secrets for secure deletion; the in-memory manager meets the locale \<open>sdd_manager\<close>.
  \<^item> \<open>Keyblob\<close>: encryption and decryption of key blobs: round trip, success, release of the deletion
    slot after a failure, effect of a deletion, injectivity of the derivation context.

  \<^bold>\<open>Messages and channel\<close> (\<open>wire/src\<close>, \<open>derive/src\<close>, \<open>hal/src\<close>).
  \<^item> \<open>Cbor\<close>, \<open>Cbor_Types\<close>, \<open>Messages\<close>: conversion of all message types; locale \<open>cbor_codec\<close> is the contract of a
    pair of conversions.  \<open>Cbor_Rfc8949\<close> is an instance of the CBOR library, not a model of the crate.
  \<^item> \<open>Channel\<close>: splitting of responses, framing, the outer loop of the TA and \<open>channel_execute\<close>; executing a
    request through the channel is the same as calling the handler.
  \<^item> \<open>Hal_Types\<close>, \<open>Hal_Device\<close>, \<open>Hal_Operation\<close>: conversion of HAL types, the services, and the cutting of data
    into batches, which ends, keeps the data and fits the channel.

  \<^bold>\<open>The trusted application\<close> (\<open>ta/src\<close>).
  \<^item> \<open>Tokens\<close>, \<open>Ta_Macs\<close>: what is authenticated with the shared HMAC key; the five uses cannot be confused.
  \<^item> \<open>Cert\<close>, \<open>Cert_Der\<close>: contents of certificates and attestations, and the hand-written DER codec of
    authorization lists (announced length, round trip, stable re-encoding).
  \<^item> \<open>Ta_State\<close>: the record \<open>ta\<close> (\<open>KeyMintTa\<close>), shared secret, clock, root of trust, use counts and
    the other device requests.  \<open>Ta_Instance\<close> is a concrete device for witnesses.
  \<^item> \<open>Ta_Operation\<close>: begin, update, finish and abort; later steps of an operation need valid tokens.
  \<^item> \<open>Ta_Keys\<close>, \<open>Ta_Key_Props\<close>, \<open>Ta_Upgrade\<close>: generation, import and upgrade; a new or upgraded blob is
    accepted later, with the right key and characteristics.
  \<^item> \<open>Ta_Rkp\<close>: remote key provisioning; a generated key pair can be certified.
  \<^item> \<open>Ta_Process\<close>, \<open>Ta_Runs\<close>: \<open>process_req\<close>, one equation for each request, and sequences of requests as an
    inductive relation; responses have the type of the request, and invariants hold in all
    reachable states.
  \<^item> \<open>Ta_Begin\<close>: what a successful begin guarantees, the limit of uses per boot over all runs, and a way
    around the check of user presence.

  \<^bold>\<open>Bounds and termination.\<close>  No definition uses fuel but the reader of \<open>Cbor_Rfc8949\<close>, which follows 16 levels
  of nesting.  Loops that need not end are \<open>partial_function (option)\<close>: splitting a response and the
  batches of the HAL, which are proved to return, and the choice of a random operation handle, which
  returns unless the generator repeats itself for ever.  The size limits in hypotheses are those of
  the formats: \<open>2^32\<close> for legacy lengths, \<open>2^64\<close> for CBOR lengths with twelve levels of nesting
  (\<open>cbor_fits 12\<close>; the messages nest less, and \<open>ciborium\<close> stops at 256), 256 MiB (\<open>2^28\<close>) for DER.

  \<^bold>\<open>Not modelled.\<close>  \<open>boringssl/src\<close> (calls into a C library), \<open>hal/src/env.rs\<close> (system properties and regular
  expressions), \<open>common/src/keyblob/legacy.rs\<close> and \<open>wire/src/legacy.rs\<close> (formats of earlier devices, which the TA does
  not use), the generation of CDDL schemas, the DER encoders that the crates \<open>der\<close>, \<open>spki\<close> and \<open>x509_cert\<close>
  derive, tests, fuzz targets and command line tools.
\<close>

end
